(* ===== verification/Prelude.thy ===== *)
theory Prelude
  imports Complex_Main "HOL-Library.AList" "HOL-Library.Char_ord" "HOL-Library.List_Lexorder"
begin

text \<open>
  Shared vocabulary of the development: what the code uses of Python's values.

  A \<^verbatim>\<open>str\<close> is a \<open>string\<close> (a list of code points up to 255); a \<^verbatim>\<open>dict\<close> is an
  association list in insertion order whose keys are distinct (\<open>wf_dict\<close>), read with
  \<open>dget\<close>, written with \<open>dset\<close> and deleted from with \<open>dpop\<close>; a call that may raise
  returns a sum, \<open>Inl\<close> the exception; the shell's \<^verbatim>\<open>Result\<close> is the datatype \<open>result\<close>.
  A \<^verbatim>\<open>float\<close> the code computes with (a duration, an age, a deadline) is a rational, so rounding
  is not modelled. The collections \<open>dict_simps\<close> and \<open>py_simps\<close> carry the component proofs.
\<close>

named_theorems dict_simps \<open>lookup laws of insertion-ordered dictionaries\<close>
named_theorems py_simps \<open>defining equations of the Python string helpers\<close>


section \<open>Results and exceptions\<close>

datatype ('a, 'e) result = is_ok: Ok 'a | is_err: Err 'e

datatype py_exc =
    ValueError string
  | TypeError string
  | OverflowError string
  | RuntimeError string
  | AssertionError string
  | CancelledError string
  | KeyError string
  | AttributeError string
  | UnicodeDecodeError string
  | OSError string
  | KeyboardInterrupt string

text \<open>\<^verbatim>\<open>except Exception\<close> does not catch the interrupt of a signal.\<close>

fun is_interrupt :: "py_exc \<Rightarrow> bool" where
  "is_interrupt (KeyboardInterrupt _) = True"
| "is_interrupt _ = False"

fun map_result :: "('a \<Rightarrow> 'b) \<Rightarrow> ('a, 'e) result \<Rightarrow> ('b, 'e) result" where
  "map_result f (Ok a) = Ok (f a)"
| "map_result f (Err e) = Err e"

lemma returned_error: "x \<noteq> Inr (Ok ()) \<and> \<not> isl x \<Longrightarrow> \<exists>e. x = Inr (Err e)"
  by (cases x; cases "projr x") auto

lemma fst_eq_pair: "fst p = a \<Longrightarrow> (\<And>b. p = (a, b) \<Longrightarrow> thesis) \<Longrightarrow> thesis"
  by (cases p) auto

text \<open>A comprehension whose body may raise: the first exception, in order, ends it.\<close>

fun mapE :: "('a \<Rightarrow> 'e + 'b) \<Rightarrow> 'a list \<Rightarrow> 'e + 'b list" where
  "mapE f [] = Inr []"
| "mapE f (x # xs) =
     (case f x of Inl e \<Rightarrow> Inl e
      | Inr y \<Rightarrow> (case mapE f xs of Inl e \<Rightarrow> Inl e | Inr ys \<Rightarrow> Inr (y # ys)))"

lemma mapE_Inr:
  "mapE f xs = Inr ys \<Longrightarrow> length ys = length xs \<and> (\<forall>i < length xs. f (xs ! i) = Inr (ys ! i))"
proof (induction xs arbitrary: ys)
  case (Cons x xs)
  then obtain y zs where "f x = Inr y" and "mapE f xs = Inr zs" and "ys = y # zs"
    by (auto split: sum.splits)
  with Cons.IH [of zs] show ?case
    by (auto simp: nth_Cons split: nat.splits)
qed simp

lemma mapE_Inr_set: "mapE f xs = Inr ys \<Longrightarrow> y \<in> set ys \<Longrightarrow> \<exists>x \<in> set xs. f x = Inr y"
  by (induction xs arbitrary: ys) (auto split: sum.splits)

lemma mapE_Inr_all: "mapE f xs = Inr ys \<Longrightarrow> x \<in> set xs \<Longrightarrow> \<exists>y \<in> set ys. f x = Inr y"
  by (induction xs arbitrary: ys) (auto split: sum.splits)

lemma mapE_Inl: "mapE f xs = Inl e \<Longrightarrow> \<exists>x \<in> set xs. f x = Inl e"
  by (induction xs) (auto split: sum.splits)

lemma mapE_Inr_iff: "(\<exists>ys. mapE f xs = Inr ys) \<longleftrightarrow> (\<forall>x \<in> set xs. \<exists>y. f x = Inr y)"
proof (induction xs)
  case (Cons x xs)
  then show ?case by (cases "f x"; cases "mapE f xs") auto
qed simp


definition map_right :: "('a \<Rightarrow> 'b) \<Rightarrow> 'e + 'a \<Rightarrow> 'e + 'b" where
  "map_right f x = (case x of Inl e \<Rightarrow> Inl e | Inr y \<Rightarrow> Inr (f y))"

lemma map_right_simps [simp]: "map_right f (Inl e) = Inl e" "map_right f (Inr y) = Inr (f y)"
  by (simp_all add: map_right_def)

lemma map_right_Inr_iff: "map_right f x = Inr y \<longleftrightarrow> (\<exists>z. x = Inr z \<and> y = f z)"
  by (cases x) auto

lemma map_right_Inl_iff: "map_right f x = Inl e \<longleftrightarrow> x = Inl e"
  by (cases x) auto


section \<open>Dictionaries\<close>

type_synonym ('k, 'v) dict = "('k \<times> 'v) list"

abbreviation dget :: "('k, 'v) dict \<Rightarrow> 'k \<Rightarrow> 'v option" where
  "dget \<equiv> map_of"

abbreviation dset :: "'k \<Rightarrow> 'v \<Rightarrow> ('k, 'v) dict \<Rightarrow> ('k, 'v) dict" where
  "dset \<equiv> AList.update"

abbreviation dpop :: "'k \<Rightarrow> ('k, 'v) dict \<Rightarrow> ('k, 'v) dict" where
  "dpop \<equiv> AList.delete"

abbreviation dkeys :: "('k, 'v) dict \<Rightarrow> 'k list" where
  "dkeys d \<equiv> map fst d"

definition has_key :: "('k, 'v) dict \<Rightarrow> 'k \<Rightarrow> bool" where
  "has_key d k \<longleftrightarrow> k \<in> set (dkeys d)"

definition wf_dict :: "('k, 'v) dict \<Rightarrow> bool" where
  "wf_dict d \<longleftrightarrow> distinct (dkeys d)"

text \<open>\<^verbatim>\<open>d.update(e)\<close>: every item of \<open>e\<close>, in order, is stored into \<open>d\<close>.\<close>

definition dupdate :: "('k, 'v) dict \<Rightarrow> ('k, 'v) dict \<Rightarrow> ('k, 'v) dict" where
  "dupdate d e = fold (\<lambda>(k, v). dset k v) e d"

lemma has_key_dget: "has_key d k \<longleftrightarrow> dget d k \<noteq> None"
  by (simp add: has_key_def map_of_eq_None_iff)

lemma dget_dset [dict_simps]: "dget (dset k v d) j = (if j = k then Some v else dget d j)"
  by (simp add: update_conv')

lemma dget_dpop [dict_simps]: "dget (dpop k d) j = (if j = k then None else dget d j)"
  by (simp add: delete_conv')

lemma has_key_dset [dict_simps]: "has_key (dset k v d) j \<longleftrightarrow> j = k \<or> has_key d j"
  by (simp add: has_key_dget dget_dset)

lemma has_key_dpop [dict_simps]: "has_key (dpop k d) j \<longleftrightarrow> j \<noteq> k \<and> has_key d j"
  by (simp add: has_key_dget dget_dpop)

lemma wf_dict_Nil [simp, intro]: "wf_dict []"
  by (simp add: wf_dict_def)

lemma wf_dict_dset [simp, intro]: "wf_dict d \<Longrightarrow> wf_dict (dset k v d)"
  by (simp add: wf_dict_def distinct_update)

lemma wf_dict_dpop [simp, intro]: "wf_dict d \<Longrightarrow> wf_dict (dpop k d)"
  by (simp add: wf_dict_def distinct_delete)

lemma wf_dict_item: "wf_dict d \<Longrightarrow> (k, v) \<in> set d \<longleftrightarrow> dget d k = Some v"
  by (simp add: wf_dict_def)

lemma dget_item: "dget d k = Some v \<Longrightarrow> (k, v) \<in> set d"
  by (rule map_of_SomeD)

lemma set_dset: "x \<in> set (dset k v d) \<Longrightarrow> x = (k, v) \<or> x \<in> set d"
  by (induction d) (auto split: if_splits)

lemma dget_dupdate [dict_simps]:
  "dget (dupdate d e) k = (case dget (rev e) k of Some v \<Rightarrow> Some v | None \<Rightarrow> dget d k)"
  by (induction e arbitrary: d) (auto simp: dupdate_def dget_dset map_add_def split: option.splits)

lemma dget_rev: "wf_dict e \<Longrightarrow> dget (rev e) k = dget e k"
  by (metis dget_item map_of_is_SomeI map_of_eq_None_iff not_None_eq rev_map set_rev wf_dict_def
      distinct_rev)

lemma has_key_dupdate [dict_simps]: "has_key (dupdate d e) k \<longleftrightarrow> has_key d k \<or> has_key e k"
proof (induction e arbitrary: d)
  case Nil
  show ?case by (simp add: dupdate_def has_key_def)
next
  case (Cons x e)
  obtain a b where x: "x = (a, b)" by (cases x)
  have "has_key (dupdate d (x # e)) k \<longleftrightarrow> has_key (dset a b d) k \<or> has_key e k"
    using Cons.IH [of "dset a b d"] by (simp add: dupdate_def x)
  also have "\<dots> \<longleftrightarrow> has_key d k \<or> has_key (x # e) k"
    by (auto simp: has_key_dset x) (auto simp: has_key_def)
  finally show ?case .
qed

lemma wf_dict_dupdate [simp, intro]: "wf_dict d \<Longrightarrow> wf_dict (dupdate d e)"
  by (induction e arbitrary: d) (auto simp: dupdate_def)

end
