(* ===== verification/Py_Strings.thy ===== *)
theory Py_Strings
  imports Prelude "HOL-Library.Code_Target_Numeral"
begin

text \<open>
  The string operations of Python's standard library that the code calls, on strings whose code
  points are at most 255: \<^verbatim>\<open>startswith\<close>, \<^verbatim>\<open>in\<close>, \<^verbatim>\<open>lower\<close>, \<^verbatim>\<open>strip\<close>, \<^verbatim>\<open>isalnum\<close>,
  \<^verbatim>\<open>join\<close>, \<^verbatim>\<open>replace\<close>, \<^verbatim>\<open>str(int)\<close> and \<^verbatim>\<open>int(str)\<close>, with the laws the components use
  (prefixes, joins that lose nothing, \<^verbatim>\<open>int(str(n)) == n\<close>).
\<close>


section \<open>Prefixes and substrings\<close>

definition startswith :: "string \<Rightarrow> string \<Rightarrow> bool" where
  "startswith s p \<longleftrightarrow> take (length p) s = p"

definition removeprefix :: "string \<Rightarrow> string \<Rightarrow> string" where
  "removeprefix s p = (if startswith s p then drop (length p) s else s)"

fun contains :: "string \<Rightarrow> string \<Rightarrow> bool" where
  "contains p [] = (p = [])"
| "contains p (c # cs) = (startswith (c # cs) p \<or> contains p cs)"

lemma startswith_iff: "startswith s p \<longleftrightarrow> (\<exists>t. s = p @ t)"
  unfolding startswith_def by (metis append_eq_conv_conj append_take_drop_id)

lemma startswith_append [simp]: "startswith (p @ t) p"
  by (simp add: startswith_def)

lemma startswith_Nil [simp]: "startswith s []"
  by (simp add: startswith_def)

lemma startswith_Nil2 [simp]: "startswith [] p \<longleftrightarrow> p = []"
  by (auto simp: startswith_def)

lemma startswith_Cons [simp]: "startswith (c # s) (d # p) \<longleftrightarrow> c = d \<and> startswith s p"
  by (auto simp: startswith_def)

lemma removeprefix_append [simp]: "removeprefix (p @ t) p = t"
  by (simp add: removeprefix_def)

lemma contains_iff: "contains p s \<longleftrightarrow> (\<exists>a b. s = a @ p @ b)"
proof (induction s)
  case (Cons c cs)
  show ?case
  proof
    assume "contains p (c # cs)"
    then consider "startswith (c # cs) p" | "contains p cs" by auto
    then show "\<exists>a b. c # cs = a @ p @ b"
    proof cases
      case 1
      then obtain t where "c # cs = p @ t" by (auto simp: startswith_iff)
      then have "c # cs = [] @ p @ t" by simp
      then show ?thesis by blast
    next
      case 2
      then obtain a b where "cs = a @ p @ b" using Cons.IH by blast
      then have "c # cs = (c # a) @ p @ b" by simp
      then show ?thesis by blast
    qed
  next
    assume "\<exists>a b. c # cs = a @ p @ b"
    then obtain a b where ab: "c # cs = a @ p @ b" by blast
    show "contains p (c # cs)"
    proof (cases a)
      case Nil
      then have "c # cs = p @ b" using ab by simp
      then have "startswith (c # cs) p" by (auto simp: startswith_iff simp del: startswith_Cons)
      then show ?thesis by simp
    next
      case (Cons x xs)
      then have "cs = xs @ p @ b" using ab by simp
      then show ?thesis using Cons.IH by auto
    qed
  qed
qed auto

lemma contains_infix [intro]: "contains p (a @ p @ b)"
  by (auto simp: contains_iff)

lemma contains_single: "contains [c] s \<longleftrightarrow> c \<in> set s"
  by (induction s) (auto simp: startswith_def)


section \<open>Characters\<close>

abbreviation code :: "char \<Rightarrow> nat" where
  "code c \<equiv> of_char c"

definition is_digit :: "char \<Rightarrow> bool" where
  "is_digit c \<longleftrightarrow> 48 \<le> code c \<and> code c \<le> 57"

definition is_upper :: "char \<Rightarrow> bool" where
  "is_upper c \<longleftrightarrow> 65 \<le> code c \<and> code c \<le> 90"

definition is_lower :: "char \<Rightarrow> bool" where
  "is_lower c \<longleftrightarrow> 97 \<le> code c \<and> code c \<le> 122"

text \<open>\<^verbatim>\<open>str.isalnum\<close> of one code point; beyond ASCII these are the Latin-1 letters and numbers.\<close>

definition is_alnum :: "char \<Rightarrow> bool" where
  "is_alnum c \<longleftrightarrow> is_digit c \<or> is_upper c \<or> is_lower c
     \<or> code c \<in> {170, 178, 179, 181, 185, 186, 188, 189, 190}
     \<or> (192 \<le> code c \<and> code c \<noteq> 215 \<and> code c \<noteq> 247)"

definition is_space :: "char \<Rightarrow> bool" where
  "is_space c \<longleftrightarrow> (9 \<le> code c \<and> code c \<le> 13) \<or> (28 \<le> code c \<and> code c \<le> 32)
     \<or> code c = 133 \<or> code c = 160"

definition lower_char :: "char \<Rightarrow> char" where
  "lower_char c =
     (if is_upper c \<or> (192 \<le> code c \<and> code c \<le> 222 \<and> code c \<noteq> 215)
      then char_of (code c + 32) else c)"

definition py_lower :: "string \<Rightarrow> string" where
  "py_lower s = map lower_char s"

definition lstrip :: "string \<Rightarrow> string" where
  "lstrip s = dropWhile is_space s"

definition py_strip :: "string \<Rightarrow> string" where
  "py_strip s = rev (lstrip (rev (lstrip s)))"

text \<open>\<^verbatim>\<open>re.fullmatch("[a-z][a-z0-9_]*", s)\<close>\<close>

definition is_snake_case :: "string \<Rightarrow> bool" where
  "is_snake_case s = (case s of [] \<Rightarrow> False
     | c # cs \<Rightarrow> is_lower c \<and> list_all (\<lambda>d. is_lower d \<or> is_digit d \<or> d = CHR ''_'') cs)"

lemma py_strip_id: "s \<noteq> [] \<Longrightarrow> \<not> is_space (hd s) \<Longrightarrow> \<not> is_space (last s) \<Longrightarrow> py_strip s = s"
proof -
  assume s: "s \<noteq> []" and h: "\<not> is_space (hd s)" and l: "\<not> is_space (last s)"
  have "lstrip s = s" using s h by (cases s) (auto simp: lstrip_def)
  moreover have "lstrip (rev s) = rev s"
    using s l by (cases s rule: rev_cases) (auto simp: lstrip_def)
  ultimately show "py_strip s = s" by (simp add: py_strip_def)
qed


section \<open>Joining and replacing\<close>

fun join :: "string \<Rightarrow> string list \<Rightarrow> string" where
  "join sep [] = []"
| "join sep [x] = x"
| "join sep (x # y # zs) = x @ sep @ join sep (y # zs)"

definition replace_char :: "char \<Rightarrow> string \<Rightarrow> string \<Rightarrow> string" where
  "replace_char c r s = concat (map (\<lambda>d. if d = c then r else [d]) s)"

text \<open>A text between single quotes, as the messages of the code write names.\<close>

definition squote :: "string \<Rightarrow> string" where
  "squote s = CHR 0x27 # s @ [CHR 0x27]"

text \<open>\<^verbatim>\<open>x or y\<close> on texts.\<close>

definition or_text :: "string \<Rightarrow> string \<Rightarrow> string" where
  "or_text e alternative = (if e = [] then alternative else e)"

text \<open>\<^verbatim>\<open>s.replace(p, r)\<close> for a non-empty \<open>p\<close>: left to right, without overlaps.\<close>

fun py_replace :: "string \<Rightarrow> string \<Rightarrow> string \<Rightarrow> string" where
  "py_replace p r [] = []"
| "py_replace p r (c # cs) =
     (if startswith (c # cs) p then r @ py_replace p r (drop (length p - 1) cs)
      else c # py_replace p r cs)"

lemma replace_char_id: "c \<notin> set s \<Longrightarrow> replace_char c r s = s"
  by (induction s) (auto simp: replace_char_def)

lemma replace_char_append: "replace_char c r (s @ t) = replace_char c r s @ replace_char c r t"
  by (simp add: replace_char_def)


section \<open>Decimal numbers\<close>

definition digit_char :: "nat \<Rightarrow> char" where
  "digit_char n = char_of (48 + n)"

definition digit_val :: "char \<Rightarrow> nat" where
  "digit_val c = code c - 48"

fun show_nat :: "nat \<Rightarrow> string" where
  "show_nat n = (if n < 10 then [digit_char n] else show_nat (n div 10) @ [digit_char (n mod 10)])"

declare show_nat.simps [simp del]

definition show_int :: "int \<Rightarrow> string" where
  "show_int i = (if i < 0 then CHR ''-'' # show_nat (nat (- i)) else show_nat (nat i))"

text \<open>
  \<^verbatim>\<open>int(s)\<close>: surrounding blanks, an optional sign, digits with single underscores between them,
  at most 4300 digits; \<open>None\<close> is the \<^verbatim>\<open>ValueError\<close>.
\<close>

fun digits_val :: "nat \<Rightarrow> string \<Rightarrow> nat option" where
  "digits_val acc [] = Some acc"
| "digits_val acc (c # cs) =
     (if is_digit c then digits_val (10 * acc + digit_val c) cs
      else if c = CHR ''_'' then
        (case cs of [] \<Rightarrow> None | d # _ \<Rightarrow> if is_digit d then digits_val acc cs else None)
      else None)"

definition unsigned_val :: "string \<Rightarrow> nat option" where
  "unsigned_val s = (case s of [] \<Rightarrow> None
     | c # _ \<Rightarrow> if is_digit c \<and> length (filter is_digit s) \<le> 4300 then digits_val 0 s else None)"

definition py_int :: "string \<Rightarrow> int option" where
  "py_int s = (case py_strip s of [] \<Rightarrow> None
     | c # cs \<Rightarrow>
         if c = CHR ''-'' then map_option (\<lambda>n. - int n) (unsigned_val cs)
         else if c = CHR ''+'' then map_option int (unsigned_val cs)
         else map_option int (unsigned_val (c # cs)))"

lemma code_digit_char [simp]: "n < 10 \<Longrightarrow> code (digit_char n) = 48 + n"
  by (simp add: digit_char_def of_char_of)

lemma is_digit_digit_char [simp]: "n < 10 \<Longrightarrow> is_digit (digit_char n)"
  by (simp add: is_digit_def)

lemma digit_val_digit_char [simp]: "n < 10 \<Longrightarrow> digit_val (digit_char n) = n"
  by (simp add: digit_val_def)

lemma show_nat_nonempty [simp]: "show_nat n \<noteq> []"
  by (subst show_nat.simps) simp

lemma show_nat_digits: "list_all is_digit (show_nat n)"
proof (induction n rule: show_nat.induct)
  case (1 n)
  then show ?case
    by (cases "n < 10") (simp_all add: show_nat.simps [of n])
qed

lemma digits_val_append:
  "list_all is_digit s \<Longrightarrow> digits_val acc (s @ [d]) =
     (if is_digit d then map_option (\<lambda>m. 10 * m + digit_val d) (digits_val acc s) else digits_val acc (s @ [d]))"
  by (induction s arbitrary: acc) auto

lemma digits_val_show_nat: "digits_val 0 (show_nat n) = Some n"
proof (induction n rule: show_nat.induct)
  case (1 n)
  show ?case
  proof (cases "n < 10")
    case True
    then show ?thesis by (simp add: show_nat.simps [of n])
  next
    case False
    with 1 have "digits_val 0 (show_nat (n div 10)) = Some (n div 10)" by simp
    then show ?thesis
      using False by (simp add: show_nat.simps [of n] digits_val_append show_nat_digits)
  qed
qed

lemma length_show_nat: "n < 10 ^ Suc k \<Longrightarrow> length (show_nat n) \<le> Suc k"
proof (induction k arbitrary: n)
  case 0
  then show ?case by (simp add: show_nat.simps [of n])
next
  case (Suc k)
  show ?case
  proof (cases "n < 10")
    case False
    have "n div 10 < 10 ^ Suc k" using Suc.prems by (simp add: less_mult_imp_div_less)
    then have "length (show_nat (n div 10)) \<le> Suc k" by (rule Suc.IH)
    then show ?thesis using False by (simp add: show_nat.simps [of n])
  qed (simp add: show_nat.simps [of n])
qed

lemma digit_not_space: "is_digit c \<Longrightarrow> \<not> is_space c"
  by (auto simp: is_digit_def is_space_def)

lemma show_nat_strip: "py_strip (show_nat n) = show_nat n"
proof (rule py_strip_id)
  have "is_digit (hd (show_nat n))" "is_digit (last (show_nat n))"
    using show_nat_digits [of n] by (auto simp: list_all_iff)
  then show "\<not> is_space (hd (show_nat n))" "\<not> is_space (last (show_nat n))"
    by (auto dest: digit_not_space)
qed simp

lemma show_nat_inj: "show_nat m = show_nat n \<Longrightarrow> m = n"
  by (metis digits_val_show_nat option.inject)

text \<open>\<^verbatim>\<open>int(str(n))\<close> is \<open>n\<close> for every number that has at most 4300 digits.\<close>

lemma py_int_show_nat:
  assumes len: "length (show_nat n) \<le> 4300"
  shows "py_int (show_nat n) = Some (int n)"
proof -
  obtain c cs where c: "show_nat n = c # cs" by (cases "show_nat n") auto
  have digits: "list_all is_digit (c # cs)" using show_nat_digits [of n] c by simp
  then have d: "is_digit c" by simp
  then have "c \<noteq> CHR ''-''" "c \<noteq> CHR ''+''" by (auto simp: is_digit_def)
  moreover have "filter is_digit (c # cs) = c # cs"
    using digits by (simp only: list_all_iff filter_id_conv)
  then have "length (filter is_digit (c # cs)) \<le> 4300" using len c by simp
  then have "unsigned_val (c # cs) = Some n"
    using d digits_val_show_nat [of n] c by (simp add: unsigned_val_def)
  ultimately show ?thesis
    using c show_nat_strip [of n] by (simp add: py_int_def)
qed

lemma show_nat_short: "n < 10 ^ 10 \<Longrightarrow> length (show_nat n) \<le> 4300"
  using length_show_nat [of n 9] by simp

end
