(* ===== verification/Errors.thy ===== *)
theory Errors
  imports Py_Strings
begin

text \<open>
  The error codes of \<^verbatim>\<open>core/errors.py\<close> and its mapping from the prefix of an error message
  to an HTTP status. \<open>err_parts\<close> builds the messages the shell returns, a code, a colon and a
  reason, and the lemmas show that the mapping depends on the code alone for them.
\<close>

datatype config_error = ConfigContractError (ce_code: string) (ce_message: string)

definition err_parts :: "string \<Rightarrow> string \<Rightarrow> string" where
  "err_parts c msg = c @ '': '' @ msg"

definition is_auth_error :: "string \<Rightarrow> bool" where
  "is_auth_error e = startswith e ''AUTH_INVALID_TOKEN''"

definition is_gateway_not_started_error :: "string \<Rightarrow> bool" where
  "is_gateway_not_started_error e = startswith e ''GATEWAY_NOT_STARTED''"

definition is_connection_not_found_error :: "string \<Rightarrow> bool" where
  "is_connection_not_found_error e = startswith e ''CONNECTION_NOT_FOUND''"

definition is_admission_rejected_warming_error :: "string \<Rightarrow> bool" where
  "is_admission_rejected_warming_error e = startswith e ''ADMISSION_REJECTED_WARMING''"

definition error_to_http_status :: "string \<Rightarrow> nat" where
  "error_to_http_status e =
     (if is_auth_error e then 401
      else if is_connection_not_found_error e then 404
      else if is_gateway_not_started_error e then 503
      else if is_admission_rejected_warming_error e then 503
      else 400)"

lemmas error_tests = is_auth_error_def is_gateway_not_started_error_def
  is_connection_not_found_error_def is_admission_rejected_warming_error_def

lemma status_of_code [simp]:
  "error_to_http_status (err_parts ''AUTH_INVALID_TOKEN'' m) = 401"
  "error_to_http_status (err_parts ''CONNECTION_NOT_FOUND'' m) = 404"
  "error_to_http_status (err_parts ''GATEWAY_NOT_STARTED'' m) = 503"
  "error_to_http_status (err_parts ''ADMISSION_REJECTED_WARMING'' m) = 503"
  "error_to_http_status (err_parts ''PROFILE_NOT_FOUND'' m) = 400"
  by (simp_all add: error_to_http_status_def error_tests err_parts_def startswith_def)

text \<open>The four tests exclude each other, so the order in which they run does not matter.\<close>

lemma error_tests_disjoint:
  "is_auth_error e \<Longrightarrow> \<not> is_gateway_not_started_error e \<and> \<not> is_connection_not_found_error e
     \<and> \<not> is_admission_rejected_warming_error e"
  "is_gateway_not_started_error e \<Longrightarrow> \<not> is_connection_not_found_error e
     \<and> \<not> is_admission_rejected_warming_error e"
  "is_connection_not_found_error e \<Longrightarrow> \<not> is_admission_rejected_warming_error e"
  by (auto simp: error_tests startswith_iff)

end
