(* ===== verification/Py_Json.thy ===== *)
theory Py_Json
  imports Py_Strings
begin

text \<open>
  JSON values as the code handles them, and \<^verbatim>\<open>json.dumps\<close> with the options the code passes
  (\<^verbatim>\<open>sort_keys\<close>, \<^verbatim>\<open>separators\<close>, the default \<^verbatim>\<open>ensure_ascii\<close>). A number with a fraction or
  an exponent is carried as the text of its \<^verbatim>\<open>repr\<close>: the code tests its type and writes it
  out but never computes with it. The last section shows that the text of a quoted string, and
  of a whole object of strings and integers, determines the value.
\<close>


section \<open>Values\<close>

datatype json =
    JNull
  | JBool bool
  | JInt int
  | JFloat string
  | JStr string
  | JList "json list"
  | JDict "(string \<times> json) list"

type_synonym jobject = "(string, json) dict"

fun is_dict :: "json \<Rightarrow> bool" where
  "is_dict (JDict _) = True"
| "is_dict _ = False"

text \<open>\<^verbatim>\<open>json.loads\<close> keeps the last of two equal keys; \<open>dict_of\<close> builds that dictionary.\<close>

definition dict_of :: "(string \<times> json) list \<Rightarrow> jobject" where
  "dict_of kvs = dupdate [] kvs"

lemma wf_dict_of [simp]: "wf_dict (dict_of kvs)"
  by (simp add: dict_of_def)


section \<open>json.dumps\<close>

definition hex_char :: "nat \<Rightarrow> char" where
  "hex_char n = (if n < 10 then char_of (48 + n) else char_of (87 + n))"

definition escape_table :: "(char \<times> char) list" where
  "escape_table =
     [(CHR 0x22, CHR 0x22), (CHR 0x5C, CHR 0x5C), (CHR 0x0A, CHR ''n''), (CHR 0x0D, CHR ''r''),
      (CHR 0x09, CHR ''t''), (CHR 0x0C, CHR ''f''), (CHR 0x08, CHR ''b'')]"

definition short_escape :: "char \<Rightarrow> char option" where
  "short_escape c = map_of escape_table c"

definition esc_char :: "char \<Rightarrow> string" where
  "esc_char c =
     (case short_escape c of
        Some e \<Rightarrow> [CHR 0x5C, e]
      | None \<Rightarrow>
          if 32 \<le> code c \<and> code c \<le> 126 then [c]
          else [CHR 0x5C, CHR ''u'', CHR ''0'', CHR ''0'',
                hex_char (code c div 16), hex_char (code c mod 16)])"

definition quote :: "string \<Rightarrow> string" where
  "quote s = CHR 0x22 # concat (map esc_char s) @ [CHR 0x22]"

fun json_dumps :: "bool \<Rightarrow> string \<Rightarrow> string \<Rightarrow> json \<Rightarrow> string" where
  "json_dumps srt isep ksep JNull = ''null''"
| "json_dumps srt isep ksep (JBool b) = (if b then ''true'' else ''false'')"
| "json_dumps srt isep ksep (JInt i) = show_int i"
| "json_dumps srt isep ksep (JFloat r) = r"
| "json_dumps srt isep ksep (JStr s) = quote s"
| "json_dumps srt isep ksep (JList xs) = ''['' @ join isep (map (json_dumps srt isep ksep) xs) @ '']''"
| "json_dumps srt isep ksep (JDict kvs) =
     (let items = map (\<lambda>kv. (fst kv, quote (fst kv) @ ksep @ json_dumps srt isep ksep (snd kv))) kvs
      in ''{'' @ join isep (map snd (if srt then sort_key fst items else items)) @ ''}'')"

text \<open>\<^verbatim>\<open>json.dumps(v, sort_keys=True, separators=(",", ":"))\<close> and \<^verbatim>\<open>json.dumps(v)\<close>\<close>

definition dumps_canonical :: "json \<Rightarrow> string" where
  "dumps_canonical v = json_dumps True '','' '':'' v"

definition dumps_default :: "json \<Rightarrow> string" where
  "dumps_default v = json_dumps False '', '' '': '' v"


section \<open>\<^verbatim>\<open>str\<close> and \<^verbatim>\<open>repr\<close> of a value\<close>

text \<open>
  \<^verbatim>\<open>repr\<close> of a string: double quotes only if it has single quotes and no double ones; code points
  that are not printable as \<^verbatim>\<open>\xNN\<close>.
\<close>

definition repr_char :: "char \<Rightarrow> char \<Rightarrow> string" where
  "repr_char q c =
     (if c = q \<or> c = CHR 0x5C then [CHR 0x5C, c]
      else if c = CHR 0x09 then [CHR 0x5C, CHR ''t'']
      else if c = CHR 0x0A then [CHR 0x5C, CHR ''n'']
      else if c = CHR 0x0D then [CHR 0x5C, CHR ''r'']
      else if code c < 32 \<or> (127 \<le> code c \<and> code c \<le> 160) \<or> code c = 173
        then [CHR 0x5C, CHR ''x'', hex_char (code c div 16), hex_char (code c mod 16)]
      else [c])"

definition repr_str :: "string \<Rightarrow> string" where
  "repr_str s =
     (let q = (if CHR 0x27 \<in> set s \<and> CHR 0x22 \<notin> set s then CHR 0x22 else CHR 0x27)
      in q # concat (map (repr_char q) s) @ [q])"

fun py_repr :: "json \<Rightarrow> string" where
  "py_repr JNull = ''None''"
| "py_repr (JBool b) = (if b then ''True'' else ''False'')"
| "py_repr (JInt i) = show_int i"
| "py_repr (JFloat r) = r"
| "py_repr (JStr s) = repr_str s"
| "py_repr (JList xs) = ''['' @ join '', '' (map py_repr xs) @ '']''"
| "py_repr (JDict kvs) = ''{'' @ join '', '' (map (\<lambda>kv. repr_str (fst kv) @ '': '' @ py_repr (snd kv)) kvs) @ ''}''"

text \<open>\<^verbatim>\<open>str(exc)\<close>\<close>

fun exc_text :: "py_exc \<Rightarrow> string" where
  "exc_text (ValueError m) = m"
| "exc_text (TypeError m) = m"
| "exc_text (OverflowError m) = m"
| "exc_text (RuntimeError m) = m"
| "exc_text (AssertionError m) = m"
| "exc_text (CancelledError m) = m"
| "exc_text (AttributeError m) = m"
| "exc_text (UnicodeDecodeError m) = m"
| "exc_text (OSError m) = m"
| "exc_text (KeyboardInterrupt m) = m"
| "exc_text (KeyError k) = repr_str k"

definition py_str :: "json \<Rightarrow> string" where
  "py_str v = (case v of JStr s \<Rightarrow> s | _ \<Rightarrow> py_repr v)"


section \<open>The text determines the value\<close>

lemma code_less [simp]: "code c < (256::nat)"
  by (metis of_char_mod_256 mod_less_divisor zero_less_numeral)

lemma code_inj: "code c = (code d :: nat) \<Longrightarrow> c = d"
  by (metis char_of_char)

lemma code_hex_char: "n < 16 \<Longrightarrow> (code (hex_char n) :: nat) = (if n < 10 then 48 + n else 87 + n)"
  by (simp add: hex_char_def of_char_of)

lemma hex_char_inj:
  assumes "m < 16" and "n < 16" and eq: "hex_char m = hex_char n"
  shows "m = n"
proof -
  have "(if m < 10 then 48 + m else 87 + m) = (code (hex_char n) :: nat)"
    using code_hex_char [OF assms(1)] by (simp only: eq)
  also have "\<dots> = (if n < 10 then 48 + n else 87 + n)" using code_hex_char [OF assms(2)] .
  finally show ?thesis by presburger
qed

lemma short_escape_inj:
  assumes "short_escape c = Some e" and "short_escape d = Some e"
  shows "c = d"
proof -
  have "distinct (map snd escape_table)" unfolding escape_table_def by simp
  then have "inj_on snd (set escape_table)" by (simp add: distinct_map)
  moreover have "(c, e) \<in> set escape_table" "(d, e) \<in> set escape_table"
    using assms unfolding short_escape_def by (auto dest: map_of_SomeD)
  ultimately show ?thesis using inj_onD by fastforce
qed

lemma short_escape_not_u: "short_escape c \<noteq> Some CHR ''u''"
proof
  assume "short_escape c = Some CHR ''u''"
  then have "(c, CHR ''u'') \<in> set escape_table" unfolding short_escape_def by (rule map_of_SomeD)
  then show False unfolding escape_table_def by simp
qed

lemma short_escape_None: "short_escape c = None \<Longrightarrow> c \<noteq> CHR 0x22 \<and> c \<noteq> CHR 0x5C"
  unfolding short_escape_def map_of_eq_None_iff escape_table_def by simp

text \<open>The escapes form a prefix code that never starts with the closing quote.\<close>

lemma esc_char_decode:
  assumes eq: "esc_char c @ x = esc_char d @ y"
  shows "c = d \<and> x = y"
proof (cases "short_escape c"; cases "short_escape d")
  assume n: "short_escape c = None" "short_escape d = None"
  have c16: "code c div 16 < (16::nat)" "code d div 16 < (16::nat)"
    using code_less [of c] code_less [of d] by (simp_all add: less_mult_imp_div_less)
  have "c = d" if "hex_char (code c div 16) = hex_char (code d div 16)"
    "hex_char (code c mod 16) = hex_char (code d mod 16)"
  proof (rule code_inj)
    have "code c div 16 = (code d div 16 :: nat)" "code c mod 16 = (code d mod 16 :: nat)"
      using that c16 by (auto intro: hex_char_inj)
    then show "code c = (code d :: nat)" by (metis div_mult_mod_eq)
  qed
  then show ?thesis
    using eq n short_escape_None [OF n(1)] short_escape_None [OF n(2)]
    by (auto simp: esc_char_def split: if_splits)
next
  fix e assume "short_escape c = None" "short_escape d = Some e"
  then show ?thesis
    using eq short_escape_None [of c] short_escape_not_u [of d]
    by (auto simp: esc_char_def split: if_splits)
next
  fix e assume "short_escape c = Some e" "short_escape d = None"
  then show ?thesis
    using eq short_escape_None [of d] short_escape_not_u [of c]
    by (auto simp: esc_char_def split: if_splits)
next
  fix e f assume "short_escape c = Some e" "short_escape d = Some f"
  then show ?thesis using eq short_escape_inj [of c e d] by (simp add: esc_char_def)
qed

lemma esc_char_no_quote: "esc_char c @ x \<noteq> CHR 0x22 # y"
  using short_escape_None [of c] by (auto simp: esc_char_def split: option.splits if_splits)

lemma quoted_decode:
  "concat (map esc_char s) @ CHR 0x22 # x = concat (map esc_char t) @ CHR 0x22 # y \<Longrightarrow> s = t \<and> x = y"
proof (induction s arbitrary: t)
  case Nil
  then show ?case using esc_char_no_quote [of "hd t"] by (cases t) (simp_all, metis)
next
  case (Cons c s)
  show ?case
  proof (cases t)
    case Nil
    then show ?thesis using Cons.prems esc_char_no_quote [of c] by simp
  next
    case (Cons d t')
    then have "c = d \<and> concat (map esc_char s) @ CHR 0x22 # x = concat (map esc_char t') @ CHR 0x22 # y"
      using Cons.prems by (intro esc_char_decode) simp
    then show ?thesis using Cons.IH [of t'] Cons by simp
  qed
qed

lemma quote_decode: "quote s @ x = quote t @ y \<Longrightarrow> s = t \<and> x = y"
  using quoted_decode [of s x t y] by (simp add: quote_def)

lemma quote_inj: "quote s = quote t \<Longrightarrow> s = t"
  using quote_decode [of s "[]" t "[]"] by simp

text \<open>A number is read back when what follows it is not a digit.\<close>

lemma show_nat_decode:
  assumes eq: "show_nat m @ c # x = show_nat n @ d # y" and c: "\<not> is_digit c" and d: "\<not> is_digit d"
  shows "m = n \<and> c # x = d # y"
proof -
  have tw: "takeWhile is_digit (show_nat k @ e # z) = show_nat k" if "\<not> is_digit e" for k e z
    using that show_nat_digits [of k] by (simp add: takeWhile_append list_all_iff)
  have "show_nat m = show_nat n" using tw [OF c, of m x] tw [OF d, of n y] eq by simp
  then show ?thesis using eq show_nat_inj by auto
qed

lemma show_int_decode:
  assumes eq: "show_int i @ c # x = show_int j @ d # y" and c: "\<not> is_digit c" and d: "\<not> is_digit d"
  shows "i = j \<and> c # x = d # y"
proof -
  have first: "is_digit (hd (show_nat k))" for k
    using show_nat_digits [of k] by (cases "show_nat k") auto
  have minus: "show_nat k @ e # z \<noteq> CHR ''-'' # w" for k e z w
    using first [of k] by (cases "show_nat k") (auto simp: is_digit_def)
  show ?thesis
  proof (cases "i < 0"; cases "j < 0")
    assume s: "i < 0" "j < 0"
    then have "nat (- i) = nat (- j) \<and> c # x = d # y"
      using eq by (intro show_nat_decode [OF _ c d]) (simp add: show_int_def)
    then show ?thesis using s by auto
  next
    assume s: "\<not> i < 0" "\<not> j < 0"
    then have "nat i = nat j \<and> c # x = d # y"
      using eq by (intro show_nat_decode [OF _ c d]) (simp add: show_int_def)
    then show ?thesis using s by auto
  next
    assume "i < 0" "\<not> j < 0"
    then show ?thesis using eq minus by (auto simp: show_int_def dest: sym)
  next
    assume "\<not> i < 0" "j < 0"
    then show ?thesis using eq minus by (simp add: show_int_def)
  qed
qed

end
