(* ===== verification/Py_Datetime.thy ===== *)
theory Py_Datetime
  imports Py_Strings
begin

text \<open>
  Python's \<^verbatim>\<open>datetime\<close> as the code uses it: \<^verbatim>\<open>fromisoformat\<close> on the extended calendar
  forms (\<^verbatim>\<open>YYYY-MM-DD\<close>, then any separator and \<^verbatim>\<open>HH[:MM[:SS[.f]]]\<close>, then an optional
  \<^verbatim>\<open>Z\<close> or \<^verbatim>\<open>+HH:MM\<close> offset), comparison, which raises when only one side has an offset,
  \<^verbatim>\<open>replace(tzinfo=UTC)\<close>, \<^verbatim>\<open>astimezone(UTC)\<close> and subtraction of a duration, which raise
  when the result leaves the years 1 to 9999. A datetime is its local clock reading in
  microseconds since 0001-01-01 and its offset, \<open>None\<close> for a naive one. The basic and week
  forms that \<^verbatim>\<open>fromisoformat\<close> also reads are not modelled: no part of the code writes them.
\<close>

datatype datetime = Datetime (local_us: int) (offset_us: "int option")

definition is_aware :: "datetime \<Rightarrow> bool" where
  "is_aware t \<longleftrightarrow> offset_us t \<noteq> None"

definition instant :: "datetime \<Rightarrow> int" where
  "instant t = local_us t - (case offset_us t of Some z \<Rightarrow> z | None \<Rightarrow> 0)"


section \<open>The calendar\<close>

definition is_leap :: "nat \<Rightarrow> bool" where
  "is_leap y \<longleftrightarrow> 4 dvd y \<and> (\<not> 100 dvd y \<or> 400 dvd y)"

definition days_in_month :: "nat \<Rightarrow> nat \<Rightarrow> nat" where
  "days_in_month y m =
     (if m = 2 then (if is_leap y then 29 else 28)
      else if m \<in> {4, 6, 9, 11} then 30 else 31)"

definition days_before_month :: "nat \<Rightarrow> nat \<Rightarrow> nat" where
  "days_before_month y m = sum_list (map (days_in_month y) [1..<m])"

definition days_before_year :: "nat \<Rightarrow> nat" where
  "days_before_year y = (y - 1) * 365 + (y - 1) div 4 - (y - 1) div 100 + (y - 1) div 400"

definition us_per_day :: int where
  "us_per_day = 86400000000"

text \<open>One past the last microsecond of year 9999.\<close>

definition max_us :: int where
  "max_us = 3652059 * us_per_day"

definition date_us :: "nat \<Rightarrow> nat \<Rightarrow> nat \<Rightarrow> int option" where
  "date_us y m d =
     (if 1 \<le> y \<and> y \<le> 9999 \<and> 1 \<le> m \<and> m \<le> 12 \<and> 1 \<le> d \<and> d \<le> days_in_month y m
      then Some (int (days_before_year y + days_before_month y m + (d - 1)) * us_per_day)
      else None)"


section \<open>Reading ISO strings\<close>

definition number :: "string \<Rightarrow> nat option" where
  "number s = (if s \<noteq> [] \<and> list_all is_digit s then digits_val 0 s else None)"

text \<open>A template: \<^verbatim>\<open>d\<close> stands for a digit, every other character for itself.\<close>

fun shape :: "string \<Rightarrow> string \<Rightarrow> bool" where
  "shape [] [] = True"
| "shape (p # ps) (c # cs) = ((if p = CHR ''d'' then is_digit c else c = p) \<and> shape ps cs)"
| "shape _ _ = False"

definition date_part :: "string \<Rightarrow> int option" where
  "date_part s =
     (if shape ''dddd-dd-dd'' s then
        (case (number (take 4 s), number (take 2 (drop 5 s)), number (take 2 (drop 8 s))) of
           (Some y, Some m, Some d) \<Rightarrow> date_us y m d
         | _ \<Rightarrow> None)
      else None)"

text \<open>The first six digits of a fraction, in microseconds.\<close>

definition fraction_us :: "string \<Rightarrow> nat option" where
  "fraction_us f =
     (case number f of None \<Rightarrow> None | Some _ \<Rightarrow> number (take 6 (f @ ''00000'')))"

definition clock_part :: "string \<Rightarrow> (nat \<times> nat \<times> nat \<times> nat) option" where
  "clock_part s =
     (let h = number (take 2 s); m = number (take 2 (drop 3 s)); sec = number (take 2 (drop 6 s))
      in if shape ''dd'' s then map_option (\<lambda>h. (h, 0, 0, 0)) h
         else if shape ''dd:dd'' s then
           (case (h, m) of (Some h, Some m) \<Rightarrow> Some (h, m, 0, 0) | _ \<Rightarrow> None)
         else if shape ''dd:dd:dd'' (take 8 s) then
           (case (h, m, sec, drop 8 s) of
              (Some h, Some m, Some sec, []) \<Rightarrow> Some (h, m, sec, 0)
            | (Some h, Some m, Some sec, c # f) \<Rightarrow>
                if c = CHR ''.'' \<or> c = CHR '','' then map_option (\<lambda>us. (h, m, sec, us)) (fraction_us f)
                else None
            | _ \<Rightarrow> None)
         else None)"

definition clock_us :: "nat \<times> nat \<times> nat \<times> nat \<Rightarrow> int" where
  "clock_us c = (case c of (h, m, s, us) \<Rightarrow> ((int h * 60 + int m) * 60 + int s) * 1000000 + int us)"

definition is_zone_mark :: "char \<Rightarrow> bool" where
  "is_zone_mark c \<longleftrightarrow> c = CHR ''+'' \<or> c = CHR ''-'' \<or> c = CHR ''Z''"

text \<open>\<open>Some None\<close> is a naive time, \<open>None\<close> a malformed one.\<close>

definition zone_part :: "string \<Rightarrow> int option option" where
  "zone_part s = (case s of [] \<Rightarrow> Some None
     | c # cs \<Rightarrow>
         if c = CHR ''Z'' then (if cs = [] then Some (Some 0) else None)
         else (case clock_part cs of None \<Rightarrow> None
               | Some k \<Rightarrow> if clock_us k < us_per_day
                   then Some (Some (if c = CHR ''-'' then - clock_us k else clock_us k)) else None))"

definition time_part :: "string \<Rightarrow> (int \<times> int option) option" where
  "time_part s =
     (case (clock_part (takeWhile (\<lambda>c. \<not> is_zone_mark c) s),
            zone_part (dropWhile (\<lambda>c. \<not> is_zone_mark c) s)) of
        (Some (h, m, sec, us), Some z) \<Rightarrow>
          if h < 24 \<and> m < 60 \<and> sec < 60 then Some (clock_us (h, m, sec, us), z) else None
      | _ \<Rightarrow> None)"

definition fromisoformat :: "string \<Rightarrow> datetime option" where
  "fromisoformat s =
     (case date_part (take 10 s) of None \<Rightarrow> None
      | Some d \<Rightarrow>
          if length s = 10 then Some (Datetime d None)
          else (case time_part (drop 11 s) of None \<Rightarrow> None
                | Some (t, z) \<Rightarrow> Some (Datetime (d + t) z)))"

text \<open>\<^verbatim>\<open>datetime.fromisoformat(s.replace("Z", "+00:00"))\<close>, the way every caller reads a time.\<close>

definition read_iso :: "string \<Rightarrow> datetime option" where
  "read_iso s = fromisoformat (replace_char (CHR ''Z'') ''+00:00'' s)"


section \<open>Operations\<close>

definition mixed_error :: py_exc where
  "mixed_error = TypeError ''can't compare offset-naive and offset-aware datetimes''"

definition dt_le :: "datetime \<Rightarrow> datetime \<Rightarrow> py_exc + bool" where
  "dt_le a b = (if is_aware a = is_aware b then Inr (instant a \<le> instant b) else Inl mixed_error)"

definition dt_less :: "datetime \<Rightarrow> datetime \<Rightarrow> py_exc + bool" where
  "dt_less a b = (if is_aware a = is_aware b then Inr (instant a < instant b) else Inl mixed_error)"

definition in_range :: "int \<Rightarrow> bool" where
  "in_range us \<longleftrightarrow> 0 \<le> us \<and> us < max_us"

definition with_utc :: "datetime \<Rightarrow> datetime" where
  "with_utc t = Datetime (local_us t) (Some 0)"

definition astimezone_utc :: "datetime \<Rightarrow> py_exc + datetime" where
  "astimezone_utc t =
     (if in_range (instant t) then Inr (Datetime (instant t) (Some 0))
      else Inl (OverflowError ''date value out of range''))"

definition dt_minus :: "datetime \<Rightarrow> int \<Rightarrow> py_exc + datetime" where
  "dt_minus t us =
     (if in_range (local_us t - us) then Inr (Datetime (local_us t - us) (offset_us t))
      else Inl (OverflowError ''date value out of range''))"

text \<open>\<^verbatim>\<open>(a - b).total_seconds()\<close> in seconds.\<close>

definition seconds_between :: "datetime \<Rightarrow> datetime \<Rightarrow> py_exc + rat" where
  "seconds_between a b =
     (if is_aware a = is_aware b then Inr (of_int (instant a - instant b) / 1000000)
      else Inl (TypeError ''can't subtract offset-naive and offset-aware datetimes''))"

lemma is_aware_with_utc [simp]: "is_aware (with_utc t)"
  by (simp add: with_utc_def is_aware_def)

lemma instant_with_utc [simp]: "instant (with_utc t) = local_us t"
  by (simp add: with_utc_def instant_def)

lemma astimezone_utc_Inr: "astimezone_utc t = Inr u \<Longrightarrow> is_aware u \<and> instant u = instant t"
  by (auto simp: astimezone_utc_def is_aware_def instant_def split: if_splits)

lemma dt_le_aware: "is_aware a \<Longrightarrow> is_aware b \<Longrightarrow> dt_le a b = Inr (instant a \<le> instant b)"
  by (simp add: dt_le_def)

lemma dt_less_aware: "is_aware a \<Longrightarrow> is_aware b \<Longrightarrow> dt_less a b = Inr (instant a < instant b)"
  by (simp add: dt_less_def)

end
