(* ===== verification/Models.thy ===== *)
theory Models
  imports Py_Json Py_Datetime
begin

text \<open>
  The data model of \<^verbatim>\<open>core/models.py\<close> and \<^verbatim>\<open>core/reaper_config.py\<close>: the enumerations
  as datatypes, the Pydantic models as records with the source's fields (prefixed by the model's
  initials), and the validators the models run when they are built, each with its error. Reading
  a YAML or JSON document into these shapes is Pydantic's work and is not modelled.
\<close>


section \<open>Enumerations\<close>

datatype posture = PostureNone | ReadOnly | ReadWrite | Destructive

datatype auth_mode = TokenMode | OpenMode

datatype gateway_transport = TStdio | TSse | THttp

datatype default_profile_status = Resolved | Missing | Ambiguous

datatype verdict = ALLOW | DENY

datatype audit_level = L1 | L2 | L3

fun posture_value :: "posture \<Rightarrow> string" where
  "posture_value PostureNone = ''none''"
| "posture_value ReadOnly = ''read_only''"
| "posture_value ReadWrite = ''read_write''"
| "posture_value Destructive = ''destructive''"

fun verdict_value :: "verdict \<Rightarrow> string" where
  "verdict_value ALLOW = ''allow''"
| "verdict_value DENY = ''deny''"

fun auth_mode_value :: "auth_mode \<Rightarrow> string" where
  "auth_mode_value TokenMode = ''token''"
| "auth_mode_value OpenMode = ''open''"

fun audit_level_value :: "audit_level \<Rightarrow> string" where
  "audit_level_value L1 = ''L1''"
| "audit_level_value L2 = ''L2''"
| "audit_level_value L3 = ''L3''"

lemma posture_value_inj: "posture_value a = posture_value b \<longleftrightarrow> a = b"
  by (cases a; cases b) auto


section \<open>Server configuration\<close>

record tool_override =
  to_family :: "string option"
  to_posture :: "posture option"

datatype instructions = InstrBool bool | InstrText string

datatype url_transport = UrlHttp | UrlSse

record server_config =
  sc_name :: string
  sc_command :: "string option"
  sc_args :: "string list"
  sc_url :: "string option"
  sc_transport :: "url_transport option"
  sc_env :: "(string, string) dict"
  sc_headers :: "(string, string) dict"
  sc_family :: "string option"
  sc_tool_prefix :: "string option"
  sc_exclude_tools :: "string list"
  sc_nested_gateway :: bool
  sc_tool_overrides :: "(string, tool_override) dict"
  sc_rewrite_descriptions :: bool
  sc_default_posture :: posture
  sc_instructions :: "instructions option"

text \<open>\<^verbatim>\<open>ServerConfig(name=n)\<close>: every other field at its default.\<close>

definition server_named :: "string \<Rightarrow> server_config" where
  "server_named n = \<lparr>sc_name = n, sc_command = None, sc_args = [], sc_url = None,
     sc_transport = None, sc_env = [], sc_headers = [], sc_family = None, sc_tool_prefix = None,
     sc_exclude_tools = [], sc_nested_gateway = False, sc_tool_overrides = [],
     sc_rewrite_descriptions = False, sc_default_posture = PostureNone, sc_instructions = None\<rparr>"

definition reserved_name :: "string \<Rightarrow> bool" where
  "reserved_name s \<longleftrightarrow> startswith s ''tela.'' \<or> startswith s ''tela_''"

definition reject_reserved_prefix :: "string option \<Rightarrow> py_exc + string option" where
  "reject_reserved_prefix v = (case v of None \<Rightarrow> Inr None
     | Some p \<Rightarrow>
         if reserved_name p then
           Inl (ValueError (''ServerConfig.tool_prefix '' @ squote p @ '' uses reserved ''
                @ squote ''tela.'' @ ''/'' @ squote ''tela_'' @ '' namespace''))
         else if contains ''.'' p then
           Inl (ValueError (''ServerConfig.tool_prefix '' @ squote p
                @ '' contains invalid dotted syntax; use snake_case''))
         else Inr v)"

text \<open>Truthiness of the raw value of a field before Pydantic coerces it.\<close>

fun truthy :: "json option \<Rightarrow> bool" where
  "truthy None = False"
| "truthy (Some JNull) = False"
| "truthy (Some (JBool b)) = b"
| "truthy (Some (JInt i)) = (i \<noteq> 0)"
| "truthy (Some (JFloat r)) = (r \<notin> {''0.0'', ''-0.0''})"
| "truthy (Some (JStr s)) = (s \<noteq> [])"
| "truthy (Some (JList xs)) = (xs \<noteq> [])"
| "truthy (Some (JDict kvs)) = (kvs \<noteq> [])"

definition nested_prefix_message :: string where
  "nested_prefix_message =
     ''NESTED_TELA_PREFIX_REQUIRED: nested_gateway true requires a non-empty tool_prefix''"

definition alias_fields :: "string list" where
  "alias_fields = [''exclude_tool'', ''excluded_tools'', ''hide_tools'']"

text \<open>The data of the before-validator is any value; only a dictionary is inspected.\<close>

definition reject_aliases_and_shorthand :: "json \<Rightarrow> py_exc + json" where
  "reject_aliases_and_shorthand data = (case data of
     JDict d \<Rightarrow>
       (case filter (has_key d) alias_fields of
          a # _ \<Rightarrow> Inl (ValueError (''Alias '' @ squote a @ '' is not allowed, use ''
                              @ squote ''exclude_tools''))
        | [] \<Rightarrow>
            if truthy (dget d ''nested_gateway'') \<and> \<not> truthy (dget d ''tool_prefix'')
            then Inl (ValueError nested_prefix_message) else Inr data)
   | _ \<Rightarrow> Inr data)"

definition has_prefix :: "server_config \<Rightarrow> bool" where
  "has_prefix sc = (case sc_tool_prefix sc of None \<Rightarrow> False | Some p \<Rightarrow> p \<noteq> [])"

definition validate_nested_gateway :: "server_config \<Rightarrow> py_exc + server_config" where
  "validate_nested_gateway sc =
     (if sc_name sc = [] then
        Inl (AssertionError ''Precondition failed for _validate_nested_gateway_requires_prefix'')
      else if sc_nested_gateway sc \<and> \<not> has_prefix sc then Inl (ValueError nested_prefix_message)
      else Inr sc)"

text \<open>A server config that the constructor accepts: the field and model validators in order.\<close>

definition build_server_config :: "server_config \<Rightarrow> py_exc + server_config" where
  "build_server_config sc =
     (case reject_reserved_prefix (sc_tool_prefix sc) of Inl e \<Rightarrow> Inl e
      | Inr _ \<Rightarrow> validate_nested_gateway sc)"

definition wf_server :: "server_config \<Rightarrow> bool" where
  "wf_server sc \<longleftrightarrow> build_server_config sc = Inr sc"

lemma reserved_name_iff:
  "reserved_name s \<longleftrightarrow> (\<exists>t. s = ''tela.'' @ t) \<or> (\<exists>t. s = ''tela_'' @ t)"
  unfolding reserved_name_def startswith_iff ..

lemma wf_server_iff:
  "wf_server sc \<longleftrightarrow>
     (case sc_tool_prefix sc of None \<Rightarrow> True | Some p \<Rightarrow> \<not> reserved_name p \<and> CHR ''.'' \<notin> set p)
     \<and> sc_name sc \<noteq> [] \<and> (sc_nested_gateway sc \<longrightarrow> has_prefix sc)"
  by (auto simp: wf_server_def build_server_config_def reject_reserved_prefix_def contains_single
      validate_nested_gateway_def split: option.splits)


section \<open>Profiles and the top-level configuration\<close>

text \<open>\<open>pc_tool_overrides\<close> maps a family to the verdicts of its tools.\<close>

record profile_config =
  pc_name :: string
  pc_capabilities :: "(string, posture) dict"
  pc_tool_overrides :: "(string, (string, verdict) dict) dict"
  pc_default :: bool

record auth_config =
  ac_mode :: auth_mode
  ac_secrets :: "string list"

record audit_config =
  auc_level :: audit_level
  auc_output :: string

record reaper_policy =
  rp_sweep_interval :: rat
  rp_native_idle_ttl :: rat
  rp_bridge_idle_ttl :: rat

definition default_reaper_policy :: reaper_policy where
  "default_reaper_policy =
     \<lparr>rp_sweep_interval = 30, rp_native_idle_ttl = 0, rp_bridge_idle_ttl = 900\<rparr>"

definition wf_reaper_policy :: "reaper_policy \<Rightarrow> bool" where
  "wf_reaper_policy p \<longleftrightarrow>
     0 \<le> rp_sweep_interval p \<and> 0 \<le> rp_native_idle_ttl p \<and> 0 \<le> rp_bridge_idle_ttl p"

record tela_config =
  tc_servers :: "(string, server_config) dict"
  tc_profiles :: "(string, profile_config) dict"
  tc_auth :: auth_config
  tc_audit :: audit_config
  tc_reaper :: reaper_policy
  tc_resolved_default_profile :: "string option"

lemma wf_default_reaper_policy [simp]: "wf_reaper_policy default_reaper_policy"
  by (simp add: wf_reaper_policy_def default_reaper_policy_def)


section \<open>Capability tokens\<close>

record capability_token =
  ct_token_id :: string
  ct_profile_id :: string
  ct_persona_ref :: string
  ct_instance_id :: string
  ct_max_depth :: "int option"
  ct_issued_at :: string
  ct_expires_at :: string
  ct_token_version :: string
  ct_signature :: string

text \<open>
  \<^verbatim>\<open>_CAPABILITY_TOKEN_DATETIME_PATTERN\<close>: an RFC 3339 date-time with seconds and a zone.
\<close>

definition zone_shape :: "string \<Rightarrow> bool" where
  "zone_shape s \<longleftrightarrow> s = ''Z'' \<or> shape ''+dd:dd'' s \<or> shape ''-dd:dd'' s"

definition token_datetime_pattern :: "string \<Rightarrow> bool" where
  "token_datetime_pattern s \<longleftrightarrow>
     shape ''dddd-dd-ddTdd:dd:dd'' (take 19 s)
     \<and> (case drop 19 s of
          [] \<Rightarrow> False
        | c # cs \<Rightarrow>
            if c = CHR ''.'' then takeWhile is_digit cs \<noteq> [] \<and> zone_shape (dropWhile is_digit cs)
            else zone_shape (c # cs))"

definition validate_token_datetime :: "string \<Rightarrow> py_exc + string" where
  "validate_token_datetime v =
     (if v = [] then
        Inl (AssertionError ''Precondition failed for _validate_capability_token_datetime'')
      else if \<not> token_datetime_pattern v then
        Inl (ValueError ''must be a canonical date-time with timezone (RFC3339/JSON-schema date-time)'')
      else (case read_iso v of
          None \<Rightarrow> Inl (ValueError ''must be a valid date-time'')
        | Some t \<Rightarrow>
            if is_aware t then Inr v else Inl (ValueError ''must include timezone information'')))"

text \<open>The constraints the fields of \<^verbatim>\<open>CapabilityToken\<close> declare.\<close>

definition wf_token :: "capability_token \<Rightarrow> bool" where
  "wf_token t \<longleftrightarrow>
     startswith (ct_token_id t) ''tok_''
     \<and> (case ct_max_depth t of None \<Rightarrow> True | Some d \<Rightarrow> 0 \<le> d)
     \<and> \<not> isl (validate_token_datetime (ct_issued_at t))
     \<and> \<not> isl (validate_token_datetime (ct_expires_at t))
     \<and> ct_token_version t = ''0.1.0''"

lemma validate_token_datetime_aware:
  "validate_token_datetime v = Inr w \<Longrightarrow> \<exists>t. read_iso v = Some t \<and> is_aware t"
  by (auto simp: validate_token_datetime_def split: if_splits option.splits)

lemma wf_token_expires:
  assumes "wf_token t"
  obtains e where "read_iso (ct_expires_at t) = Some e" and "is_aware e"
  using assms validate_token_datetime_aware [of "ct_expires_at t"]
  by (cases "validate_token_datetime (ct_expires_at t)") (auto simp: wf_token_def)


section \<open>Runtime types\<close>

text \<open>
  A tool as a downstream server lists it: the dictionary \<^verbatim>\<open>Tool.model_dump(exclude_none=True)\<close>
  gives, with \<open>None\<close> for an absent key.
\<close>

record raw_tool =
  raw_name :: string
  raw_schema :: "jobject option"
  raw_description :: "string option"
  raw_annotations :: "jobject option"
  raw_title :: "string option"
  raw_output_schema :: "jobject option"

record resolved_tool =
  rt_name :: string
  rt_raw_name :: "string option"
  rt_server_name :: string
  rt_family :: string
  rt_posture :: "posture option"
  rt_schema :: jobject
  rt_description :: string
  rt_annotations :: "jobject option"
  rt_title :: "string option"
  rt_output_schema :: "jobject option"

record enforcement_result =
  er_verdict :: verdict
  er_denied_by :: "string option"
  er_error_code :: "string option"
  er_error_message :: "string option"

record token_init_binding =
  tb_token_result :: enforcement_result
  tb_profile_id :: string

record connection_context =
  cc_connection_id :: string
  cc_profile_id :: string
  cc_connected_at :: string
  cc_tool_call_count :: nat
  cc_last_activity :: string
  cc_init_mode :: "auth_mode option"
  cc_client_info :: "(string, string) dict option"
  cc_bridge_connection_id :: "string option"

record meta_field =
  mf_trace_id :: string
  mf_event_id :: "string option"
  mf_idempotency_key :: "string option"
  mf_instance_id :: "string option"
  mf_persona_id :: "string option"

record audit_entry =
  ae_timestamp :: string
  ae_level :: audit_level
  ae_connection_id :: string
  ae_profile_id :: string
  ae_tool_name :: string
  ae_server_name :: string
  ae_verdict :: verdict
  ae_denied_by :: "string option"
  ae_error_code :: "string option"
  ae_latency_ms :: "rat option"
  ae_param_hash :: "string option"
  ae_request_content :: "jobject option"
  ae_response_content :: "jobject option"
  ae_meta :: "meta_field option"

record tela_error =
  te_code :: string
  te_message :: string
  te_details :: "jobject option"

record profile_binding =
  pb_status :: default_profile_status
  pb_resolved :: "string option"

definition allow_result :: enforcement_result where
  "allow_result =
     \<lparr>er_verdict = ALLOW, er_denied_by = None, er_error_code = None, er_error_message = None\<rparr>"

definition deny_result :: "string \<Rightarrow> string \<Rightarrow> string \<Rightarrow> enforcement_result" where
  "deny_result stage err msg =
     \<lparr>er_verdict = DENY, er_denied_by = Some stage, er_error_code = Some err, er_error_message = Some msg\<rparr>"

lemma allow_result_verdict [simp]: "er_verdict allow_result = ALLOW"
  by (simp add: allow_result_def)

lemma deny_result_simps [simp]:
  "er_verdict (deny_result s c m) = DENY"
  "er_denied_by (deny_result s c m) = Some s"
  "er_error_code (deny_result s c m) = Some c"
  "er_error_message (deny_result s c m) = Some m"
  by (simp_all add: deny_result_def)

end
