(* ===== verification/Classification.thy ===== *)
theory Classification
  imports Models "HOL-Library.Sublist" "HOL-Library.Multiset"
begin

text \<open>
  \<^verbatim>\<open>core/classification.py\<close>: the posture of a tool from an explicit override or its MCP
  annotations, and the ADR-008 attachment registry: the classifiers of its states and the
  compaction of its terminal history.
\<close>


section \<open>Tool postures\<close>

definition posture_from_annotations :: "jobject \<Rightarrow> posture option" where
  "posture_from_annotations ann =
     (let read_only = (case dget ann ''readOnlyHint'' of Some JNull \<Rightarrow> None | v \<Rightarrow> v);
          destructive = (case dget ann ''destructiveHint'' of Some JNull \<Rightarrow> None | v \<Rightarrow> v)
      in if read_only = None \<and> destructive = None then None
         else if destructive = Some (JBool True) then Some Destructive
         else if read_only = Some (JBool True) then Some ReadOnly
         else if read_only = Some (JBool False) \<and> destructive = Some (JBool False) then Some ReadWrite
         else if read_only = Some (JBool False) then Some ReadWrite
         else None)"

definition classify_tool :: "string \<Rightarrow> server_config \<Rightarrow> jobject option \<Rightarrow> posture option" where
  "classify_tool tool_name sc ann =
     (case Option.bind (dget (sc_tool_overrides sc) tool_name) to_posture of
        Some p \<Rightarrow> Some p
      | None \<Rightarrow> (case ann of Some a \<Rightarrow> posture_from_annotations a | None \<Rightarrow> None))"

text \<open>A hint that is not a boolean never yields a posture, and the stricter hint wins.\<close>

lemma posture_from_annotations_cases:
  "posture_from_annotations ann =
     (if dget ann ''destructiveHint'' = Some (JBool True) then Some Destructive
      else if dget ann ''readOnlyHint'' = Some (JBool True) then Some ReadOnly
      else if dget ann ''readOnlyHint'' = Some (JBool False) then Some ReadWrite else None)"
  by (auto simp: posture_from_annotations_def Let_def split: option.splits json.splits)

lemma classify_tool_override:
  "dget (sc_tool_overrides sc) n = Some ov \<Longrightarrow> to_posture ov = Some p \<Longrightarrow> classify_tool n sc ann = Some p"
  by (simp add: classify_tool_def)


section \<open>Attachment states\<close>

datatype display_state =
  DUnknown | DStarted | DHealthy | DDegraded | DStaleCandidate | DRecovering | DExited

datatype runtime_state = RUnknown | RInitializing | RActive | RIdle | RRecovering | RExited

datatype recoverability = VUnknown | VRecoverable | VNotRecoverable | VStale

definition classify_attachment_display_state ::
    "runtime_state \<Rightarrow> recoverability \<Rightarrow> bool \<Rightarrow> bool \<Rightarrow> display_state" where
  "classify_attachment_display_state rs rec stale_candidate unknown_state =
     (if unknown_state then DUnknown
      else if stale_candidate then DStaleCandidate
      else if rs = RExited then DExited
      else if rs = RRecovering then DRecovering
      else if rec = VStale then DDegraded
      else if rs = RActive \<and> rec = VRecoverable then DHealthy
      else if rs = RIdle then DDegraded
      else DUnknown)"

definition classify_runtime_state :: "string \<Rightarrow> string option \<Rightarrow> bool \<Rightarrow> runtime_state" where
  "classify_runtime_state client_kind init_mode connection_active =
     (if client_kind = ''unknown'' then RUnknown
      else if \<not> connection_active then RExited
      else if init_mode = None then RInitializing
      else if init_mode = Some ''recovery'' then RRecovering
      else if connection_active then RActive
      else RIdle)"

definition classify_recoverability :: "string \<Rightarrow> runtime_state \<Rightarrow> rat option \<Rightarrow> recoverability" where
  "classify_recoverability client_kind rs age =
     (if client_kind = ''unknown'' then VUnknown
      else if rs = RExited then VNotRecoverable
      else if rs = RUnknown then VUnknown
      else (case age of None \<Rightarrow> VRecoverable
            | Some a \<Rightarrow> if a > 90 then VStale else if a > 60 then VRecoverable else VRecoverable))"

text \<open>The three classifiers chained the way a snapshot of an attachment uses them.\<close>

lemma display_of_live_client:
  assumes kind: "kind \<noteq> ''unknown''" and mode: "mode \<noteq> ''recovery''"
  defines "rs \<equiv> classify_runtime_state kind (Some mode) True"
  shows "classify_attachment_display_state rs (classify_recoverability kind rs (Some age)) False False
       = (if age > 90 then DDegraded else DHealthy)"
  using kind mode
  by (simp add: rs_def classify_runtime_state_def classify_recoverability_def
      classify_attachment_display_state_def)

lemma idle_is_unreachable: "classify_runtime_state kind mode active \<noteq> RIdle"
  by (simp add: classify_runtime_state_def)


section \<open>Runtime events\<close>

datatype runtime_event_kind =
    ClientAttachmentStarted
  | Heartbeat
  | RecoveryProbe
  | HostTransportClosed
  | ClientProviderExit
  | RecoveryFailed
  | RecoverySucceeded
  | ProviderStarting
  | ProviderInitialized
  | ProviderToolsListStarted
  | ProviderToolsListCompleted
  | ProviderFailed
  | ProviderTimeout

fun event_kind_value :: "runtime_event_kind \<Rightarrow> string" where
  "event_kind_value ClientAttachmentStarted = ''client_attachment_started''"
| "event_kind_value Heartbeat = ''heartbeat''"
| "event_kind_value RecoveryProbe = ''recovery_probe''"
| "event_kind_value HostTransportClosed = ''host_transport_closed''"
| "event_kind_value ClientProviderExit = ''client_provider_exit''"
| "event_kind_value RecoveryFailed = ''recovery_failed''"
| "event_kind_value RecoverySucceeded = ''recovery_succeeded''"
| "event_kind_value ProviderStarting = ''provider_starting''"
| "event_kind_value ProviderInitialized = ''provider_initialized''"
| "event_kind_value ProviderToolsListStarted = ''provider_tools_list_started''"
| "event_kind_value ProviderToolsListCompleted = ''provider_tools_list_completed''"
| "event_kind_value ProviderFailed = ''provider_failed''"
| "event_kind_value ProviderTimeout = ''provider_timeout''"

record runtime_event =
  ev_kind :: runtime_event_kind
  ev_client_id :: string
  ev_client_kind :: string
  ev_timestamp :: string
  ev_details :: jobject

definition event_object :: "runtime_event \<Rightarrow> json" where
  "event_object e = JDict [(''kind'', JStr (event_kind_value (ev_kind e))), (''client_id'', JStr (ev_client_id e)),
     (''client_kind'', JStr (ev_client_kind e)), (''timestamp'', JStr (ev_timestamp e)), (''details'', JDict (ev_details e))]"

text \<open>The text of \<^verbatim>\<open>json.dumps\<close> is ASCII, so its length in bytes is its length.\<close>

definition guard_size :: "runtime_event \<Rightarrow> bool" where
  "guard_size e \<longleftrightarrow> length (dumps_default (event_object e)) \<le> 16 * 1024"


section \<open>Compaction of terminal attachment history\<close>

record client_attachment =
  ca_client_id :: string
  ca_client_kind :: string
  ca_display_state :: display_state
  ca_runtime_state :: runtime_state
  ca_recoverability :: recoverability
  ca_connected_at :: string
  ca_last_heartbeat :: string
  ca_stale_candidate :: bool
  ca_unknown_state :: bool

definition is_terminal :: "client_attachment \<Rightarrow> bool" where
  "is_terminal a \<longleftrightarrow> ca_runtime_state a = RExited"

text \<open>\<open>Inr None\<close> is a heartbeat that cannot be parsed; a naive one is read as UTC.\<close>

definition attachment_timestamp :: "client_attachment \<Rightarrow> py_exc + datetime option" where
  "attachment_timestamp a =
     (case read_iso (ca_last_heartbeat a) of
        None \<Rightarrow> Inr None
      | Some t \<Rightarrow>
          (case astimezone_utc (if is_aware t then t else with_utc t) of
             Inl e \<Rightarrow> Inl e
           | Inr u \<Rightarrow> Inr (Some u)))"

type_synonym terminal_item = "nat \<times> client_attachment \<times> datetime option"

text \<open>The loop: the terminal records whose heartbeat is not before the cutoff, with positions.\<close>

fun retained_terminals :: "int \<Rightarrow> (nat \<times> client_attachment) list \<Rightarrow> py_exc + terminal_item list" where
  "retained_terminals cutoff [] = Inr []"
| "retained_terminals cutoff ((i, a) # rest) =
     (if \<not> is_terminal a then retained_terminals cutoff rest
      else (case attachment_timestamp a of
          Inl e \<Rightarrow> Inl e
        | Inr t \<Rightarrow>
            (case retained_terminals cutoff rest of
               Inl e \<Rightarrow> Inl e
             | Inr items \<Rightarrow>
                 (case t of
                    Some u \<Rightarrow> if instant u < cutoff then Inr items else Inr ((i, a, t) # items)
                  | None \<Rightarrow> Inr ((i, a, t) # items)))))"

text \<open>The sort key: unparsable heartbeats above every time, ties by client id.\<close>

definition terminal_key :: "terminal_item \<Rightarrow> int \<times> int \<times> string" where
  "terminal_key it = (case it of (i, a, t) \<Rightarrow>
     (case t of None \<Rightarrow> (1, max_us - 1, ca_client_id a) | Some u \<Rightarrow> (0, instant u, ca_client_id a)))"

definition key_less :: "int \<times> int \<times> string \<Rightarrow> int \<times> int \<times> string \<Rightarrow> bool" where
  "key_less k l = (case (k, l) of ((a, b, c), (a', b', c')) \<Rightarrow>
     a < a' \<or> (a = a' \<and> (b < b' \<or> (b = b' \<and> c < c'))))"

text \<open>\<^verbatim>\<open>sorted(.., reverse=True)\<close> is stable: equal keys keep their order.\<close>

fun insert_newest :: "terminal_item \<Rightarrow> terminal_item list \<Rightarrow> terminal_item list" where
  "insert_newest x [] = [x]"
| "insert_newest x (y # ys) =
     (if key_less (terminal_key x) (terminal_key y) then y # insert_newest x ys else x # y # ys)"

definition newest_first :: "terminal_item list \<Rightarrow> terminal_item list" where
  "newest_first xs = foldr insert_newest xs []"

definition compact_attachment_registry ::
    "client_attachment list \<Rightarrow> datetime \<Rightarrow> int \<Rightarrow> nat \<Rightarrow> py_exc + client_attachment list" where
  "compact_attachment_registry atts now ttl limit =
     (case (if is_aware now \<and> 0 \<le> ttl then astimezone_utc now
            else Inl (AssertionError ''Precondition failed for compact_attachment_registry'')) of
        Inl e \<Rightarrow> Inl e
      | Inr utc_now \<Rightarrow>
     (case dt_minus utc_now ttl of
        Inl e \<Rightarrow> Inl e
      | Inr cutoff \<Rightarrow>
     (case retained_terminals (instant cutoff) (enumerate 0 atts) of
        Inl e \<Rightarrow> Inl e
      | Inr terminal \<Rightarrow>
          (let kept = (if limit < length terminal then take limit (newest_first terminal) else terminal);
               live = filter (\<lambda>(i, a). \<not> is_terminal a) (enumerate 0 atts);
               retained = sort_key fst (live @ map (\<lambda>(i, a, t). (i, a)) kept)
           in Inr (map snd retained)))))"


subsection \<open>What compaction keeps\<close>

definition stamp :: "client_attachment \<Rightarrow> datetime option" where
  "stamp a = (case attachment_timestamp a of Inr t \<Rightarrow> t | Inl _ \<Rightarrow> None)"

definition expired_before :: "int \<Rightarrow> client_attachment \<Rightarrow> bool" where
  "expired_before cutoff a = (case stamp a of Some u \<Rightarrow> instant u < cutoff | None \<Rightarrow> False)"

definition attachment_key :: "client_attachment \<Rightarrow> int \<times> int \<times> string" where
  "attachment_key a = terminal_key (0, a, stamp a)"

lemma retained_terminals_eq:
  "retained_terminals cutoff xs = Inr items \<Longrightarrow>
     items = map (\<lambda>(i, a). (i, a, stamp a)) (filter (\<lambda>(i, a). is_terminal a \<and> \<not> expired_before cutoff a) xs)"
proof (induction cutoff xs arbitrary: items rule: retained_terminals.induct)
  case (2 cutoff i a rest)
  show ?case
  proof (cases "is_terminal a")
    case False
    then show ?thesis using 2 by simp
  next
    case True
    then obtain t where t: "attachment_timestamp a = Inr t"
      using "2.prems" by (auto split: sum.splits)
    then have stamp: "stamp a = t" by (simp add: stamp_def)
    obtain more where more: "retained_terminals cutoff rest = Inr more"
      using "2.prems" True t by (auto split: sum.splits)
    have items: "items = (if expired_before cutoff a then more else (i, a, t) # more)"
      using "2.prems" True t more stamp by (auto simp: expired_before_def split: option.splits if_splits)
    show ?thesis using "2.IH"(2) [OF _ t more] True items stamp by simp
  qed
qed simp

lemma key_less_total: "\<not> key_less k l \<Longrightarrow> \<not> key_less l k \<Longrightarrow> k = l"
  by (cases k; cases l) (auto simp: key_less_def)

lemma key_less_trans: "key_less j k \<Longrightarrow> key_less k l \<Longrightarrow> key_less j l"
  by (cases j; cases k; cases l) (auto simp: key_less_def)

lemma key_less_irrefl [simp]: "\<not> key_less k k"
  by (cases k) (auto simp: key_less_def)

lemma key_less_asym: "key_less k l \<Longrightarrow> \<not> key_less l k"
  using key_less_trans [of k l k] by auto

lemma key_not_less_trans: "\<not> key_less j k \<Longrightarrow> \<not> key_less k l \<Longrightarrow> \<not> key_less j l"
  by (cases j; cases k; cases l) (auto simp: key_less_def)

lemma mset_insert_newest [simp]: "mset (insert_newest x xs) = add_mset x (mset xs)"
  by (induction xs) auto

lemma mset_newest_first [simp]: "mset (newest_first xs) = mset xs"
  by (induction xs) (auto simp: newest_first_def)

abbreviation not_newer :: "terminal_item \<Rightarrow> terminal_item \<Rightarrow> bool" where
  "not_newer x y \<equiv> \<not> key_less (terminal_key x) (terminal_key y)"

lemma set_insert_newest [simp]: "set (insert_newest x xs) = insert x (set xs)"
  using mset_insert_newest [of x xs] by (metis set_mset_add_mset_insert set_mset_mset)

lemma sorted_insert_newest:
  "sorted_wrt not_newer xs \<Longrightarrow> sorted_wrt not_newer (insert_newest x xs)"
proof (induction xs)
  case (Cons y ys)
  show ?case
  proof (cases "key_less (terminal_key x) (terminal_key y)")
    case True
    then show ?thesis using Cons by (auto dest: key_less_asym)
  next
    case False
    have "not_newer x z" if "z \<in> set ys" for z
      using key_not_less_trans [OF False, of "terminal_key z"] Cons.prems that by simp
    then show ?thesis using False Cons.prems by simp
  qed
qed simp

lemma sorted_newest_first: "sorted_wrt not_newer (newest_first xs)"
  by (induction xs) (auto simp: newest_first_def intro: sorted_insert_newest)

lemma take_newest:
  assumes "x \<in> set (take n (newest_first xs))" and "y \<in> set (drop n (newest_first xs))"
  shows "not_newer x y"
  using sorted_newest_first [of xs] assms
  by (metis append_take_drop_id sorted_wrt_append)

text \<open>Sorting by position rebuilds the sublist of the input that the chosen positions pick.\<close>

lemma sort_by_position:
  fixes xs :: "'a list"
  assumes d: "distinct (map fst ys)" and s: "set ys \<subseteq> set (enumerate 0 xs)"
  shows "sort_key fst ys = filter (\<lambda>it. it \<in> set ys) (enumerate 0 xs)"
proof (rule map_sorted_distinct_set_unique [where f = fst])
  show "inj_on fst (set (sort_key fst ys) \<union> set (filter (\<lambda>it. it \<in> set ys) (enumerate 0 xs)))"
    using d s by (auto simp: distinct_map inj_on_def)
  show "distinct (map fst (sort_key fst ys))"
    using d by (metis distinct_map distinct_sort set_sort)
  have *: "map fst (enumerate 0 xs) = [0..<length xs]" by (simp add: enumerate_eq_zip)
  have "sorted_wrt (<) (map fst (filter P (enumerate 0 xs)))" for P
    using * by (metis sorted_wrt_filter sorted_wrt_map sorted_wrt_upt)
  then show "sorted (map fst (filter (\<lambda>it. it \<in> set ys) (enumerate 0 xs)))"
    and "distinct (map fst (filter (\<lambda>it. it \<in> set ys) (enumerate 0 xs)))"
    by (auto simp: strict_sorted_iff)
  show "set (sort_key fst ys) = set (filter (\<lambda>it. it \<in> set ys) (enumerate 0 xs))"
    using s by auto
qed simp


lemma terminal_indices:
  assumes "retained_terminals cutoff (enumerate 0 atts) = Inr items"
  shows "distinct (map fst items)"
    and "set (map (\<lambda>(i, a, t). (i, a)) items) \<subseteq> set (enumerate 0 atts)"
    and "(i, a, t) \<in> set items \<longleftrightarrow>
           (i, a) \<in> set (enumerate 0 atts) \<and> is_terminal a \<and> \<not> expired_before cutoff a \<and> t = stamp a"
proof -
  define P where "P = (\<lambda>(i :: nat, a). is_terminal a \<and> \<not> expired_before cutoff a)"
  have items: "items = map (\<lambda>(i, a). (i, a, stamp a)) (filter P (enumerate 0 atts))"
    using retained_terminals_eq [OF assms] by (simp add: P_def)
  have "map fst items = map fst (filter P (enumerate 0 atts))"
    unfolding items by (simp add: case_prod_beta)
  moreover have "distinct (map fst (filter P (enumerate 0 atts)))"
    by (rule distinct_map_filter) (simp add: enumerate_eq_zip)
  ultimately show "distinct (map fst items)" by simp
  show "set (map (\<lambda>(i, a, t). (i, a)) items) \<subseteq> set (enumerate 0 atts)"
    by (auto simp: items)
  show "(i, a, t) \<in> set items \<longleftrightarrow>
      (i, a) \<in> set (enumerate 0 atts) \<and> is_terminal a \<and> \<not> expired_before cutoff a \<and> t = stamp a"
    by (auto simp: items P_def)
qed

text \<open>
  The result as the input filtered by position: \<open>kept\<close> are the terminal items that survive the
  age limit and then the count limit.
\<close>

lemma compact_filter:
  assumes "compact_attachment_registry atts now ttl limit = Inr out"
  obtains kept where
    "out = map snd (filter (\<lambda>(i, a). \<not> is_terminal a \<or> (i, a, stamp a) \<in> set kept) (enumerate 0 atts))"
    and "length kept \<le> limit" and "distinct (map fst kept)"
    and "\<And>i a t. (i, a, t) \<in> set kept \<Longrightarrow> (i, a) \<in> set (enumerate 0 atts) \<and> is_terminal a
           \<and> \<not> expired_before (instant now - ttl) a \<and> t = stamp a"
    and "\<And>i a j b s. (i, a) \<in> set (enumerate 0 atts) \<Longrightarrow> is_terminal a \<Longrightarrow>
           \<not> expired_before (instant now - ttl) a \<Longrightarrow> (i, a, stamp a) \<notin> set kept \<Longrightarrow>
           (j, b, s) \<in> set kept \<Longrightarrow> \<not> key_less (attachment_key b) (attachment_key a)"
    and "\<And>i a. (i, a) \<in> set (enumerate 0 atts) \<Longrightarrow> is_terminal a \<Longrightarrow>
           \<not> expired_before (instant now - ttl) a \<Longrightarrow> (i, a, stamp a) \<notin> set kept \<Longrightarrow> length kept = limit"
proof -
  let ?en = "enumerate 0 atts"
  obtain u c items where u: "astimezone_utc now = Inr u" and c: "dt_minus u ttl = Inr c"
    and items: "retained_terminals (instant c) ?en = Inr items"
    and out: "out = map snd (sort_key fst (filter (\<lambda>(i, a). \<not> is_terminal a) ?en @
        map (\<lambda>(i, a, t). (i, a))
          (if limit < length items then take limit (newest_first items) else items)))"
    using assms by (auto simp: compact_attachment_registry_def Let_def split: if_splits sum.splits)
  have cut: "instant c = instant now - ttl"
    using astimezone_utc_Inr [OF u] c by (auto simp: dt_minus_def instant_def split: if_splits)
  note T = terminal_indices [OF items, unfolded cut]
  define kept where "kept = (if limit < length items then take limit (newest_first items) else items)"
  have sub: "set kept \<subseteq> set items"
    using set_take_subset [of limit "newest_first items"]
    by (auto simp: kept_def simp flip: set_mset_mset)
  have dk: "distinct (map fst kept)"
  proof -
    have "mset (map fst (newest_first items)) = mset (map fst items)" by simp
    then have "distinct (map fst (newest_first items))" using T(1) by (metis mset_eq_imp_distinct_iff)
    then show ?thesis using T(1) by (simp add: kept_def take_map [symmetric])
  qed
  have kin: "(i, a) \<in> set ?en \<and> is_terminal a \<and> \<not> expired_before (instant now - ttl) a \<and> t = stamp a"
    if "(i, a, t) \<in> set kept" for i a t
    using that sub T(3) by blast
  have evict: "limit < length items \<and> (i, a, stamp a) \<in> set (drop limit (newest_first items))"
    if "(i, a) \<in> set ?en" "is_terminal a" "\<not> expired_before (instant now - ttl) a"
      "(i, a, stamp a) \<notin> set kept" for i a
  proof -
    have "(i, a, stamp a) \<in> set items" using that T(3) by blast
    moreover have "set (newest_first items) = set items"
      using mset_newest_first [of items] by (metis set_mset_mset)
    moreover have "set (newest_first items)
        = set (take limit (newest_first items)) \<union> set (drop limit (newest_first items))"
      by (metis append_take_drop_id set_append)
    ultimately show ?thesis using that(4) by (auto simp: kept_def split: if_splits)
  qed
  show ?thesis
  proof (rule that [of kept])
    let ?ys = "filter (\<lambda>(i, a). \<not> is_terminal a) ?en @ map (\<lambda>(i, a, t). (i, a)) kept"
    have "map fst (map (\<lambda>(i, a, t). (i, a)) kept) = map fst kept" by (induction kept) auto
    moreover have "distinct (map fst (filter (\<lambda>(i, a). \<not> is_terminal a) ?en))"
      by (rule distinct_map_filter) (simp add: enumerate_eq_zip)
    moreover have clash: "False"
      if "(i, a) \<in> set ?en" "\<not> is_terminal a" "(i, b, t) \<in> set kept" for i a b t
      using that kin [of i b t] by (auto simp: enumerate_eq_zip in_set_zip)
    have "set (map fst (filter (\<lambda>(i, a). \<not> is_terminal a) ?en)) \<inter> set (map fst kept) = {}"
      by (auto dest: clash)
    ultimately have "distinct (map fst ?ys)"
      using dk by (simp only: map_append distinct_append simp_thms)
    moreover have "set ?ys \<subseteq> set ?en" using kin by auto
    ultimately have "sort_key fst ?ys = filter (\<lambda>it. it \<in> set ?ys) ?en"
      by (rule sort_by_position)
    also have "\<dots> = filter (\<lambda>(i, a). \<not> is_terminal a \<or> (i, a, stamp a) \<in> set kept) ?en"
      by (rule filter_cong) (use kin in \<open>auto simp: image_iff\<close>)
    finally show "out = map snd (filter (\<lambda>(i, a). \<not> is_terminal a \<or> (i, a, stamp a) \<in> set kept) ?en)"
      unfolding out kept_def by simp
    show "length kept \<le> limit" by (auto simp: kept_def)
    show "\<not> key_less (attachment_key b) (attachment_key a)"
      if "(i, a) \<in> set ?en" "is_terminal a" "\<not> expired_before (instant now - ttl) a"
        "(i, a, stamp a) \<notin> set kept" "(j, b, s) \<in> set kept" for i a j b s
      using take_newest [of "(j, b, s)" limit items "(i, a, stamp a)"] evict [OF that(1-4)] that(5)
        kin [OF that(5)]
      by (simp add: kept_def attachment_key_def terminal_key_def)
    show "length kept = limit"
      if "(i, a) \<in> set ?en" "is_terminal a" "\<not> expired_before (instant now - ttl) a"
        "(i, a, stamp a) \<notin> set kept" for i a
    proof -
      have "length (newest_first items) = length items"
        using mset_newest_first [of items] by (metis size_mset)
      then show ?thesis using evict [OF that] by (simp add: kept_def)
    qed
  qed (use dk kin in auto)
qed


text \<open>The records, in the order of the input: what stays and what may go.\<close>

lemma filter_snd_enumerate: "map snd (filter (\<lambda>(i, a). P a) (enumerate n xs)) = filter P xs"
  by (induction xs arbitrary: n) auto

lemma subseq_map_snd_filter: "subseq (map snd (filter P (enumerate n xs))) xs"
proof -
  have "map snd (enumerate n xs) = xs" by (simp add: enumerate_eq_zip)
  then show ?thesis by (metis subseq_filter_left subseq_map)
qed

lemma compact_live:
  assumes "compact_attachment_registry atts now ttl limit = Inr out"
  shows "filter (\<lambda>a. \<not> is_terminal a) out = filter (\<lambda>a. \<not> is_terminal a) atts"
proof -
  obtain kept where out: "out = map snd (filter
      (\<lambda>(i, a). \<not> is_terminal a \<or> (i, a, stamp a) \<in> set kept) (enumerate 0 atts))"
    using assms by (rule compact_filter)
  have "filter (\<lambda>a. \<not> is_terminal a) out
      = map snd (filter (\<lambda>(i, a). \<not> is_terminal a) (enumerate 0 atts))"
    unfolding out filter_map filter_filter comp_def
    by (intro arg_cong [where f = "map snd"] filter_cong) auto
  then show ?thesis by (simp add: filter_snd_enumerate)
qed

lemma compact_terminal_bound:
  assumes "compact_attachment_registry atts now ttl limit = Inr out"
  shows "length (filter is_terminal out) \<le> limit"
proof -
  obtain kept where out: "out = map snd (filter
      (\<lambda>(i, a). \<not> is_terminal a \<or> (i, a, stamp a) \<in> set kept) (enumerate 0 atts))"
    and len: "length kept \<le> limit" and kin: "\<And>i a t. (i, a, t) \<in> set kept \<Longrightarrow> is_terminal a"
    using assms by (rule compact_filter) blast
  let ?f = "filter (\<lambda>(i, a). is_terminal a \<and> (i, a, stamp a) \<in> set kept) (enumerate 0 atts)"
  have "filter is_terminal out = map snd ?f"
    unfolding out filter_map filter_filter comp_def
    by (intro arg_cong [where f = "map snd"] filter_cong) auto
  moreover have "length ?f \<le> length kept"
  proof -
    have "distinct ?f" by (rule distinct_filter) simp
    then have "length ?f = card (set ?f)" by (rule distinct_card [symmetric])
    also have "\<dots> \<le> card ((\<lambda>(i, a, t). (i, a)) ` set kept)"
      by (rule card_mono) (force simp: image_iff)+
    also have "\<dots> \<le> length kept" by (meson card_image_le card_length finite_set le_trans)
    finally show ?thesis .
  qed
  ultimately show ?thesis using len by simp
qed

lemma compact_subseq:
  "compact_attachment_registry atts now ttl limit = Inr out \<Longrightarrow> subseq out atts"
  by (erule compact_filter) (simp add: subseq_map_snd_filter)

lemma compact_not_expired:
  assumes "compact_attachment_registry atts now ttl limit = Inr out"
    and "a \<in> set out" and "is_terminal a"
  shows "\<not> expired_before (instant now - ttl) a"
proof -
  obtain kept where out: "out = map snd (filter
      (\<lambda>(i, a). \<not> is_terminal a \<or> (i, a, stamp a) \<in> set kept) (enumerate 0 atts))"
    and kin: "\<And>i a t. (i, a, t) \<in> set kept \<Longrightarrow> \<not> expired_before (instant now - ttl) a"
    using assms(1) by (rule compact_filter) blast
  obtain i where "(i, a, stamp a) \<in> set kept" using assms(2,3) by (auto simp: out)
  then show ?thesis by (rule kin)
qed

text \<open>A record that goes although it is young enough was crowded out by records not older than it.\<close>

lemma compact_evicted:
  assumes c: "compact_attachment_registry atts now ttl limit = Inr out"
    and a: "a \<in> set atts" "a \<notin> set out" and young: "\<not> expired_before (instant now - ttl) a"
    and b: "b \<in> set out" "is_terminal b"
  shows "is_terminal a \<and> \<not> key_less (attachment_key b) (attachment_key a)"
  using c
proof (rule compact_filter)
  fix kept
  assume out: "out = map snd (filter
      (\<lambda>(i, a). \<not> is_terminal a \<or> (i, a, stamp a) \<in> set kept) (enumerate 0 atts))"
    and old: "\<And>i a j b s. (i, a) \<in> set (enumerate 0 atts) \<Longrightarrow> is_terminal a \<Longrightarrow>
           \<not> expired_before (instant now - ttl) a \<Longrightarrow> (i, a, stamp a) \<notin> set kept \<Longrightarrow>
           (j, b, s) \<in> set kept \<Longrightarrow> \<not> key_less (attachment_key b) (attachment_key a)"
  obtain i where "i < length atts" "atts ! i = a" using a(1) by (auto simp: in_set_conv_nth)
  then have i: "(i, a) \<in> set (enumerate 0 atts)" by (simp add: in_set_enumerate_eq)
  have gone: "is_terminal a \<and> (i, a, stamp a) \<notin> set kept"
  proof (rule ccontr)
    assume "\<not> ?thesis"
    with i have "a \<in> snd ` set (filter
        (\<lambda>(i, a). \<not> is_terminal a \<or> (i, a, stamp a) \<in> set kept) (enumerate 0 atts))"
      by (force simp: image_iff)
    with a(2) show False by (simp add: out)
  qed
  obtain j where "(j, b, stamp b) \<in> set kept" using b by (auto simp: out)
  with gone i young old show ?thesis by blast
qed

text \<open>
  A heartbeat that parses but has no UTC instant, the very first hour east of Greenwich, stops
  the compaction with an exception.
\<close>

definition edge_attachment :: client_attachment where
  "edge_attachment = \<lparr>ca_client_id = ''c1'', ca_client_kind = ''cli'', ca_display_state = DExited,
     ca_runtime_state = RExited, ca_recoverability = VNotRecoverable,
     ca_connected_at = ''2026-01-01T00:00:00Z'', ca_last_heartbeat = ''0001-01-01T00:00:00+01:00'',
     ca_stale_candidate = False, ca_unknown_state = False\<rparr>"


section \<open>Properties\<close>

text \<open>Compaction of the attachment registry keeps a sublist of the records: every live
  record, no terminal record older than the age limit, at most \<open>limit\<close> terminal records; and a
  terminal record that is young enough is dropped only in favour of records not older than it.\<close>

theorem compaction_keeps_live_and_newest:
  assumes "compact_attachment_registry atts now ttl limit = Inr out"
  shows "subseq out atts
    \<and> filter (\<lambda>a. \<not> is_terminal a) out = filter (\<lambda>a. \<not> is_terminal a) atts
    \<and> length (filter is_terminal out) \<le> limit
    \<and> (\<forall>a \<in> set out. is_terminal a \<longrightarrow> \<not> expired_before (instant now - ttl) a)
    \<and> (\<forall>a \<in> set atts - set out. \<not> expired_before (instant now - ttl) a \<longrightarrow>
         is_terminal a \<and> (\<forall>b \<in> set out. is_terminal b \<longrightarrow> \<not> key_less (attachment_key b) (attachment_key a)))"
proof (intro conjI ballI impI)
  fix a assume a: "a \<in> set atts - set out" "\<not> expired_before (instant now - ttl) a"
  have key: "is_terminal a \<and> \<not> key_less (attachment_key b) (attachment_key a)"
    if "b \<in> set out" "is_terminal b" for b
    using compact_evicted [OF assms _ _ a(2) that] a(1) by blast
  have "a \<in> set (filter (\<lambda>a. \<not> is_terminal a) atts) \<longleftrightarrow> a \<in> set (filter (\<lambda>a. \<not> is_terminal a) out)"
    by (simp only: compact_live [OF assms])
  then show "is_terminal a" using a(1) by auto
  show "\<not> key_less (attachment_key b) (attachment_key a)" if "b \<in> set out" "is_terminal b" for b
    using key [OF that] by blast
qed (use compact_subseq [OF assms] compact_live [OF assms] compact_terminal_bound [OF assms]
    compact_not_expired [OF assms] in blast)+

definition sample_attachment :: "string \<Rightarrow> string \<Rightarrow> client_attachment" where
  "sample_attachment cid heartbeat = edge_attachment\<lparr>ca_client_id := cid, ca_last_heartbeat := heartbeat\<rparr>"

lemma compaction_witness:
  "\<exists>out. compact_attachment_registry
      [sample_attachment ''old'' ''2026-01-01T00:00:00Z'', sample_attachment ''new'' ''2026-01-02T00:00:00Z'']
      (Datetime 63908006400000000 (Some 0)) (1000 * us_per_day) 1 = Inr out
    \<and> length (filter is_terminal out) \<le> 1"
proof -
  have "compact_attachment_registry
      [sample_attachment ''old'' ''2026-01-01T00:00:00Z'', sample_attachment ''new'' ''2026-01-02T00:00:00Z'']
      (Datetime 63908006400000000 (Some 0)) (1000 * us_per_day) 1
    = Inr [sample_attachment ''new'' ''2026-01-02T00:00:00Z'']"
    by code_simp
  from this compaction_keeps_live_and_newest [OF this] show ?thesis by blast
qed

text \<open>A heartbeat that is a valid time but has no UTC instant within the years 1 to 9999 makes
  the compaction of the whole registry raise, where a heartbeat that cannot be parsed is retained.\<close>

theorem edge_heartbeat_stops_compaction:
  "compact_attachment_registry [edge_attachment] (Datetime 63908006400000000 (Some 0)) us_per_day 5
     = Inl (OverflowError ''date value out of range'')
   \<and> compact_attachment_registry [edge_attachment\<lparr>ca_last_heartbeat := ''not a time''\<rparr>]
       (Datetime 63908006400000000 (Some 0)) us_per_day 5
     = Inr [edge_attachment\<lparr>ca_last_heartbeat := ''not a time''\<rparr>]"
  by code_simp

text \<open>The displayed state of a client that is attached in a normal mode depends only on the age
  of its heartbeat: healthy up to ninety seconds, degraded beyond; and the idle state, which the
  display rules mention, is never produced.\<close>

theorem display_state_of_attached_client:
  assumes "kind \<noteq> ''unknown''" and "mode \<noteq> ''recovery''"
  shows "classify_attachment_display_state (classify_runtime_state kind (Some mode) True)
      (classify_recoverability kind (classify_runtime_state kind (Some mode) True) (Some age)) False False
     = (if age > 90 then DDegraded else DHealthy)
   \<and> classify_runtime_state kind (Some mode) active \<noteq> RIdle"
  using display_of_live_client [OF assms] idle_is_unreachable by simp

lemma display_state_witness:
  "classify_attachment_display_state (classify_runtime_state ''cli'' (Some ''normal'') True)
     (classify_recoverability ''cli'' (classify_runtime_state ''cli'' (Some ''normal'') True) (Some 91))
     False False = DDegraded"
  using display_state_of_attached_client [of "''cli''" "''normal''" 91] by simp

end
