(* ===== verification/Family.thy ===== *)
theory Family
  imports Classification
begin

text \<open>
  \<^verbatim>\<open>core/family.py\<close>: from the tools a downstream server lists to the tools the gateway
  exposes. \<open>resolve_tools\<close> filters excluded names, composes the exposed name, refuses reserved
  names, assigns family and posture, and optionally rewrites back-quoted raw names in
  descriptions. The lemmas give the shape of an accepted tool list and the exact condition
  under which a list is refused; the rewriting is shown equal to renaming the tokens of a
  lossless split of the text.
\<close>


section \<open>Families and exclusions\<close>

definition child_tela_builtins :: "string list" where
  "child_tela_builtins = [''tela_list_providers'', ''tela_list_profiles'']"

definition family_of :: "string \<Rightarrow> server_config \<Rightarrow> string" where
  "family_of tool_name sc =
     (case Option.bind (dget (sc_tool_overrides sc) tool_name) to_family of
        Some f \<Rightarrow> f
      | None \<Rightarrow> (case sc_family sc of Some f \<Rightarrow> f | None \<Rightarrow> sc_name sc))"

definition resolve_family :: "string \<Rightarrow> server_config \<Rightarrow> py_exc + string" where
  "resolve_family tool_name sc =
     (if tool_name = [] then Inl (AssertionError ''Precondition failed for resolve_family'')
      else if family_of tool_name sc = [] then
        Inl (AssertionError ''Postcondition failed for resolve_family'')
      else Inr (family_of tool_name sc))"

definition excluded_names :: "server_config \<Rightarrow> string set" where
  "excluded_names sc =
     set (sc_exclude_tools sc) \<union> (if sc_nested_gateway sc then set child_tela_builtins else {})"

definition effective_exclude_tools :: "server_config \<Rightarrow> py_exc + string set" where
  "effective_exclude_tools sc =
     (if [] \<in> set (sc_exclude_tools sc) then
        Inl (AssertionError ''Postcondition failed for effective_exclude_tools'')
      else Inr (excluded_names sc))"


section \<open>Rewriting descriptions\<close>

text \<open>\<^verbatim>\<open>re.sub("`([^`]+)`", ..)\<close>: a scan from the left that never looks back.\<close>

abbreviation tick :: char where
  "tick \<equiv> CHR 0x60"

definition lookup_name :: "(string, string) dict \<Rightarrow> string \<Rightarrow> string" where
  "lookup_name m n = (case dget m n of Some e \<Rightarrow> e | None \<Rightarrow> n)"

text \<open>At a back quote: is it closed, around at least one character, and what is inside?\<close>

definition quoted_name :: "string \<Rightarrow> string" where
  "quoted_name cs = takeWhile (\<lambda>d. d \<noteq> tick) cs"

definition after_quote :: "string \<Rightarrow> string" where
  "after_quote cs = tl (dropWhile (\<lambda>d. d \<noteq> tick) cs)"

definition opens_quote :: "char \<Rightarrow> string \<Rightarrow> bool" where
  "opens_quote c cs \<longleftrightarrow> c = tick \<and> quoted_name cs \<noteq> [] \<and> dropWhile (\<lambda>d. d \<noteq> tick) cs \<noteq> []"

lemma after_quote_shorter [termination_simp]: "length (after_quote cs) \<le> length cs"
  unfolding after_quote_def
  by (metis diff_le_self le_trans length_dropWhile_le length_tl)

lemma opens_quote_split:
  assumes "opens_quote c cs"
  shows "c = tick" and "cs = quoted_name cs @ tick # after_quote cs"
proof -
  have ne: "dropWhile (\<lambda>d. d \<noteq> tick) cs \<noteq> []" using assms by (simp add: opens_quote_def)
  then have "hd (dropWhile (\<lambda>d. d \<noteq> tick) cs) = tick" using hd_dropWhile [OF ne] by simp
  then have "dropWhile (\<lambda>d. d \<noteq> tick) cs = tick # after_quote cs"
    using ne by (metis after_quote_def list.collapse)
  then show "cs = quoted_name cs @ tick # after_quote cs"
    by (metis quoted_name_def takeWhile_dropWhile_id)
  show "c = tick" using assms by (simp add: opens_quote_def)
qed

fun rewrite_tool_description :: "string \<Rightarrow> (string, string) dict \<Rightarrow> string" where
  "rewrite_tool_description [] m = []"
| "rewrite_tool_description (c # cs) m =
     (if opens_quote c cs
      then tick # lookup_name m (quoted_name cs) @ tick # rewrite_tool_description (after_quote cs) m
      else c # rewrite_tool_description cs m)"

text \<open>The same scan as a lossless split of the text into single characters and quoted names.\<close>

datatype token = Plain char | Quoted string

fun token_text :: "token \<Rightarrow> string" where
  "token_text (Plain c) = [c]"
| "token_text (Quoted n) = tick # n @ [tick]"

fun rename_token :: "(string, string) dict \<Rightarrow> token \<Rightarrow> token" where
  "rename_token m (Plain c) = Plain c"
| "rename_token m (Quoted n) = Quoted (lookup_name m n)"

fun tokens :: "string \<Rightarrow> token list" where
  "tokens [] = []"
| "tokens (c # cs) =
     (if opens_quote c cs then Quoted (quoted_name cs) # tokens (after_quote cs)
      else Plain c # tokens cs)"

definition untokens :: "token list \<Rightarrow> string" where
  "untokens ts = concat (map token_text ts)"

lemma untokens_tokens: "untokens (tokens s) = s"
proof (induction s rule: tokens.induct)
  case (2 c cs)
  then show ?case
    using opens_quote_split [of c cs] by (cases "opens_quote c cs") (simp_all add: untokens_def)
qed (simp add: untokens_def)

lemma rewrite_tokens: "rewrite_tool_description s m = untokens (map (rename_token m) (tokens s))"
  by (induction s rule: tokens.induct) (auto simp: untokens_def)

text \<open>A text that quotes none of the mapped names is left alone.\<close>

lemma rewrite_unmentioned:
  assumes "\<And>n. Quoted n \<in> set (tokens s) \<Longrightarrow> dget m n = None"
  shows "rewrite_tool_description s m = s"
proof -
  have "rename_token m t = t" if "t \<in> set (tokens s)" for t
    using that assms by (cases t rule: token.exhaust) (simp_all add: lookup_name_def)
  then have "map (rename_token m) (tokens s) = tokens s" by (simp add: map_idI)
  then show ?thesis by (simp add: rewrite_tokens untokens_tokens)
qed


section \<open>Resolving a tool list\<close>

text \<open>The exposed name of a raw name: \<open>None\<close> and the empty prefix add nothing.\<close>

definition exposed_name :: "server_config \<Rightarrow> string \<Rightarrow> string" where
  "exposed_name sc raw = (case sc_tool_prefix sc of None \<Rightarrow> raw | Some p \<Rightarrow> p @ raw)"

definition reserved_prefix :: "server_config \<Rightarrow> bool" where
  "reserved_prefix sc = (case sc_tool_prefix sc of None \<Rightarrow> False | Some p \<Rightarrow> reserved_name p)"

definition resolve_one :: "string \<Rightarrow> server_config \<Rightarrow> raw_tool \<Rightarrow> py_exc + resolved_tool" where
  "resolve_one server_name sc raw_tool =
     (let raw = raw_name raw_tool; exposed = exposed_name sc raw in
      if reserved_prefix sc then
        Inl (ValueError (''ServerConfig.tool_prefix '' @ squote (the (sc_tool_prefix sc))
               @ '' uses reserved namespace''))
      else if raw \<in> set child_tela_builtins \<and> \<not> has_prefix sc then
        Inl (ValueError (''NESTED_TELA_PREFIX_REQUIRED: downstream child Tela built-in '' @ squote raw
               @ '' requires a non-empty tool_prefix unless filtered''))
      else if reserved_name exposed then
        Inl (ValueError (''Resolved tool name '' @ squote exposed @ '' enters reserved namespace''))
      else (case resolve_family raw sc of
          Inl e \<Rightarrow> Inl e
        | Inr family \<Rightarrow> Inr \<lparr>
            rt_name = exposed,
            rt_raw_name = Some raw,
            rt_server_name = server_name,
            rt_family = family,
            rt_posture = classify_tool raw sc (raw_annotations raw_tool),
            rt_schema = (case raw_schema raw_tool of Some s \<Rightarrow> s | None \<Rightarrow> []),
            rt_description = (case raw_description raw_tool of Some d \<Rightarrow> d | None \<Rightarrow> []),
            rt_annotations = raw_annotations raw_tool,
            rt_title = raw_title raw_tool,
            rt_output_schema = raw_output_schema raw_tool\<rparr>))"

text \<open>The opt-in second pass over the resolved tools; later raw names win in the mapping.\<close>

definition raw_to_exposed :: "resolved_tool list \<Rightarrow> (string, string) dict" where
  "raw_to_exposed rts =
     dupdate [] (concat (map (\<lambda>rt. case rt_raw_name rt of Some r \<Rightarrow> [(r, rt_name rt)] | None \<Rightarrow> []) rts))"

definition rewrite_tool :: "(string, string) dict \<Rightarrow> resolved_tool \<Rightarrow> resolved_tool" where
  "rewrite_tool m rt =
     (if rt_description rt = [] then rt
      else (let new_desc = rewrite_tool_description (rt_description rt) m
            in if new_desc \<noteq> rt_description rt then rt\<lparr>rt_description := new_desc\<rparr> else rt))"

definition rewrite_descriptions :: "server_config \<Rightarrow> resolved_tool list \<Rightarrow> resolved_tool list" where
  "rewrite_descriptions sc rts =
     (if sc_rewrite_descriptions sc \<and> sc_tool_prefix sc \<noteq> None
      then map (rewrite_tool (raw_to_exposed rts)) rts else rts)"

definition resolve_tools ::
    "string \<Rightarrow> server_config \<Rightarrow> raw_tool list \<Rightarrow> py_exc + resolved_tool list" where
  "resolve_tools server_name sc tool_list =
     (if server_name = [] then Inl (AssertionError ''Precondition failed for resolve_tools'')
      else (case effective_exclude_tools sc of
          Inl e \<Rightarrow> Inl e
        | Inr excludes \<Rightarrow>
            (case mapE (resolve_one server_name sc) (filter (\<lambda>t. raw_name t \<notin> excludes) tool_list) of
               Inl e \<Rightarrow> Inl e
             | Inr rts \<Rightarrow> Inr (rewrite_descriptions sc rts))))"

text \<open>What \<open>resolve_tools\<close> lets through, tool by tool.\<close>

definition offered :: "server_config \<Rightarrow> raw_tool list \<Rightarrow> raw_tool list" where
  "offered sc tool_list = filter (\<lambda>t. raw_name t \<notin> excluded_names sc) tool_list"

definition acceptable :: "server_config \<Rightarrow> raw_tool \<Rightarrow> bool" where
  "acceptable sc t \<longleftrightarrow>
     \<not> reserved_prefix sc
     \<and> (raw_name t \<in> set child_tela_builtins \<longrightarrow> has_prefix sc)
     \<and> \<not> reserved_name (exposed_name sc (raw_name t))
     \<and> raw_name t \<noteq> [] \<and> family_of (raw_name t) sc \<noteq> []"

definition resolves_to :: "string \<Rightarrow> server_config \<Rightarrow> raw_tool \<Rightarrow> resolved_tool \<Rightarrow> bool" where
  "resolves_to server_name sc t rt \<longleftrightarrow>
     acceptable sc t
     \<and> rt_name rt = exposed_name sc (raw_name t) \<and> rt_raw_name rt = Some (raw_name t)
     \<and> rt_server_name rt = server_name \<and> rt_family rt = family_of (raw_name t) sc
     \<and> rt_posture rt = classify_tool (raw_name t) sc (raw_annotations t)"

lemma resolve_one_ok: "(\<exists>rt. resolve_one s sc t = Inr rt) \<longleftrightarrow> acceptable sc t"
  by (auto simp: resolve_one_def acceptable_def resolve_family_def Let_def)

lemma resolve_one_Inr: "resolve_one s sc t = Inr rt \<Longrightarrow> resolves_to s sc t rt"
  by (auto simp: resolve_one_def resolves_to_def acceptable_def resolve_family_def Let_def
      split: if_splits)

lemma rewrite_tool_fields [simp]:
  "rt_name (rewrite_tool m rt) = rt_name rt" "rt_raw_name (rewrite_tool m rt) = rt_raw_name rt"
  "rt_server_name (rewrite_tool m rt) = rt_server_name rt"
  "rt_family (rewrite_tool m rt) = rt_family rt" "rt_posture (rewrite_tool m rt) = rt_posture rt"
  by (simp_all add: rewrite_tool_def Let_def)

lemma rewrite_descriptions_nth:
  "i < length rts \<Longrightarrow> \<exists>m. rewrite_descriptions sc rts ! i = rewrite_tool m (rts ! i) \<or>
     rewrite_descriptions sc rts ! i = rts ! i"
  by (auto simp: rewrite_descriptions_def)

lemma length_rewrite_descriptions [simp]: "length (rewrite_descriptions sc rts) = length rts"
  by (simp add: rewrite_descriptions_def)

lemma resolves_to_rewrite: "resolves_to s sc t (rewrite_tool m rt) = resolves_to s sc t rt"
  by (simp add: resolves_to_def)

lemma resolve_tools_Inr_iff:
  "(\<exists>rts. resolve_tools s sc ts = Inr rts) \<longleftrightarrow>
     s \<noteq> [] \<and> [] \<notin> set (sc_exclude_tools sc) \<and> list_all (acceptable sc) (offered sc ts)"
proof (cases "s \<noteq> [] \<and> [] \<notin> set (sc_exclude_tools sc)")
  case True
  have "(\<exists>rts. resolve_tools s sc ts = Inr rts)
      \<longleftrightarrow> (\<exists>rts. mapE (resolve_one s sc) (offered sc ts) = Inr rts)"
    using True by (auto simp: resolve_tools_def effective_exclude_tools_def offered_def split: sum.splits)
  then show ?thesis using True by (simp add: mapE_Inr_iff resolve_one_ok list_all_iff)
qed (auto simp: resolve_tools_def effective_exclude_tools_def)

lemma resolve_tools_Inr:
  assumes "resolve_tools s sc ts = Inr rts"
  shows "list_all2 (resolves_to s sc) (offered sc ts) rts"
proof -
  obtain rts0 where m: "mapE (resolve_one s sc) (offered sc ts) = Inr rts0"
    and rts: "rts = rewrite_descriptions sc rts0"
    using assms
    by (auto simp: resolve_tools_def effective_exclude_tools_def offered_def split: if_splits sum.splits)
  have "resolves_to s sc (offered sc ts ! i) (rts ! i)" if "i < length (offered sc ts)" for i
  proof -
    have "resolves_to s sc (offered sc ts ! i) (rts0 ! i)"
      using mapE_Inr [OF m] that by (intro resolve_one_Inr) simp
    then show ?thesis
      using mapE_Inr [OF m] that rewrite_descriptions_nth [of i rts0 sc]
      by (auto simp: rts resolves_to_rewrite)
  qed
  then show ?thesis using mapE_Inr [OF m] by (simp add: list_all2_conv_all_nth rts)
qed

lemma resolve_tools_set:
  assumes "resolve_tools s sc ts = Inr rts" and "rt \<in> set rts"
  obtains t where "t \<in> set ts" and "raw_name t \<notin> excluded_names sc" and "resolves_to s sc t rt"
proof -
  obtain t where "t \<in> set (offered sc ts)" "resolves_to s sc t rt"
    using resolve_tools_Inr [OF assms(1)] assms(2)
    by (metis in_set_conv_nth list_all2_conv_all_nth)
  then show ?thesis using that by (auto simp: offered_def)
qed

lemma resolve_tools_names:
  assumes "resolve_tools s sc ts = Inr rts" and "rt \<in> set rts"
  shows "\<not> reserved_name (rt_name rt)" and "rt_server_name rt = s" and "rt_family rt \<noteq> []"
    and "rt_name rt \<noteq> []"
  using assms
  by (auto elim!: resolve_tools_set simp: resolves_to_def acceptable_def exposed_name_def split: option.splits)

lemma resolve_tools_distinct:
  assumes "resolve_tools s sc ts = Inr rts" and "distinct (map raw_name ts)"
  shows "distinct (map rt_name rts)"
proof -
  have "map rt_name rts = map (\<lambda>t. exposed_name sc (raw_name t)) (offered sc ts)"
    using resolve_tools_Inr [OF assms(1)]
    by (auto simp: list_all2_conv_all_nth resolves_to_def intro!: nth_equalityI)
  moreover have "distinct (map raw_name (offered sc ts))"
    using assms(2) by (auto simp: offered_def distinct_map inj_on_def)
  then have "distinct (map (\<lambda>t. exposed_name sc (raw_name t)) (offered sc ts))"
    by (auto simp: distinct_map inj_on_def exposed_name_def split: option.splits)
  ultimately show ?thesis by simp
qed


section \<open>Properties\<close>

definition prefixed_server :: server_config where
  "prefixed_server = (server_named ''child'')\<lparr>sc_tool_prefix := Some ''host_'', sc_nested_gateway := True,
     sc_rewrite_descriptions := True\<rparr>"

definition listed :: "string \<Rightarrow> string \<Rightarrow> raw_tool" where
  "listed n desc = \<lparr>raw_name = n, raw_schema = Some [], raw_description = Some desc,
     raw_annotations = None, raw_title = None, raw_output_schema = None\<rparr>"

text \<open>A tool list is accepted exactly when the server and the exclusion list are well formed and
  every tool that is not excluded is acceptable: no reserved prefix, a prefix in front of the
  names of nested built-ins, an exposed name outside the reserved namespace, and non-empty names.\<close>

theorem resolve_tools_accepts:
  "(\<exists>rts. resolve_tools s sc ts = Inr rts) =
     (s \<noteq> [] \<and> [] \<notin> set (sc_exclude_tools sc) \<and> list_all (acceptable sc) (offered sc ts))"
  by (rule resolve_tools_Inr_iff)

text \<open>C20: Resolution maps the tools that are not excluded, in order and one to one, to tools that
  keep the downstream name for routing, expose the prefixed name, and carry the family and posture
  computed from the downstream name; no exposed name is reserved, and distinct downstream names
  stay distinct.\<close>

theorem resolve_tools_maps:
  assumes "resolve_tools s sc ts = Inr rts"
  shows "list_all2 (resolves_to s sc) (offered sc ts) rts
    \<and> (\<forall>rt \<in> set rts. \<not> reserved_name (rt_name rt) \<and> rt_name rt \<noteq> [] \<and> rt_family rt \<noteq> [])
    \<and> (distinct (map raw_name ts) \<longrightarrow> distinct (map rt_name rts))"
  using resolve_tools_Inr [OF assms] resolve_tools_names [OF assms] resolve_tools_distinct [OF assms]
  by blast

lemma resolve_tools_maps_witness:
  "\<exists>rts. resolve_tools ''child'' prefixed_server [listed ''read'' ''Use `read`'', listed ''tela_list_profiles'' []]
       = Inr rts \<and> map rt_name rts = [''host_read''] \<and> map rt_description rts = [''Use `host_read`'']
     \<and> list_all2 (resolves_to ''child'' prefixed_server)
         (offered prefixed_server [listed ''read'' ''Use `read`'', listed ''tela_list_profiles'' []]) rts"
proof -
  let ?ts = "[listed ''read'' ''Use `read`'', listed ''tela_list_profiles'' []]"
  have "case resolve_tools ''child'' prefixed_server ?ts of Inl _ \<Rightarrow> False
      | Inr rts \<Rightarrow> map rt_name rts = [''host_read''] \<and> map rt_description rts = [''Use `host_read`'']"
    by code_simp
  then obtain rts where r: "resolve_tools ''child'' prefixed_server ?ts = Inr rts"
    and "map rt_name rts = [''host_read'']" "map rt_description rts = [''Use `host_read`'']"
    by (auto split: sum.splits)
  moreover have "list_all2 (resolves_to ''child'' prefixed_server) (offered prefixed_server ?ts) rts"
    using resolve_tools_maps [OF r] by (rule conjunct1)
  ultimately show ?thesis using r by (intro exI [of _ rts]) simp
qed



end
