(* ===== verification/Enforcement.thy ===== *)
theory Enforcement
  imports Models
begin

text \<open>
  \<^verbatim>\<open>core/enforcement.py\<close>: the three-step chain that decides one tool call, family
  admission, profile override, posture ceiling, and the explanation that retraces it. The
  contract decorators of the code run at every call, so a violated precondition is the value
  \<open>Inl (AssertionError _)\<close>. \<open>authorized\<close> is the policy on its own; the lemmas show that the
  chain decides exactly it, that the explanation agrees with the chain, and in which order
  the stages answer.
\<close>


section \<open>Postures in order\<close>

fun posture_rank :: "posture \<Rightarrow> nat" where
  "posture_rank PostureNone = 0"
| "posture_rank ReadOnly = 1"
| "posture_rank ReadWrite = 2"
| "posture_rank Destructive = 3"

instantiation posture :: linorder
begin

definition less_eq_posture :: "posture \<Rightarrow> posture \<Rightarrow> bool" where
  "less_eq_posture a b \<longleftrightarrow> posture_rank a \<le> posture_rank b"

definition less_posture :: "posture \<Rightarrow> posture \<Rightarrow> bool" where
  "less_posture a b \<longleftrightarrow> posture_rank a < posture_rank b"

instance
proof
  fix a b c :: posture
  show "a < b \<longleftrightarrow> a \<le> b \<and> \<not> b \<le> a" by (auto simp: less_eq_posture_def less_posture_def)
  show "a \<le> a" by (simp add: less_eq_posture_def)
  show "a \<le> b \<or> b \<le> a" by (auto simp: less_eq_posture_def)
  show "a \<le> c" if "a \<le> b" "b \<le> c" using that by (simp add: less_eq_posture_def)
  show "a = b" if "a \<le> b" "b \<le> a"
    using that by (cases a; cases b) (simp_all add: less_eq_posture_def)
qed

end

definition posture_le :: "posture \<Rightarrow> posture \<Rightarrow> bool" where
  "posture_le a b \<longleftrightarrow> posture_rank a \<le> posture_rank b"

lemma posture_le_iff [simp]: "posture_le a b \<longleftrightarrow> a \<le> b"
  by (simp add: posture_le_def less_eq_posture_def)


section \<open>The stages\<close>

definition check_family_admission :: "string \<Rightarrow> profile_config \<Rightarrow> py_exc + enforcement_result" where
  "check_family_admission family profile =
     (if family = [] then Inl (AssertionError ''Precondition failed for check_family_admission'')
      else if has_key (pc_capabilities profile) family then Inr allow_result
      else Inr (deny_result ''family_admission'' ''AUTHZ_DENY''
             (''Family '' @ squote family @ '' is not admitted by profile_id '' @ squote (pc_name profile))))"

definition override_of :: "string \<Rightarrow> string \<Rightarrow> profile_config \<Rightarrow> verdict option" where
  "override_of tool_name family profile =
     Option.bind (dget (pc_tool_overrides profile) family) (\<lambda>ov. dget ov tool_name)"

definition check_tool_override ::
    "string \<Rightarrow> string \<Rightarrow> profile_config \<Rightarrow> py_exc + enforcement_result option" where
  "check_tool_override tool_name family profile =
     (if tool_name = [] \<or> family = [] then
        Inl (AssertionError ''Precondition failed for check_tool_override'')
      else (case override_of tool_name family profile of
          None \<Rightarrow> Inr None
        | Some ALLOW \<Rightarrow> Inr (Some allow_result)
        | Some DENY \<Rightarrow> Inr (Some (deny_result ''tool_override'' ''AUTHZ_DENY''
              (''Tool '' @ squote tool_name @ '' explicitly denied by profile override'')))))"

definition check_posture :: "posture option \<Rightarrow> posture \<Rightarrow> posture \<Rightarrow> enforcement_result" where
  "check_posture tool_posture family_ceiling default_posture =
     (let effective = (case tool_posture of Some p \<Rightarrow> p | None \<Rightarrow> default_posture) in
      if effective = PostureNone \<and> tool_posture = None then
        deny_result ''posture_ceiling'' ''TOOL_UNCLASSIFIED''
          ''Tool is unclassified and server default_posture is NONE''
      else if posture_le effective family_ceiling then allow_result
      else deny_result ''posture_ceiling'' ''AUTHZ_DENY''
          (''Tool posture '' @ posture_value effective @ '' exceeds ceiling ''
             @ posture_value family_ceiling))"


section \<open>The chain\<close>

definition enforce ::
    "string \<Rightarrow> resolved_tool \<Rightarrow> profile_config \<Rightarrow> enforcement_result \<Rightarrow> posture
       \<Rightarrow> py_exc + enforcement_result" where
  "enforce tool_name tool profile token_result default_posture =
     (if tool_name = [] \<or> er_verdict token_result \<noteq> ALLOW then
        Inl (AssertionError ''Precondition failed for enforce'')
      else (case check_family_admission (rt_family tool) profile of
          Inl e \<Rightarrow> Inl e
        | Inr family_result \<Rightarrow>
            if er_verdict family_result = DENY then Inr family_result
            else (case check_tool_override tool_name (rt_family tool) profile of
                Inl e \<Rightarrow> Inl e
              | Inr override_result \<Rightarrow>
                  (case override_result of
                     Some r \<Rightarrow> if er_verdict r = DENY then Inr r
                       else Inr (check_posture (rt_posture tool)
                              (the (dget (pc_capabilities profile) (rt_family tool))) default_posture)
                   | None \<Rightarrow> Inr (check_posture (rt_posture tool)
                              (the (dget (pc_capabilities profile) (rt_family tool))) default_posture)))))"

record explanation =
  ex_visible :: bool
  ex_hidden :: bool
  ex_allowed :: bool
  ex_denied :: bool
  ex_stage :: string
  ex_reason :: string
  ex_error_code :: "string option"
  ex_denied_by :: "string option"

text \<open>\<^verbatim>\<open>a or b\<close> on optional strings: an empty string counts as absent.\<close>

definition or_else :: "string option \<Rightarrow> string \<Rightarrow> string" where
  "or_else a b = (case a of Some s \<Rightarrow> if s = [] then b else s | None \<Rightarrow> b)"

definition authorization_explain_denied :: "enforcement_result \<Rightarrow> string \<Rightarrow> explanation" where
  "authorization_explain_denied r stage =
     (let detail = or_else (er_error_message r) (or_else (er_error_code r) (or_else (er_denied_by r) stage))
      in \<lparr>ex_visible = False, ex_hidden = True, ex_allowed = False, ex_denied = True,
          ex_stage = stage, ex_reason = stage @ '': '' @ detail,
          ex_error_code = er_error_code r, ex_denied_by = er_denied_by r\<rparr>)"

definition explain_allowed :: explanation where
  "explain_allowed = \<lparr>ex_visible = True, ex_hidden = False, ex_allowed = True, ex_denied = False,
     ex_stage = ''allowed'', ex_reason = ''authorized'', ex_error_code = None, ex_denied_by = None\<rparr>"

definition explain_authorization ::
    "string \<Rightarrow> resolved_tool \<Rightarrow> profile_config \<Rightarrow> enforcement_result \<Rightarrow> posture
       \<Rightarrow> py_exc + explanation" where
  "explain_authorization tool_name tool profile token_result default_posture =
     (if tool_name = [] then Inl (AssertionError ''Precondition failed for explain_authorization'')
      else if er_verdict token_result = DENY then
        Inr (authorization_explain_denied token_result ''token_validation'')
      else (case check_family_admission (rt_family tool) profile of
          Inl e \<Rightarrow> Inl e
        | Inr family_result \<Rightarrow>
            if er_verdict family_result = DENY
            then Inr (authorization_explain_denied family_result ''family_admission'')
            else (case check_tool_override tool_name (rt_family tool) profile of
                Inl e \<Rightarrow> Inl e
              | Inr override_result \<Rightarrow>
                  (case (case override_result of
                           Some r \<Rightarrow> if er_verdict r = DENY then Some r else None
                         | None \<Rightarrow> None) of
                     Some r \<Rightarrow> Inr (authorization_explain_denied r ''tool_override'')
                   | None \<Rightarrow>
                       (let posture_result = check_posture (rt_posture tool)
                              (the (dget (pc_capabilities profile) (rt_family tool))) default_posture
                        in if er_verdict posture_result = DENY
                           then Inr (authorization_explain_denied posture_result ''posture_ceiling'')
                           else Inr explain_allowed)))))"


section \<open>The policy\<close>

definition posture_within :: "posture option \<Rightarrow> posture \<Rightarrow> posture \<Rightarrow> bool" where
  "posture_within p cap dflt =
     (case p of Some q \<Rightarrow> q \<le> cap | None \<Rightarrow> dflt \<noteq> PostureNone \<and> dflt \<le> cap)"

definition authorized :: "string \<Rightarrow> resolved_tool \<Rightarrow> profile_config \<Rightarrow> posture \<Rightarrow> bool" where
  "authorized tool_name tool profile dflt \<longleftrightarrow>
     override_of tool_name (rt_family tool) profile \<noteq> Some DENY
     \<and> (\<exists>cap. dget (pc_capabilities profile) (rt_family tool) = Some cap
          \<and> posture_within (rt_posture tool) cap dflt)"

definition callable :: "string \<Rightarrow> resolved_tool \<Rightarrow> enforcement_result \<Rightarrow> bool" where
  "callable tool_name tool token_result \<longleftrightarrow>
     tool_name \<noteq> [] \<and> rt_family tool \<noteq> [] \<and> er_verdict token_result = ALLOW"

lemma check_posture_ALLOW: "er_verdict (check_posture p c d) = ALLOW \<longleftrightarrow> posture_within p c d"
  by (auto simp: check_posture_def posture_within_def Let_def split: option.splits)

lemma check_posture_allow_result: "er_verdict (check_posture p c d) = ALLOW \<Longrightarrow> check_posture p c d = allow_result"
  by (auto simp: check_posture_def Let_def split: if_splits)

lemma enforce_total: "callable n tool tr \<Longrightarrow> \<exists>r. enforce n tool profile tr d = Inr r"
  by (auto simp: enforce_def callable_def check_family_admission_def check_tool_override_def
      split: option.splits verdict.splits)

lemma enforce_raises: "isl (enforce n tool profile tr d) \<longleftrightarrow> \<not> callable n tool tr"
  by (auto simp: enforce_def callable_def check_family_admission_def check_tool_override_def
      split: option.splits verdict.splits)

lemma enforce_ALLOW:
  assumes "callable n tool tr"
  shows "enforce n tool profile tr d = Inr allow_result \<longleftrightarrow> authorized n tool profile d"
proof (cases "dget (pc_capabilities profile) (rt_family tool)")
  case None
  then show ?thesis using assms
    by (auto simp: enforce_def callable_def authorized_def check_family_admission_def has_key_dget
        allow_result_def deny_result_def)
next
  case (Some c)
  have "(check_posture (rt_posture tool) c d = allow_result) = posture_within (rt_posture tool) c d"
    using check_posture_ALLOW check_posture_allow_result by (metis allow_result_verdict)
  then show ?thesis using assms Some
    by (auto simp: enforce_def callable_def authorized_def check_family_admission_def has_key_dget
        check_tool_override_def allow_result_def deny_result_def split: option.splits verdict.splits)
qed

lemma enforce_verdict:
  assumes "enforce n tool profile tr d = Inr r"
  shows "er_verdict r = ALLOW \<longleftrightarrow> authorized n tool profile d"
    and "er_verdict r = ALLOW \<Longrightarrow> r = allow_result"
proof -
  have call: "callable n tool tr" using enforce_raises [of n tool profile tr d] assms by simp
  show al: "r = allow_result" if "er_verdict r = ALLOW"
    using assms that check_posture_allow_result
    by (auto simp: enforce_def check_family_admission_def check_tool_override_def
        split: if_splits option.splits verdict.splits)
  show "er_verdict r = ALLOW \<longleftrightarrow> authorized n tool profile d"
    using enforce_ALLOW [OF call, of profile d] assms al by auto
qed

text \<open>The explanation is a function of the enforcement result.\<close>

lemma explain_enforce:
  assumes "callable n tool tr" and "enforce n tool profile tr d = Inr r"
  shows "explain_authorization n tool profile tr d =
    Inr (if er_verdict r = ALLOW then explain_allowed
         else authorization_explain_denied r (the (er_denied_by r)))"
proof -
  have posture: "er_verdict (check_posture p c d) = DENY \<Longrightarrow>
      er_denied_by (check_posture p c d) = Some ''posture_ceiling''" for p c d
    by (simp add: check_posture_def Let_def split: if_splits)
  have neq: "v \<noteq> ALLOW \<longleftrightarrow> v = DENY" for v by (cases v) simp_all
  show ?thesis
    using assms posture
    by (auto simp: callable_def enforce_def explain_authorization_def check_family_admission_def
        check_tool_override_def Let_def neq split: if_splits option.splits verdict.splits)
qed

text \<open>The stage that refuses is the first one that fails.\<close>

definition refusing_stage :: "string \<Rightarrow> resolved_tool \<Rightarrow> profile_config \<Rightarrow> posture \<Rightarrow> (string \<times> string) option" where
  "refusing_stage n tool profile d =
     (case dget (pc_capabilities profile) (rt_family tool) of
        None \<Rightarrow> Some (''family_admission'', ''AUTHZ_DENY'')
      | Some c \<Rightarrow>
          if override_of n (rt_family tool) profile = Some DENY then Some (''tool_override'', ''AUTHZ_DENY'')
          else if rt_posture tool = None \<and> d = PostureNone then Some (''posture_ceiling'', ''TOOL_UNCLASSIFIED'')
          else if posture_within (rt_posture tool) c d then None
          else Some (''posture_ceiling'', ''AUTHZ_DENY''))"

lemma enforce_stage:
  assumes "enforce n tool profile tr d = Inr r"
  shows "(case refusing_stage n tool profile d of
            None \<Rightarrow> r = allow_result
          | Some (stage, err) \<Rightarrow> er_verdict r = DENY \<and> er_denied_by r = Some stage \<and> er_error_code r = Some err)"
  using assms
  by (auto simp: enforce_def refusing_stage_def check_family_admission_def check_tool_override_def
      has_key_dget check_posture_def posture_within_def Let_def
      split: if_splits option.splits verdict.splits)

text \<open>Raising ceilings, and dropping overrides that deny, never withdraws a permission.\<close>

definition more_permissive :: "profile_config \<Rightarrow> profile_config \<Rightarrow> bool" where
  "more_permissive p q \<longleftrightarrow>
     (\<forall>f c. dget (pc_capabilities p) f = Some c \<longrightarrow> (\<exists>c'. dget (pc_capabilities q) f = Some c' \<and> c \<le> c'))
     \<and> (\<forall>n f. override_of n f q = Some DENY \<longrightarrow> override_of n f p = Some DENY)"

lemma authorized_mono:
  "more_permissive p q \<Longrightarrow> authorized n tool p d \<Longrightarrow> authorized n tool q d"
  unfolding authorized_def more_permissive_def posture_within_def
  by (force split: option.splits)


section \<open>Properties\<close>

definition sample_tool :: resolved_tool where
  "sample_tool = \<lparr>rt_name = ''fs_read'', rt_raw_name = Some ''read'', rt_server_name = ''fs'',
     rt_family = ''fs'', rt_posture = Some ReadOnly, rt_schema = [], rt_description = [],
     rt_annotations = None, rt_title = None, rt_output_schema = None\<rparr>"

definition sample_profile :: "posture \<Rightarrow> profile_config" where
  "sample_profile cap = \<lparr>pc_name = ''dev'', pc_capabilities = [(''fs'', cap)],
     pc_tool_overrides = [(''fs'', [(''write'', DENY)])], pc_default = True\<rparr>"

lemmas sample_simps = sample_tool_def sample_profile_def callable_def authorized_def override_of_def
  posture_within_def less_eq_posture_def

text \<open>C6: For every admitted call the chain returns a verdict; it is ALLOW exactly when the policy
  admits the tool (its family has a ceiling in the profile, no override denies it, and its posture,
  or the server default for an unclassified tool, is within the ceiling); a refusal names the first
  failing stage and its error code.\<close>

theorem enforce_decides_policy:
  assumes "callable n tool tr"
  shows "\<exists>r. enforce n tool profile tr d = Inr r
    \<and> (er_verdict r = ALLOW) = authorized n tool profile d
    \<and> (case refusing_stage n tool profile d of
         None \<Rightarrow> r = allow_result
       | Some (stage, err) \<Rightarrow> er_verdict r = DENY \<and> er_denied_by r = Some stage \<and> er_error_code r = Some err)"
  using enforce_total [OF assms] enforce_verdict(1) enforce_stage by metis

lemma enforce_decides_policy_witness:
  "\<exists>r. enforce ''read'' sample_tool (sample_profile ReadWrite) allow_result PostureNone = Inr r
    \<and> er_verdict r = ALLOW"
  using enforce_decides_policy [of "''read''" sample_tool allow_result "sample_profile ReadWrite" PostureNone]
  by (auto simp: sample_simps)

text \<open>The explanation of an authorization agrees with the enforcement of the same call: it
  reports allowed and visible exactly for ALLOW, hidden and denied otherwise, and then carries the
  stage and the error code of the enforcement result.\<close>

theorem explanation_agrees_with_enforcement:
  assumes "callable n tool tr"
  shows "\<exists>r ex. enforce n tool profile tr d = Inr r \<and> explain_authorization n tool profile tr d = Inr ex
    \<and> ex_allowed ex = (er_verdict r = ALLOW) \<and> ex_visible ex = ex_allowed ex
    \<and> ex_denied ex = (\<not> ex_allowed ex) \<and> ex_hidden ex = (\<not> ex_allowed ex)
    \<and> ex_error_code ex = er_error_code r \<and> ex_denied_by ex = er_denied_by r
    \<and> ex_stage ex = (case er_denied_by r of None \<Rightarrow> ''allowed'' | Some stage \<Rightarrow> stage)"
proof -
  obtain r where r: "enforce n tool profile tr d = Inr r" using enforce_total [OF assms] by blast
  show ?thesis
  proof (cases "er_verdict r")
    case ALLOW
    then have "r = allow_result" by (rule enforce_verdict(2) [OF r])
    then show ?thesis using explain_enforce [OF assms r] r ALLOW
      by (simp add: explain_allowed_def allow_result_def)
  next
    case DENY
    then obtain stage where "er_denied_by r = Some stage"
      using enforce_stage [OF r] by (auto split: option.splits)
    then show ?thesis using explain_enforce [OF assms r] r DENY
      by (simp add: authorization_explain_denied_def Let_def)
  qed
qed

lemma explanation_agrees_witness:
  "\<exists>ex. explain_authorization ''write'' sample_tool (sample_profile ReadWrite) allow_result ReadOnly = Inr ex
    \<and> ex_denied ex \<and> ex_stage ex = ''tool_override''"
  using explanation_agrees_with_enforcement
    [of "''write''" sample_tool allow_result "sample_profile ReadWrite" ReadOnly]
  by (auto simp: sample_simps enforce_def check_family_admission_def check_tool_override_def
      has_key_def)

text \<open>Permissions are monotone: a call that a profile allows stays allowed under any profile
  with at least its ceilings and no further denying overrides.\<close>

theorem enforce_monotone:
  assumes "more_permissive p q" and "enforce n tool p tr d = Inr allow_result"
  shows "enforce n tool q tr d = Inr allow_result"
proof -
  have call: "callable n tool tr" using enforce_raises [of n tool p tr d] assms(2) by simp
  then have "authorized n tool p d" using assms(2) by (simp add: enforce_ALLOW)
  then show ?thesis using authorized_mono [OF assms(1)] call by (simp add: enforce_ALLOW)
qed

lemma enforce_monotone_witness:
  "enforce ''read'' sample_tool (sample_profile Destructive) allow_result PostureNone = Inr allow_result"
proof (rule enforce_monotone [of "sample_profile ReadOnly"])
  show "more_permissive (sample_profile ReadOnly) (sample_profile Destructive)"
    by (simp add: more_permissive_def sample_simps)
  show "enforce ''read'' sample_tool (sample_profile ReadOnly) allow_result PostureNone = Inr allow_result"
    by (subst enforce_ALLOW) (simp_all add: sample_simps)
qed

end
