(* ===== verification/Conflict.thy ===== *)
theory Conflict
  imports Models
begin

text \<open>
  \<^verbatim>\<open>core/conflict.py\<close>: the check over the tools of all servers that no exposed name is
  owned twice or enters the reserved namespace. \<open>exposes\<close> is the relation the check is about;
  the lemmas show that the report is empty exactly when that relation has no conflict, and
  that each reported conflict lists the servers that take part in it.
\<close>

datatype conflict_type = NameCollision | PrefixViolation

record tool_conflict =
  tf_tool_name :: string
  tf_servers :: "string list"
  tf_type :: conflict_type

type_synonym tools_by_server = "(string, resolved_tool list) dict"

definition add_owner :: "string \<Rightarrow> string \<Rightarrow> (string, string list) dict \<Rightarrow> (string, string list) dict" where
  "add_owner tool server d =
     dset tool ((case dget d tool of Some l \<Rightarrow> l | None \<Rightarrow> []) @ [server]) d"

definition tool_owners :: "tools_by_server \<Rightarrow> (string, string list) dict" where
  "tool_owners all_tools =
     fold (\<lambda>(server, tools) d. fold (\<lambda>rt. add_owner (rt_name rt) server) tools d) all_tools []"

definition unique_servers :: "string list \<Rightarrow> string list" where
  "unique_servers servers = sort (remdups servers)"

definition sorted_owners :: "tools_by_server \<Rightarrow> (string \<times> string list) list" where
  "sorted_owners all_tools = sort_key fst (tool_owners all_tools)"

definition detect_conflicts :: "tools_by_server \<Rightarrow> tool_conflict list" where
  "detect_conflicts all_tools =
     map (\<lambda>(tool, servers). \<lparr>tf_tool_name = tool, tf_servers = unique_servers servers,
            tf_type = PrefixViolation\<rparr>)
       (filter (\<lambda>(tool, servers). startswith tool ''tela.'') (sorted_owners all_tools))
     @ map (\<lambda>(tool, servers). \<lparr>tf_tool_name = tool, tf_servers = unique_servers servers,
            tf_type = NameCollision\<rparr>)
       (filter (\<lambda>(tool, servers). 1 < length (unique_servers servers) \<and> \<not> startswith tool ''tela.'')
         (sorted_owners all_tools))"

text \<open>\<^verbatim>\<open>"; ".join(f"{c.tool_name} in [{', '.join(c.servers)}]")\<close>\<close>

definition conflict_desc :: "tool_conflict list \<Rightarrow> string" where
  "conflict_desc cs = join ''; ''
     (map (\<lambda>c. tf_tool_name c @ '' in ['' @ join '', '' (tf_servers c) @ '']'') cs)"


section \<open>The report and the relation\<close>

definition exposes :: "tools_by_server \<Rightarrow> string \<Rightarrow> string \<Rightarrow> bool" where
  "exposes all_tools server tool \<longleftrightarrow>
     (\<exists>(s, rts) \<in> set all_tools. s = server \<and> tool \<in> rt_name ` set rts)"

definition conflict_free :: "tools_by_server \<Rightarrow> bool" where
  "conflict_free all_tools \<longleftrightarrow>
     (\<forall>s t. exposes all_tools s t \<longrightarrow> \<not> startswith t ''tela.'')
     \<and> (\<forall>s s' t. exposes all_tools s t \<longrightarrow> exposes all_tools s' t \<longrightarrow> s = s')"

lemma conflict_free_mono:
  "(\<And>s t. exposes a s t \<Longrightarrow> exposes b s t) \<Longrightarrow> conflict_free b \<Longrightarrow> conflict_free a"
  unfolding conflict_free_def by blast

lemma exposes_append: "exposes (xs @ ys) s t \<longleftrightarrow> exposes xs s t \<or> exposes ys s t"
  by (auto simp: exposes_def)

lemma exposes_wf:
  "wf_dict d \<Longrightarrow> exposes d s n \<longleftrightarrow> (\<exists>ts. dget d s = Some ts \<and> n \<in> rt_name ` set ts)"
  using wf_dict_item [of d] by (fastforce simp: exposes_def)

definition owner_set :: "(string, string list) dict \<Rightarrow> string \<Rightarrow> string set" where
  "owner_set d t = (case dget d t of Some l \<Rightarrow> set l | None \<Rightarrow> {})"

lemma owner_set_add [simp]: "owner_set (add_owner t s d) u = (if u = t then insert s (owner_set d u) else owner_set d u)"
  by (auto simp: owner_set_def add_owner_def dict_simps split: option.splits)

lemma wf_add_owner [simp]: "wf_dict d \<Longrightarrow> wf_dict (add_owner t s d)"
  by (simp add: add_owner_def)

lemma owner_set_tools:
  "owner_set (fold (\<lambda>rt. add_owner (rt_name rt) s) tools d) t
     = owner_set d t \<union> (if t \<in> rt_name ` set tools then {s} else {})"
  by (induction tools arbitrary: d) auto

lemma wf_add_tools: "wf_dict d \<Longrightarrow> wf_dict (fold (\<lambda>rt. add_owner (rt_name rt) s) tools d)"
  by (induction tools arbitrary: d) auto

lemma owner_set_fold:
  "owner_set (fold (\<lambda>(s, tools) d. fold (\<lambda>rt. add_owner (rt_name rt) s) tools d) all_tools d) t
     = owner_set d t \<union> {s. exposes all_tools s t}"
proof (induction all_tools arbitrary: d)
  case (Cons x xs)
  obtain s tools where x: "x = (s, tools)" by (cases x)
  show ?case using Cons.IH [of "fold (\<lambda>rt. add_owner (rt_name rt) s) tools d"]
    by (auto simp: x owner_set_tools exposes_def)
qed (simp add: exposes_def)

lemma wf_tool_owners: "wf_dict (tool_owners all_tools)"
proof -
  have "wf_dict d \<Longrightarrow>
      wf_dict (fold (\<lambda>(s, tools) d. fold (\<lambda>rt. add_owner (rt_name rt) s) tools d) xs d)"
    for d and xs :: tools_by_server
    by (induction xs arbitrary: d) (auto simp: wf_add_tools)
  then show ?thesis by (simp add: tool_owners_def)
qed

lemma owner_set_owners: "owner_set (tool_owners all_tools) t = {s. exposes all_tools s t}"
  using owner_set_fold [of all_tools "[]" t] by (simp add: tool_owners_def owner_set_def)

text \<open>No entry of the table has an empty owner list.\<close>

definition all_owned :: "(string, string list) dict \<Rightarrow> bool" where
  "all_owned d \<longleftrightarrow> (\<forall>x \<in> set d. snd x \<noteq> [])"

lemma all_owned_add: "all_owned d \<Longrightarrow> all_owned (add_owner t s d)"
  by (auto simp: all_owned_def add_owner_def dest!: set_dset)

lemma all_owned_tools: "all_owned d \<Longrightarrow> all_owned (fold (\<lambda>rt. add_owner (rt_name rt) s) tools d)"
  by (induction tools arbitrary: d) (simp_all add: all_owned_add)

lemma all_owned_fold:
  "all_owned d \<Longrightarrow> all_owned (fold (\<lambda>(s, tools) d. fold (\<lambda>rt. add_owner (rt_name rt) s) tools d) xs d)"
  by (induction xs arbitrary: d) (simp_all add: all_owned_tools split_beta)

lemma owners_nonempty: "(t, l) \<in> set (tool_owners all_tools) \<Longrightarrow> l \<noteq> []"
  using all_owned_fold [of "[]" all_tools] by (fastforce simp: tool_owners_def all_owned_def)

lemma owners_item:
  "(t, l) \<in> set (tool_owners all_tools) \<Longrightarrow> set l = {s. exposes all_tools s t}"
  using owner_set_owners [of all_tools t] wf_dict_item [OF wf_tool_owners]
  by (fastforce simp: owner_set_def)

lemma exposes_owner:
  assumes "exposes all_tools s t"
  obtains l where "(t, l) \<in> set (tool_owners all_tools)"
  using assms owner_set_owners [of all_tools t]
  by (cases "dget (tool_owners all_tools) t") (auto simp: owner_set_def dest: dget_item)

lemma unique_servers_set [simp]: "set (unique_servers l) = set l"
  by (simp add: unique_servers_def)

lemma unique_servers_distinct [simp]: "distinct (unique_servers l)"
  by (simp add: unique_servers_def)

lemma one_unique_server: "1 < length (unique_servers l) \<longleftrightarrow> (\<exists>a \<in> set l. \<exists>b \<in> set l. a \<noteq> b)"
proof -
  have "length (unique_servers l) = card (set l)"
    by (metis distinct_card unique_servers_distinct unique_servers_set)
  moreover have "1 < card (set l) \<longleftrightarrow> (\<exists>a \<in> set l. \<exists>b \<in> set l. a \<noteq> b)"
    by (metis List.finite_set One_nat_def card_le_Suc0_iff_eq not_le)
  ultimately show ?thesis by simp
qed

lemma detect_conflicts_iff:
  "c \<in> set (detect_conflicts all_tools) \<longleftrightarrow>
     (\<exists>l. (tf_tool_name c, l) \<in> set (tool_owners all_tools) \<and> tf_servers c = unique_servers l
        \<and> (if startswith (tf_tool_name c) ''tela.'' then tf_type c = PrefixViolation
           else tf_type c = NameCollision \<and> 1 < length (unique_servers l)))"
  by (cases c) (auto simp: detect_conflicts_def sorted_owners_def image_iff split: prod.splits)

lemma detect_conflicts_sound:
  assumes "c \<in> set (detect_conflicts all_tools)"
  shows "set (tf_servers c) = {s. exposes all_tools s (tf_tool_name c)}" and "sorted (tf_servers c)"
    and "distinct (tf_servers c)" and "tf_servers c \<noteq> []"
proof -
  obtain l where l: "(tf_tool_name c, l) \<in> set (tool_owners all_tools)"
    and s: "tf_servers c = unique_servers l"
    using assms unfolding detect_conflicts_iff by blast
  show "set (tf_servers c) = {s. exposes all_tools s (tf_tool_name c)}"
    using owners_item [OF l] by (simp add: s)
  show "sorted (tf_servers c)" and "distinct (tf_servers c)" by (simp_all add: s unique_servers_def)
  show "tf_servers c \<noteq> []"
    using owners_nonempty [OF l] unique_servers_set [of l] by (metis s set_empty)
qed

lemma detect_conflicts_Nil: "detect_conflicts all_tools = [] \<longleftrightarrow> conflict_free all_tools"
proof -
  have "detect_conflicts all_tools = [] \<longleftrightarrow>
      (\<forall>(t, l) \<in> set (tool_owners all_tools).
         \<not> startswith t ''tela.'' \<and> \<not> 1 < length (unique_servers l))"
    by (auto simp: detect_conflicts_def sorted_owners_def filter_empty_conv)
  also have "\<dots> \<longleftrightarrow> conflict_free all_tools"
  proof
    assume *: "\<forall>(t, l) \<in> set (tool_owners all_tools).
        \<not> startswith t ''tela.'' \<and> \<not> 1 < length (unique_servers l)"
    show "conflict_free all_tools"
      unfolding conflict_free_def
    proof (intro conjI allI impI)
      fix s t assume "exposes all_tools s t"
      then show "\<not> startswith t ''tela.''" using * by (auto elim!: exposes_owner)
    next
      fix s s' t assume e: "exposes all_tools s t" "exposes all_tools s' t"
      then obtain l where l: "(t, l) \<in> set (tool_owners all_tools)" by (auto elim: exposes_owner)
      then have "s \<in> set l" "s' \<in> set l" using e owners_item by blast+
      then show "s = s'" using * l one_unique_server by fastforce
    qed
  next
    assume cf: "conflict_free all_tools"
    show "\<forall>(t, l) \<in> set (tool_owners all_tools).
        \<not> startswith t ''tela.'' \<and> \<not> 1 < length (unique_servers l)"
    proof clarify
      fix t l assume tl: "(t, l) \<in> set (tool_owners all_tools)"
      then have own: "set l = {s. exposes all_tools s t}" and "l \<noteq> []"
        using owners_item owners_nonempty by blast+
      then obtain s where s: "exposes all_tools s t" by (metis hd_in_set mem_Collect_eq)
      have "a = b" if "a \<in> set l" "b \<in> set l" for a b
        using that cf own unfolding conflict_free_def by blast
      moreover have "\<not> startswith t ''tela.''" using cf s unfolding conflict_free_def by blast
      ultimately show "\<not> startswith t ''tela.'' \<and> \<not> 1 < length (unique_servers l)"
        unfolding one_unique_server by blast
    qed
  qed
  finally show ?thesis .
qed


section \<open>Properties\<close>

text \<open>C22: The conflict report is empty exactly when no exposed name starts with the reserved prefix
  and no exposed name is owned by two servers; and every reported conflict lists, sorted and
  without repetition, precisely the servers that expose the name.\<close>

theorem detect_conflicts_complete:
  "(detect_conflicts all_tools = []) = conflict_free all_tools
   \<and> (\<forall>c \<in> set (detect_conflicts all_tools).
        set (tf_servers c) = {s. exposes all_tools s (tf_tool_name c)}
        \<and> sorted (tf_servers c) \<and> distinct (tf_servers c) \<and> tf_servers c \<noteq> [])"
  using detect_conflicts_Nil detect_conflicts_sound by blast

definition tool_of :: "string \<Rightarrow> string \<Rightarrow> resolved_tool" where
  "tool_of server n = \<lparr>rt_name = n, rt_raw_name = Some n, rt_server_name = server, rt_family = server,
     rt_posture = None, rt_schema = [], rt_description = [], rt_annotations = None, rt_title = None,
     rt_output_schema = None\<rparr>"

lemma detect_conflicts_witness:
  "detect_conflicts [(''fs2'', [tool_of ''fs2'' ''read'']), (''fs1'', [tool_of ''fs1'' ''read''])] \<noteq> []"
proof -
  have "\<not> conflict_free [(''fs2'', [tool_of ''fs2'' ''read'']), (''fs1'', [tool_of ''fs1'' ''read''])]"
    by (auto simp: conflict_free_def exposes_def tool_of_def)
  then show ?thesis using detect_conflicts_complete by blast
qed

end
