(* ===== verification/Catalog_Config.thy ===== *)
theory Catalog_Config
  imports Models Errors
begin

text \<open>
  \<^verbatim>\<open>core/catalog.py\<close> and \<^verbatim>\<open>core/config.py\<close>: the built-in profiles, the expansion of
  environment variables in configuration strings, \<open>parse_config\<close> around Pydantic's validation
  (a parameter), the cross-field checks of \<open>validate_config\<close>, and the choice of the default
  profile in open mode. The expansion is shown equal to substituting the variables of a split
  of the string into literals and variables; the checks are shown to be complete.
\<close>


section \<open>The profile catalog\<close>

definition builtin :: "string \<Rightarrow> (string, posture) dict \<Rightarrow> string \<times> profile_config" where
  "builtin n caps =
     (n, \<lparr>pc_name = n, pc_capabilities = caps, pc_tool_overrides = [], pc_default = False\<rparr>)"

definition builtin_profiles :: "(string, profile_config) dict" where
  "builtin_profiles = [
     builtin ''read_only'' [(''filesystem'', ReadOnly)],
     builtin ''fetch_external'' [(''filesystem'', ReadOnly), (''network'', ReadOnly)],
     builtin ''modify_local'' [(''filesystem'', ReadWrite)],
     builtin ''send_external'' [(''filesystem'', ReadOnly), (''network'', ReadWrite)],
     builtin ''orchestrate''
       [(''filesystem'', ReadOnly), (''network'', ReadOnly), (''orchestration'', ReadWrite)],
     builtin ''execute_safe''
       [(''filesystem'', ReadWrite), (''network'', ReadWrite), (''orchestration'', ReadWrite),
        (''execution'', ReadWrite)],
     builtin ''execute_full''
       [(''filesystem'', Destructive), (''network'', Destructive), (''orchestration'', Destructive),
        (''execution'', Destructive)]]"

definition get_builtin_profile :: "string \<Rightarrow> profile_config option" where
  "get_builtin_profile n = dget builtin_profiles n"

definition list_builtin_profiles :: "string list" where
  "list_builtin_profiles = sort (dkeys builtin_profiles)"

definition merge_with_builtins :: "(string, profile_config) dict \<Rightarrow> (string, profile_config) dict" where
  "merge_with_builtins user_profiles = dupdate builtin_profiles user_profiles"

lemma builtin_names:
  "dkeys builtin_profiles = [''read_only'', ''fetch_external'', ''modify_local'', ''send_external'',
     ''orchestrate'', ''execute_safe'', ''execute_full'']"
  by (simp add: builtin_profiles_def builtin_def)

lemma wf_builtin_profiles [simp]: "wf_dict builtin_profiles"
  unfolding wf_dict_def builtin_names by simp

lemma dget_merge_with_builtins:
  "wf_dict user \<Longrightarrow> dget (merge_with_builtins user) n =
     (case dget user n of Some p \<Rightarrow> Some p | None \<Rightarrow> get_builtin_profile n)"
  by (simp add: merge_with_builtins_def get_builtin_profile_def dget_dupdate dget_rev split: option.split)

lemma merge_with_builtins_nonempty: "merge_with_builtins user \<noteq> []"
proof -
  have "has_key (merge_with_builtins user) ''read_only''"
    unfolding merge_with_builtins_def has_key_dupdate by (simp add: has_key_def builtin_names)
  then show ?thesis by (auto simp: has_key_def)
qed


section \<open>Environment variables in strings\<close>

datatype config_exc = Contract config_error | Raised py_exc

definition env_unset :: "string \<Rightarrow> config_error" where
  "env_unset var = ConfigContractError ''CONFIG_ENV_UNSET''
     (''Environment variable '' @ squote var @ '' is not set. Unset variables cause a startup error.'')"

abbreviation dollar :: char where
  "dollar \<equiv> CHR ''$''"

abbreviation brace_open :: char where
  "brace_open \<equiv> CHR 0x7B"

abbreviation brace_close :: char where
  "brace_close \<equiv> CHR 0x7D"

definition is_word_char :: "char \<Rightarrow> bool" where
  "is_word_char c \<longleftrightarrow> is_alnum c \<or> c = CHR ''_''"

text \<open>
  What follows a dollar sign: the name of the variable and the text behind it, or nothing when
  the dollar stands for itself.
\<close>

definition variable_at :: "string \<Rightarrow> (string \<times> string) option" where
  "variable_at cs =
     (if cs \<noteq> [] \<and> hd cs = brace_open then
        (let name = takeWhile (\<lambda>c. c \<noteq> brace_close) (tl cs);
             rest = dropWhile (\<lambda>c. c \<noteq> brace_close) (tl cs)
         in if rest = [] then None else Some (name, tl rest))
      else
        (let name = takeWhile is_word_char cs
         in if name = [] then None else Some (name, dropWhile is_word_char cs)))"

lemma variable_at_shorter: "variable_at cs = Some (name, rest) \<Longrightarrow> length rest \<le> length cs"
  unfolding variable_at_def Let_def
  by (auto split: if_splits simp: length_dropWhile_le)
    (metis Suc_le_mono diff_le_self le_SucI le_trans length_dropWhile_le length_tl)

lemma variable_at_less [termination_simp]:
  "Some (name, rest) = variable_at cs \<Longrightarrow> length rest < Suc (length cs)"
  using variable_at_shorter [of cs name rest] by simp

fun expand_scan :: "(string, string) dict \<Rightarrow> string \<Rightarrow> config_error + string" where
  "expand_scan env [] = Inr []"
| "expand_scan env (c # cs) =
     (if c \<noteq> dollar then
        (case expand_scan env cs of Inl e \<Rightarrow> Inl e | Inr r \<Rightarrow> Inr (c # r))
      else (case variable_at cs of
          None \<Rightarrow> (case expand_scan env cs of Inl e \<Rightarrow> Inl e | Inr r \<Rightarrow> Inr (c # r))
        | Some (name, rest) \<Rightarrow>
            (case dget env name of
               None \<Rightarrow> Inl (env_unset name)
             | Some v \<Rightarrow> (case expand_scan env rest of Inl e \<Rightarrow> Inl e | Inr r \<Rightarrow> Inr (v @ r)))))"

definition expand_env_token :: "string \<Rightarrow> (string, string) dict \<Rightarrow> config_exc + string" where
  "expand_env_token value env =
     (case expand_scan env value of
        Inl e \<Rightarrow> Inl (Contract e)
      | Inr r \<Rightarrow>
          if contains [dollar, CHR 0x00] r
          then Inl (Raised (AssertionError ''Postcondition failed for _expand_env_token''))
          else Inr r)"

text \<open>The split of a string that the expansion works on.\<close>

datatype segment = Lit char | Var string

fun segments :: "string \<Rightarrow> segment list" where
  "segments [] = []"
| "segments (c # cs) =
     (if c \<noteq> dollar then Lit c # segments cs
      else (case variable_at cs of
          None \<Rightarrow> Lit c # segments cs
        | Some (name, rest) \<Rightarrow> Var name # segments rest))"

fun segment_value :: "(string, string) dict \<Rightarrow> segment \<Rightarrow> config_error + string" where
  "segment_value env (Lit c) = Inr [c]"
| "segment_value env (Var v) = (case dget env v of None \<Rightarrow> Inl (env_unset v) | Some x \<Rightarrow> Inr x)"

lemma expand_scan_segments:
  "expand_scan env s =
     (case mapE (segment_value env) (segments s) of Inl e \<Rightarrow> Inl e | Inr parts \<Rightarrow> Inr (concat parts))"
proof (induction env s rule: expand_scan.induct)
  case (2 env c cs)
  show ?case
  proof (cases "c = dollar")
    case False
    then show ?thesis using "2.IH"(1) by (simp split: sum.split)
  next
    case dollar: True
    show ?thesis
    proof (cases "variable_at cs")
      case None
      then show ?thesis using dollar "2.IH"(2) by (simp split: sum.split)
    next
      case (Some p)
      obtain name rest where p: "p = (name, rest)" by (cases p)
      show ?thesis
        using dollar Some p "2.IH"(3) [OF _ Some p [symmetric]]
        by (cases "dget env name") (simp_all split: sum.split)
    qed
  qed
qed simp

lemma expand_scan_ok:
  "(\<exists>r. expand_scan env s = Inr r) \<longleftrightarrow> (\<forall>v. Var v \<in> set (segments s) \<longrightarrow> has_key env v)"
proof -
  have "(\<exists>r. expand_scan env s = Inr r) \<longleftrightarrow> (\<exists>ys. mapE (segment_value env) (segments s) = Inr ys)"
    by (auto simp: expand_scan_segments split: sum.splits)
  also have "\<dots> \<longleftrightarrow> (\<forall>x \<in> set (segments s). \<exists>y. segment_value env x = Inr y)"
    by (rule mapE_Inr_iff)
  also have "\<dots> \<longleftrightarrow> (\<forall>v. Var v \<in> set (segments s) \<longrightarrow> has_key env v)"
  proof -
    have "(\<exists>y. segment_value env x = Inr y) \<longleftrightarrow> (\<forall>v. x = Var v \<longrightarrow> has_key env v)" for x
      by (cases x) (auto simp: has_key_dget split: option.splits)
    then show ?thesis by auto
  qed
  finally show ?thesis .
qed

lemma expand_scan_unset:
  assumes "expand_scan env s = Inl e"
  obtains v where "Var v \<in> set (segments s)" and "dget env v = None" and "e = env_unset v"
proof -
  have "mapE (segment_value env) (segments s) = Inl e"
    using assms by (auto simp: expand_scan_segments split: sum.splits)
  from mapE_Inl [OF this] obtain x where x: "x \<in> set (segments s)" "segment_value env x = Inl e" ..
  from x(2) obtain v where v: "x = Var v" by (cases x) simp_all
  then have "dget env v = None" "e = env_unset v" using x(2) by (simp_all split: option.splits)
  then show ?thesis using that x(1) v by blast
qed

lemma expand_scan_no_dollar: "dollar \<notin> set s \<Longrightarrow> expand_scan env s = Inr s"
  by (induction s) auto



section \<open>Expansion of a whole document\<close>

text \<open>
  \<^verbatim>\<open>_expand_env_in_object\<close>: every string leaf is expanded, keys stay as they are.
\<close>

fun expand_object :: "(string, string) dict \<Rightarrow> json \<Rightarrow> config_exc + json"
  and expand_list :: "(string, string) dict \<Rightarrow> json list \<Rightarrow> config_exc + json list"
  and expand_items :: "(string, string) dict \<Rightarrow> (string \<times> json) list \<Rightarrow> config_exc + (string \<times> json) list"
where
  "expand_object env (JStr s) =
     (case expand_env_token s env of Inl e \<Rightarrow> Inl e | Inr r \<Rightarrow> Inr (JStr r))"
| "expand_object env (JList xs) =
     (case expand_list env xs of Inl e \<Rightarrow> Inl e | Inr ys \<Rightarrow> Inr (JList ys))"
| "expand_object env (JDict kvs) =
     (case expand_items env kvs of Inl e \<Rightarrow> Inl e | Inr items \<Rightarrow> Inr (JDict items))"
| "expand_object env JNull = Inr JNull"
| "expand_object env (JBool b) = Inr (JBool b)"
| "expand_object env (JInt i) = Inr (JInt i)"
| "expand_object env (JFloat r) = Inr (JFloat r)"
| "expand_list env [] = Inr []"
| "expand_list env (x # xs) =
     (case expand_object env x of Inl e \<Rightarrow> Inl e
      | Inr y \<Rightarrow> (case expand_list env xs of Inl e \<Rightarrow> Inl e | Inr ys \<Rightarrow> Inr (y # ys)))"
| "expand_items env [] = Inr []"
| "expand_items env ((k, x) # kvs) =
     (case expand_object env x of Inl e \<Rightarrow> Inl e
      | Inr y \<Rightarrow> (case expand_items env kvs of Inl e \<Rightarrow> Inl e | Inr items \<Rightarrow> Inr ((k, y) # items)))"

lemma expand_items_keys: "expand_items env kvs = Inr items \<Longrightarrow> dkeys items = dkeys kvs"
  by (induction kvs arbitrary: items) (auto split: sum.splits)


section \<open>parse_config\<close>

text \<open>The key of a server or profile entry becomes its name unless the entry has one.\<close>

definition with_name :: "string \<times> json \<Rightarrow> string \<times> json" where
  "with_name kv = (case kv of
     (k, JDict d) \<Rightarrow> (k, JDict (if has_key d ''name'' then d else d @ [(''name'', JStr k)]))
   | _ \<Rightarrow> kv)"

definition inject_names :: "string \<Rightarrow> jobject \<Rightarrow> jobject" where
  "inject_names section_name d = (case dget d section_name of
     Some (JDict entries) \<Rightarrow> dset section_name (JDict (map with_name entries)) d
   | _ \<Rightarrow> d)"

text \<open>One entry of \<^verbatim>\<open>ValidationError.errors()\<close>: the location path and the message.\<close>

type_synonym validation_error = "string list \<times> string"

definition parse_error_message :: "validation_error list \<Rightarrow> string" where
  "parse_error_message errs = ''Configuration parse failed: ''
     @ join ''; '' (map (\<lambda>(loc, msg). join ''.'' loc @ '': '' @ msg) errs)"

definition parse_config ::
    "(jobject \<Rightarrow> validation_error list + tela_config) \<Rightarrow> jobject \<Rightarrow> (string, string) dict
       \<Rightarrow> config_exc + tela_config" where
  "parse_config model_validate raw env =
     (case expand_items env raw of
        Inl e \<Rightarrow> Inl e
      | Inr expanded \<Rightarrow>
          (case model_validate (inject_names ''profiles'' (inject_names ''servers'' expanded)) of
             Inl errs \<Rightarrow> Inl (Contract (ConfigContractError ''CONFIG_PARSE_ERROR'' (parse_error_message errs)))
           | Inr config \<Rightarrow>
               Inr (if tc_profiles config = []
                    then config\<lparr>tc_profiles := merge_with_builtins (tc_profiles config)\<rparr> else config)))"

lemma parse_config_profiles:
  "parse_config model_validate raw env = Inr config \<Longrightarrow> tc_profiles config \<noteq> []"
  by (auto simp: parse_config_def merge_with_builtins_nonempty split: sum.splits if_splits)

lemma inject_names_named:
  assumes "dget (inject_names sec d) sec = Some (JDict entries)" and "(k, JDict e) \<in> set entries"
  shows "has_key e ''name''"
  using assms
  by (auto simp: inject_names_def with_name_def dict_simps has_key_def
      split: option.splits json.splits if_splits prod.splits)


section \<open>The default profile of open mode\<close>

definition requires_open_mode_default_resolution :: "auth_mode \<Rightarrow> bool" where
  "requires_open_mode_default_resolution mode \<longleftrightarrow> mode = OpenMode"

definition default_names :: "(string, profile_config) dict \<Rightarrow> string list" where
  "default_names profiles = map fst (filter (\<lambda>(n, p). pc_default p) profiles)"

definition nonempty_name :: "string \<Rightarrow> config_exc + string" where
  "nonempty_name n =
     (if n = [] then Inl (Raised (AssertionError ''Postcondition failed for resolve_open_mode_default_profile''))
      else Inr n)"

definition resolve_open_mode_default_profile ::
    "(string, profile_config) dict \<Rightarrow> string option \<Rightarrow> config_exc + string" where
  "resolve_open_mode_default_profile profiles cli =
     (case cli of
        Some n \<Rightarrow>
          if n = [] then
            Inl (Raised (AssertionError ''Precondition failed for resolve_open_mode_default_profile''))
          else if \<not> has_key profiles n then
            Inl (Contract (ConfigContractError ''PROFILE_NOT_FOUND''
              (''CLI default profile '' @ squote n @ '' was not found in local configuration profiles.'')))
          else nonempty_name n
      | None \<Rightarrow>
          (case default_names profiles of
             [n] \<Rightarrow> nonempty_name n
           | [] \<Rightarrow> Inl (Contract (ConfigContractError ''OPEN_MODE_DEFAULT_PROFILE_MISSING''
                ''Open mode requires either CLI --default-profile or exactly one profile with default=true.''))
           | ns \<Rightarrow> Inl (Contract (ConfigContractError ''OPEN_MODE_DEFAULT_PROFILE_AMBIGUOUS''
                (''Open mode has multiple default profiles marked true: '' @ join '', '' (sort ns) @ ''.'')))))"

text \<open>The profile that open mode binds: the one named on the command line or the only default.\<close>

definition open_mode_choice :: "(string, profile_config) dict \<Rightarrow> string option \<Rightarrow> string \<Rightarrow> bool" where
  "open_mode_choice profiles cli n \<longleftrightarrow>
     n \<noteq> [] \<and> (case cli of
        Some m \<Rightarrow> n = m \<and> has_key profiles m
      | None \<Rightarrow> default_names profiles = [n])"

lemma resolve_open_mode_Inr:
  "resolve_open_mode_default_profile profiles cli = Inr n \<longleftrightarrow> open_mode_choice profiles cli n"
  by (auto simp: resolve_open_mode_default_profile_def open_mode_choice_def nonempty_name_def
      split: option.splits list.splits)

lemma open_mode_choice_profile:
  assumes "open_mode_choice profiles cli n"
  shows "has_key profiles n"
proof (cases cli)
  case None
  then have "n \<in> set (default_names profiles)" using assms by (simp add: open_mode_choice_def)
  then show ?thesis by (force simp: default_names_def has_key_def)
qed (use assms in \<open>simp add: open_mode_choice_def\<close>)


section \<open>Cross-field checks\<close>

definition transport_errors :: "string \<Rightarrow> server_config \<Rightarrow> string list" where
  "transport_errors name sc =
     (let has_command = sc_command sc \<noteq> None; has_url = sc_url sc \<noteq> None in
      if \<not> has_command \<and> \<not> has_url then
        [''SERVER_MISSING_TRANSPORT: server '' @ squote name @ '' must define either '' @ squote ''command''
           @ '' or '' @ squote ''url'' @ ''.'']
      else if has_command \<and> has_url then
        [''SERVER_AMBIGUOUS_TRANSPORT: server '' @ squote name @ '' must define either '' @ squote ''command''
           @ '' or '' @ squote ''url'' @ '', not both.'']
      else if has_command \<and> sc_headers sc \<noteq> [] then
        [''SERVER_HEADERS_WITH_STDIO: server '' @ squote name @ '' uses '' @ squote ''command''
           @ '' transport, but '' @ squote ''headers''
           @ '' are configured. Headers are only supported for '' @ squote ''url'' @ '' HTTP/SSE transports.'']
      else [])"

definition prefix_errors :: "string \<Rightarrow> server_config \<Rightarrow> string list" where
  "prefix_errors name sc = (case sc_tool_prefix sc of
     None \<Rightarrow> []
   | Some p \<Rightarrow>
       (if startswith p ''tela_'' \<or> startswith p ''tela.'' then
          [''SERVER_RESERVED_PREFIX: server '' @ squote name @ '' tool_prefix '' @ squote p
             @ '' uses reserved '' @ squote ''tela_'' @ '' or '' @ squote ''tela.'' @ '' namespace.''] else [])
       @ (if contains ''.'' p then
          [''SERVER_INVALID_PREFIX: server '' @ squote name @ '' tool_prefix '' @ squote p
             @ '' contains invalid dotted syntax; use snake_case.''] else []))"

definition server_errors :: "string \<times> server_config \<Rightarrow> string list" where
  "server_errors entry = (case entry of (name, sc) \<Rightarrow>
     transport_errors name sc @ prefix_errors name sc
     @ (if sc_nested_gateway sc \<and> \<not> has_prefix sc then
          [''NESTED_TELA_PREFIX_REQUIRED: server '' @ squote name
             @ '' explicitly set nested_gateway but omitted tool_prefix.''] else []))"

definition open_mode_errors :: "tela_config \<Rightarrow> string option \<Rightarrow> py_exc + string list" where
  "open_mode_errors config cli =
     (if requires_open_mode_default_resolution (ac_mode (tc_auth config)) then
        (case resolve_open_mode_default_profile (tc_profiles config) cli of
           Inr _ \<Rightarrow> Inr []
         | Inl (Contract e) \<Rightarrow> Inr [ce_code e @ '': '' @ ce_message e]
         | Inl (Raised x) \<Rightarrow> Inl x)
      else Inr [])"

definition validate_config :: "tela_config \<Rightarrow> string option \<Rightarrow> py_exc + string list" where
  "validate_config config cli =
     (if cli = Some [] then Inl (AssertionError ''Precondition failed for validate_config'')
      else (case open_mode_errors config cli of
          Inl x \<Rightarrow> Inl x
        | Inr open_errors \<Rightarrow>
            Inr (open_errors
              @ (if ac_mode (tc_auth config) = TokenMode \<and> length (ac_secrets (tc_auth config)) = 0
                 then [''TOKEN_MODE_SECRETS_MISSING: token mode requires at least one secret.''] else [])
              @ concat (map server_errors (tc_servers config)))))"

text \<open>What a configuration without errors guarantees to the rest of the program.\<close>

definition server_ready :: "server_config \<Rightarrow> bool" where
  "server_ready sc \<longleftrightarrow>
     (sc_command sc \<noteq> None \<longleftrightarrow> sc_url sc = None)
     \<and> (sc_command sc \<noteq> None \<longrightarrow> sc_headers sc = [])
     \<and> (case sc_tool_prefix sc of None \<Rightarrow> True | Some p \<Rightarrow> \<not> reserved_name p \<and> CHR ''.'' \<notin> set p)
     \<and> (sc_nested_gateway sc \<longrightarrow> has_prefix sc)"

definition config_ready :: "tela_config \<Rightarrow> string option \<Rightarrow> bool" where
  "config_ready config cli \<longleftrightarrow>
     (case ac_mode (tc_auth config) of
        OpenMode \<Rightarrow> \<exists>n. open_mode_choice (tc_profiles config) cli n
      | TokenMode \<Rightarrow> ac_secrets (tc_auth config) \<noteq> [])
     \<and> (\<forall>(name, sc) \<in> set (tc_servers config). server_ready sc)"

lemma server_errors_Nil: "server_errors (name, sc) = [] \<longleftrightarrow> server_ready sc"
  by (auto simp: server_errors_def transport_errors_def prefix_errors_def server_ready_def Let_def
      reserved_name_def contains_single split: option.splits)

lemma open_mode_errors_Nil:
  "open_mode_errors config cli = Inr [] \<longleftrightarrow>
     (ac_mode (tc_auth config) = OpenMode \<longrightarrow> (\<exists>n. open_mode_choice (tc_profiles config) cli n))"
  by (auto simp: open_mode_errors_def requires_open_mode_default_resolution_def
      simp flip: resolve_open_mode_Inr split: sum.splits config_exc.splits)

lemma validate_config_Nil:
  assumes "cli \<noteq> Some []"
  shows "validate_config config cli = Inr [] \<longleftrightarrow> config_ready config cli"
proof -
  have "validate_config config cli = Inr [] \<longleftrightarrow>
      open_mode_errors config cli = Inr []
      \<and> (ac_mode (tc_auth config) = TokenMode \<longrightarrow> ac_secrets (tc_auth config) \<noteq> [])
      \<and> (\<forall>(name, sc) \<in> set (tc_servers config). server_errors (name, sc) = [])"
    using assms by (auto simp: validate_config_def split: sum.splits)
  then show ?thesis
    by (auto simp: open_mode_errors_Nil server_errors_Nil config_ready_def split: auth_mode.splits)
qed


section \<open>Properties\<close>

text \<open>Expanding a string substitutes, in one pass, the value of every variable of its split
  into literals and variables; it succeeds exactly when all of them are set (and the result holds
  no dollar sign followed by a null), and otherwise raises for a variable that is not set.\<close>

theorem expand_env_substitutes:
  "(case expand_env_token s env of
      Inr r \<Rightarrow> (\<exists>parts. mapE (segment_value env) (segments s) = Inr parts \<and> r = concat parts)
        \<and> (\<forall>v. Var v \<in> set (segments s) \<longrightarrow> has_key env v)
    | Inl (Contract e) \<Rightarrow> \<exists>v. Var v \<in> set (segments s) \<and> dget env v = None \<and> e = env_unset v
    | Inl (Raised x) \<Rightarrow> \<forall>v. Var v \<in> set (segments s) \<longrightarrow> has_key env v)"
proof (cases "expand_scan env s")
  case (Inl e)
  then show ?thesis by (auto simp: expand_env_token_def elim: expand_scan_unset)
next
  case (Inr r)
  then have "\<forall>v. Var v \<in> set (segments s) \<longrightarrow> has_key env v" using expand_scan_ok by blast
  moreover obtain parts where "mapE (segment_value env) (segments s) = Inr parts" "r = concat parts"
    using Inr by (auto simp: expand_scan_segments split: sum.splits)
  ultimately show ?thesis using Inr by (simp add: expand_env_token_def)
qed

lemma expand_env_substitutes_witness: "has_key [(''HOME'', ''/h'')] ''HOME''"
proof -
  have "expand_env_token ''x${HOME}y'' [(''HOME'', ''/h'')] = Inr ''x/hy''" by code_simp
  moreover have "Var ''HOME'' \<in> set (segments ''x${HOME}y'')" by code_simp
  ultimately show ?thesis
    using expand_env_substitutes [of "''x${HOME}y''" "[(''HOME'', ''/h'')]"] by simp
qed

text \<open>The default profile of open mode is the one named on the command line if it is configured,
  else the only profile marked as default; every other situation is an error, and a resolved
  profile is always configured.\<close>

theorem open_mode_default_unique:
  "(resolve_open_mode_default_profile profiles cli = Inr n) = open_mode_choice profiles cli n
   \<and> (open_mode_choice profiles cli n \<longrightarrow> has_key profiles n)
   \<and> (open_mode_choice profiles cli n \<longrightarrow> open_mode_choice profiles cli m \<longrightarrow> n = m)"
proof -
  have "n = m" if "open_mode_choice profiles cli n" "open_mode_choice profiles cli m"
    using that by (auto simp: open_mode_choice_def split: option.splits)
  then show ?thesis using resolve_open_mode_Inr open_mode_choice_profile by blast
qed

lemma open_mode_default_witness:
  "has_key builtin_profiles ''read_only''"
proof -
  have "open_mode_choice builtin_profiles (Some ''read_only'') ''read_only''"
    by (simp add: open_mode_choice_def has_key_def builtin_names)
  then show ?thesis
    using open_mode_default_unique [of builtin_profiles "Some ''read_only''" "''read_only''" "''read_only''"]
    by simp
qed

text \<open>Validation reports no error exactly for a configuration that is ready: open mode has its
  default profile, token mode a secret, every server one transport, headers only with a URL, a
  prefix outside the reserved namespace, and nested gateways a prefix.\<close>

theorem validate_config_complete:
  assumes "cli \<noteq> Some []"
  shows "(validate_config config cli = Inr []) = config_ready config cli"
  using assms by (rule validate_config_Nil)

definition sample_config :: tela_config where
  "sample_config = \<lparr>
     tc_servers = [(''fs'', (server_named ''fs'')\<lparr>sc_command := Some ''run''\<rparr>)],
     tc_profiles = builtin_profiles,
     tc_auth = \<lparr>ac_mode = TokenMode, ac_secrets = [''k'']\<rparr>,
     tc_audit = \<lparr>auc_level = L2, auc_output = ''~/.tela/audit.jsonl''\<rparr>,
     tc_reaper = default_reaper_policy,
     tc_resolved_default_profile = None\<rparr>"

lemma validate_config_witness: "config_ready sample_config None"
proof -
  have "validate_config sample_config None = Inr []" by code_simp
  then show ?thesis using validate_config_complete [of None sample_config] by simp
qed

text \<open>Parsing yields a configuration with at least one profile, and the merged catalog gives the
  user's definition of a profile precedence over the built-in one.\<close>

theorem parse_config_has_profiles:
  assumes "wf_dict user"
  shows "dget (merge_with_builtins user) n
      = (case dget user n of Some p \<Rightarrow> Some p | None \<Rightarrow> get_builtin_profile n)
    \<and> (parse_config model_validate raw env = Inr config \<longrightarrow> tc_profiles config \<noteq> [])"
  using dget_merge_with_builtins [OF assms] parse_config_profiles by blast

lemma parse_config_witness:
  "dget (merge_with_builtins []) ''read_only'' = get_builtin_profile ''read_only''"
  using parse_config_has_profiles [of "[]" "''read_only''"] by simp

end
