(* ===== verification/Py_Sha256.thy ===== *)
theory Py_Sha256
  imports Py_Strings "HOL-Library.Word"
begin

unbundle bit_operations_syntax

text \<open>
  The hash functions of Python's standard library that the code calls: UTF-8 encoding,
  \<^verbatim>\<open>hashlib.sha256(..).hexdigest()\<close> and \<^verbatim>\<open>hmac.new(key, msg, sha256).hexdigest()\<close>
  (FIPS 180-4 and RFC 2104; the round constants and the initial state are in decimal), on 32-bit words with wrap-around addition, and the comparison
  \<^verbatim>\<open>hmac.compare_digest\<close>, which raises on strings that are not ASCII.
\<close>

type_synonym byte = "8 word"
type_synonym w32 = "32 word"


section \<open>UTF-8\<close>

definition utf8_char :: "char \<Rightarrow> byte list" where
  "utf8_char c = (if code c < (128::nat) then [word_of_nat (code c)]
     else [word_of_nat (192 + code c div 64), word_of_nat (128 + code c mod 64)])"

definition utf8_encode :: "string \<Rightarrow> byte list" where
  "utf8_encode s = concat (map utf8_char s)"

definition is_ascii :: "string \<Rightarrow> bool" where
  "is_ascii s = list_all (\<lambda>c. code c < (128::nat)) s"


section \<open>SHA-256\<close>

definition sha_k :: "w32 list" where
  "sha_k = [
     1116352408, 1899447441, 3049323471, 3921009573, 961987163, 1508970993, 2453635748,
     2870763221, 3624381080, 310598401, 607225278, 1426881987, 1925078388, 2162078206,
     2614888103, 3248222580, 3835390401, 4022224774, 264347078, 604807628, 770255983,
     1249150122, 1555081692, 1996064986, 2554220882, 2821834349, 2952996808, 3210313671,
     3336571891, 3584528711, 113926993, 338241895, 666307205, 773529912, 1294757372,
     1396182291, 1695183700, 1986661051, 2177026350, 2456956037, 2730485921, 2820302411,
     3259730800, 3345764771, 3516065817, 3600352804, 4094571909, 275423344, 430227734,
     506948616, 659060556, 883997877, 958139571, 1322822218, 1537002063, 1747873779,
     1955562222, 2024104815, 2227730452, 2361852424, 2428436474, 2756734187, 3204031479,
     3329325298]"

definition sha_init :: "w32 list" where
  "sha_init = [
     1779033703, 3144134277, 1013904242, 2773480762, 1359893119, 2600822924, 528734635,
     1541459225]"

definition be_bytes :: "nat \<Rightarrow> nat \<Rightarrow> byte list" where
  "be_bytes k n = map (\<lambda>i. word_of_nat (n div 256 ^ (k - 1 - i) mod 256)) [0..<k]"

definition word_bytes :: "w32 \<Rightarrow> byte list" where
  "word_bytes w = [ucast (drop_bit 24 w), ucast (drop_bit 16 w), ucast (drop_bit 8 w), ucast w]"

definition sha_pad :: "byte list \<Rightarrow> byte list" where
  "sha_pad bs = (let z = (119 - length bs mod 64) mod 64
     in bs @ [0x80] @ replicate z 0 @ be_bytes 8 (8 * length bs))"

fun be_words :: "byte list \<Rightarrow> w32 list" where
  "be_words (a # b # c # d # rest) =
     (push_bit 24 (ucast a) OR push_bit 16 (ucast b) OR push_bit 8 (ucast c) OR ucast d)
       # be_words rest"
| "be_words _ = []"

definition small_sigma0 :: "w32 \<Rightarrow> w32" where
  "small_sigma0 x = word_rotr 7 x XOR word_rotr 18 x XOR drop_bit 3 x"

definition small_sigma1 :: "w32 \<Rightarrow> w32" where
  "small_sigma1 x = word_rotr 17 x XOR word_rotr 19 x XOR drop_bit 10 x"

definition big_sigma0 :: "w32 \<Rightarrow> w32" where
  "big_sigma0 x = word_rotr 2 x XOR word_rotr 13 x XOR word_rotr 22 x"

definition big_sigma1 :: "w32 \<Rightarrow> w32" where
  "big_sigma1 x = word_rotr 6 x XOR word_rotr 11 x XOR word_rotr 25 x"

text \<open>The message schedule, built from the last sixteen words on.\<close>

fun sha_schedule :: "nat \<Rightarrow> w32 list \<Rightarrow> w32 list" where
  "sha_schedule 0 ws = ws"
| "sha_schedule (Suc n) ws = (let t = length ws in
     sha_schedule n (ws @ [small_sigma1 (ws ! (t - 2)) + ws ! (t - 7)
                           + small_sigma0 (ws ! (t - 15)) + ws ! (t - 16)]))"

fun sha_round :: "w32 list \<Rightarrow> w32 \<times> w32 \<Rightarrow> w32 list" where
  "sha_round [a, b, c, d, e, f, g, h] (k, w) =
     (let t1 = h + big_sigma1 e + ((e AND f) XOR (NOT e AND g)) + k + w;
          t2 = big_sigma0 a + ((a AND b) XOR (a AND c) XOR (b AND c))
      in [t1 + t2, a, b, c, d + t1, e, f, g])"
| "sha_round st _ = st"

definition sha_compress :: "w32 list \<Rightarrow> w32 list \<Rightarrow> w32 list" where
  "sha_compress st block =
     map2 (+) st (fold (\<lambda>kw s. sha_round s kw) (zip sha_k (sha_schedule 48 block)) st)"

fun sha_blocks :: "nat \<Rightarrow> w32 list \<Rightarrow> w32 list \<Rightarrow> w32 list" where
  "sha_blocks 0 st ws = st"
| "sha_blocks (Suc n) st ws = sha_blocks n (sha_compress st (take 16 ws)) (drop 16 ws)"

definition sha256 :: "byte list \<Rightarrow> byte list" where
  "sha256 bs = (let ws = be_words (sha_pad bs)
     in concat (map (\<lambda>w. word_bytes w) (sha_blocks (length ws div 16) sha_init ws)))"


section \<open>HMAC and hexadecimal output\<close>

definition hex_byte :: "byte \<Rightarrow> string" where
  "hex_byte b = (let d = (\<lambda>n. if n < 10 then char_of (48 + n) else char_of (87 + n :: nat))
     in [d (unat b div 16), d (unat b mod 16)])"

definition hex :: "byte list \<Rightarrow> string" where
  "hex bs = concat (map hex_byte bs)"

definition sha256_hexdigest :: "byte list \<Rightarrow> string" where
  "sha256_hexdigest bs = hex (sha256 bs)"

definition hmac_key :: "byte list \<Rightarrow> byte list" where
  "hmac_key k = (let k' = (if 64 < length k then sha256 k else k) in k' @ replicate (64 - length k') 0)"

definition hmac_sha256 :: "byte list \<Rightarrow> byte list \<Rightarrow> byte list" where
  "hmac_sha256 key msg = (let k = hmac_key key in
     sha256 (map (\<lambda>b. b XOR 0x5c) k @ sha256 (map (\<lambda>b. b XOR 0x36) k @ msg)))"

definition hmac_hexdigest :: "byte list \<Rightarrow> byte list \<Rightarrow> string" where
  "hmac_hexdigest key msg = hex (hmac_sha256 key msg)"

definition compare_digest :: "string \<Rightarrow> string \<Rightarrow> py_exc + bool" where
  "compare_digest a b =
     (if is_ascii a \<and> is_ascii b then Inr (a = b)
      else Inl (TypeError ''comparing strings with non-ASCII characters is not supported''))"


section \<open>Shape of the digests\<close>

lemma length_be_bytes [simp]: "length (be_bytes k n) = k"
  by (simp add: be_bytes_def)

lemma length_word_bytes [simp]: "length (word_bytes w) = 4"
  by (simp add: word_bytes_def)

lemma length_sha_round [simp]: "length (sha_round st kw) = length st"
  by (cases "(st, kw)" rule: sha_round.cases) (auto simp: Let_def)

lemma length_sha_rounds [simp]: "length (fold (\<lambda>kw s. sha_round s kw) kws st) = length st"
  by (induction kws arbitrary: st) auto

lemma length_sha_blocks [simp]: "length (sha_blocks n st ws) = length st"
  by (induction n arbitrary: st ws) (auto simp: sha_compress_def)

lemma length_sha256 [simp]: "length (sha256 bs) = 32"
proof -
  have "length (concat (map (\<lambda>w. word_bytes w) (ws :: w32 list))) = 4 * length ws" for ws
    by (induction ws) auto
  then show ?thesis by (simp add: sha256_def Let_def sha_init_def)
qed

lemma length_hex [simp]: "length (hex bs) = 2 * length bs"
  by (induction bs) (auto simp: hex_def hex_byte_def Let_def)

lemma length_sha256_hexdigest [simp]: "length (sha256_hexdigest bs) = 64"
  by (simp add: sha256_hexdigest_def)

lemma length_hmac_hexdigest [simp]: "length (hmac_hexdigest k m) = 64"
  by (simp add: hmac_hexdigest_def hmac_sha256_def Let_def)

lemma hex_digit_ascii:
  "n < 16 \<Longrightarrow> code (if n < 10 then char_of (48 + n) else char_of (87 + n :: nat)) < (128::nat)"
  by (simp add: of_char_of)

lemma is_ascii_hex_byte: "is_ascii (hex_byte b)"
proof -
  have "unat b < 256" using unsigned_less [of b, where ?'a = nat] by simp
  then have "unat b div 16 < 16" "unat b mod 16 < 16" by auto
  from this [THEN hex_digit_ascii] show ?thesis
    unfolding is_ascii_def hex_byte_def Let_def by (simp only: list.pred_inject simp_thms)
qed

lemma is_ascii_hex: "is_ascii (hex bs)"
  using is_ascii_hex_byte by (induction bs) (auto simp: hex_def is_ascii_def)

lemma is_ascii_hmac_hexdigest [simp]: "is_ascii (hmac_hexdigest k m)"
  by (simp add: hmac_hexdigest_def is_ascii_hex)

end
