(* ===== verification/Token.thy ===== *)
theory Token
  imports Models Py_Sha256
begin

text \<open>
  \<^verbatim>\<open>core/token.py\<close>: the canonical payload of a capability token, its HMAC-SHA256
  signature, expiry, validation against several secrets, and the creation of signed tokens.
  The hash is computed by the definitions of \<open>Py_Sha256\<close>, nothing about it is assumed; the
  lemmas are those that hold for any hash: what validation accepts, that created tokens are
  accepted by every set of secrets that holds their own, and that the signed text determines
  every claim of the token.
\<close>


section \<open>The canonical payload\<close>

definition required_fields :: "string list" where
  "required_fields = [''token_id'', ''profile_id'', ''persona_ref'', ''instance_id'', ''issued_at'',
     ''expires_at'', ''token_version'']"

definition is_jstr :: "json option \<Rightarrow> bool" where
  "is_jstr v = (case v of Some (JStr _) \<Rightarrow> True | _ \<Rightarrow> False)"

definition canonicalize_token_fields :: "jobject \<Rightarrow> py_exc + jobject" where
  "canonicalize_token_fields payload =
     (let canonical = filter (\<lambda>(k, v). k \<noteq> ''signature'' \<and> v \<noteq> JNull) payload;
          missing = filter (\<lambda>f. \<not> has_key canonical f) required_fields
      in if missing \<noteq> [] then
           Inl (ValueError (''Capability token payload missing required signing fields: ''
                  @ join '', '' missing))
         else if dget canonical ''token_version'' = Some (JStr ''0.1.0'')
              \<and> is_jstr (dget canonical ''persona_ref'') \<and> is_jstr (dget canonical ''instance_id'')
         then Inr canonical
         else Inl (AssertionError ''Postcondition failed for canonicalize_token_fields''))"

definition compute_signature :: "jobject \<Rightarrow> string \<Rightarrow> py_exc + string" where
  "compute_signature payload secret =
     (if secret = [] then Inl (AssertionError ''Precondition failed for compute_signature'')
      else Inr (hmac_hexdigest (utf8_encode secret) (utf8_encode (dumps_canonical (JDict payload)))))"

text \<open>\<^verbatim>\<open>CapabilityToken.model_dump()\<close>\<close>

definition token_dump :: "capability_token \<Rightarrow> jobject" where
  "token_dump t = [
     (''token_id'', JStr (ct_token_id t)),
     (''profile_id'', JStr (ct_profile_id t)),
     (''persona_ref'', JStr (ct_persona_ref t)),
     (''instance_id'', JStr (ct_instance_id t)),
     (''max_depth'', case ct_max_depth t of None \<Rightarrow> JNull | Some d \<Rightarrow> JInt d),
     (''issued_at'', JStr (ct_issued_at t)),
     (''expires_at'', JStr (ct_expires_at t)),
     (''token_version'', JStr (ct_token_version t)),
     (''signature'', JStr (ct_signature t))]"


section \<open>Validation\<close>

definition is_expired :: "string \<Rightarrow> string \<Rightarrow> py_exc + bool" where
  "is_expired expires_at now_iso =
     (case read_iso expires_at of
        None \<Rightarrow> Inl (ValueError (''Invalid isoformat string: '' @ expires_at))
      | Some expires_dt \<Rightarrow>
          (case read_iso now_iso of
             None \<Rightarrow> Inl (ValueError (''Invalid isoformat string: '' @ now_iso))
           | Some now_dt \<Rightarrow> dt_le expires_dt now_dt))"

text \<open>The loop over the secrets stops at the first that matches, or at an exception.\<close>

fun signature_matches :: "jobject \<Rightarrow> string \<Rightarrow> string list \<Rightarrow> py_exc + bool" where
  "signature_matches payload sig [] = Inr False"
| "signature_matches payload sig (secret # secrets) =
     (case compute_signature payload secret of
        Inl e \<Rightarrow> Inl e
      | Inr expected \<Rightarrow>
          (case compare_digest expected sig of
             Inl e \<Rightarrow> Inl e
           | Inr True \<Rightarrow> Inr True
           | Inr False \<Rightarrow> signature_matches payload sig secrets))"

definition validate_token :: "capability_token \<Rightarrow> string list \<Rightarrow> string \<Rightarrow> py_exc + enforcement_result" where
  "validate_token token secrets now_iso =
     (if secrets = [] \<or> now_iso = [] then Inl (AssertionError ''Precondition failed for validate_token'')
      else (case canonicalize_token_fields (token_dump token) of
          Inl e \<Rightarrow> Inl e
        | Inr payload \<Rightarrow>
            (case signature_matches payload (ct_signature token) secrets of
               Inl e \<Rightarrow> Inl e
             | Inr False \<Rightarrow> Inr (deny_result ''token_validation'' ''TOKEN_INVALID''
                   ''Token signature verification failed'')
             | Inr True \<Rightarrow>
                 (case is_expired (ct_expires_at token) now_iso of
                    Inl e \<Rightarrow> Inl e
                  | Inr True \<Rightarrow> Inr (deny_result ''token_validation'' ''TOKEN_EXPIRED''
                        (''Token expired at '' @ ct_expires_at token))
                  | Inr False \<Rightarrow> Inr allow_result))))"

definition resolve_token_init_binding ::
    "capability_token \<Rightarrow> string list \<Rightarrow> string \<Rightarrow> py_exc + token_init_binding" where
  "resolve_token_init_binding token secrets now_iso =
     (if ct_token_id token = [] \<or> ct_profile_id token = [] \<or> ct_signature token = []
         \<or> secrets = [] \<or> now_iso = []
      then Inl (AssertionError ''Precondition failed for resolve_token_init_binding'')
      else (case validate_token token secrets now_iso of
          Inl e \<Rightarrow> Inl e
        | Inr r \<Rightarrow> Inr \<lparr>tb_token_result = r, tb_profile_id = ct_profile_id token\<rparr>))"

definition create_token ::
    "string \<Rightarrow> string \<Rightarrow> string \<Rightarrow> string \<Rightarrow> string \<Rightarrow> string \<Rightarrow> string \<Rightarrow> string \<Rightarrow> py_exc + capability_token"
where
  "create_token profile secret token_id expires_at issued_at persona_ref instance_id token_version =
     (if profile = [] \<or> secret = [] \<or> token_id = [] \<or> expires_at = [] \<or> issued_at = []
         \<or> persona_ref = [] \<or> instance_id = [] \<or> token_version \<noteq> ''0.1.0''
      then Inl (AssertionError ''Precondition failed for create_token'')
      else (case canonicalize_token_fields [
                (''token_id'', JStr token_id), (''profile_id'', JStr profile),
                (''persona_ref'', JStr persona_ref), (''instance_id'', JStr instance_id),
                (''issued_at'', JStr issued_at), (''expires_at'', JStr expires_at),
                (''token_version'', JStr token_version)] of
          Inl e \<Rightarrow> Inl e
        | Inr payload \<Rightarrow>
            (case compute_signature payload secret of
               Inl e \<Rightarrow> Inl e
             | Inr sig \<Rightarrow>
                 (let t = \<lparr>ct_token_id = token_id, ct_profile_id = profile, ct_persona_ref = persona_ref,
                        ct_instance_id = instance_id, ct_max_depth = None, ct_issued_at = issued_at,
                        ct_expires_at = expires_at, ct_token_version = token_version, ct_signature = sig\<rparr>
                  in if wf_token t then Inr t
                     else Inl (ValueError ''validation error for CapabilityToken'')))))"


section \<open>What the signature covers\<close>

text \<open>The claims of a token, in the order of the model and without the signature.\<close>

definition token_claims :: "capability_token \<Rightarrow> jobject" where
  "token_claims t = [
     (''token_id'', JStr (ct_token_id t)),
     (''profile_id'', JStr (ct_profile_id t)),
     (''persona_ref'', JStr (ct_persona_ref t)),
     (''instance_id'', JStr (ct_instance_id t))]
     @ (case ct_max_depth t of None \<Rightarrow> [] | Some d \<Rightarrow> [(''max_depth'', JInt d)])
     @ [(''issued_at'', JStr (ct_issued_at t)),
        (''expires_at'', JStr (ct_expires_at t)),
        (''token_version'', JStr (ct_token_version t))]"

definition signing_text :: "capability_token \<Rightarrow> string" where
  "signing_text t = dumps_canonical (JDict (token_claims t))"

definition token_mac :: "capability_token \<Rightarrow> string \<Rightarrow> string" where
  "token_mac t secret = hmac_hexdigest (utf8_encode secret) (utf8_encode (signing_text t))"

lemma canonicalize_token:
  "ct_token_version t = ''0.1.0'' \<Longrightarrow> canonicalize_token_fields (token_dump t) = Inr (token_claims t)"
  by (cases "ct_max_depth t")
    (simp_all add: canonicalize_token_fields_def token_dump_def token_claims_def required_fields_def
      is_jstr_def has_key_def)

lemma signature_matches_iff:
  assumes "[] \<notin> set secrets" and "is_ascii (ct_signature t)"
  shows "signature_matches (token_claims t) (ct_signature t) secrets
         = Inr (\<exists>s \<in> set secrets. ct_signature t = token_mac t s)"
  using assms
  by (induction secrets)
    (auto simp: compute_signature_def compare_digest_def token_mac_def signing_text_def split: bool.splits)

lemma validate_token_wf:
  assumes wf: "wf_token t" and asc: "is_ascii (ct_signature t)"
    and sec: "secrets \<noteq> []" "[] \<notin> set secrets"
    and now: "read_iso now_iso = Some now" "is_aware now"
    and exp: "read_iso (ct_expires_at t) = Some e"
  shows "validate_token t secrets now_iso = Inr
    (if \<forall>s \<in> set secrets. ct_signature t \<noteq> token_mac t s
     then deny_result ''token_validation'' ''TOKEN_INVALID'' ''Token signature verification failed''
     else if instant e \<le> instant now
     then deny_result ''token_validation'' ''TOKEN_EXPIRED'' (''Token expired at '' @ ct_expires_at t)
     else allow_result)"
proof -
  have aware: "is_aware e" using wf exp by (auto elim!: wf_token_expires)
  have "now_iso \<noteq> []" using now(1) by (auto simp: read_iso_def replace_char_def fromisoformat_def
        date_part_def)
  moreover have "ct_token_version t = ''0.1.0''" using wf by (simp add: wf_token_def)
  moreover have "is_expired (ct_expires_at t) now_iso = Inr (instant e \<le> instant now)"
    using now exp aware by (simp add: is_expired_def dt_le_aware)
  ultimately show ?thesis
    using sec by (auto simp: validate_token_def canonicalize_token signature_matches_iff asc
        split: bool.splits)
qed

text \<open>A signature that is not ASCII is not refused: the comparison raises.\<close>

lemma validate_token_non_ascii:
  assumes "wf_token t" and "\<not> is_ascii (ct_signature t)" and "s \<noteq> []" and "now_iso \<noteq> []"
  shows "validate_token t (s # secrets) now_iso
         = Inl (TypeError ''comparing strings with non-ASCII characters is not supported'')"
  using assms
  by (simp add: validate_token_def canonicalize_token wf_token_def compute_signature_def compare_digest_def)

lemma create_token_Inr:
  assumes "create_token profile secret tid expires issued persona inst version = Inr t"
  shows "wf_token t" and "ct_signature t = token_mac t secret" and "secret \<noteq> []"
    and "ct_profile_id t = profile" and "ct_expires_at t = expires" and "ct_max_depth t = None"
  using assms
  by (auto simp: create_token_def compute_signature_def token_mac_def signing_text_def token_claims_def
      canonicalize_token_fields_def required_fields_def is_jstr_def has_key_def Let_def split: if_splits)


section \<open>The signed text determines the claims\<close>

definition field_text :: "string \<Rightarrow> string \<Rightarrow> string" where
  "field_text k v = quote k @ '':'' @ quote v"

definition depth_text :: "int option \<Rightarrow> string" where
  "depth_text d = (case d of None \<Rightarrow> [] | Some i \<Rightarrow> quote ''max_depth'' @ '':'' @ show_int i @ '','')"

lemma sorted_keys:
  "sort_key fst ([(''token_id'', a), (''profile_id'', b), (''persona_ref'', c), (''instance_id'', d)]
     @ [(''issued_at'', f), (''expires_at'', g), (''token_version'', h)])
   = [(''expires_at'', g), (''instance_id'', d), (''issued_at'', f), (''persona_ref'', c),
      (''profile_id'', b), (''token_id'', a), (''token_version'', h)]"
  "sort_key fst ([(''token_id'', a), (''profile_id'', b), (''persona_ref'', c), (''instance_id'', d)]
     @ [(''max_depth'', m)] @ [(''issued_at'', f), (''expires_at'', g), (''token_version'', h)])
   = [(''expires_at'', g), (''instance_id'', d), (''issued_at'', f), (''max_depth'', m),
      (''persona_ref'', c), (''profile_id'', b), (''token_id'', a), (''token_version'', h)]"
  by (simp_all add: sort_key_def less_char_def less_eq_char_def)

lemma signing_text_eq:
  "signing_text t = ''{'' @ field_text ''expires_at'' (ct_expires_at t) @ '',''
     @ field_text ''instance_id'' (ct_instance_id t) @ '',''
     @ field_text ''issued_at'' (ct_issued_at t) @ '',''
     @ depth_text (ct_max_depth t)
     @ field_text ''persona_ref'' (ct_persona_ref t) @ '',''
     @ field_text ''profile_id'' (ct_profile_id t) @ '',''
     @ field_text ''token_id'' (ct_token_id t) @ '',''
     @ field_text ''token_version'' (ct_token_version t) @ ''}''"
  by (cases "ct_max_depth t")
    (simp_all add: signing_text_def token_claims_def dumps_canonical_def sorted_keys [simplified]
      field_text_def depth_text_def)

lemma field_text_decode: "field_text k v @ x = field_text k w @ y \<Longrightarrow> v = w \<and> x = y"
  unfolding field_text_def by (auto dest: quote_decode)

lemma field_text_decode_end: "field_text k v = field_text k w \<Longrightarrow> v = w"
  using field_text_decode [of k v "[]" w "[]"] by simp

lemma depth_persona_differ:
  "depth_text (Some i) @ a \<noteq> field_text ''persona_ref'' w @ b"
proof
  assume "depth_text (Some i) @ a = field_text ''persona_ref'' w @ b"
  then have "quote ''max_depth'' @ ('':'' @ show_int i @ '','' @ a)
      = quote ''persona_ref'' @ ('':'' @ quote w @ b)"
    by (simp add: depth_text_def field_text_def)
  from quote_decode [OF this] show False by simp
qed

lemma depth_text_Some_decode:
  assumes "depth_text (Some i) @ a = depth_text (Some j) @ b"
  shows "i = j \<and> a = b"
proof -
  have "quote ''max_depth'' @ ('':'' @ show_int i @ '','' @ a)
      = quote ''max_depth'' @ ('':'' @ show_int j @ '','' @ b)"
    using assms by (simp add: depth_text_def)
  from quote_decode [OF this] have "show_int i @ CHR '','' # a = show_int j @ CHR '','' # b" by simp
  then have "i = j \<and> CHR '','' # a = CHR '','' # b"
    by (rule show_int_decode) (simp_all add: is_digit_def)
  then show ?thesis by simp
qed

lemma depth_text_decode:
  assumes eq: "depth_text d @ field_text ''persona_ref'' v @ x = depth_text e @ field_text ''persona_ref'' w @ y"
  shows "d = e \<and> v = w \<and> x = y"
proof (cases d; cases e)
  fix i j assume de: "d = Some i" "e = Some j"
  have "i = j \<and> field_text ''persona_ref'' v @ x = field_text ''persona_ref'' w @ y"
    using eq unfolding de by (rule depth_text_Some_decode)
  then show ?thesis using de field_text_decode by blast
next
  fix i assume "d = Some i" "e = None"
  then show ?thesis using eq depth_persona_differ by (simp add: depth_text_def)
next
  fix j assume "d = None" "e = Some j"
  then show ?thesis using eq depth_persona_differ by (metis append_Nil depth_text_def option.simps(4))
next
  assume "d = None" "e = None"
  then show ?thesis using eq field_text_decode [of "''persona_ref''" v x w y] by (simp add: depth_text_def)
qed

lemma signing_text_claims:
  assumes "signing_text t = signing_text u"
  shows "ct_expires_at t = ct_expires_at u" and "ct_instance_id t = ct_instance_id u"
    and "ct_issued_at t = ct_issued_at u" and "ct_max_depth t = ct_max_depth u"
    and "ct_persona_ref t = ct_persona_ref u" and "ct_profile_id t = ct_profile_id u"
    and "ct_token_id t = ct_token_id u" and "ct_token_version t = ct_token_version u"
  using assms unfolding signing_text_eq
  by (auto dest!: field_text_decode depth_text_decode field_text_decode_end)


section \<open>Properties\<close>

definition sample_token :: "string \<Rightarrow> capability_token" where
  "sample_token sig = \<lparr>ct_token_id = ''tok_1'', ct_profile_id = ''dev'', ct_persona_ref = ''p'',
     ct_instance_id = ''i'', ct_max_depth = None, ct_issued_at = ''2026-01-01T00:00:00Z'',
     ct_expires_at = ''2026-12-31T00:00:00Z'', ct_token_version = ''0.1.0'', ct_signature = sig\<rparr>"

lemma wf_sample_token: "wf_token (sample_token sig)"
proof -
  have "validate_token_datetime ''2026-01-01T00:00:00Z'' = Inr ''2026-01-01T00:00:00Z''" by code_simp
  moreover have "validate_token_datetime ''2026-12-31T00:00:00Z'' = Inr ''2026-12-31T00:00:00Z''" by code_simp
  ultimately show ?thesis by (simp add: wf_token_def sample_token_def startswith_def)
qed

lemma sample_times:
  "read_iso ''2026-06-01T00:00:00Z'' = Some (Datetime 63915868800000000 (Some 0))"
  "read_iso (ct_expires_at (sample_token sig)) = Some (Datetime 63934272000000000 (Some 0))"
proof -
  show "read_iso ''2026-06-01T00:00:00Z'' = Some (Datetime 63915868800000000 (Some 0))" by code_simp
  have "read_iso ''2026-12-31T00:00:00Z'' = Some (Datetime 63934272000000000 (Some 0))" by code_simp
  then show "read_iso (ct_expires_at (sample_token sig)) = Some (Datetime 63934272000000000 (Some 0))"
    by (simp add: sample_token_def)
qed

text \<open>C8: Validation of a well-formed token against non-empty secrets accepts it exactly when its
  signature is the HMAC of its claims under one of the secrets and the expiry lies in the future;
  otherwise it denies with TOKEN_INVALID, or with TOKEN_EXPIRED for a genuine token.\<close>

theorem validate_token_decides:
  assumes "wf_token t" and "is_ascii (ct_signature t)" and "secrets \<noteq> []" and "[] \<notin> set secrets"
    and "read_iso now_iso = Some now" and "is_aware now" and "read_iso (ct_expires_at t) = Some e"
  shows "\<exists>r. validate_token t secrets now_iso = Inr r
    \<and> (er_verdict r = ALLOW) = ((\<exists>s \<in> set secrets. ct_signature t = token_mac t s) \<and> instant now < instant e)
    \<and> (er_error_code r = Some ''TOKEN_INVALID'') = (\<forall>s \<in> set secrets. ct_signature t \<noteq> token_mac t s)
    \<and> (er_error_code r = Some ''TOKEN_EXPIRED'')
        = ((\<exists>s \<in> set secrets. ct_signature t = token_mac t s) \<and> instant e \<le> instant now)"
  using validate_token_wf [OF assms] by (auto simp: allow_result_def)

lemma validate_token_decides_witness:
  "\<exists>r. validate_token (sample_token ''bad'') [''k1'', ''k2''] ''2026-06-01T00:00:00Z'' = Inr r
     \<and> er_error_code r = Some ''TOKEN_INVALID''"
proof -
  have ne: "ct_signature (sample_token ''bad'') \<noteq> token_mac (sample_token ''bad'') s" for s
  proof
    assume "ct_signature (sample_token ''bad'') = token_mac (sample_token ''bad'') s"
    then have "length (ct_signature (sample_token ''bad'')) = 64"
      by (simp only: token_mac_def length_hmac_hexdigest)
    then show False by (simp add: sample_token_def)
  qed
  have "is_ascii (ct_signature (sample_token ''bad''))" by (simp add: is_ascii_def sample_token_def)
  from validate_token_decides [OF wf_sample_token this _ _ sample_times(1) _ sample_times(2),
      of "[''k1'', ''k2'']"]
  show ?thesis using ne by (simp add: is_aware_def) blast
qed

text \<open>C18: A created token round-trips: it is accepted by every list of non-empty secrets that
  contains the secret it was signed with, wherever in the list, until it expires.\<close>

theorem created_token_validates:
  assumes "create_token profile secret tid expires issued persona inst version = Inr t"
    and "secret \<in> set secrets" and "[] \<notin> set secrets"
    and "read_iso now_iso = Some now" and "is_aware now"
    and "read_iso expires = Some e" and "instant now < instant e"
  shows "validate_token t secrets now_iso = Inr allow_result"
proof -
  note c = create_token_Inr [OF assms(1)]
  have "is_ascii (ct_signature t)" by (simp add: c(2) token_mac_def)
  then have "validate_token t secrets now_iso = Inr
    (if \<forall>s \<in> set secrets. ct_signature t \<noteq> token_mac t s
     then deny_result ''token_validation'' ''TOKEN_INVALID'' ''Token signature verification failed''
     else if instant e \<le> instant now
     then deny_result ''token_validation'' ''TOKEN_EXPIRED'' (''Token expired at '' @ ct_expires_at t)
     else allow_result)"
    using assms c by (intro validate_token_wf) auto
  then show ?thesis using assms(2,7) c(2) by auto
qed

lemma created_token_witness:
  "\<exists>t. create_token ''dev'' ''k2'' ''tok_1'' ''2026-12-31T00:00:00Z'' ''2026-01-01T00:00:00Z'' ''p'' ''i'' ''0.1.0''
        = Inr t \<and> validate_token t [''k1'', ''k2''] ''2026-06-01T00:00:00Z'' = Inr allow_result"
proof -
  obtain sig where t: "create_token ''dev'' ''k2'' ''tok_1'' ''2026-12-31T00:00:00Z'' ''2026-01-01T00:00:00Z''
      ''p'' ''i'' ''0.1.0'' = Inr (sample_token sig)"
    using wf_sample_token
    by (auto simp: create_token_def canonicalize_token_fields_def required_fields_def has_key_def
        is_jstr_def compute_signature_def sample_token_def Let_def)
  have "read_iso ''2026-12-31T00:00:00Z'' = Some (Datetime 63934272000000000 (Some 0))"
    using sample_times(2) by (simp add: sample_token_def)
  from created_token_validates [OF t _ _ sample_times(1) _ this, of "[''k1'', ''k2'']"] t
  show ?thesis by (simp add: is_aware_def instant_def)
qed

text \<open>The signature covers every claim: two tokens with the same signed text differ at most in
  their signature.\<close>

theorem signed_text_binds_claims:
  assumes "signing_text t = signing_text u"
  shows "t\<lparr>ct_signature := s\<rparr> = u\<lparr>ct_signature := s\<rparr>"
  using signing_text_claims [OF assms] by (cases t; cases u) simp

lemma signed_text_witness:
  "(sample_token ''a'')\<lparr>ct_signature := ''c''\<rparr> = (sample_token ''b'')\<lparr>ct_signature := ''c''\<rparr>"
  by (rule signed_text_binds_claims) (simp add: signing_text_eq sample_token_def)

text \<open>A well-formed token whose signature has a character beyond ASCII is neither accepted nor
  denied: the comparison of the signatures raises a TypeError.\<close>

theorem non_ascii_signature_raises:
  assumes "wf_token t" and "\<not> is_ascii (ct_signature t)" and "s \<noteq> []" and "now_iso \<noteq> []"
  shows "validate_token t (s # secrets) now_iso
    = Inl (TypeError ''comparing strings with non-ASCII characters is not supported'')"
  using assms by (rule validate_token_non_ascii)

lemma non_ascii_signature_witness:
  "isl (validate_token (sample_token [CHR 0xE9]) [''k''] ''2026-06-01T00:00:00Z'')"
  using non_ascii_signature_raises [OF wf_sample_token, of "[CHR 0xE9]" "''k''" "''2026-06-01T00:00:00Z''" "[]"]
  by (simp add: is_ascii_def sample_token_def)

end
