(* ===== verification/Registry.thy ===== *)
theory Registry
  imports Conflict
begin

text \<open>
  \<^verbatim>\<open>shell/downstream_registry.py\<close>: the registry of resolved tools, two dictionaries kept in
  step, and its contract as the locale \<open>tool_registry\<close>, which the convergence operations of
  \<open>Downstream\<close> use. The contract has lookup laws that hold in every state and, derived from
  them, completeness: as long as no exposed name has two owners, every exposed tool is found,
  and found at its server. \<open>shadowed_tool\<close> shows that this side condition is needed.
\<close>

record registry =
  tools_by_server :: tools_by_server
  tool_to_server :: "(string, string) dict"

definition empty_registry :: registry where
  "empty_registry = \<lparr>tools_by_server = [], tool_to_server = []\<rparr>"

definition drop_owned :: "string \<Rightarrow> resolved_tool list \<Rightarrow> (string, string) dict \<Rightarrow> (string, string) dict" where
  "drop_owned server tools owners =
     fold (\<lambda>rt d. if dget d (rt_name rt) = Some server then dpop (rt_name rt) d else d) tools owners"

definition unregister :: "string \<Rightarrow> registry \<Rightarrow> registry" where
  "unregister server r =
     (let tools = (case dget (tools_by_server r) server of Some ts \<Rightarrow> ts | None \<Rightarrow> [])
      in \<lparr>tools_by_server = dpop server (tools_by_server r),
          tool_to_server = drop_owned server tools (tool_to_server r)\<rparr>)"

definition register :: "string \<Rightarrow> resolved_tool list \<Rightarrow> registry \<Rightarrow> registry" where
  "register server tools r =
     (let r' = unregister server r
      in \<lparr>tools_by_server = dset server tools (tools_by_server r'),
          tool_to_server = fold (\<lambda>rt. dset (rt_name rt) server) tools (tool_to_server r')\<rparr>)"

definition get_all_tools :: "registry \<Rightarrow> tools_by_server" where
  "get_all_tools r = tools_by_server r"

definition get_tool_server :: "registry \<Rightarrow> string \<Rightarrow> string option" where
  "get_tool_server r tool_name = dget (tool_to_server r) tool_name"

definition get_tool :: "registry \<Rightarrow> string \<Rightarrow> resolved_tool option" where
  "get_tool r tool_name =
     (case dget (tool_to_server r) tool_name of
        None \<Rightarrow> None
      | Some server \<Rightarrow>
          (case dget (tools_by_server r) server of
             None \<Rightarrow> None
           | Some tools \<Rightarrow> find (\<lambda>rt. rt_name rt = tool_name) tools))"

definition snapshot :: "registry \<Rightarrow> tools_by_server \<times> (string, string) dict" where
  "snapshot r = (tools_by_server r, tool_to_server r)"

definition restore :: "tools_by_server \<times> (string, string) dict \<Rightarrow> registry \<Rightarrow> registry" where
  "restore snap r = \<lparr>tools_by_server = fst snap, tool_to_server = snd snap\<rparr>"

lemma restore_snapshot [simp]: "restore (snapshot r) r' = r"
  by (simp add: restore_def snapshot_def)


section \<open>The contract\<close>

locale tool_registry =
  fixes inv :: "'r \<Rightarrow> bool"
    and empty :: 'r
    and reg :: "string \<Rightarrow> resolved_tool list \<Rightarrow> 'r \<Rightarrow> 'r"
    and unreg :: "string \<Rightarrow> 'r \<Rightarrow> 'r"
    and tools_of :: "'r \<Rightarrow> tools_by_server"
    and owner :: "'r \<Rightarrow> string \<Rightarrow> string option"
  assumes inv_empty: "inv empty"
    and inv_reg: "inv r \<Longrightarrow> inv (reg s ts r)"
    and inv_unreg: "inv r \<Longrightarrow> inv (unreg s r)"
    and tools_empty: "tools_of empty = []"
    and tools_wf: "inv r \<Longrightarrow> wf_dict (tools_of r)"
    and tools_reg: "inv r \<Longrightarrow> dget (tools_of (reg s ts r)) s' = (if s' = s then Some ts else dget (tools_of r) s')"
    and tools_unreg: "inv r \<Longrightarrow> dget (tools_of (unreg s r)) s' = (if s' = s then None else dget (tools_of r) s')"
    and owner_exposes: "inv r \<Longrightarrow> owner r n = Some s \<Longrightarrow> exposes (tools_of r) s n"
    and owner_reg: "inv r \<Longrightarrow> owner (reg s ts r) n =
          (if n \<in> rt_name ` set ts then Some s else owner (unreg s r) n)"
    and owner_unreg: "inv r \<Longrightarrow> owner (unreg s r) n = (if owner r n = Some s then None else owner r n)"
begin

definition complete :: "'r \<Rightarrow> bool" where
  "complete r \<longleftrightarrow> inv r \<and> (\<forall>s n. exposes (tools_of r) s n \<longrightarrow> owner r n = Some s)"

lemma exposes_dget:
  "inv r \<Longrightarrow> exposes (tools_of r) s n \<longleftrightarrow> (\<exists>ts. dget (tools_of r) s = Some ts \<and> n \<in> rt_name ` set ts)"
  by (rule exposes_wf) (rule tools_wf)

lemma exposes_reg:
  "inv r \<Longrightarrow> exposes (tools_of (reg s ts r)) s' n \<longleftrightarrow>
     (if s' = s then n \<in> rt_name ` set ts else exposes (tools_of r) s' n)"
  by (simp add: exposes_dget inv_reg tools_reg)

lemma exposes_unreg:
  "inv r \<Longrightarrow> exposes (tools_of (unreg s r)) s' n \<longleftrightarrow> s' \<noteq> s \<and> exposes (tools_of r) s' n"
  by (simp add: exposes_dget inv_unreg tools_unreg)

lemma complete_empty: "complete empty"
  by (simp add: complete_def inv_empty tools_empty exposes_def)

lemma complete_unreg: "complete r \<Longrightarrow> complete (unreg s r)"
  by (auto simp: complete_def inv_unreg exposes_unreg owner_unreg)

lemma complete_reg:
  assumes "complete r" and cf: "conflict_free (tools_of (reg s ts r))"
  shows "complete (reg s ts r)"
proof -
  have inv: "inv r" and own: "\<And>s n. exposes (tools_of r) s n \<Longrightarrow> owner r n = Some s"
    using assms(1) by (auto simp: complete_def)
  have "owner (reg s ts r) n = Some s'" if e: "exposes (tools_of (reg s ts r)) s' n" for s' n
  proof (cases "n \<in> rt_name ` set ts")
    case True
    then have "exposes (tools_of (reg s ts r)) s n" using inv by (simp add: exposes_reg)
    then have "s' = s" using cf e unfolding conflict_free_def by blast
    then show ?thesis using True inv by (simp add: owner_reg)
  next
    case False
    then have "s' \<noteq> s" "exposes (tools_of r) s' n"
      using e inv by (auto simp: exposes_reg split: if_splits)
    then show ?thesis using False inv own by (auto simp: owner_reg owner_unreg)
  qed
  then show ?thesis using inv by (simp add: complete_def inv_reg)
qed

text \<open>Publishing the servers one after another into a fresh registry.\<close>

definition publish :: "tools_by_server \<Rightarrow> 'r \<Rightarrow> 'r" where
  "publish entries r = fold (\<lambda>(s, ts). reg s ts) entries r"

lemma publish_inv: "inv r \<Longrightarrow> inv (publish entries r)"
  by (induction entries arbitrary: r) (auto simp: publish_def inv_reg)

lemma publish_tools:
  "inv r \<Longrightarrow> wf_dict entries \<Longrightarrow> dget (tools_of (publish entries r)) s =
     (case dget entries s of Some ts \<Rightarrow> Some ts | None \<Rightarrow> dget (tools_of r) s)"
proof (induction entries arbitrary: r)
  case (Cons x xs)
  obtain s' ts where x: "x = (s', ts)" by (cases x)
  have "wf_dict xs" and new: "dget xs s' = None"
    using Cons.prems(2) by (auto simp: wf_dict_def x map_of_eq_None_iff)
  then show ?case
    using Cons.IH [of "reg s' ts r"] Cons.prems(1)
    by (auto simp: publish_def x inv_reg tools_reg split: option.split)
qed (simp add: publish_def)

lemma publish_complete:
  assumes wf: "wf_dict entries" and cf: "conflict_free entries"
  shows "complete (publish entries empty)"
  using assms
proof (induction entries rule: rev_induct)
  case Nil
  then show ?case by (simp add: publish_def complete_empty)
next
  case (snoc x xs)
  obtain s ts where x: "x = (s, ts)" by (cases x)
  have wf: "wf_dict xs" and new: "dget xs s = None"
    using snoc.prems(1) by (auto simp: wf_dict_def x map_of_eq_None_iff)
  have cfs: "conflict_free xs"
    using snoc.prems(2) by (rule conflict_free_mono [rotated]) (simp add: exposes_append)
  note IH = snoc.IH [OF wf cfs]
  have inv: "inv (publish xs empty)" using IH by (simp add: complete_def)
  have last: "publish (xs @ [x]) empty = reg s ts (publish xs empty)" by (simp add: publish_def x)
  have "exposes (tools_of (reg s ts (publish xs empty))) s' n \<longleftrightarrow> exposes (xs @ [x]) s' n" for s' n
  proof -
    have "exposes (tools_of (publish xs empty)) s' n \<longleftrightarrow> exposes xs s' n" for s' n
    proof -
      have "dget (tools_of (publish xs empty)) s' = dget xs s'"
        using publish_tools [OF inv_empty wf] by (simp add: tools_empty split: option.split)
      then show ?thesis by (simp add: exposes_dget [OF inv] exposes_wf [OF wf])
    qed
    moreover have "\<not> exposes xs s n" for n
      using new wf by (auto simp: exposes_def map_of_eq_None_iff image_iff)
    ultimately show ?thesis
      using inv by (auto simp: exposes_reg x) (auto simp: exposes_def x)
  qed
  then have "conflict_free (tools_of (reg s ts (publish xs empty)))"
    using snoc.prems(2) by (simp add: conflict_free_def)
  with IH show ?case unfolding last by (rule complete_reg)
qed

end


section \<open>The registry provides it\<close>

definition registry_inv :: "registry \<Rightarrow> bool" where
  "registry_inv r \<longleftrightarrow> wf_dict (tools_by_server r)
     \<and> (\<forall>n s. dget (tool_to_server r) n = Some s \<longrightarrow> exposes (tools_by_server r) s n)"

lemma dget_drop_owned:
  "dget (drop_owned s tools d) n =
     (if n \<in> rt_name ` set tools \<and> dget d n = Some s then None else dget d n)"
proof (induction tools arbitrary: d)
  case (Cons rt tools)
  then show ?case by (auto simp: drop_owned_def dict_simps)
qed (simp add: drop_owned_def)

lemma dget_fold_owner:
  "dget (fold (\<lambda>rt. dset (rt_name rt) s) tools d) n = (if n \<in> rt_name ` set tools then Some s else dget d n)"
  by (induction tools arbitrary: d) (auto simp: dict_simps)

lemma owner_listed:
  assumes "registry_inv r" and "get_tool_server r n = Some s"
  obtains ts where "dget (tools_by_server r) s = Some ts" and "n \<in> rt_name ` set ts"
proof -
  have "wf_dict (tools_by_server r)" "exposes (tools_by_server r) s n"
    using assms by (simp_all add: registry_inv_def get_tool_server_def)
  then show ?thesis using that exposes_wf by blast
qed

lemma owner_unregister:
  assumes "registry_inv r"
  shows "get_tool_server (unregister s r) n = (if get_tool_server r n = Some s then None else get_tool_server r n)"
proof (cases "get_tool_server r n = Some s")
  case True
  with assms obtain ts where "dget (tools_by_server r) s = Some ts" "n \<in> rt_name ` set ts"
    by (rule owner_listed)
  then show ?thesis using True by (simp add: get_tool_server_def unregister_def dget_drop_owned Let_def)
qed (simp add: get_tool_server_def unregister_def dget_drop_owned Let_def)

lemma registry_inv_unregister: "registry_inv r \<Longrightarrow> registry_inv (unregister s r)"
proof -
  assume inv: "registry_inv r"
  then have wf: "wf_dict (tools_by_server r)" by (simp add: registry_inv_def)
  have "exposes (tools_by_server (unregister s r)) s' n"
    if "get_tool_server (unregister s r) n = Some s'" for n s'
  proof -
    have "get_tool_server r n = Some s'" "s' \<noteq> s"
      using that owner_unregister [OF inv] by (auto split: if_splits)
    then have "exposes (tools_by_server r) s' n" "s' \<noteq> s"
      using inv by (auto simp: registry_inv_def get_tool_server_def)
    then show ?thesis using wf by (simp add: exposes_wf unregister_def Let_def dict_simps)
  qed
  then show ?thesis using wf by (simp add: registry_inv_def get_tool_server_def unregister_def Let_def)
qed

lemma owner_register:
  "get_tool_server (register s ts r) n =
     (if n \<in> rt_name ` set ts then Some s else get_tool_server (unregister s r) n)"
  by (simp add: register_def get_tool_server_def dget_fold_owner Let_def)

lemma registry_inv_register: "registry_inv r \<Longrightarrow> registry_inv (register s ts r)"
proof -
  assume inv: "registry_inv r"
  note inv' = registry_inv_unregister [OF inv, of s]
  then have wf: "wf_dict (tools_by_server (unregister s r))" by (simp add: registry_inv_def)
  have "exposes (tools_by_server (register s ts r)) s' n"
    if o: "get_tool_server (register s ts r) n = Some s'" for n s'
  proof (cases "n \<in> rt_name ` set ts")
    case True
    then have "s' = s" using o by (simp add: owner_register)
    then show ?thesis using True wf by (simp add: register_def exposes_wf Let_def dict_simps)
  next
    case False
    then have o': "get_tool_server (unregister s r) n = Some s'" using o by (simp add: owner_register)
    then have "s' \<noteq> s" using owner_unregister [OF inv] by (auto split: if_splits)
    moreover have "exposes (tools_by_server (unregister s r)) s' n"
      using o' inv' by (simp add: registry_inv_def get_tool_server_def)
    ultimately show ?thesis using wf by (simp add: register_def exposes_wf Let_def dict_simps)
  qed
  then show ?thesis using wf by (simp add: registry_inv_def get_tool_server_def register_def Let_def)
qed

lemma tools_register:
  "dget (get_all_tools (register s ts r)) s' = (if s' = s then Some ts else dget (get_all_tools r) s')"
  by (simp add: get_all_tools_def register_def unregister_def Let_def dict_simps)

lemma tools_unregister:
  "dget (get_all_tools (unregister s r)) s' = (if s' = s then None else dget (get_all_tools r) s')"
  by (simp add: get_all_tools_def unregister_def Let_def dict_simps)

lemma registry_inv_parts:
  "registry_inv r \<Longrightarrow> wf_dict (get_all_tools r)"
  "registry_inv r \<Longrightarrow> get_tool_server r n = Some s \<Longrightarrow> exposes (get_all_tools r) s n"
  "registry_inv empty_registry" "get_all_tools empty_registry = []"
  by (simp_all add: registry_inv_def get_all_tools_def get_tool_server_def empty_registry_def)

interpretation dsr: tool_registry registry_inv empty_registry register unregister get_all_tools get_tool_server
  by unfold_locales
    ((rule registry_inv_parts registry_inv_register registry_inv_unregister tools_register
      tools_unregister owner_register owner_unregister; assumption)
     | rule registry_inv_parts tools_register tools_unregister owner_register)+

text \<open>A tool that the registry finds carries the name it was asked for and belongs to the owner.\<close>

lemma get_tool_Some:
  assumes "get_tool r n = Some rt"
  obtains s tools where "get_tool_server r n = Some s" and "dget (tools_by_server r) s = Some tools"
    and "rt \<in> set tools" and "rt_name rt = n"
  using assms
  by (auto simp: get_tool_def get_tool_server_def find_Some_iff split: option.splits)

lemma get_tool_owner:
  assumes "registry_inv r"
  shows "get_tool_server r n = Some s \<Longrightarrow> \<exists>rt. get_tool r n = Some rt"
proof -
  assume o: "get_tool_server r n = Some s"
  with assms obtain ts where ts: "dget (tools_by_server r) s = Some ts" "n \<in> rt_name ` set ts"
    by (rule owner_listed)
  then have "find (\<lambda>rt. rt_name rt = n) ts \<noteq> None" by (auto simp: find_None_iff)
  then show ?thesis using o ts by (auto simp: get_tool_def get_tool_server_def)
qed


section \<open>Properties\<close>

text \<open>Publishing a conflict-free set of servers into an empty registry gives a registry that
  finds every exposed tool at its server, and that keeps this through any further registration
  that leaves the tools conflict free and through every removal of a server.\<close>

theorem published_registry_complete:
  assumes "wf_dict entries" and "conflict_free entries"
  shows "dsr.complete (dsr.publish entries empty_registry)
    \<and> (\<forall>r s ts. dsr.complete r \<longrightarrow> conflict_free (get_all_tools (register s ts r)) \<longrightarrow>
         dsr.complete (register s ts r))
    \<and> (\<forall>r s. dsr.complete r \<longrightarrow> dsr.complete (unregister s r))"
  using dsr.publish_complete [OF assms] dsr.complete_reg dsr.complete_unreg by blast

definition one_server :: tools_by_server where
  "one_server = [(''fs'', [tool_of ''fs'' ''read''])]"

lemma published_registry_witness:
  "dsr.complete (dsr.publish one_server empty_registry)"
proof -
  have "conflict_free one_server"
    by (auto simp: conflict_free_def exposes_def one_server_def tool_of_def)
  moreover have "wf_dict one_server" by (simp add: wf_dict_def one_server_def)
  ultimately show ?thesis using published_registry_complete by blast
qed

text \<open>Without freedom from conflicts completeness is lost: when two servers expose a name and
  the owner is removed, the other server's tool is still listed but no longer found.\<close>

theorem shadowed_tool_unreachable:
  "let r = unregister ''b'' (register ''b'' [tool_of ''b'' ''read'']
             (register ''a'' [tool_of ''a'' ''read''] empty_registry))
   in exposes (get_all_tools r) ''a'' ''read'' \<and> get_tool r ''read'' = None"
  by code_simp

end
