(* ===== verification/Gateway_Runtime.thy ===== *)
theory Gateway_Runtime
  imports Catalog_Config
begin

text \<open>
  \<^verbatim>\<open>shell/gateway_runtime.py\<close>: the one record of runtime state and its locked accessors.
  Each accessor takes the lock for its whole body, so it is one function on the state. A
  session object is a number, its identity; \<^verbatim>\<open>existing is session\<close> is equality of numbers.
  The contract of the connection list and the session registry is the locale
  \<open>connection_store\<close>, which \<open>Connection_Lifecycle\<close> builds its teardown on.
\<close>

type_synonym session = nat

record startup_config =
  st_transport :: gateway_transport
  st_port :: "int option"
  st_auth_mode :: auth_mode
  st_default_profile :: "string option"
  st_host :: string

record runtime =
  gr_config :: "tela_config option"
  gr_startup :: "startup_config option"
  gr_start_time :: "rat option"
  gr_connections :: "connection_context list"
  gr_total_tool_calls :: nat
  gr_running :: bool
  gr_upstream_ready :: bool
  gr_bearer_token :: "string option"
  gr_secrets :: "string list"
  gr_pending :: "string set"
  gr_sessions :: "(string, session) dict"
  gr_reaper :: bool
  gr_converge :: "bool option"

definition initial_runtime :: runtime where
  "initial_runtime = \<lparr>gr_config = None, gr_startup = None, gr_start_time = None, gr_connections = [],
     gr_total_tool_calls = 0, gr_running = False, gr_upstream_ready = False, gr_bearer_token = None,
     gr_secrets = [], gr_pending = {}, gr_sessions = [], gr_reaper = False, gr_converge = None\<rparr>"


section \<open>Connections\<close>

definition get_runtime_config :: "runtime \<Rightarrow> tela_config option" where
  "get_runtime_config r = gr_config r"

definition set_runtime_config :: "tela_config option \<Rightarrow> runtime \<Rightarrow> runtime" where
  "set_runtime_config c r = r\<lparr>gr_config := c\<rparr>"

definition add_runtime_connection :: "connection_context \<Rightarrow> runtime \<Rightarrow> runtime" where
  "add_runtime_connection ctx r = r\<lparr>gr_connections := gr_connections r @ [ctx]\<rparr>"

definition remove_runtime_connection :: "string \<Rightarrow> runtime \<Rightarrow> bool \<times> runtime" where
  "remove_runtime_connection cid r =
     (let original = length (gr_connections r);
          remaining = filter (\<lambda>c. cc_connection_id c \<noteq> cid) (gr_connections r)
      in (length remaining \<noteq> original, r\<lparr>gr_connections := remaining\<rparr>))"

text \<open>The first connection with the identifier is updated in place.\<close>

fun touch_first :: "string \<Rightarrow> string \<Rightarrow> connection_context list \<Rightarrow> bool \<times> connection_context list" where
  "touch_first cid ts [] = (False, [])"
| "touch_first cid ts (c # cs) =
     (if cc_connection_id c = cid then (True, c\<lparr>cc_last_activity := ts\<rparr> # cs)
      else (let (found, cs') = touch_first cid ts cs in (found, c # cs')))"

definition touch_connection_activity :: "string \<Rightarrow> string \<Rightarrow> runtime \<Rightarrow> bool \<times> runtime" where
  "touch_connection_activity cid ts r =
     (let (found, cs) = touch_first cid ts (gr_connections r) in (found, r\<lparr>gr_connections := cs\<rparr>))"

definition set_runtime_running :: "bool \<Rightarrow> runtime \<Rightarrow> runtime" where
  "set_runtime_running b r = r\<lparr>gr_running := b\<rparr>"

definition clear_runtime_connections :: "runtime \<Rightarrow> runtime" where
  "clear_runtime_connections r = r\<lparr>gr_connections := [], gr_pending := {}\<rparr>"


section \<open>Bridge registrations, counters and secrets\<close>

definition register_bridge_connection :: "string \<Rightarrow> runtime \<Rightarrow> (unit, string) result \<times> runtime" where
  "register_bridge_connection cid r =
     (if cid = [] then (Err ''BRIDGE_REGISTRATION_FAILED: connection_id must not be empty'', r)
      else (Ok (), r\<lparr>gr_pending := insert cid (gr_pending r)\<rparr>))"

definition has_bridge_registration :: "string \<Rightarrow> runtime \<Rightarrow> (bool, string) result" where
  "has_bridge_registration cid r =
     (if cid = [] then Err ''BRIDGE_REGISTRATION_LOOKUP_FAILED: connection_id must not be empty''
      else Ok (cid \<in> gr_pending r))"

definition remove_bridge_registration :: "string \<Rightarrow> runtime \<Rightarrow> (bool, string) result \<times> runtime" where
  "remove_bridge_registration cid r =
     (if cid = [] then (Err ''BRIDGE_REGISTRATION_REMOVE_FAILED: connection_id must not be empty'', r)
      else (Ok (cid \<in> gr_pending r), r\<lparr>gr_pending := gr_pending r - {cid}\<rparr>))"

definition increment_tool_calls :: "runtime \<Rightarrow> runtime" where
  "increment_tool_calls r = r\<lparr>gr_total_tool_calls := gr_total_tool_calls r + 1\<rparr>"

definition set_runtime_secrets :: "string list \<Rightarrow> runtime \<Rightarrow> runtime" where
  "set_runtime_secrets s r = r\<lparr>gr_secrets := s\<rparr>"

definition set_runtime_total_tool_calls :: "nat \<Rightarrow> runtime \<Rightarrow> runtime" where
  "set_runtime_total_tool_calls n r = r\<lparr>gr_total_tool_calls := n\<rparr>"

definition set_upstream_server :: "bool \<Rightarrow> runtime \<Rightarrow> runtime" where
  "set_upstream_server present r = r\<lparr>gr_upstream_ready := present\<rparr>"

record status_snapshot =
  ss_config :: "tela_config option"
  ss_running :: bool
  ss_start_time :: "rat option"
  ss_total_tool_calls :: nat
  ss_connections :: "connection_context list"

definition get_runtime_status_snapshot :: "runtime \<Rightarrow> status_snapshot" where
  "get_runtime_status_snapshot r = \<lparr>ss_config = gr_config r, ss_running = gr_running r,
     ss_start_time = gr_start_time r, ss_total_tool_calls = gr_total_tool_calls r,
     ss_connections = gr_connections r\<rparr>"


section \<open>The session registry\<close>

definition capture_session :: "string \<Rightarrow> session \<Rightarrow> runtime \<Rightarrow> (unit, string) result \<times> runtime" where
  "capture_session cid s r =
     (if cid = [] then (Err ''SESSION_CAPTURE_FAILED: connection_id must not be empty'', r)
      else (case dget (gr_sessions r) cid of
          Some existing \<Rightarrow>
            if existing = s then (Ok (), r)
            else (Err (''SESSION_ALREADY_BOUND: connection '' @ squote cid @ '' already has a session''), r)
        | None \<Rightarrow> (Ok (), r\<lparr>gr_sessions := dset cid s (gr_sessions r)\<rparr>)))"

definition release_session :: "string \<Rightarrow> runtime \<Rightarrow> runtime" where
  "release_session cid r = r\<lparr>gr_sessions := dpop cid (gr_sessions r)\<rparr>"

definition get_captured_session :: "string \<Rightarrow> runtime \<Rightarrow> (session, string) result" where
  "get_captured_session cid r =
     (case dget (gr_sessions r) cid of
        None \<Rightarrow> Err (''SESSION_NOT_FOUND: session for '' @ squote cid @ '' not found'')
      | Some s \<Rightarrow> Ok s)"

definition get_connection_id_for_session :: "session \<Rightarrow> runtime \<Rightarrow> (string, string) result" where
  "get_connection_id_for_session s r =
     (case find (\<lambda>(cid, registered). registered = s) (gr_sessions r) of
        Some (cid, _) \<Rightarrow> Ok cid
      | None \<Rightarrow> Err ''SESSION_NOT_REGISTERED: session has no binding'')"

definition clear_session_registry :: "runtime \<Rightarrow> runtime" where
  "clear_session_registry r = r\<lparr>gr_sessions := []\<rparr>"

definition set_runtime_reaper :: "bool \<Rightarrow> runtime \<Rightarrow> runtime" where
  "set_runtime_reaper present r = r\<lparr>gr_reaper := present\<rparr>"

definition set_runtime_converge_event :: "bool option \<Rightarrow> runtime \<Rightarrow> runtime" where
  "set_runtime_converge_event ev r = r\<lparr>gr_converge := ev\<rparr>"


section \<open>The contract of the store\<close>

text \<open>
  \<open>ids\<close> are the identifiers of the live connections, \<open>bound\<close> the session of a connection. The
  client works on one identifier at a time.
\<close>

locale connection_store =
  fixes ids :: "'r \<Rightarrow> string list"
    and bound :: "'r \<Rightarrow> string \<Rightarrow> nat option"
    and remove :: "string \<Rightarrow> 'r \<Rightarrow> bool \<times> 'r"
    and release :: "string \<Rightarrow> 'r \<Rightarrow> 'r"
  assumes ids_remove: "ids (snd (remove c r)) = filter (\<lambda>d. d \<noteq> c) (ids r)"
    and removed_iff: "fst (remove c r) \<longleftrightarrow> c \<in> set (ids r)"
    and remove_absent: "c \<notin> set (ids r) \<Longrightarrow> snd (remove c r) = r"
    and bound_remove: "bound (snd (remove c r)) d = bound r d"
    and ids_release: "ids (release c r) = ids r"
    and bound_release: "bound (release c r) d = (if d = c then None else bound r d)"
    and release_unbound: "bound r c = None \<Longrightarrow> release c r = r"
begin

definition teardown :: "string \<Rightarrow> 'r \<Rightarrow> bool \<times> 'r" where
  "teardown c r = (let (gone, r') = remove c r in (gone, release c r'))"

lemma teardown_ids: "ids (snd (teardown c r)) = filter (\<lambda>d. d \<noteq> c) (ids r)"
  by (simp add: teardown_def split_beta ids_remove ids_release)

lemma teardown_bound: "bound (snd (teardown c r)) d = (if d = c then None else bound r d)"
  by (simp add: teardown_def split_beta bound_remove bound_release)

lemma teardown_flag: "fst (teardown c r) \<longleftrightarrow> c \<in> set (ids r)"
  by (simp add: teardown_def split_beta removed_iff)

lemma teardown_again: "teardown c (snd (teardown c r)) = (False, snd (teardown c r))"
proof -
  let ?r = "snd (teardown c r)"
  have "c \<notin> set (ids ?r)" "bound ?r c = None" by (simp_all add: teardown_ids teardown_bound)
  then have "snd (remove c ?r) = ?r" "\<not> fst (remove c ?r)" "release c ?r = ?r"
    by (simp_all add: remove_absent removed_iff release_unbound)
  then show ?thesis by (simp add: teardown_def split_beta)
qed

end

definition connection_ids :: "runtime \<Rightarrow> string list" where
  "connection_ids r = map cc_connection_id (gr_connections r)"

definition bound_session :: "runtime \<Rightarrow> string \<Rightarrow> session option" where
  "bound_session r cid = dget (gr_sessions r) cid"

lemma connection_ids_remove:
  "connection_ids (snd (remove_runtime_connection c r)) = filter (\<lambda>d. d \<noteq> c) (connection_ids r)"
  by (simp add: connection_ids_def remove_runtime_connection_def Let_def filter_map comp_def)

lemma removed_iff_present: "fst (remove_runtime_connection c r) \<longleftrightarrow> c \<in> set (connection_ids r)"
proof -
  have "length (filter P xs) \<noteq> length xs \<longleftrightarrow> (\<exists>x \<in> set xs. \<not> P x)" for P and xs :: "connection_context list"
    by (metis filter_True filter_id_conv length_filter_less order_less_irrefl)
  then show ?thesis
    by (auto simp: remove_runtime_connection_def connection_ids_def Let_def image_iff)
qed

lemma remove_absent_connection:
  "c \<notin> set (connection_ids r) \<Longrightarrow> snd (remove_runtime_connection c r) = r"
proof -
  assume "c \<notin> set (connection_ids r)"
  then have "filter (\<lambda>x. cc_connection_id x \<noteq> c) (gr_connections r) = gr_connections r"
    by (auto simp: connection_ids_def filter_id_conv)
  then show ?thesis by (simp add: remove_runtime_connection_def Let_def)
qed

lemma dpop_absent: "dget d k = None \<Longrightarrow> dpop k d = d"
  by (induction d) (auto split: if_splits)

lemma session_laws:
  "bound_session (snd (remove_runtime_connection c r)) d = bound_session r d"
  "connection_ids (release_session c r) = connection_ids r"
  "bound_session (release_session c r) d = (if d = c then None else bound_session r d)"
  by (simp_all add: bound_session_def remove_runtime_connection_def release_session_def
      connection_ids_def Let_def dict_simps)

lemma release_unbound_session: "bound_session r c = None \<Longrightarrow> release_session c r = r"
  by (simp add: bound_session_def release_session_def dpop_absent)

interpretation store: connection_store connection_ids bound_session remove_runtime_connection release_session
  by unfold_locales
    (simp_all add: connection_ids_remove removed_iff_present remove_absent_connection session_laws
      release_unbound_session)


section \<open>First binding\<close>

lemma capture_session_ok:
  assumes "capture_session cid s r = (Ok (), r')"
  shows "bound_session r' cid = Some s" and "gr_connections r' = gr_connections r"
    and "bound_session r cid = None \<or> bound_session r cid = Some s"
    and "d \<noteq> cid \<Longrightarrow> bound_session r' d = bound_session r d"
  using assms
  by (auto simp: capture_session_def bound_session_def dict_simps split: if_splits option.splits)

lemma capture_session_err:
  "capture_session cid s r = (Err e, r') \<Longrightarrow> r' = r"
  by (auto simp: capture_session_def split: if_splits option.splits)

lemma capture_session_other:
  "cid \<noteq> [] \<Longrightarrow> bound_session r cid = Some s \<Longrightarrow> t \<noteq> s \<Longrightarrow> is_err (fst (capture_session cid t r))"
  by (simp add: capture_session_def bound_session_def)

lemma connection_for_session:
  "get_connection_id_for_session s r = Ok cid \<Longrightarrow> (cid, s) \<in> set (gr_sessions r)"
  by (auto simp: get_connection_id_for_session_def find_Some_iff in_set_conv_nth
      split: option.splits)

lemma touch_first_ids: "map cc_connection_id (snd (touch_first cid ts cs)) = map cc_connection_id cs"
  by (induction cs) (auto simp: split_beta)

lemma touch_connection_ids [simp]:
  "connection_ids (snd (touch_connection_activity cid ts r)) = connection_ids r"
  by (simp add: touch_connection_activity_def connection_ids_def split_beta touch_first_ids)

lemma touch_first_found: "fst (touch_first cid ts cs) \<longleftrightarrow> cid \<in> cc_connection_id ` set cs"
  by (induction cs) (auto simp: split_beta)

end
