(* ===== verification/Idle_Shutdown.thy ===== *)
theory Idle_Shutdown
  imports Prelude
begin

text \<open>
  \<^verbatim>\<open>shell/idle_shutdown.py\<close>: the connection counter whose fall to zero arms the timer that
  shuts the gateway down. Methods run under the manager's lock and are single steps; the timer
  task is the field \<open>im_timer\<close> and its expiry a step of its own (\<open>idle_step\<close>). The counter's
  contract is the locale \<open>connection_counter\<close>; the rule induction at the end shows that the
  shutdown callback can only run while no connection is counted.
\<close>

datatype idle_timer = NoTimer | Pending | Fired

record idle_manager =
  im_timeout :: rat
  im_count :: nat
  im_timer :: idle_timer

definition new_idle_manager :: "rat \<Rightarrow> idle_manager" where
  "new_idle_manager timeout = \<lparr>im_timeout = timeout, im_count = 0, im_timer = NoTimer\<rparr>"

definition is_shutdown_disabled :: "idle_manager \<Rightarrow> bool" where
  "is_shutdown_disabled m \<longleftrightarrow> im_timeout m \<le> 0"

definition cancel_idle_timer :: "idle_manager \<Rightarrow> idle_manager" where
  "cancel_idle_timer m = m\<lparr>im_timer := NoTimer\<rparr>"

definition start_idle_timer :: "idle_manager \<Rightarrow> idle_manager" where
  "start_idle_timer m = m\<lparr>im_timer := Pending\<rparr>"

definition increment :: "idle_manager \<Rightarrow> idle_manager" where
  "increment m = cancel_idle_timer (m\<lparr>im_count := im_count m + 1\<rparr>)"

definition underflow_error :: string where
  "underflow_error = ''CONNECTION_COUNT_UNDERFLOW: disconnect called without matching connect''"

definition decrement :: "idle_manager \<Rightarrow> (unit, string) result \<times> idle_manager" where
  "decrement m =
     (if im_count m \<le> 0 then (Err underflow_error, m)
      else (let m' = m\<lparr>im_count := im_count m - 1\<rparr>
            in (Ok (), if im_count m' = 0 \<and> \<not> is_shutdown_disabled m' then start_idle_timer m' else m')))"

definition reset :: "idle_manager \<Rightarrow> idle_manager" where
  "reset m = (cancel_idle_timer m)\<lparr>im_count := 0\<rparr>"

text \<open>The module-level singleton.\<close>

definition init_idle_manager :: "idle_manager option \<Rightarrow> rat \<Rightarrow> (idle_manager, string) result \<times> idle_manager option" where
  "init_idle_manager slot timeout =
     (case slot of
        Some m \<Rightarrow> (Err ''IDLE_MANAGER_ALREADY_INITIALIZED: init_idle_manager called multiple times'', slot)
      | None \<Rightarrow> (Ok (new_idle_manager timeout), Some (new_idle_manager timeout)))"

definition shutdown_idle_manager :: "idle_manager option \<Rightarrow> (unit, string) result \<times> idle_manager option" where
  "shutdown_idle_manager slot = (Ok (), None)"


section \<open>The contract of the counter\<close>

locale connection_counter =
  fixes count :: "'m \<Rightarrow> nat"
    and inc :: "'m \<Rightarrow> 'm"
    and dec :: "'m \<Rightarrow> (unit, string) result \<times> 'm"
  assumes count_inc: "count (inc m) = Suc (count m)"
    and dec_zero: "count m = 0 \<Longrightarrow> is_err (fst (dec m)) \<and> snd (dec m) = m"
    and dec_pos: "0 < count m \<Longrightarrow> is_ok (fst (dec m)) \<and> count (snd (dec m)) = count m - 1"
begin

lemma count_dec: "count (snd (dec m)) = count m - 1"
  using dec_zero [of m] dec_pos [of m] by (cases "count m = 0") auto

lemma dec_ok_iff: "is_ok (fst (dec m)) \<longleftrightarrow> 0 < count m"
  using dec_zero [of m] dec_pos [of m] by (cases "fst (dec m)") (auto simp: is_err_def)

text \<open>A run of decrements never goes below zero, and succeeds throughout if it stays within the count.\<close>

fun dec_run :: "nat \<Rightarrow> 'm \<Rightarrow> bool \<times> 'm" where
  "dec_run 0 m = (True, m)"
| "dec_run (Suc k) m = (let (r, m') = dec m; (ok, m'') = dec_run k m' in (is_ok r \<and> ok, m''))"

lemma dec_run_count: "count (snd (dec_run k m)) = count m - k"
  by (induction k arbitrary: m) (auto simp: split_beta count_dec)

lemma dec_run_ok: "fst (dec_run k m) \<longleftrightarrow> k \<le> count m"
  by (induction k arbitrary: m) (auto simp: split_beta dec_ok_iff count_dec)

end

lemma im_count_increment [simp]: "im_count (increment m) = Suc (im_count m)"
  by (simp add: increment_def cancel_idle_timer_def)

lemma im_count_decrement [simp]: "im_count (snd (decrement m)) = im_count m - 1"
  by (simp add: decrement_def start_idle_timer_def Let_def)

lemma decrement_ok [simp]: "is_ok (fst (decrement m)) \<longleftrightarrow> 0 < im_count m"
  by (simp add: decrement_def Let_def)

interpretation idle: connection_counter im_count increment decrement
  by unfold_locales (auto simp: decrement_def start_idle_timer_def increment_def cancel_idle_timer_def Let_def)


section \<open>The timer\<close>

datatype idle_event = Increment | Decrement | Reset | TimerExpired

inductive idle_step :: "idle_manager \<Rightarrow> idle_event \<Rightarrow> idle_manager \<Rightarrow> bool" where
  Inc: "idle_step m Increment (increment m)"
| Dec: "idle_step m Decrement (snd (decrement m))"
| Res: "idle_step m Reset (reset m)"
| Exp: "im_timer m = Pending \<Longrightarrow> idle_step m TimerExpired (m\<lparr>im_timer := Fired\<rparr>)"

inductive_cases idle_expiredE: "idle_step m TimerExpired m'"

inductive idle_reach :: "rat \<Rightarrow> idle_manager \<Rightarrow> bool" for timeout where
  Start: "idle_reach timeout (new_idle_manager timeout)"
| Step: "idle_reach timeout m \<Longrightarrow> idle_step m e m' \<Longrightarrow> idle_reach timeout m'"

definition idle_inv :: "rat \<Rightarrow> idle_manager \<Rightarrow> bool" where
  "idle_inv timeout m \<longleftrightarrow> im_timeout m = timeout
     \<and> (im_timer m \<noteq> NoTimer \<longrightarrow> im_count m = 0 \<and> 0 < timeout)"

lemma idle_inv_step: "idle_step m e m' \<Longrightarrow> idle_inv timeout m \<Longrightarrow> idle_inv timeout m'"
  by (induction rule: idle_step.induct)
    (auto simp: idle_inv_def increment_def decrement_def reset_def cancel_idle_timer_def
      start_idle_timer_def is_shutdown_disabled_def Let_def)

lemma idle_reach_inv: "idle_reach timeout m \<Longrightarrow> idle_inv timeout m"
proof (induction rule: idle_reach.induct)
  case Start
  show ?case by (simp add: idle_inv_def new_idle_manager_def)
next
  case (Step m e m')
  show ?case using Step.hyps(2) Step.IH by (rule idle_inv_step)
qed


section \<open>Properties\<close>

text \<open>In every reachable state the timer is armed only while no connection is counted and the
  timeout is positive; so the shutdown callback runs only then, and never with a timeout of zero.\<close>

theorem shutdown_only_when_idle:
  assumes "idle_reach timeout m" and "idle_step m TimerExpired m'"
  shows "im_count m = 0 \<and> 0 < timeout"
  using idle_reach_inv [OF assms(1)] assms(2) by (auto simp: idle_inv_def elim: idle_expiredE)

lemma shutdown_only_when_idle_witness:
  "im_count (snd (decrement (increment (new_idle_manager 30)))) = 0 \<and> (0::rat) < 30"
proof (rule shutdown_only_when_idle)
  show "idle_reach 30 (snd (decrement (increment (new_idle_manager 30))))"
    by (intro idle_reach.Step [OF _ idle_step.Dec] idle_reach.Step [OF _ idle_step.Inc] idle_reach.Start)
  show "idle_step (snd (decrement (increment (new_idle_manager 30)))) TimerExpired
      ((snd (decrement (increment (new_idle_manager 30))))\<lparr>im_timer := Fired\<rparr>)"
    by (rule idle_step.Exp)
      (simp add: decrement_def increment_def new_idle_manager_def cancel_idle_timer_def start_idle_timer_def
        is_shutdown_disabled_def Let_def)
qed

text \<open>A run of disconnects lowers the count by their number and never below zero; all of them
  succeed exactly when there are no more of them than counted connections.\<close>

theorem disconnects_never_underflow:
  "im_count (snd (idle.dec_run k m)) = im_count m - k \<and> fst (idle.dec_run k m) = (k \<le> im_count m)"
  using idle.dec_run_count idle.dec_run_ok by simp

end
