(* ===== verification/Connection_Lifecycle.thy ===== *)
theory Connection_Lifecycle
  imports Gateway_Runtime Idle_Shutdown
begin

text \<open>
  \<^verbatim>\<open>shell/connection_lifecycle.py\<close> and \<^verbatim>\<open>shell/connection_reaper.py\<close>: the teardown
  of one connection and the periodic sweep over all of them. The state is the gateway runtime
  together with the idle manager, if one is installed. A sweep reads the clock once; the loop
  around it is a sequence of sweeps. The lemmas describe a whole sweep: which connections it
  removes, what it reports, and by how much it lowers the idle count.
\<close>

record gateway_state =
  gs_runtime :: runtime
  gs_idle :: "idle_manager option"


section \<open>Teardown of one connection\<close>

record cleanup_outcome =
  co_connection_id :: string
  co_removed_runtime :: bool
  co_removed_bridge :: bool

definition cleanup_connection_by_id :: "string \<Rightarrow> runtime \<Rightarrow> (cleanup_outcome, string) result \<times> runtime" where
  "cleanup_connection_by_id cid r =
     (let (removed, r1) = remove_runtime_connection cid r;
          (bridge, r2) = remove_bridge_registration cid r1
      in case bridge of
           Err e \<Rightarrow> (Err e, r2)
         | Ok had_bridge \<Rightarrow>
             (Ok \<lparr>co_connection_id = cid, co_removed_runtime = removed, co_removed_bridge = had_bridge\<rparr>,
              release_session cid r2))"

lemma cleanup_teardown:
  assumes "cid \<noteq> []"
  shows "cleanup_connection_by_id cid r =
    (Ok \<lparr>co_connection_id = cid, co_removed_runtime = fst (store.teardown cid r),
         co_removed_bridge = cid \<in> gr_pending r\<rparr>,
     (snd (store.teardown cid r))\<lparr>gr_pending := gr_pending r - {cid}\<rparr>)"
  using assms
  by (simp add: cleanup_connection_by_id_def store.teardown_def remove_bridge_registration_def
      remove_runtime_connection_def release_session_def Let_def)

lemma cleanup_ids:
  "connection_ids (snd (cleanup_connection_by_id cid r)) = filter (\<lambda>d. d \<noteq> cid) (connection_ids r)"
  by (simp add: cleanup_connection_by_id_def remove_bridge_registration_def release_session_def
      remove_runtime_connection_def connection_ids_def Let_def filter_map comp_def)

lemma cleanup_bound:
  "bound_session (snd (cleanup_connection_by_id cid r)) d
     = (if d = cid \<and> cid \<noteq> [] then None else bound_session r d)"
  by (simp add: cleanup_connection_by_id_def remove_bridge_registration_def release_session_def
      remove_runtime_connection_def bound_session_def Let_def dict_simps)

lemma cleanup_config [simp]: "gr_config (snd (cleanup_connection_by_id cid r)) = gr_config r"
  by (simp add: cleanup_connection_by_id_def remove_bridge_registration_def release_session_def
      remove_runtime_connection_def Let_def)

lemma cleanup_pending:
  "cid \<noteq> [] \<Longrightarrow> cid \<notin> gr_pending (snd (cleanup_connection_by_id cid r))"
  by (simp add: cleanup_teardown)

lemma cleanup_again:
  assumes "cid \<noteq> []"
  shows "cleanup_connection_by_id cid (snd (cleanup_connection_by_id cid r)) =
    (Ok \<lparr>co_connection_id = cid, co_removed_runtime = False, co_removed_bridge = False\<rparr>,
     snd (cleanup_connection_by_id cid r))"
proof -
  let ?r = "snd (cleanup_connection_by_id cid r)"
  have "store.teardown cid ?r = (False, ?r)"
    using store.remove_absent [of cid ?r] store.removed_iff [of cid ?r] store.release_unbound [of ?r cid] assms
    by (simp add: store.teardown_def split_beta cleanup_ids cleanup_bound)
  then show ?thesis
    using assms cleanup_pending [OF assms, of r] by (subst cleanup_teardown) simp_all
qed

lemma cleanup_ok: "is_ok (fst (cleanup_connection_by_id cid r)) \<longleftrightarrow> cid \<noteq> []"
  by (simp add: cleanup_connection_by_id_def remove_bridge_registration_def
      remove_runtime_connection_def Let_def)


section \<open>The reaper\<close>

record reaper =
  rc_policy :: reaper_policy
  rc_use_runtime_config :: bool

record sweep_outcome =
  so_checked :: nat
  so_session_gone :: "string list"
  so_stale :: "string list"
  so_errors :: "string list"

definition effective_policy :: "reaper \<Rightarrow> runtime \<Rightarrow> reaper_policy" where
  "effective_policy rc r =
     (if \<not> rc_use_runtime_config rc then rc_policy rc
      else (case gr_config r of None \<Rightarrow> rc_policy rc | Some c \<Rightarrow> tc_reaper c))"

definition decrement_idle_manager ::
    "string \<Rightarrow> gateway_state \<Rightarrow> sweep_outcome \<Rightarrow> gateway_state \<times> sweep_outcome" where
  "decrement_idle_manager cid gs out =
     (case gs_idle gs of
        None \<Rightarrow> (gs, out)
      | Some m \<Rightarrow>
          (let (res, m') = decrement m; gs' = gs\<lparr>gs_idle := Some m'\<rparr>
           in case res of
                Ok _ \<Rightarrow> (gs', out)
              | Err e \<Rightarrow> (gs', out\<lparr>so_errors := so_errors out
                  @ [''idle_manager.decrement failed for '' @ cid @ '': '' @ e]\<rparr>)))"

text \<open>Remove one connection and record it in the list that \<open>note\<close> extends.\<close>

definition reap ::
    "(sweep_outcome \<Rightarrow> sweep_outcome) \<Rightarrow> string \<Rightarrow> gateway_state \<Rightarrow> sweep_outcome
       \<Rightarrow> gateway_state \<times> sweep_outcome" where
  "reap record_it cid gs out =
     (let (res, r') = cleanup_connection_by_id cid (gs_runtime gs); gs' = gs\<lparr>gs_runtime := r'\<rparr>
      in case res of
           Err e \<Rightarrow> (gs', out\<lparr>so_errors := so_errors out @ [''cleanup failed for '' @ cid @ '': '' @ e]\<rparr>)
         | Ok _ \<Rightarrow> decrement_idle_manager cid gs' (record_it out))"

definition last_seen :: "connection_context \<Rightarrow> string" where
  "last_seen c = (if cc_last_activity c \<noteq> [] then cc_last_activity c else cc_connected_at c)"

definition idle_ttl :: "reaper_policy \<Rightarrow> connection_context \<Rightarrow> rat" where
  "idle_ttl p c =
     (if startswith (cc_connection_id c) ''bridge_'' then rp_bridge_idle_ttl p else rp_native_idle_ttl p)"

definition idle_seconds :: "datetime \<Rightarrow> connection_context \<Rightarrow> rat option" where
  "idle_seconds now c =
     (case fromisoformat (last_seen c) of
        None \<Rightarrow> None
      | Some t \<Rightarrow> Some (of_int (instant now - instant (if is_aware t then t else with_utc t)) / 1000000))"

definition sweep_connection ::
    "reaper \<Rightarrow> datetime \<Rightarrow> connection_context \<Rightarrow> gateway_state \<times> sweep_outcome
       \<Rightarrow> gateway_state \<times> sweep_outcome" where
  "sweep_connection rc now c st = (case st of (gs, out) \<Rightarrow>
     (let cid = cc_connection_id c; policy = effective_policy rc (gs_runtime gs) in
      if startswith cid ''conn_'' \<and> is_err (get_captured_session cid (gs_runtime gs)) then
        reap (\<lambda>o'. o'\<lparr>so_session_gone := so_session_gone o' @ [cid]\<rparr>) cid gs out
      else if idle_ttl policy c = 0 then (gs, out)
      else (case idle_seconds now c of
          None \<Rightarrow> (gs, out\<lparr>so_errors := so_errors out
                @ [''bad timestamp for '' @ cid @ '': Invalid isoformat string: '' @ squote (last_seen c)]\<rparr>)
        | Some idle \<Rightarrow>
            if idle_ttl policy c < idle then
              reap (\<lambda>o'. o'\<lparr>so_stale := so_stale o' @ [cid]\<rparr>) cid gs out
            else (gs, out))))"

definition sweep :: "reaper \<Rightarrow> datetime \<Rightarrow> gateway_state \<Rightarrow> gateway_state \<times> sweep_outcome" where
  "sweep rc now gs =
     (let connections = gr_connections (gs_runtime gs) in
      fold (sweep_connection rc now) connections
        (gs, \<lparr>so_checked = length connections, so_session_gone = [], so_stale = [], so_errors = []\<rparr>))"


section \<open>What a sweep removes\<close>

definition orphaned :: "runtime \<Rightarrow> connection_context \<Rightarrow> bool" where
  "orphaned r c \<longleftrightarrow> startswith (cc_connection_id c) ''conn_'' \<and> bound_session r (cc_connection_id c) = None"

definition stale :: "reaper_policy \<Rightarrow> datetime \<Rightarrow> connection_context \<Rightarrow> bool" where
  "stale p now c \<longleftrightarrow> idle_ttl p c \<noteq> 0
     \<and> (case idle_seconds now c of None \<Rightarrow> False | Some i \<Rightarrow> idle_ttl p c < i)"

definition doomed :: "reaper \<Rightarrow> datetime \<Rightarrow> runtime \<Rightarrow> connection_context \<Rightarrow> bool" where
  "doomed rc now r c \<longleftrightarrow> orphaned r c \<or> stale (effective_policy rc r) now c"

text \<open>The idle count of a state; without a manager there is nothing to count.\<close>

definition idle_count :: "gateway_state \<Rightarrow> nat option" where
  "idle_count gs = map_option im_count (gs_idle gs)"

lemma idle_count_runtime [simp]: "idle_count (gs\<lparr>gs_runtime := r\<rparr>) = idle_count gs"
  by (simp add: idle_count_def)

lemma decrement_idle_manager_effect:
  "gs_runtime (fst (decrement_idle_manager cid gs out)) = gs_runtime gs"
  "idle_count (fst (decrement_idle_manager cid gs out)) = map_option (\<lambda>n. n - 1) (idle_count gs)"
  "so_session_gone (snd (decrement_idle_manager cid gs out)) = so_session_gone out"
  "so_stale (snd (decrement_idle_manager cid gs out)) = so_stale out"
  by (auto simp: decrement_idle_manager_def idle_count_def split_beta Let_def
      split: option.splits result.splits)

lemma reap_effect:
  assumes "cid \<noteq> []"
  shows "gs_runtime (fst (reap f cid gs out)) = snd (cleanup_connection_by_id cid (gs_runtime gs))"
    and "idle_count (fst (reap f cid gs out)) = map_option (\<lambda>n. n - 1) (idle_count gs)"
    and "so_session_gone (snd (reap f cid gs out)) = so_session_gone (f out)"
    and "so_stale (snd (reap f cid gs out)) = so_stale (f out)"
  using cleanup_ok [of cid "gs_runtime gs"] assms
  by (auto simp: reap_def split_beta Let_def decrement_idle_manager_effect is_ok_def
      split: result.splits)

lemma captured_iff: "is_err (get_captured_session cid r) \<longleftrightarrow> bound_session r cid = None"
  by (simp add: get_captured_session_def bound_session_def split: option.split)

text \<open>One connection of the sweep: doomed ones go, and nothing else changes.\<close>

lemma sweep_connection_effect:
  fixes c :: connection_context and gs out rc now
  defines "r \<equiv> gs_runtime gs" and "st \<equiv> sweep_connection rc now c (gs, out)"
  assumes cid: "cc_connection_id c \<noteq> []"
  shows "connection_ids (gs_runtime (fst st)) =
      (if doomed rc now r c then filter (\<lambda>d. d \<noteq> cc_connection_id c) (connection_ids r) else connection_ids r)"
    and "d \<noteq> cc_connection_id c \<Longrightarrow> bound_session (gs_runtime (fst st)) d = bound_session r d"
    and "gr_config (gs_runtime (fst st)) = gr_config r"
    and "idle_count (fst st) = map_option (\<lambda>n. n - (if doomed rc now r c then 1 else 0)) (idle_count gs)"
    and "so_session_gone (snd st) = so_session_gone out @ (if orphaned r c then [cc_connection_id c] else [])"
    and "so_stale (snd st) = so_stale out
      @ (if \<not> orphaned r c \<and> stale (effective_policy rc r) now c then [cc_connection_id c] else [])"
  unfolding st_def r_def sweep_connection_def doomed_def orphaned_def stale_def
  by (auto simp: Let_def reap_effect cid cleanup_ids cleanup_bound captured_iff option.map_ident
      split: option.splits)

lemma doomed_cong:
  "bound_session r (cc_connection_id c) = bound_session r' (cc_connection_id c) \<Longrightarrow> gr_config r = gr_config r'
     \<Longrightarrow> doomed rc now r c = doomed rc now r' c \<and> orphaned r c = orphaned r' c
         \<and> effective_policy rc r = effective_policy rc r'"
  by (simp add: doomed_def orphaned_def effective_policy_def)


text \<open>The whole loop: the decisions are those of the state the sweep started in.\<close>

lemma sweep_fold:
  assumes "distinct (map cc_connection_id cs)" and "[] \<notin> set (map cc_connection_id cs)"
  shows "connection_ids (gs_runtime (fst (fold (sweep_connection rc now) cs (gs, out)))) =
      filter (\<lambda>d. d \<notin> cc_connection_id ` set (filter (doomed rc now (gs_runtime gs)) cs))
        (connection_ids (gs_runtime gs))
    \<and> idle_count (fst (fold (sweep_connection rc now) cs (gs, out))) =
      map_option (\<lambda>n. n - length (filter (doomed rc now (gs_runtime gs)) cs)) (idle_count gs)
    \<and> so_session_gone (snd (fold (sweep_connection rc now) cs (gs, out))) =
      so_session_gone out @ map cc_connection_id (filter (orphaned (gs_runtime gs)) cs)
    \<and> so_stale (snd (fold (sweep_connection rc now) cs (gs, out))) =
      so_stale out @ map cc_connection_id (filter (\<lambda>c. \<not> orphaned (gs_runtime gs) c
        \<and> stale (effective_policy rc (gs_runtime gs)) now c) cs)"
  using assms
proof (induction cs arbitrary: gs out)
  case Nil
  show ?case by (simp add: option.map_ident)
next
  case (Cons c cs)
  let ?r = "gs_runtime gs" and ?st = "sweep_connection rc now c (gs, out)"
  have ne: "cc_connection_id c \<noteq> []" and new: "cc_connection_id c \<notin> cc_connection_id ` set cs"
    using Cons.prems by auto
  note one = sweep_connection_effect [OF ne, where rc = rc and now = now and gs = gs and out = out]
  have same: "doomed rc now (gs_runtime (fst ?st)) d = doomed rc now ?r d
      \<and> orphaned (gs_runtime (fst ?st)) d = orphaned ?r d
      \<and> effective_policy rc (gs_runtime (fst ?st)) = effective_policy rc ?r" if "d \<in> set cs" for d
  proof (rule doomed_cong)
    have "cc_connection_id d \<noteq> cc_connection_id c" using that new by (metis image_eqI)
    then show "bound_session (gs_runtime (fst ?st)) (cc_connection_id d) = bound_session ?r (cc_connection_id d)"
      by (rule one(2))
  qed (rule one(3))
  have filters: "filter (doomed rc now (gs_runtime (fst ?st))) cs = filter (doomed rc now ?r) cs"
    "filter (orphaned (gs_runtime (fst ?st))) cs = filter (orphaned ?r) cs"
    "filter (\<lambda>d. \<not> orphaned (gs_runtime (fst ?st)) d
        \<and> stale (effective_policy rc (gs_runtime (fst ?st))) now d) cs
      = filter (\<lambda>d. \<not> orphaned ?r d \<and> stale (effective_policy rc ?r) now d) cs"
    by (intro filter_cong refl; use same in simp)+
  show ?case
    using Cons.IH [of "fst ?st" "snd ?st"] Cons.prems one(1,4-6)
    by (auto simp: filters option.map_comp comp_def)
qed

lemma sweep_effect:
  assumes "distinct (connection_ids (gs_runtime gs))" and "[] \<notin> set (connection_ids (gs_runtime gs))"
  shows "connection_ids (gs_runtime (fst (sweep rc now gs))) =
      map cc_connection_id (filter (\<lambda>c. \<not> doomed rc now (gs_runtime gs) c) (gr_connections (gs_runtime gs)))"
    and "idle_count (fst (sweep rc now gs)) =
      map_option (\<lambda>n. n - length (filter (doomed rc now (gs_runtime gs)) (gr_connections (gs_runtime gs))))
        (idle_count gs)"
    and "so_session_gone (snd (sweep rc now gs)) =
      map cc_connection_id (filter (orphaned (gs_runtime gs)) (gr_connections (gs_runtime gs)))"
    and "so_stale (snd (sweep rc now gs)) =
      map cc_connection_id (filter (\<lambda>c. \<not> orphaned (gs_runtime gs) c
        \<and> stale (effective_policy rc (gs_runtime gs)) now c) (gr_connections (gs_runtime gs)))"
proof -
  let ?cs = "gr_connections (gs_runtime gs)"
  note F = sweep_fold [of ?cs rc now gs "\<lparr>so_checked = length ?cs, so_session_gone = [], so_stale = [],
      so_errors = []\<rparr>", OF assms [unfolded connection_ids_def]]
  have "filter (\<lambda>d. d \<notin> cc_connection_id ` set (filter D ?cs)) (map cc_connection_id ?cs)
      = map cc_connection_id (filter (\<lambda>c. \<not> D c) ?cs)" for D
  proof -
    have "cc_connection_id c \<in> cc_connection_id ` set (filter D ?cs) \<longleftrightarrow> D c" if "c \<in> set ?cs" for c
      using assms(1) that by (auto simp: connection_ids_def distinct_map inj_on_def)
    then show ?thesis by (auto simp: filter_map comp_def intro!: arg_cong [where f = "map _"] filter_cong)
  qed
  then show "connection_ids (gs_runtime (fst (sweep rc now gs))) =
      map cc_connection_id (filter (\<lambda>c. \<not> doomed rc now (gs_runtime gs) c) ?cs)"
    using F by (simp add: sweep_def Let_def connection_ids_def)
qed (use sweep_fold [OF assms [unfolded connection_ids_def]] in \<open>simp_all add: sweep_def Let_def\<close>)

lemma conn_not_bridge: "startswith s ''conn_'' \<Longrightarrow> \<not> startswith s ''bridge_''"
  by (auto simp: startswith_iff)

text \<open>With the default policy a live native connection is never removed.\<close>

lemma default_policy_spares_live:
  assumes "rp_native_idle_ttl (effective_policy rc r) = 0"
    and "\<not> startswith (cc_connection_id c) ''bridge_''"
    and "bound_session r (cc_connection_id c) \<noteq> None"
  shows "\<not> doomed rc now r c"
  using assms by (simp add: doomed_def orphaned_def stale_def idle_ttl_def)


section \<open>Properties\<close>

text \<open>Teardown of a connection is idempotent: afterwards neither a connection nor a session nor a
  pending registration has the identifier, other connections are untouched, and a repetition
  changes nothing and reports that nothing was removed.\<close>

theorem cleanup_idempotent:
  fixes r :: runtime
  assumes "cid \<noteq> []"
  defines "r' \<equiv> snd (cleanup_connection_by_id cid r)"
  shows "cid \<notin> set (connection_ids r') \<and> bound_session r' cid = None \<and> cid \<notin> gr_pending r'
    \<and> connection_ids r' = filter (\<lambda>d. d \<noteq> cid) (connection_ids r)
    \<and> (\<forall>d. d \<noteq> cid \<longrightarrow> bound_session r' d = bound_session r d)
    \<and> cleanup_connection_by_id cid r' =
        (Ok \<lparr>co_connection_id = cid, co_removed_runtime = False, co_removed_bridge = False\<rparr>, r')"
  using cleanup_ids [of cid r] cleanup_bound [of cid r] cleanup_again [OF assms(1), of r]
    cleanup_pending [OF assms(1), of r]
  by (simp add: r'_def assms(1))

lemma cleanup_idempotent_witness:
  "bound_session (snd (cleanup_connection_by_id ''conn_1'' initial_runtime)) ''conn_1'' = None"
  using cleanup_idempotent [of "''conn_1''" initial_runtime] by simp



text \<open>Under the default policy a native connection whose session is live survives every sweep,
  however long it has been idle; a native connection without a session is removed by the next.\<close>

theorem default_sweep_spares_live_sessions:
  assumes "distinct (connection_ids (gs_runtime gs))" and "[] \<notin> set (connection_ids (gs_runtime gs))"
    and "rp_native_idle_ttl (effective_policy rc (gs_runtime gs)) = 0"
    and "c \<in> set (gr_connections (gs_runtime gs))" and "startswith (cc_connection_id c) ''conn_''"
  shows "cc_connection_id c \<in> set (connection_ids (gs_runtime (fst (sweep rc now gs))))
    = (bound_session (gs_runtime gs) (cc_connection_id c) \<noteq> None)"
proof -
  have "doomed rc now (gs_runtime gs) c = (bound_session (gs_runtime gs) (cc_connection_id c) = None)"
    using assms(3,5) conn_not_bridge by (auto simp: doomed_def orphaned_def stale_def idle_ttl_def)
  moreover have "cc_connection_id c \<in> cc_connection_id ` {d \<in> set (gr_connections (gs_runtime gs)). P d} \<longleftrightarrow> P c" for P
    using assms(1,4) by (auto simp: connection_ids_def distinct_map inj_on_def)
  ultimately show ?thesis
    by (simp add: sweep_effect(1) [OF assms(1,2)] Collect_conj_eq [symmetric])
qed

definition live_connection :: connection_context where
  "live_connection = \<lparr>cc_connection_id = ''conn_1'', cc_profile_id = ''dev'',
     cc_connected_at = ''2020-01-01T00:00:00+00:00'', cc_tool_call_count = 0, cc_last_activity = [],
     cc_init_mode = Some OpenMode, cc_client_info = None, cc_bridge_connection_id = None\<rparr>"

lemma default_sweep_witness:
  "''conn_1'' \<in> set (connection_ids (gs_runtime (fst (sweep
      \<lparr>rc_policy = default_reaper_policy, rc_use_runtime_config = False\<rparr> (Datetime 63915868800000000 (Some 0))
      \<lparr>gs_runtime = initial_runtime\<lparr>gr_connections := [live_connection], gr_sessions := [(''conn_1'', 7)]\<rparr>,
        gs_idle = None\<rparr>))))"
  using default_sweep_spares_live_sessions
    [of "\<lparr>gs_runtime = initial_runtime\<lparr>gr_connections := [live_connection], gr_sessions := [(''conn_1'', 7)]\<rparr>,
        gs_idle = None\<rparr>" "\<lparr>rc_policy = default_reaper_policy, rc_use_runtime_config = False\<rparr>"
      live_connection "Datetime 63915868800000000 (Some 0)"]
  by (simp add: connection_ids_def live_connection_def effective_policy_def default_reaper_policy_def
      bound_session_def startswith_def)

end
