(* ===== verification/Audit_Log.thy ===== *)
theory Audit_Log
  imports Models Py_Sha256
begin

text \<open>
  \<^verbatim>\<open>shell/audit.py\<close>: the construction of audit entries by level, the bounded in-memory
  store with its optional log file, and the queries over it. A write to the file either works
  or fails (\<open>disk_ok\<close>); the lines written are the field \<open>as_log\<close>. The lemmas describe the store
  after any run of writes and show that following the cursors of the paginated query visits
  every retained entry exactly once.
\<close>


section \<open>Entries\<close>

definition compute_param_hash :: "jobject \<Rightarrow> string" where
  "compute_param_hash arguments =
     ''sha256:'' @ take 16 (sha256_hexdigest (utf8_encode (dumps_canonical (JDict arguments))))"

definition build_audit_entry ::
    "audit_level \<Rightarrow> connection_context \<Rightarrow> string \<Rightarrow> string \<Rightarrow> enforcement_result \<Rightarrow> rat option
       \<Rightarrow> jobject option \<Rightarrow> jobject option \<Rightarrow> jobject option \<Rightarrow> meta_field option \<Rightarrow> string \<Rightarrow> audit_entry"
where
  "build_audit_entry level conn tool_name server_name r latency arguments request response meta now_iso =
     \<lparr>ae_timestamp = now_iso, ae_level = level,
      ae_connection_id = cc_connection_id conn, ae_profile_id = cc_profile_id conn,
      ae_tool_name = tool_name, ae_server_name = server_name,
      ae_verdict = er_verdict r, ae_denied_by = er_denied_by r, ae_error_code = er_error_code r,
      ae_latency_ms = latency,
      ae_param_hash = (if level \<in> {L2, L3} then map_option compute_param_hash arguments else None),
      ae_request_content = (if level = L3 then request else None),
      ae_response_content = (if level = L3 then response else None),
      ae_meta = meta\<rparr>"


section \<open>The store\<close>

record audit_store =
  as_entries :: "audit_entry list"
  as_max :: nat
  as_path :: "string option"
  as_log :: "audit_entry list"

definition initial_audit :: audit_store where
  "initial_audit = \<lparr>as_entries = [], as_max = 10000, as_path = None, as_log = []\<rparr>"

text \<open>The last \<open>n\<close> elements: what a deque of maximal length \<open>n\<close> retains.\<close>

definition keep_last :: "nat \<Rightarrow> 'a list \<Rightarrow> 'a list" where
  "keep_last n xs = drop (length xs - n) xs"

definition audit_init :: "string \<Rightarrow> bool \<Rightarrow> audit_store \<Rightarrow> (unit, string) result \<times> audit_store" where
  "audit_init absolute_path mkdir_ok s =
     (if mkdir_ok then (Ok (), s\<lparr>as_path := Some absolute_path\<rparr>)
      else (Err ''AUDIT_INIT_ERROR: cannot create directory'', s))"

definition audit_write :: "bool \<Rightarrow> audit_entry \<Rightarrow> audit_store \<Rightarrow> (unit, string) result \<times> audit_store" where
  "audit_write disk_ok entry s =
     (let s' = s\<lparr>as_entries := keep_last (as_max s) (as_entries s @ [entry])\<rparr>
      in if as_path s' \<noteq> None then
           (if disk_ok then (Ok (), s'\<lparr>as_log := as_log s' @ [entry]\<rparr>) else (Err ''AUDIT_WRITE_ERROR: '', s'))
         else (Ok (), s'))"

definition audit_set_max_entries :: "nat \<Rightarrow> audit_store \<Rightarrow> audit_store" where
  "audit_set_max_entries n s = s\<lparr>as_max := n, as_entries := keep_last n (as_entries s)\<rparr>"

definition clear_audit_entries :: "audit_store \<Rightarrow> audit_store" where
  "clear_audit_entries s = s\<lparr>as_entries := []\<rparr>"

definition audit_close :: "audit_store \<Rightarrow> audit_store" where
  "audit_close s = s\<lparr>as_path := None\<rparr>"


section \<open>Queries\<close>

definition normalize_audit_page_limit :: "int option \<Rightarrow> nat" where
  "normalize_audit_page_limit limit =
     (case limit of None \<Rightarrow> 100 | Some l \<Rightarrow> if l \<le> 0 then 100 else nat (min l 100))"

definition decode_audit_cursor :: "string option \<Rightarrow> (nat, string) result" where
  "decode_audit_cursor cursor =
     (case cursor of
        None \<Rightarrow> Ok 0
      | Some c \<Rightarrow>
          if \<not> startswith c ''offset:'' then Err ''AUDIT_QUERY_ERROR: invalid cursor''
          else (case py_int (removeprefix c ''offset:'') of
              None \<Rightarrow> Err ''AUDIT_QUERY_ERROR: invalid cursor''
            | Some offset \<Rightarrow>
                if offset < 0 then Err ''AUDIT_QUERY_ERROR: invalid cursor'' else Ok (nat offset)))"

definition get_recent_audit_entries :: "int option \<Rightarrow> audit_store \<Rightarrow> audit_entry list" where
  "get_recent_audit_entries limit s = keep_last (normalize_audit_page_limit limit) (as_entries s)"

text \<open>\<^verbatim>\<open>xs[-limit:]\<close>, where zero selects the whole list and a negative limit counts from the front.\<close>

definition tail_slice :: "int \<Rightarrow> 'a list \<Rightarrow> 'a list" where
  "tail_slice limit xs = (if 0 < limit then keep_last (nat limit) xs else drop (nat (- limit)) xs)"

definition since_error :: "string \<Rightarrow> (audit_entry list, string) result" where
  "since_error since = Err (''AUDIT_QUERY_ERROR: invalid timestamp format: '' @ since)"

fun entries_since :: "datetime \<Rightarrow> audit_entry list \<Rightarrow> audit_entry list option" where
  "entries_since t [] = Some []"
| "entries_since t (e # es) =
     (case read_iso (ae_timestamp e) of
        None \<Rightarrow> None
      | Some u \<Rightarrow>
          (case dt_le t u of
             Inl _ \<Rightarrow> None
           | Inr b \<Rightarrow> map_option (\<lambda>rest. if b then e # rest else rest) (entries_since t es)))"

definition audit_query :: "string option \<Rightarrow> int \<Rightarrow> audit_store \<Rightarrow> (audit_entry list, string) result" where
  "audit_query since limit s =
     (case since of
        None \<Rightarrow> Ok (tail_slice limit (as_entries s))
      | Some str \<Rightarrow>
          (case read_iso str of
             None \<Rightarrow> since_error str
           | Some t \<Rightarrow>
               (case entries_since t (as_entries s) of
                  None \<Rightarrow> since_error str
                | Some es \<Rightarrow> Ok (tail_slice limit es))))"

record audit_page =
  ap_entries :: "audit_entry list"
  ap_next_cursor :: "string option"
  ap_has_more :: bool

definition audit_query_paginated ::
    "string option \<Rightarrow> int option \<Rightarrow> audit_store \<Rightarrow> (audit_page, string) result" where
  "audit_query_paginated cursor limit s =
     (case decode_audit_cursor cursor of
        Err e \<Rightarrow> Err e
      | Ok offset \<Rightarrow>
          (let entries = as_entries s;
               start = min offset (length entries);
               stop = min (start + normalize_audit_page_limit limit) (length entries);
               has_more = stop < length entries
           in Ok \<lparr>ap_entries = take (stop - start) (drop start entries),
                  ap_next_cursor = (if has_more then Some (''offset:'' @ show_nat stop) else None),
                  ap_has_more = has_more\<rparr>))"

text \<open>A reader that follows the cursors, one page per unit of fuel.\<close>

fun follow_pages :: "nat \<Rightarrow> string option \<Rightarrow> int option \<Rightarrow> audit_store \<Rightarrow> audit_entry list list option" where
  "follow_pages 0 cursor limit s = None"
| "follow_pages (Suc fuel) cursor limit s =
     (case audit_query_paginated cursor limit s of
        Err _ \<Rightarrow> None
      | Ok page \<Rightarrow>
          (case ap_next_cursor page of
             None \<Rightarrow> Some [ap_entries page]
           | Some c \<Rightarrow> map_option ((#) (ap_entries page)) (follow_pages fuel (Some c) limit s)))"


section \<open>Laws\<close>

lemma length_keep_last [simp]: "length (keep_last n xs) = min n (length xs)"
  by (simp add: keep_last_def)

lemma keep_last_all: "length xs \<le> n \<Longrightarrow> keep_last n xs = xs"
  by (simp add: keep_last_def)

lemma keep_last_append: "keep_last n (keep_last n xs @ ys) = keep_last n (xs @ ys)"
proof (cases "length xs \<le> n")
  case False
  then have "keep_last n (keep_last n xs @ ys) = drop (length ys) (drop (length xs - n) xs @ ys)"
    by (simp add: keep_last_def)
  also have "drop (length xs - n) xs @ ys = drop (length xs - n) (xs @ ys)" by simp
  also have "drop (length ys) (drop (length xs - n) (xs @ ys)) = keep_last n (xs @ ys)"
    unfolding keep_last_def drop_drop using False by (simp del: drop_append add: add.commute)
  finally show ?thesis .
qed (simp add: keep_last_all)

lemma set_keep_last: "set (keep_last n xs) \<subseteq> set xs"
  by (simp add: keep_last_def set_drop_subset)

text \<open>A run of writes retains the newest entries, whatever the disk does.\<close>

definition write_all :: "(bool \<times> audit_entry) list \<Rightarrow> audit_store \<Rightarrow> audit_store" where
  "write_all ws s = fold (\<lambda>(ok, e) s. snd (audit_write ok e s)) ws s"

lemma audit_write_entries:
  "as_entries (snd (audit_write ok e s)) = keep_last (as_max s) (as_entries s @ [e])"
  "as_max (snd (audit_write ok e s)) = as_max s" "as_path (snd (audit_write ok e s)) = as_path s"
  by (simp_all add: audit_write_def Let_def)

lemma write_all_entries:
  "as_entries (write_all ws s) = keep_last (as_max s) (as_entries s @ map snd ws)
     \<or> (ws = [] \<and> as_entries (write_all ws s) = as_entries s)"
proof (induction ws arbitrary: s)
  case (Cons w ws)
  obtain ok e where w: "w = (ok, e)" by (cases w)
  show ?case
    using Cons.IH [of "snd (audit_write ok e s)"]
    by (auto simp: write_all_def w audit_write_entries keep_last_append)
qed (simp add: write_all_def)

lemma page_limit_bounds: "0 < normalize_audit_page_limit limit" "normalize_audit_page_limit limit \<le> 100"
  by (auto simp: normalize_audit_page_limit_def split: option.split)

lemma decode_cursor_show: "n < 10 ^ 10 \<Longrightarrow> decode_audit_cursor (Some (''offset:'' @ show_nat n)) = Ok n"
  using py_int_show_nat [OF show_nat_short] by (simp add: decode_audit_cursor_def startswith_def removeprefix_def)

lemma paginated_at:
  assumes "decode_audit_cursor cursor = Ok offset" and "offset \<le> length (as_entries s)"
    and "stop = min (offset + normalize_audit_page_limit limit) (length (as_entries s))"
  shows "audit_query_paginated cursor limit s = Ok
    \<lparr>ap_entries = take (stop - offset) (drop offset (as_entries s)),
     ap_next_cursor = (if stop < length (as_entries s) then Some (''offset:'' @ show_nat stop) else None),
     ap_has_more = stop < length (as_entries s)\<rparr>"
  using assms by (simp add: audit_query_paginated_def Let_def min_absorb1)

lemma follow_pages_from:
  assumes "decode_audit_cursor cursor = Ok offset" and "offset \<le> length (as_entries s)"
    and "length (as_entries s) < 10 ^ 10" and "length (as_entries s) - offset < fuel"
  shows "\<exists>pages. follow_pages fuel cursor limit s = Some pages \<and> concat pages = drop offset (as_entries s)
    \<and> (\<forall>p \<in> set pages. length p \<le> 100)"
  using assms
proof (induction fuel arbitrary: cursor offset)
  case (Suc fuel)
  define n where "n = length (as_entries s)"
  define k where "k = normalize_audit_page_limit limit"
  define stop where "stop = min (offset + k) n"
  define c where "c = ''offset:'' @ show_nat stop"
  have k: "0 < k" "k \<le> 100" unfolding k_def by (rule page_limit_bounds)+
  have page: "audit_query_paginated cursor limit s = Ok
      \<lparr>ap_entries = take (stop - offset) (drop offset (as_entries s)),
       ap_next_cursor = (if stop < n then Some c else None), ap_has_more = stop < n\<rparr>"
    unfolding c_def n_def using Suc.prems(1,2) by (rule paginated_at) (simp add: stop_def k_def n_def)
  have len: "length (take (stop - offset) (drop offset (as_entries s))) \<le> 100"
    using k(2) Suc.prems(2) unfolding stop_def n_def by (simp add: min_def) linarith
  show ?case
  proof (cases "stop < n")
    case False
    then have "take (stop - offset) (drop offset (as_entries s)) = drop offset (as_entries s)"
      by (simp add: stop_def n_def)
    then show ?thesis using len page False by simp
  next
    case True
    then have stop: "stop = offset + k" by (simp add: stop_def)
    have d: "decode_audit_cursor (Some c) = Ok stop"
      unfolding c_def by (rule decode_cursor_show) (use True Suc.prems(3) in \<open>simp add: n_def\<close>)
    have f: "n - stop < fuel"
      using Suc.prems(2,4) True k(1) unfolding stop n_def by linarith
    obtain pages where p: "follow_pages fuel (Some c) limit s = Some pages"
      "concat pages = drop stop (as_entries s)" "\<forall>p \<in> set pages. length p \<le> 100"
      using Suc.IH [OF d _ Suc.prems(3)] True f unfolding n_def by auto
    have "take (stop - offset) (drop offset (as_entries s)) @ drop stop (as_entries s) = drop offset (as_entries s)"
      unfolding stop by (metis add.commute append_take_drop_id diff_add_inverse drop_drop)
    then show ?thesis using p len page True by simp
  qed
qed simp

lemma build_levels:
  "ae_meta (build_audit_entry lv conn t sv r lat args rq rs meta now) = meta"
  "ae_param_hash (build_audit_entry L1 conn t sv r lat args rq rs meta now) = None"
  "ae_request_content (build_audit_entry lv conn t sv r lat args rq rs meta now) = (if lv = L3 then rq else None)"
  "ae_response_content (build_audit_entry lv conn t sv r lat args rq rs meta now) = (if lv = L3 then rs else None)"
  by (simp_all add: build_audit_entry_def)

lemma write_all_log:
  "as_log (write_all ws s) = as_log s @ (if as_path s = None then [] else map snd (filter fst ws))"
proof (induction ws arbitrary: s)
  case (Cons w ws)
  obtain ok e where w: "w = (ok, e)" by (cases w)
  have "write_all (w # ws) s = write_all ws (snd (audit_write ok e s))" by (simp add: write_all_def w)
  then show ?case
    by (simp add: Cons.IH audit_write_entries) (auto simp: audit_write_def Let_def w)
qed (simp add: write_all_def)


section \<open>Properties\<close>

text \<open>After any run of writes, of which some fail on disk, the store retains exactly the newest entries
  up to its limit, in order, and the log file, if there is one, holds the entries whose write to
  disk worked.\<close>

theorem writes_retain_newest:
  assumes "length (as_entries s) \<le> as_max s"
  shows "as_entries (write_all ws s) = keep_last (as_max s) (as_entries s @ map snd ws)
    \<and> length (as_entries (write_all ws s)) \<le> as_max s
    \<and> as_log (write_all ws s) = as_log s @ (if as_path s = None then [] else map snd (filter fst ws))"
proof -
  have "as_entries (write_all ws s) = keep_last (as_max s) (as_entries s @ map snd ws)"
    using write_all_entries [of ws s] assms by (auto simp: keep_last_all)
  then show ?thesis using write_all_log by simp
qed

definition sample_entry :: "string \<Rightarrow> audit_entry" where
  "sample_entry tool = build_audit_entry L1
     \<lparr>cc_connection_id = ''c1'', cc_profile_id = ''dev'', cc_connected_at = [], cc_tool_call_count = 0,
      cc_last_activity = [], cc_init_mode = None, cc_client_info = None, cc_bridge_connection_id = None\<rparr>
     tool ''fs'' allow_result None None None None None ''2026-01-01T00:00:00Z''"

lemma writes_retain_witness:
  "as_entries (write_all [(True, sample_entry ''a''), (False, sample_entry ''b''), (True, sample_entry ''c'')]
     (initial_audit\<lparr>as_max := 2\<rparr>)) = [sample_entry ''b'', sample_entry ''c'']"
  using writes_retain_newest [of "initial_audit\<lparr>as_max := 2\<rparr>"
    "[(True, sample_entry ''a''), (False, sample_entry ''b''), (True, sample_entry ''c'')]"]
  by (simp add: initial_audit_def keep_last_def)

text \<open>C25: A reader that follows the cursors from the start sees every retained entry exactly once and in
  order, in pages of at most 100 entries, and reaches the end within one page per entry and one more.\<close>

theorem paging_visits_every_entry:
  assumes "length (as_entries s) < 10 ^ 10"
  shows "\<exists>pages. follow_pages (length (as_entries s) + 1) None limit s = Some pages
    \<and> concat pages = as_entries s \<and> (\<forall>p \<in> set pages. length p \<le> 100)"
  using follow_pages_from [of None 0 s "length (as_entries s) + 1" limit] assms
  by (simp add: decode_audit_cursor_def)

lemma paging_witness:
  "\<exists>pages. follow_pages 3 None (Some 1) (initial_audit\<lparr>as_entries := [sample_entry ''a'', sample_entry ''b'']\<rparr>) = Some pages
     \<and> concat pages = [sample_entry ''a'', sample_entry ''b'']"
proof -
  let ?s = "initial_audit\<lparr>as_entries := [sample_entry ''a'', sample_entry ''b'']\<rparr>"
  have "\<exists>pages. follow_pages (length (as_entries ?s) + 1) None (Some 1) ?s = Some pages
    \<and> concat pages = as_entries ?s \<and> (\<forall>p \<in> set pages. length p \<le> 100)"
    by (rule paging_visits_every_entry) simp
  then show ?thesis by (auto simp: numeral_3_eq_3)
qed

text \<open>An unfiltered query returns the newest entries up to a positive limit. A limit of zero returns
  every retained entry, and a negative one drops that many of the oldest.\<close>

theorem query_limits:
  "audit_query None limit s = Ok (if 0 < limit then keep_last (nat limit) (as_entries s)
     else drop (nat (- limit)) (as_entries s))
   \<and> audit_query None 0 s = Ok (as_entries s)"
  by (simp add: audit_query_def tail_slice_def)

end
