(* ===== verification/Downstream_Startup.thy ===== *)
theory Downstream_Startup
  imports Errors Classification
begin

text \<open>
  \<^verbatim>\<open>core/downstream_startup.py\<close>, the events of \<^verbatim>\<open>shell/downstream_startup.py\<close> and
  \<^verbatim>\<open>_connect_server\<close> of \<^verbatim>\<open>shell/downstream.py\<close>: how the attempt to start one downstream
  server ends, which diagnostic it leaves, and which events it emits. What the transport and the
  server do in a phase is the argument of type \<open>attempt\<close>; the elapsed times in the event details
  are left out. The lemmas show that the diagnostic recovers the phase and the kind of the
  failure from the error text alone.
\<close>


section \<open>Failure diagnostics\<close>

record provider_failure =
  pf_server_name :: string
  pf_phase :: string
  pf_reason :: string
  pf_timeout :: bool
  pf_elapsed_ms :: "rat option"

definition startup_failure :: "string \<Rightarrow> string \<Rightarrow> string \<Rightarrow> bool \<Rightarrow> provider_failure" where
  "startup_failure server phase reason timeout =
     \<lparr>pf_server_name = server, pf_phase = phase, pf_reason = reason, pf_timeout = timeout,
      pf_elapsed_ms = None\<rparr>"

definition failure_reason :: "provider_failure \<Rightarrow> string" where
  "failure_reason f =
     ''provider_'' @ pf_phase f @ ''_'' @ (if pf_timeout f then ''timeout'' else ''failed'')
       @ '':'' @ pf_server_name f"

definition degraded_reason_from_failures :: "(string, provider_failure) dict \<Rightarrow> string option" where
  "degraded_reason_from_failures failures =
     (if failures = [] then None
      else Some (join '';'' (map (\<lambda>(_, f). failure_reason f) (sort_key fst failures))))"

definition startup_failure_from_error :: "string \<Rightarrow> string option \<Rightarrow> provider_failure" where
  "startup_failure_from_error server err =
     (let message = (case err of None \<Rightarrow> ''unknown'' | Some e \<Rightarrow> if e = [] then ''unknown'' else e) in
      if contains (''provider_initialize_timeout:'' @ server) message then
        startup_failure server ''initialize'' message True
      else if contains (''provider_initialize_cancelled:'' @ server) message then
        startup_failure server ''initialize'' message False
      else if contains (''provider_tools_list_timeout:'' @ server) message then
        startup_failure server ''tools_list'' message True
      else if contains (''provider_tools_list_cancelled:'' @ server) message then
        startup_failure server ''tools_list'' message False
      else if contains ''enumeration failed'' message
              \<or> contains ''DOWNSTREAM_ENUMERATE_FAILED'' message then
        startup_failure server ''tools_list'' message False
      else startup_failure server ''initialize'' message False)"


section \<open>Connecting one server\<close>

text \<open>
  A connected client: the number identifies the handle. The phases run under \<^verbatim>\<open>wait_for\<close>: they
  return, time out, or end in a \<^verbatim>\<open>CancelledError\<close> with a text, raised inside the transport or
  because the task itself is being cancelled.
\<close>

record client_handle =
  ch_id :: nat
  ch_instructions :: "string option"

datatype 'a attempt = Returned 'a | TimedOut | Cancelled bool string

record connected_server =
  cs_server_name :: string
  cs_raw_tools :: "raw_tool list"
  cs_handle :: "client_handle option"
  cs_instructions :: "string option"

text \<open>What one attempt leaves: events with their phase, and the handles it closed.\<close>

record connect_trace =
  ct_events :: "(runtime_event_kind \<times> string) list"
  ct_closed :: "nat list"

definition connect_failed :: "string \<Rightarrow> (connected_server, string) result" where
  "connect_failed msg = Err (''DOWNSTREAM_CONNECT_FAILED: '' @ msg)"

definition list_tools_phase ::
    "string \<Rightarrow> client_handle \<Rightarrow> (raw_tool list, string) result attempt
       \<Rightarrow> (py_exc + (connected_server, string) result) \<times> connect_trace" where
  "list_tools_phase server h listing =
     (let start = [(ProviderStarting, ''initialize''), (ProviderInitialized, ''initialize''),
                   (ProviderToolsListStarted, ''tools_list'')];
          trace = (\<lambda>evs closed. \<lparr>ct_events = start @ evs, ct_closed = closed\<rparr>)
      in case listing of
           TimedOut \<Rightarrow>
             (Inr (connect_failed (''provider_tools_list_timeout:'' @ server @ '' timeout_seconds=30.0'')),
              trace [(ProviderTimeout, ''tools_list'')] [ch_id h])
         | Cancelled external txt \<Rightarrow>
             if external then (Inl (CancelledError txt), trace [] [ch_id h])
             else (Inr (connect_failed (''provider_tools_list_cancelled:'' @ server @ '' '' @ txt)),
                   trace [(ProviderFailed, ''tools_list'')] [ch_id h])
         | Returned (Err e) \<Rightarrow>
             (Inr (connect_failed (''server '' @ squote server @ '' connection/enumeration failed: '' @ e)),
              trace [(ProviderFailed, ''tools_list'')] [ch_id h])
         | Returned (Ok tools) \<Rightarrow>
             (Inr (Ok \<lparr>cs_server_name = server, cs_raw_tools = tools, cs_handle = Some h,
                       cs_instructions = ch_instructions h\<rparr>),
              trace [(ProviderToolsListCompleted, ''tools_list'')] []))"

definition connect_server ::
    "string \<Rightarrow> (client_handle, string) result attempt
       \<Rightarrow> (client_handle \<Rightarrow> (raw_tool list, string) result attempt)
       \<Rightarrow> (py_exc + (connected_server, string) result) \<times> connect_trace" where
  "connect_server server opening listing =
     (let trace = (\<lambda>evs. \<lparr>ct_events = (ProviderStarting, ''initialize'') # evs, ct_closed = []\<rparr>)
      in case opening of
           TimedOut \<Rightarrow>
             (Inr (connect_failed (''provider_initialize_timeout:'' @ server @ '' timeout_seconds=30.0'')),
              trace [(ProviderTimeout, ''initialize'')])
         | Cancelled external txt \<Rightarrow>
             if external then (Inl (CancelledError txt), trace [])
             else (Inr (connect_failed (''provider_initialize_cancelled:'' @ server @ '' '' @ txt)),
                   trace [(ProviderFailed, ''initialize'')])
         | Returned (Err e) \<Rightarrow> (Inr (Err e), trace [(ProviderFailed, ''initialize'')])
         | Returned (Ok h) \<Rightarrow> list_tools_phase server h (listing h))"

text \<open>\<^verbatim>\<open>_validate_transport_mode\<close>: exactly one of command and url, neither of them empty.\<close>

definition nonempty :: "string option \<Rightarrow> bool" where
  "nonempty v = (case v of None \<Rightarrow> False | Some s \<Rightarrow> s \<noteq> [])"

definition validate_transport_mode :: "string \<Rightarrow> server_config \<Rightarrow> (unit, string) result" where
  "validate_transport_mode server sc =
     (if nonempty (sc_command sc) = nonempty (sc_url sc) then
        Err (''DOWNSTREAM_CONNECT_FAILED: server '' @ squote server
             @ '' must set exactly one transport: command or url'')
      else Ok ())"

text \<open>The transport a valid configuration dispatches to, and the error of an opener without its field.\<close>

datatype opener = OpenStdio | OpenSse | OpenHttp

definition open_client_for_server :: "string \<Rightarrow> server_config \<Rightarrow> (opener, string) result" where
  "open_client_for_server server sc =
     (case validate_transport_mode server sc of
        Err e \<Rightarrow> Err e
      | Ok _ \<Rightarrow>
          if sc_command sc \<noteq> None then Ok OpenStdio
          else if sc_transport sc = Some UrlSse then Ok OpenSse
          else Ok OpenHttp)"

fun page_tools :: "nat \<Rightarrow> (string option \<Rightarrow> (raw_tool list \<times> string option, string) result)
    \<Rightarrow> string option \<Rightarrow> (raw_tool list, string) result option" where
  "page_tools 0 list_tools cursor = None"
| "page_tools (Suc fuel) list_tools cursor =
     (case list_tools cursor of
        Err e \<Rightarrow> Some (Err (''DOWNSTREAM_ENUMERATE_FAILED: '' @ e))
      | Ok (tools, next_cursor) \<Rightarrow>
          (case next_cursor of
             None \<Rightarrow> Some (Ok tools)
           | Some c \<Rightarrow> map_option (map_result ((@) tools)) (page_tools fuel list_tools (Some c))))"

definition enumerate_tools :: "nat \<Rightarrow> (string option \<Rightarrow> (raw_tool list \<times> string option, string) result)
    \<Rightarrow> (raw_tool list, string) result option" where
  "enumerate_tools fuel list_tools = page_tools fuel list_tools None"

definition redact_header_values :: "string \<Rightarrow> (string, string) dict \<Rightarrow> string" where
  "redact_header_values message headers =
     fold (\<lambda>(_, v) m. if v \<noteq> [] then py_replace v ''[redacted]'' m else m) headers message"


section \<open>Classifying the error text\<close>

text \<open>
  Where can a marker followed by the server name occur in a text that ends in the name and a
  fixed tail? Only at a place where the marker agrees with the fixed head as far as that goes.
\<close>

definition agrees :: "string \<Rightarrow> string \<Rightarrow> bool" where
  "agrees m t \<longleftrightarrow> list_all (\<lambda>(a, b). a = b) (zip m t)"

lemma agrees_prefix: "m @ u = t @ v \<Longrightarrow> agrees m t"
proof (induction m arbitrary: t)
  case (Cons c m)
  then show ?case by (cases t) (auto simp: agrees_def)
qed (simp add: agrees_def)

lemma marker_position:
  assumes "contains (m @ s) (x @ s @ y)"
  shows "\<exists>i \<in> set [0..<Suc (length x + length y - length m)]. agrees m (drop i x)"
proof -
  obtain a b where e: "x @ s @ y = a @ (m @ s) @ b" using assms by (auto simp: contains_iff)
  then have len: "length x + length s + length y = length a + length m + length s + length b"
    by (metis add.assoc length_append)
  then have i: "length a \<in> set [0..<Suc (length x + length y - length m)]" by auto
  have "agrees m (drop (length a) x)"
  proof (cases "length a \<le> length x")
    case True
    from e have "drop (length a) (x @ s @ y) = drop (length a) (a @ (m @ s) @ b)" by (rule arg_cong)
    then have "m @ (s @ b) = drop (length a) x @ (s @ y)" using True by simp
    then show ?thesis by (rule agrees_prefix)
  qed (simp add: agrees_def)
  then show ?thesis using i by blast
qed

definition never_at :: "string \<Rightarrow> string \<Rightarrow> nat \<Rightarrow> bool" where
  "never_at m x k \<longleftrightarrow> list_all (\<lambda>i. \<not> agrees m (drop i x)) [0..<Suc (length x + k - length m)]"

lemma marker_absent: "never_at m x (length y) \<Longrightarrow> \<not> contains (m @ s) (x @ s @ y)"
  using marker_position [of m s x y] by (auto simp: never_at_def list_all_iff)

lemma list_timeout_not_initialize:
  "\<not> contains (''provider_initialize_timeout:'' @ s)
      (''DOWNSTREAM_CONNECT_FAILED: provider_tools_list_timeout:'' @ s @ '' timeout_seconds=30.0'')"
  "\<not> contains (''provider_initialize_cancelled:'' @ s)
      (''DOWNSTREAM_CONNECT_FAILED: provider_tools_list_timeout:'' @ s @ '' timeout_seconds=30.0'')"
  by (rule marker_absent, code_simp)+


lemma initialize_timeout_reason:
  "failure_reason (startup_failure_from_error s
     (Some (''DOWNSTREAM_CONNECT_FAILED: provider_initialize_timeout:'' @ s @ '' timeout_seconds=30.0'')))
     = ''provider_initialize_timeout:'' @ s"
proof -
  have "contains (''provider_initialize_timeout:'' @ s)
      (''DOWNSTREAM_CONNECT_FAILED: '' @ (''provider_initialize_timeout:'' @ s) @ '' timeout_seconds=30.0'')"
    by (rule contains_infix)
  then show ?thesis
    by (simp add: startup_failure_from_error_def startup_failure_def failure_reason_def Let_def
        del: contains.simps)
qed

lemma list_timeout_reason:
  "failure_reason (startup_failure_from_error s
     (Some (''DOWNSTREAM_CONNECT_FAILED: provider_tools_list_timeout:'' @ s @ '' timeout_seconds=30.0'')))
     = ''provider_tools_list_timeout:'' @ s"
proof -
  have "contains (''provider_tools_list_timeout:'' @ s)
      (''DOWNSTREAM_CONNECT_FAILED: '' @ (''provider_tools_list_timeout:'' @ s) @ '' timeout_seconds=30.0'')"
    by (rule contains_infix)
  then show ?thesis
    using list_timeout_not_initialize [of s]
    by (simp add: startup_failure_from_error_def startup_failure_def failure_reason_def Let_def
        del: contains.simps)
qed


section \<open>Following the pages\<close>

fun serves :: "(string option \<Rightarrow> (raw_tool list \<times> string option, string) result)
    \<Rightarrow> string option \<Rightarrow> raw_tool list list \<Rightarrow> bool" where
  "serves L c [] = False"
| "serves L c [p] = (L c = Ok (p, None))"
| "serves L c (p # ps) = (case L c of Ok (q, Some d) \<Rightarrow> q = p \<and> serves L (Some d) ps | _ \<Rightarrow> False)"

lemma page_tools_serves:
  "serves L c ps \<Longrightarrow> length ps \<le> fuel \<Longrightarrow> page_tools fuel L c = Some (Ok (concat ps))"
proof (induction L c ps arbitrary: fuel rule: serves.induct)
  case (2 L c p)
  then show ?case by (cases fuel) simp_all
next
  case (3 L c p v va)
  then obtain d where d: "L c = Ok (p, Some d)" and s: "serves L (Some d) (v # va)"
    by (auto split: result.splits option.splits)
  show ?case using 3(1) [OF d refl refl s] 3(3) d by (cases fuel) simp_all
qed simp

lemma page_tools_endless:
  "(\<And>c. \<exists>q d. L c = Ok (q, Some d)) \<Longrightarrow> page_tools fuel L c = None"
proof (induction fuel arbitrary: c)
  case (Suc fuel)
  obtain q d where "L c = Ok (q, Some d)" using Suc.prems by blast
  then show ?case using Suc.IH [OF Suc.prems] by simp
qed simp

text \<open>The values are redacted in header order, so a value that is a prefix of a later one leaves the
  rest of the later one in the text.\<close>

lemma redaction_order:
  "redact_header_values ''401 for secret-42'' [(''A'', ''secret''), (''B'', ''secret-42'')]
     = ''401 for [redacted]-42''"
  by code_simp


section \<open>Properties\<close>

text \<open>A start attempt that obtains a client handle either hands exactly that handle over in its
  result or has closed exactly that handle, also when the task is cancelled from outside; an
  attempt that obtains none closes none.\<close>

theorem connect_server_handles:
  "case opening of
     Returned (Ok h) \<Rightarrow>
       (case fst (connect_server server opening listing) of
          Inr (Ok d) \<Rightarrow> cs_handle d = Some h \<and> cs_server_name d = server
            \<and> ct_closed (snd (connect_server server opening listing)) = []
        | _ \<Rightarrow> ct_closed (snd (connect_server server opening listing)) = [ch_id h])
   | _ \<Rightarrow> ct_closed (snd (connect_server server opening listing)) = []
       \<and> \<not> (\<exists>d. fst (connect_server server opening listing) = Inr (Ok d))"
  by (auto simp: connect_server_def list_tools_phase_def connect_failed_def Let_def
      split: attempt.split result.split)

text \<open>The diagnostic computed from the error text of a timeout names the phase that timed out and
  says that it timed out, for every server name.\<close>

theorem timeouts_classified:
  "\<exists>e f. fst (connect_server server TimedOut listing) = Inr (Err e)
     \<and> failure_reason (startup_failure_from_error server (Some e)) = ''provider_initialize_timeout:'' @ server
     \<and> fst (connect_server server (Returned (Ok h)) (\<lambda>_. TimedOut)) = Inr (Err f)
     \<and> failure_reason (startup_failure_from_error server (Some f)) = ''provider_tools_list_timeout:'' @ server"
  using initialize_timeout_reason [of server] list_timeout_reason [of server]
  by (simp add: connect_server_def list_tools_phase_def connect_failed_def Let_def)

text \<open>A configuration is dispatched exactly when one of command and url is non-empty and the other
  is not; it then goes to the transport that its non-empty field selects, except that an empty
  command beside a url is dispatched to the stdio transport.\<close>

theorem transport_dispatch:
  "(\<exists>o'. open_client_for_server server sc = Ok o') = (nonempty (sc_command sc) \<noteq> nonempty (sc_url sc))
   \<and> (nonempty (sc_command sc) \<noteq> nonempty (sc_url sc) \<and> sc_command sc \<noteq> Some [] \<longrightarrow>
        (open_client_for_server server sc = Ok OpenStdio) = nonempty (sc_command sc))
   \<and> open_client_for_server server ((server_named n)\<lparr>sc_command := Some [], sc_url := Some (c # u)\<rparr>)
        = Ok OpenStdio"
  by (auto simp: open_client_for_server_def validate_transport_mode_def nonempty_def server_named_def
      split: option.splits)

lemma transport_dispatch_witness:
  "(open_client_for_server ''web'' ((server_named ''web'')\<lparr>sc_url := Some ''http://h''\<rparr>) = Ok OpenStdio)
     = nonempty None"
  using transport_dispatch [of "''web''" "(server_named ''web'')\<lparr>sc_url := Some ''http://h''\<rparr>"]
  by (simp add: nonempty_def server_named_def)

text \<open>Enumeration collects the pages of a server whose cursors end, in order, within as many rounds
  as there are pages; a server that always returns another cursor is enumerated for ever.\<close>

theorem enumeration_ends_with_cursors:
  assumes "serves L None pages" and "length pages \<le> fuel"
  shows "enumerate_tools fuel L = Some (Ok (concat pages))
    \<and> (\<forall>M. (\<forall>c. \<exists>q d. M c = Ok (q, Some d)) \<longrightarrow> (\<forall>n. enumerate_tools n M = None))"
  using page_tools_serves [OF assms] page_tools_endless by (auto simp: enumerate_tools_def)

definition two_pages :: "string option \<Rightarrow> (raw_tool list \<times> string option, string) result" where
  "two_pages c = (if c = None then Ok ([], Some ''2'') else Ok ([], None))"

lemma enumeration_witness: "enumerate_tools 2 two_pages = Some (Ok [])"
proof -
  have "serves two_pages None [[], []]" by (simp add: two_pages_def)
  then show ?thesis using enumeration_ends_with_cursors [of two_pages "[[], []]" 2] by simp
qed

end
