(* ===== verification/Downstream.thy ===== *)
theory Downstream
  imports Registry Family Downstream_Startup
begin

text \<open>
  \<^verbatim>\<open>shell/downstream.py\<close>: the module state (registry, clients, instructions, startup
  tracking), startup of all servers, disconnection and re-enumeration of one server. Each operation
  runs under the registry lock from its first to its last write, so it is one function on the
  state. How one server starts is the argument \<open>start\<close> of \<open>connect_all\<close>; \<open>connect_server\<close> is
  such an argument. Closing a handle is recorded in \<open>ds_closed\<close>. Registration works through the
  interface of the registry, so completeness of what is published comes from its locale.
\<close>

record downstream =
  ds_registry :: registry
  ds_clients :: "(string, client_handle) dict"
  ds_instructions :: "(string, string) dict"
  ds_hints :: "(string, server_config) dict"
  ds_attempted :: "string set"
  ds_successful :: "string set"
  ds_failed :: "(string, provider_failure) dict"
  ds_in_progress :: "string set"
  ds_complete :: bool
  ds_locks :: "string set"
  ds_closed :: "nat list"

definition initial_downstream :: downstream where
  "initial_downstream = \<lparr>ds_registry = empty_registry, ds_clients = [], ds_instructions = [], ds_hints = [],
     ds_attempted = {}, ds_successful = {}, ds_failed = [], ds_in_progress = {}, ds_complete = True,
     ds_locks = {}, ds_closed = []\<rparr>"


section \<open>Startup tracking\<close>

definition mark_startup_begin :: "string set \<Rightarrow> downstream \<Rightarrow> downstream" where
  "mark_startup_begin names st = st\<lparr>ds_attempted := names, ds_successful := {}, ds_failed := [],
     ds_in_progress := names, ds_complete := (names = {})\<rparr>"

definition mark_startup_finished ::
    "string set \<Rightarrow> (string, provider_failure) dict \<Rightarrow> downstream \<Rightarrow> downstream" where
  "mark_startup_finished successful failures st = st\<lparr>ds_successful := successful,
     ds_failed := dupdate [] failures, ds_in_progress := {}, ds_complete := True\<rparr>"

record startup_snapshot =
  sn_attempted :: "string list"
  sn_successful :: "string list"
  sn_failed :: "(string, provider_failure) dict"
  sn_in_progress :: "string list"
  sn_complete :: bool
  sn_degraded_reason :: "string option"

definition get_downstream_startup_snapshot :: "downstream \<Rightarrow> startup_snapshot" where
  "get_downstream_startup_snapshot st =
     \<lparr>sn_attempted = sorted_list_of_set (ds_attempted st),
      sn_successful = sorted_list_of_set (ds_successful st), sn_failed = ds_failed st,
      sn_in_progress = sorted_list_of_set (ds_in_progress st), sn_complete = ds_complete st,
      sn_degraded_reason = degraded_reason_from_failures (ds_failed st)\<rparr>"


section \<open>Startup and shutdown\<close>

definition close_handles :: "client_handle list \<Rightarrow> downstream \<Rightarrow> downstream" where
  "close_handles hs st = st\<lparr>ds_closed := ds_closed st @ map ch_id hs\<rparr>"

definition close_all_clients :: "downstream \<Rightarrow> downstream" where
  "close_all_clients st = close_handles (map snd (ds_clients st)) (st\<lparr>ds_clients := []\<rparr>)"

text \<open>The connected servers and the failures that the start attempts give, in configuration order.\<close>

definition add_outcome ::
    "string \<Rightarrow> (connected_server, string) result
       \<Rightarrow> (string, connected_server) dict \<times> (string, provider_failure) dict
       \<Rightarrow> (string, connected_server) dict \<times> (string, provider_failure) dict" where
  "add_outcome server outcome acc =
     (case outcome of
        Err e \<Rightarrow> (fst acc, dset server (startup_failure_from_error server (Some e)) (snd acc))
      | Ok data \<Rightarrow> (dset (cs_server_name data) data (fst acc), snd acc))"

definition gather_outcomes ::
    "(string \<times> (connected_server, string) result) list
       \<Rightarrow> (string, connected_server) dict \<times> (string, provider_failure) dict" where
  "gather_outcomes outcomes = fold (\<lambda>(s, out). add_outcome s out) outcomes ([], [])"

definition given_lists ::
    "(string, server_config) dict \<Rightarrow> (string, raw_tool list) dict
       \<Rightarrow> (string, connected_server) dict \<times> (string, provider_failure) dict" where
  "given_lists servers tool_lists =
     fold (\<lambda>(s, _) (conn, failures).
        case dget tool_lists s of
          None \<Rightarrow> (conn, dset s (startup_failure s ''initialize'' ''pre_enumerated_tool_list_missing'' False) failures)
        | Some tools \<Rightarrow> (dset s \<lparr>cs_server_name = s, cs_raw_tools = tools, cs_handle = None,
                                  cs_instructions = None\<rparr> conn, failures))
       servers ([], [])"

definition startup_outcomes ::
    "(string \<Rightarrow> server_config \<Rightarrow> py_exc + (connected_server, string) result)
       \<Rightarrow> (string, server_config) dict \<Rightarrow> (string, raw_tool list) dict option
       \<Rightarrow> py_exc + (string, connected_server) dict \<times> (string, provider_failure) dict" where
  "startup_outcomes start servers tool_lists =
     (case tool_lists of
        Some given \<Rightarrow> Inr (given_lists servers given)
      | None \<Rightarrow>
          (case mapE (\<lambda>(s, sc). map_right (Pair s) (start s sc)) servers of
             Inl e \<Rightarrow> Inl e
           | Inr outcomes \<Rightarrow> Inr (gather_outcomes outcomes)))"

definition resolve_connected ::
    "(string, server_config) dict \<Rightarrow> (string, connected_server) dict \<Rightarrow> py_exc + tools_by_server" where
  "resolve_connected servers conn =
     mapE (\<lambda>(s, data). case dget servers s of
         None \<Rightarrow> Inl (KeyError s)
       | Some sc \<Rightarrow> map_right (Pair s) (resolve_tools s sc (cs_raw_tools data))) conn"

definition publish_server ::
    "(string, server_config) dict \<Rightarrow> tools_by_server \<Rightarrow> string \<times> connected_server \<Rightarrow> downstream \<Rightarrow> downstream" where
  "publish_server servers resolved entry st =
     (case entry of (s, data) \<Rightarrow>
       st\<lparr>ds_hints := (case dget servers s of Some sc \<Rightarrow> dset s sc (ds_hints st) | None \<Rightarrow> ds_hints st),
          ds_clients := (case cs_handle data of Some h \<Rightarrow> dset s h (ds_clients st) | None \<Rightarrow> ds_clients st),
          ds_instructions := (if nonempty (cs_instructions data)
             then dset s (the (cs_instructions data)) (ds_instructions st) else ds_instructions st),
          ds_registry := register s (case dget resolved s of Some ts \<Rightarrow> ts | None \<Rightarrow> []) (ds_registry st)\<rparr>)"

definition connect_all ::
    "(string \<Rightarrow> server_config \<Rightarrow> py_exc + (connected_server, string) result)
       \<Rightarrow> (string, server_config) dict \<Rightarrow> (string, raw_tool list) dict option \<Rightarrow> downstream
       \<Rightarrow> (py_exc + (unit, string) result) \<times> downstream" where
  "connect_all start servers tool_lists st =
     (let st1 = mark_startup_begin (set (dkeys servers))
                  ((close_all_clients st)\<lparr>ds_registry := empty_registry, ds_instructions := [], ds_hints := []\<rparr>)
      in case startup_outcomes start servers tool_lists of
           Inl e \<Rightarrow> (Inl e, st1)
         | Inr (conn, failures) \<Rightarrow>
             (case resolve_connected servers conn of
                Inl e \<Rightarrow> (Inl e, st1)
              | Inr resolved \<Rightarrow>
                  (let conflicts = detect_conflicts resolved in
                   if conflicts \<noteq> [] then
                     (Inr (Err (''TOOL_CONFLICT: '' @ conflict_desc conflicts)),
                      mark_startup_finished {} failures
                        ((close_handles (List.map_filter (\<lambda>(_, data). cs_handle data) conn) st1)
                           \<lparr>ds_registry := empty_registry\<rparr>))
                   else
                     (Inr (Ok ()),
                      mark_startup_finished (set (dkeys conn)) failures
                        (fold (publish_server servers resolved) conn st1)))))"

definition disconnect_all :: "downstream \<Rightarrow> downstream" where
  "disconnect_all st = (close_all_clients st)\<lparr>ds_registry := empty_registry, ds_instructions := [],
     ds_hints := [], ds_attempted := {}, ds_successful := {}, ds_failed := [], ds_in_progress := {},
     ds_complete := True, ds_locks := {}\<rparr>"


section \<open>One server\<close>

definition unavailable :: "string \<Rightarrow> ('a, string) result" where
  "unavailable msg = Err (''DOWNSTREAM_UNAVAILABLE: '' @ msg)"

text \<open>
  Resolve, register, check, and roll back on a conflict: the common core of re-enumeration and of
  the convergence kernel. The outcome is the resolved list or the conflicts.
\<close>

definition reregister ::
    "string \<Rightarrow> server_config \<Rightarrow> raw_tool list \<Rightarrow> registry
       \<Rightarrow> (py_exc + (resolved_tool list, tool_conflict list) result) \<times> registry" where
  "reregister server sc raw_tools r =
     (case resolve_tools server sc raw_tools of
        Inl e \<Rightarrow> (Inl e, r)
      | Inr resolved \<Rightarrow>
          (let snap = snapshot r; r1 = register server resolved r; conflicts = detect_conflicts (get_all_tools r1)
           in if conflicts \<noteq> [] then (Inr (Err conflicts), restore snap r1) else (Inr (Ok resolved), r1)))"

definition re_enumerate ::
    "string \<Rightarrow> tela_config option \<Rightarrow> (client_handle \<Rightarrow> (raw_tool list, string) result) \<Rightarrow> downstream
       \<Rightarrow> (py_exc + (resolved_tool list, string) result) \<times> downstream" where
  "re_enumerate server config list_tools st =
     (case dget (ds_clients st) server of
        None \<Rightarrow> (Inr (unavailable (''downstream server '' @ squote server @ '' is not connected'')), st)
      | Some h \<Rightarrow>
      (case config of
        None \<Rightarrow> (Inr (unavailable ''gateway runtime config is not loaded''), st)
      | Some cfg \<Rightarrow>
      (case dget (tc_servers cfg) server of
        None \<Rightarrow> (Inr (unavailable (''server '' @ squote server @ '' not found in runtime config'')), st)
      | Some sc \<Rightarrow>
      (case list_tools h of
        Err e \<Rightarrow> (Inr (unavailable (''re-enumeration failed for server '' @ squote server @ '': '' @ e)), st)
      | Ok tools \<Rightarrow>
          (case reregister server sc tools (ds_registry st) of
             (Inl e, r) \<Rightarrow> (Inl e, st\<lparr>ds_registry := r\<rparr>)
           | (Inr (Err conflicts), r) \<Rightarrow>
               (Inr (Err (''TOOL_CONFLICT: '' @ conflict_desc conflicts)), st\<lparr>ds_registry := r\<rparr>)
           | (Inr (Ok resolved), r) \<Rightarrow> (Inr (Ok resolved), st\<lparr>ds_registry := r\<rparr>))))))"



section \<open>The outcomes of the start attempts\<close>

definition names_match :: "(string \<Rightarrow> server_config \<Rightarrow> py_exc + (connected_server, string) result) \<Rightarrow> bool" where
  "names_match start \<longleftrightarrow> (\<forall>s sc d. start s sc = Inr (Ok d) \<longrightarrow> cs_server_name d = s)"

lemma names_match_connect_server: "names_match (\<lambda>s sc. fst (connect_server s (opening s sc) (listing s sc)))"
  by (auto simp: names_match_def connect_server_def list_tools_phase_def connect_failed_def Let_def
      split: attempt.splits result.splits if_splits)

lemma gather_outcomes:
  assumes "wf_dict outs" and "\<And>s d. (s, Ok d) \<in> set outs \<Longrightarrow> cs_server_name d = s"
  shows "dget (fst (gather_outcomes outs)) s = (case dget outs s of Some (Ok d) \<Rightarrow> Some d | _ \<Rightarrow> None)
    \<and> dget (snd (gather_outcomes outs)) s
        = (case dget outs s of Some (Err e) \<Rightarrow> Some (startup_failure_from_error s (Some e)) | _ \<Rightarrow> None)
    \<and> wf_dict (fst (gather_outcomes outs)) \<and> wf_dict (snd (gather_outcomes outs))"
  using assms
proof (induction outs arbitrary: s rule: rev_induct)
  case Nil
  show ?case by (simp add: gather_outcomes_def)
next
  case (snoc x xs)
  obtain a out where x: "x = (a, out)" by (cases x)
  have wf: "wf_dict xs" and new: "dget xs a = None"
    using snoc.prems(1) by (auto simp: x wf_dict_def map_of_eq_None_iff)
  have names: "\<And>s d. (s, Ok d) \<in> set xs \<Longrightarrow> cs_server_name d = s" using snoc.prems(2) by simp
  note IH = snoc.IH [OF wf names]
  have step: "gather_outcomes (xs @ [x]) = add_outcome a out (gather_outcomes xs)"
    by (simp add: gather_outcomes_def x)
  show ?case
  proof (cases out)
    case (Ok d)
    then have "cs_server_name d = a" using snoc.prems(2) [of a d] by (simp add: x)
    then show ?thesis
      using IH new unfolding step by (auto simp: add_outcome_def Ok x dict_simps map_add_def split: option.splits)
  next
    case (Err e)
    then show ?thesis
      using IH new unfolding step by (auto simp: add_outcome_def x dict_simps map_add_def split: option.splits)
  qed
qed

lemma mapE_outcomes:
  "mapE (\<lambda>(s, sc). map_right (Pair s) (start s sc)) servers = Inr outs \<Longrightarrow>
     dkeys outs = dkeys servers
     \<and> dget outs s = (case dget servers s of None \<Rightarrow> None
          | Some sc \<Rightarrow> (case start s sc of Inl _ \<Rightarrow> None | Inr out \<Rightarrow> Some out))"
proof (induction servers arbitrary: outs)
  case (Cons x xs)
  obtain a sc where x: "x = (a, sc)" by (cases x)
  obtain out rest where "start a sc = Inr out" and "mapE (\<lambda>(s, sc). map_right (Pair s) (start s sc)) xs = Inr rest"
    and "outs = (a, out) # rest"
    using Cons.prems by (auto simp: x map_right_Inr_iff split: sum.splits)
  then show ?case using Cons.IH [of rest] by (simp add: x)
qed simp

text \<open>What the startup attempts of a configuration amount to.\<close>

definition connects ::
    "(string \<Rightarrow> server_config \<Rightarrow> py_exc + (connected_server, string) result) \<Rightarrow> (string, server_config) dict
       \<Rightarrow> string \<Rightarrow> connected_server \<Rightarrow> bool" where
  "connects start servers s d \<longleftrightarrow> (\<exists>sc. dget servers s = Some sc \<and> start s sc = Inr (Ok d))"

definition fails ::
    "(string \<Rightarrow> server_config \<Rightarrow> py_exc + (connected_server, string) result) \<Rightarrow> (string, server_config) dict
       \<Rightarrow> string \<Rightarrow> bool" where
  "fails start servers s \<longleftrightarrow> (\<exists>sc e. dget servers s = Some sc \<and> start s sc = Inr (Err e))"

lemma startup_outcomes_Inr:
  assumes "wf_dict servers" and "names_match start"
    and "startup_outcomes start servers None = Inr (conn, failures)"
  shows "wf_dict conn" and "dget conn s = Some d \<longleftrightarrow> connects start servers s d"
    and "s \<in> set (dkeys failures) \<longleftrightarrow> fails start servers s"
    and "set (dkeys conn) \<union> set (dkeys failures) = set (dkeys servers)"
    and "set (dkeys conn) \<inter> set (dkeys failures) = {}"
proof -
  obtain outs where outs: "mapE (\<lambda>(s, sc). map_right (Pair s) (start s sc)) servers = Inr outs"
    and g: "gather_outcomes outs = (conn, failures)"
    using assms(3) by (auto simp: startup_outcomes_def split: sum.splits)
  note keys = conjunct1 [OF mapE_outcomes [OF outs]] and get = conjunct2 [OF mapE_outcomes [OF outs]]
  have wf: "wf_dict outs" using assms(1) keys by (simp add: wf_dict_def)
  have names: "cs_server_name d = s" if "(s, Ok d) \<in> set outs" for s d
  proof -
    have "dget outs s = Some (Ok d)" using that wf by (simp add: wf_dict_item)
    then show ?thesis using assms(2) get [of s] by (auto simp: names_match_def split: option.splits sum.splits)
  qed
  note c = gather_outcomes [OF wf names, unfolded g fst_conv snd_conv]
  show "wf_dict conn" using c by blast
  show conn: "dget conn s = Some d \<longleftrightarrow> connects start servers s d" for s d
    using c [of s] get [of s] by (auto simp: connects_def split: option.splits sum.splits result.splits)
  have fl: "dget failures s \<noteq> None \<longleftrightarrow> fails start servers s" for s
    using c [of s] get [of s] by (auto simp: fails_def split: option.splits sum.splits result.splits)
  then show "s \<in> set (dkeys failures) \<longleftrightarrow> fails start servers s"
    by (metis has_key_def has_key_dget)
  have k: "s \<in> set (dkeys conn) \<longleftrightarrow> (\<exists>d. dget outs s = Some (Ok d))"
    and l: "s \<in> set (dkeys failures) \<longleftrightarrow> (\<exists>e. dget outs s = Some (Err e))" for s
    using c [of s] has_key_dget [of conn s] has_key_dget [of failures s]
    by (auto simp: has_key_def split: option.splits result.splits)
  have m: "s \<in> set (dkeys servers) \<longleftrightarrow> dget outs s \<noteq> None" for s
    using has_key_dget [of outs s] keys by (simp add: has_key_def)
  show "set (dkeys conn) \<union> set (dkeys failures) = set (dkeys servers)"
  proof (rule set_eqI)
    fix s show "s \<in> set (dkeys conn) \<union> set (dkeys failures) \<longleftrightarrow> s \<in> set (dkeys servers)"
      unfolding Un_iff k l m by (cases "dget outs s") (auto, metis result.exhaust)
  qed
  show "set (dkeys conn) \<inter> set (dkeys failures) = {}"
  proof (rule equals0I)
    fix s assume "s \<in> set (dkeys conn) \<inter> set (dkeys failures)"
    then have "s \<in> set (dkeys conn)" "s \<in> set (dkeys failures)" by (rule IntD1, rule IntD2)
    then obtain d e where "dget outs s = Some (Ok d)" "dget outs s = Some (Err e)" unfolding k l by blast
    then show False by simp
  qed
qed


section \<open>Publication\<close>

lemma resolve_connected_Inr:
  assumes "resolve_connected servers conn = Inr resolved"
  shows "map fst resolved = map fst conn"
    and "i < length conn \<Longrightarrow> \<exists>sc. dget servers (fst (conn ! i)) = Some sc
      \<and> resolve_tools (fst (conn ! i)) sc (cs_raw_tools (snd (conn ! i))) = Inr (snd (resolved ! i))"
proof -
  note m = mapE_Inr [OF assms [unfolded resolve_connected_def]]
  have e: "\<exists>sc. dget servers (fst (conn ! i)) = Some sc
      \<and> resolve_tools (fst (conn ! i)) sc (cs_raw_tools (snd (conn ! i))) = Inr (snd (resolved ! i))
      \<and> fst (resolved ! i) = fst (conn ! i)" if "i < length conn" for i
  proof -
    obtain s d where sd: "conn ! i = (s, d)" by (cases "conn ! i")
    have "(case dget servers s of None \<Rightarrow> Inl (KeyError s)
        | Some sc \<Rightarrow> map_right (Pair s) (resolve_tools s sc (cs_raw_tools d))) = Inr (resolved ! i)"
      using m that sd by auto
    then show ?thesis using sd by (auto simp: map_right_Inr_iff split: option.splits)
  qed
  have len: "length resolved = length conn" using m by blast
  show "map fst resolved = map fst conn"
  proof (rule nth_equalityI)
    fix i assume "i < length (map fst resolved)"
    then have i: "i < length conn" using len by simp
    then have "fst (resolved ! i) = fst (conn ! i)" using e by blast
    then show "map fst resolved ! i = map fst conn ! i" using i len by simp
  qed (simp add: len)
  show "i < length conn \<Longrightarrow> \<exists>sc. dget servers (fst (conn ! i)) = Some sc
      \<and> resolve_tools (fst (conn ! i)) sc (cs_raw_tools (snd (conn ! i))) = Inr (snd (resolved ! i))"
    using e by blast
qed

lemma resolve_connected_get:
  assumes "resolve_connected servers conn = Inr resolved" and "wf_dict conn" and "dget conn s = Some d"
  shows "\<exists>sc ts. dget servers s = Some sc \<and> resolve_tools s sc (cs_raw_tools d) = Inr ts \<and> dget resolved s = Some ts"
proof -
  have "(s, d) \<in> set conn" using assms(3) by (rule dget_item)
  then obtain i where i: "i < length conn" "conn ! i = (s, d)" by (auto simp: in_set_conv_nth)
  have len: "length resolved = length conn"
    using resolve_connected_Inr(1) [OF assms(1)] by (metis length_map)
  have wf: "wf_dict resolved" using assms(2) resolve_connected_Inr(1) [OF assms(1)] by (simp add: wf_dict_def)
  have f: "fst (resolved ! i) = s"
    using resolve_connected_Inr(1) [OF assms(1)] i len by (metis fst_conv nth_map)
  have "(s, snd (resolved ! i)) \<in> set resolved" using i len f by (metis nth_mem prod.collapse)
  then have "dget resolved s = Some (snd (resolved ! i))" using wf by (simp add: wf_dict_item)
  then show ?thesis using resolve_connected_Inr(2) [OF assms(1) i(1)] i(2) by auto
qed

definition publication :: "(string, 'a) dict \<Rightarrow> tools_by_server \<Rightarrow> tools_by_server" where
  "publication conn resolved = map (\<lambda>(s, _). (s, case dget resolved s of Some ts \<Rightarrow> ts | None \<Rightarrow> [])) conn"

lemma publication_id:
  assumes wf: "wf_dict resolved" and keys: "map fst resolved = map fst conn"
  shows "publication conn resolved = resolved"
proof -
  let ?g = "\<lambda>s. (s, case dget resolved s of Some ts \<Rightarrow> ts | None \<Rightarrow> [])"
  have "publication conn resolved = map ?g (map fst conn)" by (simp add: publication_def split_beta comp_def)
  also have "\<dots> = map (?g \<circ> fst) resolved" by (simp flip: keys)
  also have "\<dots> = resolved"
    by (rule map_idI) (use wf in \<open>auto simp: wf_dict_item\<close>)
  finally show ?thesis .
qed

lemma publish_server_fields:
  "ds_registry (publish_server servers resolved (s, d) st)
     = register s (case dget resolved s of Some ts \<Rightarrow> ts | None \<Rightarrow> []) (ds_registry st)"
  "ds_attempted (publish_server servers resolved (s, d) st) = ds_attempted st"
  "ds_closed (publish_server servers resolved (s, d) st) = ds_closed st"
  "ds_clients (publish_server servers resolved (s, d) st)
     = (case cs_handle d of Some h \<Rightarrow> dset s h (ds_clients st) | None \<Rightarrow> ds_clients st)"
  by (simp_all add: publish_server_def)

lemma publish_registry:
  "ds_registry (fold (publish_server servers resolved) conn st)
     = dsr.publish (publication conn resolved) (ds_registry st)"
proof (induction conn arbitrary: st)
  case (Cons x xs)
  then show ?case by (cases x) (simp add: publication_def dsr.publish_def publish_server_fields)
qed (simp add: publication_def dsr.publish_def)

lemma publish_unchanged:
  "ds_attempted (fold (publish_server servers resolved) conn st) = ds_attempted st
   \<and> ds_closed (fold (publish_server servers resolved) conn st) = ds_closed st"
proof (induction conn arbitrary: st)
  case (Cons x xs)
  then show ?case by (cases x) (simp add: publish_server_fields)
qed simp

lemma publish_clients:
  "wf_dict conn \<Longrightarrow> dget (ds_clients (fold (publish_server servers resolved) conn st)) s =
     (case Option.bind (dget conn s) cs_handle of Some h \<Rightarrow> Some h | None \<Rightarrow> dget (ds_clients st) s)"
proof (induction conn arbitrary: st)
  case (Cons x xs)
  obtain a d where x: "x = (a, d)" by (cases x)
  have wf: "wf_dict xs" and new: "dget xs a = None"
    using Cons.prems by (auto simp: wf_dict_def x map_of_eq_None_iff)
  show ?case
    using Cons.IH [OF wf, of "publish_server servers resolved x st"] new
    by (cases "cs_handle d") (simp_all add: x publish_server_fields dict_simps split: option.split)
qed simp


text \<open>The state a startup attempt begins with.\<close>

definition begun :: "(string, server_config) dict \<Rightarrow> downstream \<Rightarrow> downstream" where
  "begun servers st = mark_startup_begin (set (dkeys servers))
     ((close_all_clients st)\<lparr>ds_registry := empty_registry, ds_instructions := [], ds_hints := []\<rparr>)"

lemma begun_fields:
  "ds_registry (begun servers st) = empty_registry" "ds_clients (begun servers st) = []"
  "ds_attempted (begun servers st) = set (dkeys servers)"
  "ds_in_progress (begun servers st) = set (dkeys servers)"
  "ds_complete (begun servers st) \<longleftrightarrow> servers = []"
  "ds_closed (begun servers st) = ds_closed st @ map (ch_id \<circ> snd) (ds_clients st)"
  by (simp_all add: begun_def mark_startup_begin_def close_all_clients_def close_handles_def)

lemma connect_all_cases:
  assumes "startup_outcomes start servers lists_given = Inr (conn, failures)"
    and "resolve_connected servers conn = Inr resolved"
  shows "connect_all start servers lists_given st =
    (if detect_conflicts resolved = [] then
       (Inr (Ok ()), mark_startup_finished (set (dkeys conn)) failures
          (fold (publish_server servers resolved) conn (begun servers st)))
     else (Inr (Err (''TOOL_CONFLICT: '' @ conflict_desc (detect_conflicts resolved))),
       mark_startup_finished {} failures
         ((close_handles (List.map_filter (\<lambda>(_, data). cs_handle data) conn) (begun servers st))
            \<lparr>ds_registry := empty_registry\<rparr>)))"
  using assms by (simp add: connect_all_def begun_def Let_def)

lemma connect_all_raises:
  "connect_all start servers lists_given st = (Inl e, st') \<Longrightarrow> st' = begun servers st"
  by (auto simp: connect_all_def begun_def Let_def split: sum.splits prod.splits if_splits)

lemma connect_all_Inr:
  assumes "connect_all start servers lists_given st = (Inr res, st')"
  obtains conn failures resolved where "startup_outcomes start servers lists_given = Inr (conn, failures)"
    and "resolve_connected servers conn = Inr resolved"
  using assms by (auto simp: connect_all_def Let_def split: sum.splits prod.splits if_splits)

lemma dkeys_failures [simp]: "fst ` set (dupdate [] failures) = fst ` set failures"
proof -
  have "k \<in> fst ` set (dupdate [] failures) \<longleftrightarrow> k \<in> fst ` set failures" for k
    using has_key_dupdate [of "[]" failures k] by (simp add: has_key_def)
  then show ?thesis by blast
qed

text \<open>The effect of a startup that returns without an exception.\<close>

lemma connect_all_publishes:
  assumes wf: "wf_dict servers" and names: "names_match start"
    and run: "connect_all start servers None st = (Inr (Ok ()), st')"
  shows "dsr.complete (ds_registry st')"
    and "\<And>s d. connects start servers s d \<Longrightarrow> \<exists>sc ts. dget servers s = Some sc
           \<and> resolve_tools s sc (cs_raw_tools d) = Inr ts \<and> dget (get_all_tools (ds_registry st')) s = Some ts"
    and "\<And>s ts. dget (get_all_tools (ds_registry st')) s = Some ts \<Longrightarrow> s \<in> ds_successful st'"
    and "\<And>s. s \<in> ds_successful st' \<longleftrightarrow> (\<exists>d. connects start servers s d)"
    and "\<And>s. s \<in> set (dkeys (ds_failed st')) \<longleftrightarrow> fails start servers s"
    and "ds_successful st' \<union> set (dkeys (ds_failed st')) = ds_attempted st'"
    and "ds_attempted st' = set (dkeys servers)" and "ds_in_progress st' = {}" and "ds_complete st'"
proof -
  obtain conn failures resolved where so: "startup_outcomes start servers None = Inr (conn, failures)"
    and rc: "resolve_connected servers conn = Inr resolved"
    using run by (rule connect_all_Inr)
  note out = startup_outcomes_Inr [OF wf names so]
  have wfr: "wf_dict resolved"
    using out(1) resolve_connected_Inr(1) [OF rc] by (simp add: wf_dict_def)
  have cf: "conflict_free resolved" and st': "st' = mark_startup_finished (set (dkeys conn)) failures
      (fold (publish_server servers resolved) conn (begun servers st))"
    using run connect_all_cases [OF so rc, of st] by (auto simp: detect_conflicts_Nil split: if_splits)
  have reg: "ds_registry st' = dsr.publish resolved empty_registry"
    using publication_id [OF wfr resolve_connected_Inr(1) [OF rc]]
    by (simp add: st' mark_startup_finished_def publish_registry begun_fields)
  have suc: "ds_successful st' = set (dkeys conn)" by (simp add: st' mark_startup_finished_def)
  have fld: "set (dkeys (ds_failed st')) = set (dkeys failures)" by (simp add: st' mark_startup_finished_def)
  have tools: "dget (get_all_tools (ds_registry st')) s = dget resolved s" for s
    using dsr.publish_tools [OF dsr.inv_empty wfr, of s]
    by (simp add: reg dsr.tools_empty split: option.splits)
  show "dsr.complete (ds_registry st')" unfolding reg using wfr cf by (rule dsr.publish_complete)
  show "\<exists>sc ts. dget servers s = Some sc \<and> resolve_tools s sc (cs_raw_tools d) = Inr ts
      \<and> dget (get_all_tools (ds_registry st')) s = Some ts" if "connects start servers s d" for s d
    using that resolve_connected_get [OF rc out(1)] by (simp add: out(2) tools)
  show "s \<in> ds_successful st'" if "dget (get_all_tools (ds_registry st')) s = Some ts" for s ts
  proof -
    have "s \<in> set (dkeys resolved)" using that unfolding tools by (metis has_key_def has_key_dget option.distinct(1))
    then show ?thesis using resolve_connected_Inr(1) [OF rc] suc by simp
  qed
  show "s \<in> ds_successful st' \<longleftrightarrow> (\<exists>d. connects start servers s d)" for s
    unfolding suc out(2) [symmetric] by (metis has_key_def has_key_dget not_None_eq)
  show "s \<in> set (dkeys (ds_failed st')) \<longleftrightarrow> fails start servers s" for s
    unfolding fld by (rule out(3))
  show "ds_successful st' \<union> set (dkeys (ds_failed st')) = ds_attempted st'"
    unfolding suc fld using out(4) by (simp add: st' mark_startup_finished_def publish_unchanged begun_fields)
  show "ds_attempted st' = set (dkeys servers)"
    by (simp add: st' mark_startup_finished_def publish_unchanged begun_fields)
  show "ds_in_progress st' = {}" "ds_complete st'" by (simp_all add: st' mark_startup_finished_def)
qed

text \<open>A rejected startup publishes nothing and closes the handles it opened.\<close>

lemma connect_all_rejects:
  assumes run: "connect_all start servers lists_given st = (Inr (Err e), st')"
  shows "ds_registry st' = empty_registry" and "ds_clients st' = []" and "ds_successful st' = {}"
    and "ds_complete st'" and "\<exists>cs. cs \<noteq> [] \<and> e = ''TOOL_CONFLICT: '' @ conflict_desc cs"
proof -
  obtain conn failures resolved where so: "startup_outcomes start servers lists_given = Inr (conn, failures)"
    and rc: "resolve_connected servers conn = Inr resolved"
    using run by (rule connect_all_Inr)
  show "ds_registry st' = empty_registry" "ds_clients st' = []" "ds_successful st' = {}" "ds_complete st'"
    "\<exists>cs. cs \<noteq> [] \<and> e = ''TOOL_CONFLICT: '' @ conflict_desc cs"
    using run connect_all_cases [OF so rc, of st]
    by (auto simp: mark_startup_finished_def close_handles_def begun_fields split: if_splits)
qed


section \<open>Atomic updates\<close>

lemma reregister_cases:
  "case reregister server sc raw r of
     (Inr (Ok resolved), r') \<Rightarrow> resolve_tools server sc raw = Inr resolved \<and> r' = register server resolved r
        \<and> conflict_free (get_all_tools r')
   | (Inr (Err cs), r') \<Rightarrow> r' = r \<and> cs \<noteq> [] \<and> (\<exists>resolved. resolve_tools server sc raw = Inr resolved
        \<and> cs = detect_conflicts (get_all_tools (register server resolved r)))
   | (Inl e, r') \<Rightarrow> r' = r \<and> resolve_tools server sc raw = Inl e"
  by (auto simp: reregister_def Let_def detect_conflicts_Nil split: sum.split)

lemma reregister_complete:
  "dsr.complete r \<Longrightarrow> dsr.complete (snd (reregister server sc raw r))"
  by (auto simp: reregister_def Let_def detect_conflicts_Nil dsr.complete_reg split: sum.split)

lemma re_enumerate_registry:
  "snd (re_enumerate server config lt st) = st
   \<or> (\<exists>sc raw. snd (re_enumerate server config lt st)
        = st\<lparr>ds_registry := snd (reregister server sc raw (ds_registry st))\<rparr>)"
  by (auto simp: re_enumerate_def split: option.split result.split prod.split sum.split)
    (metis snd_conv)+


section \<open>Properties\<close>


definition two_servers :: "(string, server_config) dict" where
  "two_servers = [(''fs'', server_named ''fs''), (''web'', server_named ''web'')]"

text \<open>\<open>fs\<close> lists the given tools, \<open>web\<close> times out.\<close>

definition one_starts :: "raw_tool list \<Rightarrow> string \<Rightarrow> server_config \<Rightarrow> py_exc + (connected_server, string) result" where
  "one_starts tools s sc = fst (connect_server s
     (if s = ''fs'' then Returned (Ok \<lparr>ch_id = 7, ch_instructions = None\<rparr>) else TimedOut)
     (\<lambda>_. Returned (Ok tools)))"


text \<open>A startup whose connected tool lists conflict returns TOOL_CONFLICT and leaves an empty
  registry, no clients and a completed startup; the only other way to end is an exception.\<close>

theorem conflicting_startup_publishes_nothing:
  assumes "connect_all start servers lists_given st = (Inr (Err e), st')"
  shows "ds_registry st' = empty_registry \<and> ds_clients st' = [] \<and> ds_successful st' = {}
    \<and> ds_in_progress st' = {} \<and> ds_complete st' \<and> startswith e ''TOOL_CONFLICT: ''"
  using connect_all_rejects [OF assms] assms
  by (auto simp: startswith_def connect_all_def mark_startup_finished_def Let_def
      split: sum.splits prod.splits if_splits)

lemma conflicting_startup_witness:
  "\<exists>e st'. connect_all (\<lambda>s sc. fst (connect_server s (Returned (Ok \<lparr>ch_id = 7, ch_instructions = None\<rparr>))
        (\<lambda>_. Returned (Ok [listed ''read'' ''d''])))) two_servers None initial_downstream = (Inr (Err e), st')
     \<and> ds_registry st' = empty_registry"
proof -
  let ?run = "connect_all (\<lambda>s sc. fst (connect_server s (Returned (Ok \<lparr>ch_id = 7, ch_instructions = None\<rparr>))
        (\<lambda>_. Returned (Ok [listed ''read'' ''d''])))) two_servers None initial_downstream"
  have "fst ?run \<noteq> Inr (Ok ()) \<and> \<not> isl (fst ?run)" by code_simp
  then obtain e where "fst ?run = Inr (Err e)" using returned_error by blast
  then obtain st' where run: "?run = (Inr (Err e), st')" by (rule fst_eq_pair)
  show ?thesis using run conflicting_startup_publishes_nothing [OF run] by blast
qed

text \<open>When the tools of one connected server do not resolve, the exception leaves the startup
  unfinished: every server stays in progress, the completion flag stays off, nothing is published,
  and the handles of the servers that did connect are neither kept nor closed.\<close>

theorem unresolvable_tool_blocks_startup:
  assumes "connect_all start servers lists_given st = (Inl e, st')" and "servers \<noteq> []"
  shows "ds_in_progress st' = set (dkeys servers) \<and> \<not> ds_complete st'
    \<and> ds_registry st' = empty_registry \<and> ds_clients st' = []
    \<and> ds_closed st' = ds_closed st @ map (ch_id \<circ> snd) (ds_clients st)"
  using connect_all_raises [OF assms(1)] assms(2) by (simp add: begun_fields)

lemma unresolvable_tool_witness:
  "\<exists>e st'. connect_all (one_starts [listed ''read'' ''d'', listed ''tela_x'' ''d'']) two_servers None
       initial_downstream = (Inl e, st')
     \<and> ds_in_progress st' = {''fs'', ''web''} \<and> ds_closed st' = []"
proof -
  let ?run = "connect_all (one_starts [listed ''read'' ''d'', listed ''tela_x'' ''d'']) two_servers None
       initial_downstream"
  have "isl (fst ?run)" by code_simp
  then obtain e where "fst ?run = Inl e" by (auto simp: isl_def)
  then obtain st' where run: "?run = (Inl e, st')" by (rule fst_eq_pair)
  then show ?thesis
    using unresolvable_tool_blocks_startup [OF run]
    by (auto simp: two_servers_def initial_downstream_def)
qed

text \<open>C15: Updating the tools of one server is atomic: it either installs the resolved tools and keeps the
  registry complete and free of conflicts, or returns the conflicts or the exception with the
  registry unchanged.\<close>

theorem reregister_atomic:
  assumes "dsr.complete r" and "reregister server sc raw r = (res, r')"
  shows "dsr.complete r'
    \<and> (case res of
         Inr (Ok resolved) \<Rightarrow> resolve_tools server sc raw = Inr resolved \<and> r' = register server resolved r
           \<and> conflict_free (get_all_tools r')
       | Inr (Err cs) \<Rightarrow> r' = r \<and> cs \<noteq> []
       | Inl e \<Rightarrow> r' = r \<and> resolve_tools server sc raw = Inl e)"
  using reregister_complete [OF assms(1), where server = server and sc = sc and raw = raw]
    reregister_cases [where server = server and sc = sc and raw = raw and r = r] assms(2)
  by (auto split: sum.split result.split)

lemma reregister_witness:
  "dsr.complete (snd (reregister ''fs'' (server_named ''fs'') [listed ''read'' ''d''] empty_registry))"
  by (rule reregister_atomic [OF dsr.complete_empty surjective_pairing, THEN conjunct1])

end
