(* ===== verification/Reload.thy ===== *)
theory Reload
  imports Connection_Lifecycle Audit_Log Downstream
begin

text \<open>
  \<^verbatim>\<open>shell/reload.py\<close>: the convergence kernel for one server, its two event adapters, the
  notification digest and the reaction to a new configuration. The state \<open>gateway\<close> joins the
  parts of the program these touch: the runtime with its idle manager, the downstream state and
  the audit store. The notification callback is installed or not; the digests it was called with are
  the field \<open>gw_digests\<close>, and \<open>gw_calls\<close> records the calls made to downstream sessions.
\<close>

record gateway = gateway_state +
  gw_downstream :: downstream
  gw_audit :: audit_store
  gw_callback :: bool
  gw_digests :: "string list"
  gw_calls :: "(nat \<times> string \<times> jobject) list"

definition initial_gateway :: gateway where
  "initial_gateway = \<lparr>gs_runtime = initial_runtime, gs_idle = None, gw_downstream = initial_downstream,
     gw_audit = initial_audit, gw_callback = False, gw_digests = [], gw_calls = []\<rparr>"

abbreviation gw_registry :: "gateway \<Rightarrow> registry" where
  "gw_registry g \<equiv> ds_registry (gw_downstream g)"

definition with_registry :: "registry \<Rightarrow> gateway \<Rightarrow> gateway" where
  "with_registry r g = g\<lparr>gw_downstream := (gw_downstream g)\<lparr>ds_registry := r\<rparr>\<rparr>"


section \<open>The convergence kernel\<close>

datatype trigger = Reconnect | ReloadTools | Watcher | ManualReenumeration

datatype disposition = Applied | Conflicted

record conflict_note =
  cn_tool_name :: string
  cn_servers :: "string list"

record convergence_result =
  cr_disposition :: disposition
  cr_trigger :: trigger
  cr_server_name :: string
  cr_rollback_applied :: bool
  cr_resolved_names :: "string list"
  cr_conflicts :: "conflict_note list"

definition converge_single_server_update ::
    "string \<Rightarrow> server_config \<Rightarrow> raw_tool list \<Rightarrow> trigger \<Rightarrow> gateway
       \<Rightarrow> (py_exc + convergence_result) \<times> gateway" where
  "converge_single_server_update server sc raw_tools trig g =
     (case reregister server sc raw_tools (gw_registry g) of
        (Inl e, r) \<Rightarrow> (Inl e, with_registry r g)
      | (Inr (Err conflicts), r) \<Rightarrow>
          (Inr \<lparr>cr_disposition = Conflicted, cr_trigger = trig, cr_server_name = server,
                cr_rollback_applied = True, cr_resolved_names = [],
                cr_conflicts = map (\<lambda>c. \<lparr>cn_tool_name = tf_tool_name c, cn_servers = tf_servers c\<rparr>) conflicts\<rparr>,
           with_registry r g)
      | (Inr (Ok resolved), r) \<Rightarrow>
          (Inr \<lparr>cr_disposition = Applied, cr_trigger = trig, cr_server_name = server,
                cr_rollback_applied = False, cr_resolved_names = map rt_name resolved, cr_conflicts = []\<rparr>,
           with_registry r g))"


section \<open>Warnings and notifications\<close>

definition notes_desc :: "conflict_note list \<Rightarrow> string" where
  "notes_desc ns = join ''; ''
     (map (\<lambda>c. cn_tool_name c @ '' in ['' @ join '', '' (cn_servers c) @ '']'') ns)"

definition system_connection :: connection_context where
  "system_connection = \<lparr>cc_connection_id = ''system'', cc_profile_id = ''system'', cc_connected_at = [],
     cc_tool_call_count = 0, cc_last_activity = [], cc_init_mode = None, cc_client_info = None,
     cc_bridge_connection_id = None\<rparr>"

definition emit_conflict_warning ::
    "bool \<Rightarrow> string \<Rightarrow> convergence_result \<Rightarrow> gateway \<Rightarrow> (unit, string) result \<times> gateway" where
  "emit_conflict_warning disk_ok now_iso outcome g =
     (let desc = notes_desc (cr_conflicts outcome);
          entry = build_audit_entry L1 system_connection (cn_tool_name (hd (cr_conflicts outcome)))
            (cr_server_name outcome) (deny_result ''tool_conflict'' ''TOOL_CONFLICT'' desc)
            None None None None None now_iso
      in (Err (''TOOL_CONFLICT: '' @ desc), g\<lparr>gw_audit := snd (audit_write disk_ok entry (gw_audit g))\<rparr>))"

definition exposed_names :: "tools_by_server \<Rightarrow> string list" where
  "exposed_names tools = sort (concat (map (\<lambda>(_, ts). map rt_name ts) tools))"

definition tools_digest :: "tools_by_server \<Rightarrow> string" where
  "tools_digest tools = ''sha256:'' @ sha256_hexdigest (utf8_encode (join '':'' (exposed_names tools)))"

definition notify_registry_tool_digest :: "gateway \<Rightarrow> gateway" where
  "notify_registry_tool_digest g =
     (if \<not> gw_callback g then g
      else g\<lparr>gw_digests := gw_digests g @ [tools_digest (get_all_tools (gw_registry g))]\<rparr>)"

definition set_notify_callback :: "bool \<Rightarrow> gateway \<Rightarrow> gateway" where
  "set_notify_callback present g = g\<lparr>gw_callback := present\<rparr>"


section \<open>The event adapters\<close>

definition converge_and_notify ::
    "bool \<Rightarrow> string \<Rightarrow> trigger \<Rightarrow> string \<Rightarrow> server_config \<Rightarrow> raw_tool list \<Rightarrow> gateway
       \<Rightarrow> (py_exc + (unit, string) result) \<times> gateway" where
  "converge_and_notify disk_ok now_iso trig server sc tools g =
     (case converge_single_server_update server sc tools trig g of
        (Inl e, g1) \<Rightarrow> (Inl e, g1)
      | (Inr outcome, g1) \<Rightarrow>
          (if cr_disposition outcome = Conflicted then
             (let (res, g2) = emit_conflict_warning disk_ok now_iso outcome g1 in (Inr res, g2))
           else (Inr (Ok ()), notify_registry_tool_digest g1)))"

definition on_tools_changed ::
    "bool \<Rightarrow> string \<Rightarrow> string \<Rightarrow> server_config \<Rightarrow> raw_tool list \<Rightarrow> gateway
       \<Rightarrow> (py_exc + (unit, string) result) \<times> gateway" where
  "on_tools_changed disk_ok now_iso = converge_and_notify disk_ok now_iso ReloadTools"

definition on_server_reconnect ::
    "bool \<Rightarrow> string \<Rightarrow> string \<Rightarrow> server_config \<Rightarrow> raw_tool list \<Rightarrow> gateway
       \<Rightarrow> (py_exc + (unit, string) result) \<times> gateway" where
  "on_server_reconnect disk_ok now_iso = converge_and_notify disk_ok now_iso Reconnect"


section \<open>A new configuration\<close>

definition server_changes :: "tela_config \<Rightarrow> tela_config \<Rightarrow> string set \<times> string set" where
  "server_changes old new =
     (let o' = set (dkeys (tc_servers old)); n = set (dkeys (tc_servers new));
          changed = {s \<in> o' \<inter> n. dget (tc_servers old) s \<noteq> dget (tc_servers new) s}
      in (o' - n, (n - o') \<union> changed))"

definition on_config_changed ::
    "(string \<Rightarrow> server_config \<Rightarrow> py_exc + (connected_server, string) result) \<Rightarrow> tela_config \<Rightarrow> gateway
       \<Rightarrow> (py_exc + (unit, string) result) \<times> gateway" where
  "on_config_changed start new_config g =
     (let old = get_runtime_config (gs_runtime g);
          g1 = g\<lparr>gs_runtime := set_runtime_config (Some new_config) (gs_runtime g)\<rparr>
      in case old of
           None \<Rightarrow> (Inr (Ok ()), g1)
         | Some old_config \<Rightarrow>
             (let (removed, to_reconnect) = server_changes old_config new_config in
              if removed = {} \<and> to_reconnect = {} then (Inr (Ok ()), g1)
              else
                (let snap = snapshot (gw_registry g1) in
                 case connect_all start (tc_servers new_config) None (disconnect_all (gw_downstream g1)) of
                   (Inl e, st) \<Rightarrow> (Inl e, g1\<lparr>gw_downstream := st\<rparr>)
                 | (Inr (Err e), st) \<Rightarrow>
                     (let g2 = g1\<lparr>gw_downstream := st\<rparr> in
                      if startswith e ''TOOL_CONFLICT'' then
                        (Inr (Err e), (with_registry (restore snap (gw_registry g2)) g2)
                           \<lparr>gs_runtime := set_runtime_config (Some old_config) (gs_runtime g2)\<rparr>)
                      else (Inr (Err e), g2))
                 | (Inr (Ok _), st) \<Rightarrow> (Inr (Ok ()), notify_registry_tool_digest (g1\<lparr>gw_downstream := st\<rparr>)))))"


section \<open>Effects\<close>

lemma with_registry_fields [simp]:
  "gs_runtime (with_registry r g) = gs_runtime g" "gs_idle (with_registry r g) = gs_idle g"
  "gw_registry (with_registry r g) = r" "gw_audit (with_registry r g) = gw_audit g"
  "gw_callback (with_registry r g) = gw_callback g" "gw_digests (with_registry r g) = gw_digests g"
  "gw_calls (with_registry r g) = gw_calls g"
  "ds_clients (gw_downstream (with_registry r g)) = ds_clients (gw_downstream g)"
  by (simp_all add: with_registry_def)

lemma with_registry_id [simp]: "with_registry (gw_registry g) g = g"
  by (simp add: with_registry_def)

lemma notify_fields [simp]:
  "gs_runtime (notify_registry_tool_digest g) = gs_runtime g" "gs_idle (notify_registry_tool_digest g) = gs_idle g"
  "gw_downstream (notify_registry_tool_digest g) = gw_downstream g"
  "gw_audit (notify_registry_tool_digest g) = gw_audit g"
  "gw_digests (notify_registry_tool_digest g) =
     gw_digests g @ (if gw_callback g then [tools_digest (get_all_tools (gw_registry g))] else [])"
  by (simp_all add: notify_registry_tool_digest_def)

lemma converge_cases:
  "case converge_single_server_update server sc raw trig g of
     (Inl e, g') \<Rightarrow> g' = g \<and> resolve_tools server sc raw = Inl e
   | (Inr out, g') \<Rightarrow> cr_trigger out = trig \<and> cr_server_name out = server
       \<and> cr_rollback_applied out = (cr_disposition out = Conflicted)
       \<and> (cr_disposition out = Conflicted \<longrightarrow> g' = g \<and> cr_conflicts out \<noteq> [])
       \<and> (cr_disposition out = Applied \<longrightarrow> (\<exists>resolved. resolve_tools server sc raw = Inr resolved
            \<and> cr_resolved_names out = map rt_name resolved
            \<and> g' = with_registry (register server resolved (gw_registry g)) g
            \<and> conflict_free (get_all_tools (gw_registry g'))))"
  using reregister_cases [where server = server and sc = sc and raw = raw and r = "gw_registry g"]
  by (auto simp: converge_single_server_update_def split: prod.split sum.split result.split)

lemma converge_and_notify_cases:
  "case converge_and_notify disk now trig server sc raw g of
     (Inl e, g') \<Rightarrow> g' = g \<and> resolve_tools server sc raw = Inl e
   | (Inr (Err e), g') \<Rightarrow> (\<exists>entry. ae_error_code entry = Some ''TOOL_CONFLICT''
       \<and> g' = g\<lparr>gw_audit := snd (audit_write disk entry (gw_audit g))\<rparr>)
   | (Inr (Ok _), g') \<Rightarrow> (\<exists>resolved. resolve_tools server sc raw = Inr resolved
       \<and> g' = notify_registry_tool_digest (with_registry (register server resolved (gw_registry g)) g)
       \<and> conflict_free (get_all_tools (gw_registry g')))"
proof (cases "converge_single_server_update server sc raw trig g")
  case (Pair out g1)
  note c = converge_cases [where server = server and sc = sc and raw = raw and trig = trig and g = g, unfolded Pair]
  show ?thesis
  proof (cases out)
    case (Inl e)
    then show ?thesis using c Pair by (simp add: converge_and_notify_def)
  next
    case (Inr o')
    show ?thesis
    proof (cases "cr_disposition o'")
      case Conflicted
      define entry where "entry = build_audit_entry L1 system_connection (cn_tool_name (hd (cr_conflicts o')))
        (cr_server_name o') (deny_result ''tool_conflict'' ''TOOL_CONFLICT'' (notes_desc (cr_conflicts o')))
        None None None None None now"
      have code: "ae_error_code entry = Some ''TOOL_CONFLICT''" by (simp add: entry_def build_audit_entry_def)
      have g1: "g1 = g" using c Conflicted by (simp add: Inr)
      obtain e where warn: "emit_conflict_warning disk now o' g
          = (Err e, g\<lparr>gw_audit := snd (audit_write disk entry (gw_audit g))\<rparr>)"
        unfolding emit_conflict_warning_def Let_def entry_def [symmetric] by blast
      have "converge_and_notify disk now trig server sc raw g
          = (Inr (Err e), g\<lparr>gw_audit := snd (audit_write disk entry (gw_audit g))\<rparr>)"
        by (simp only: converge_and_notify_def Pair Inr Conflicted g1 warn prod.case sum.case simp_thms if_True Let_def)
      then show ?thesis using code by auto
    next
      case Applied
      have "\<exists>resolved. resolve_tools server sc raw = Inr resolved
          \<and> cr_resolved_names o' = map rt_name resolved
          \<and> g1 = with_registry (register server resolved (gw_registry g)) g
          \<and> conflict_free (get_all_tools (gw_registry g1))"
        using c Applied unfolding Inr prod.case sum.case by blast
      then obtain resolved where r: "resolve_tools server sc raw = Inr resolved"
        and g1: "g1 = with_registry (register server resolved (gw_registry g)) g"
        and cf: "conflict_free (get_all_tools (gw_registry g1))" by blast
      have "converge_and_notify disk now trig server sc raw g = (Inr (Ok ()), notify_registry_tool_digest g1)"
        using Applied by (simp add: converge_and_notify_def Pair Inr)
      moreover have "conflict_free (get_all_tools (gw_registry (notify_registry_tool_digest g1)))"
        using cf by (simp only: notify_fields)
      ultimately show ?thesis using r unfolding g1 by (simp only: prod.case sum.case result.case) blast
    qed
  qed
qed

text \<open>The digest sees the multiset of exposed names only.\<close>

lemma exposed_names_mset: "mset (exposed_names tools) = mset (concat (map (\<lambda>(_, ts). map rt_name ts) tools))"
  by (simp add: exposed_names_def)

lemma tools_digest_cong:
  assumes "mset (concat (map (\<lambda>(_, ts). map rt_name ts) a)) = mset (concat (map (\<lambda>(_, ts). map rt_name ts) b))"
  shows "tools_digest a = tools_digest b"
proof -
  have "exposed_names a = exposed_names b"
    unfolding exposed_names_def by (rule properties_for_sort) (simp_all add: assms)
  then show ?thesis by (simp only: tools_digest_def)
qed


section \<open>The reaction to a configuration\<close>

lemma connect_all_conflict_shape:
  assumes "connect_all start servers None st = (Inr (Err e), st')"
  shows "ds_clients st' = [] \<and> ds_successful st' = {} \<and> startswith e ''TOOL_CONFLICT''"
  using connect_all_rejects [OF assms] by (auto simp: startswith_def)

text \<open>Nothing about the servers changes: only the configuration is replaced.\<close>

lemma config_changed_same_servers:
  assumes "get_runtime_config (gs_runtime g) = Some old" and "server_changes old new = ({}, {})"
  shows "on_config_changed start new g
    = (Inr (Ok ()), g\<lparr>gs_runtime := set_runtime_config (Some new) (gs_runtime g)\<rparr>)"
  using assms by (simp add: on_config_changed_def Let_def)

lemma config_changed_cases:
  assumes "get_runtime_config (gs_runtime g) = Some old" and "server_changes old new \<noteq> ({}, {})"
    and "connect_all start (tc_servers new) None (disconnect_all (gw_downstream g)) = (res, st)"
  shows "on_config_changed start new g =
    (let g1 = g\<lparr>gs_runtime := set_runtime_config (Some new) (gs_runtime g), gw_downstream := st\<rparr> in
     case res of
       Inl e \<Rightarrow> (Inl e, g1)
     | Inr (Err e) \<Rightarrow> (Inr (Err e), (with_registry (gw_registry g) g1)\<lparr>gs_runtime := set_runtime_config (Some old) (gs_runtime g)\<rparr>)
     | Inr (Ok _) \<Rightarrow> (Inr (Ok ()), notify_registry_tool_digest g1))"
proof -
  obtain a b where ab: "server_changes old new = (a, b)" by (cases "server_changes old new")
  then have ne: "\<not> (a = {} \<and> b = {})" using assms(2) by simp
  have r: "restore (snapshot r) r' = r" for r r' by simp
  have pre: "startswith e ''TOOL_CONFLICT''" if "res = Inr (Err e)" for e
    using connect_all_conflict_shape assms(3) that by blast
  show ?thesis
  proof (cases res)
    case (Inl e)
    then show ?thesis using assms(1,3) ne by (auto simp: on_config_changed_def Let_def ab)
  next
    case (Inr out)
    show ?thesis
    proof (cases out)
      case (Ok u)
      then show ?thesis using assms(1,3) ne Inr by (auto simp: on_config_changed_def Let_def ab)
    next
      case (Err e)
      then show ?thesis using assms(1,3) ne Inr pre [of e]
        by (auto simp: on_config_changed_def Let_def ab set_runtime_config_def)
    qed
  qed
qed


section \<open>Properties\<close>

text \<open>A changed tool list of one server never touches connections, sessions, the idle count or the
  client handles. If it resolves without a conflict the new tools are installed and listeners are
  notified once with the digest of the new surface; on a conflict the registry stays as it was, one
  TOOL_CONFLICT entry is audited, and nobody is notified.\<close>

theorem tools_change_keeps_connections:
  assumes "on_tools_changed disk now server sc raw g = (res, g')"
  shows "gs_runtime g' = gs_runtime g \<and> gs_idle g' = gs_idle g
    \<and> ds_clients (gw_downstream g') = ds_clients (gw_downstream g)
    \<and> (case res of
         Inr (Ok _) \<Rightarrow> (\<exists>resolved. resolve_tools server sc raw = Inr resolved
             \<and> gw_registry g' = register server resolved (gw_registry g))
           \<and> conflict_free (get_all_tools (gw_registry g'))
           \<and> gw_digests g' = gw_digests g @ (if gw_callback g then [tools_digest (get_all_tools (gw_registry g'))] else [])
           \<and> gw_audit g' = gw_audit g
       | Inr (Err _) \<Rightarrow> gw_registry g' = gw_registry g \<and> gw_digests g' = gw_digests g
           \<and> (\<exists>entry. ae_error_code entry = Some ''TOOL_CONFLICT''
                \<and> gw_audit g' = snd (audit_write disk entry (gw_audit g)))
       | Inl e \<Rightarrow> g' = g \<and> resolve_tools server sc raw = Inl e)"
proof -
  have run: "converge_and_notify disk now ReloadTools server sc raw g = (res, g')"
    using assms by (simp only: on_tools_changed_def)
  note c = converge_and_notify_cases [where trig = ReloadTools and disk = disk and now = now
      and server = server and sc = sc and raw = raw and g = g, unfolded run]
  consider (raise) e where "res = Inl e" | (err) e where "res = Inr (Err e)" | (ok) "res = Inr (Ok ())"
    by (cases res; cases "projr res") auto
  then show ?thesis
  proof cases
    case raise
    then show ?thesis using c by simp
  next
    case err
    then obtain entry where "ae_error_code entry = Some ''TOOL_CONFLICT''"
      and "g' = g\<lparr>gw_audit := snd (audit_write disk entry (gw_audit g))\<rparr>"
      using c by (simp only: prod.case sum.case result.case) blast
    then show ?thesis using err by auto
  next
    case ok
    then obtain resolved where r: "resolve_tools server sc raw = Inr resolved"
      and g': "g' = notify_registry_tool_digest (with_registry (register server resolved (gw_registry g)) g)"
      and cf: "conflict_free (get_all_tools (gw_registry g'))"
      using c by (simp only: prod.case sum.case result.case) blast
    have "gw_registry g' = register server resolved (gw_registry g)" by (simp add: g')
    then show ?thesis using r cf ok by (simp add: g')
  qed
qed

lemma tools_change_witness:
  "gs_runtime (snd (on_tools_changed True ''now'' ''fs'' (server_named ''fs'') [listed ''read'' ''d''] initial_gateway))
     = initial_runtime"
  using tools_change_keeps_connections [OF surjective_pairing, of True "''now''" "''fs''" "server_named ''fs''"
    "[listed ''read'' ''d'']" initial_gateway]
  by (simp add: initial_gateway_def)

text \<open>C16: When a new configuration changes the servers, an accepted one installs a complete registry and
  the new configuration. A conflicting one puts the old configuration and the old registry back, but
  every client has been closed by then and no server counts as connected. An exception leaves the
  new configuration with an empty registry and a startup that never completes. Connections and
  sessions survive in all three cases.\<close>

theorem config_change_outcomes:
  assumes "get_runtime_config (gs_runtime g) = Some old" and "server_changes old new \<noteq> ({}, {})"
    and "tc_servers new \<noteq> []" and "wf_dict (tc_servers new)" and "names_match start"
    and "on_config_changed start new g = (res, g')"
  shows "gr_connections (gs_runtime g') = gr_connections (gs_runtime g)
    \<and> gr_sessions (gs_runtime g') = gr_sessions (gs_runtime g) \<and> gs_idle g' = gs_idle g
    \<and> (case res of
         Inr (Ok _) \<Rightarrow> get_runtime_config (gs_runtime g') = Some new \<and> dsr.complete (gw_registry g')
       | Inr (Err _) \<Rightarrow> get_runtime_config (gs_runtime g') = Some old \<and> gw_registry g' = gw_registry g
           \<and> ds_clients (gw_downstream g') = [] \<and> ds_successful (gw_downstream g') = {}
       | Inl _ \<Rightarrow> get_runtime_config (gs_runtime g') = Some new \<and> gw_registry g' = empty_registry
           \<and> \<not> ds_complete (gw_downstream g'))"
proof -
  obtain out st where run: "connect_all start (tc_servers new) None (disconnect_all (gw_downstream g)) = (out, st)"
    by (cases "connect_all start (tc_servers new) None (disconnect_all (gw_downstream g))")
  note c = config_changed_cases [OF assms(1,2) run, unfolded assms(6) Let_def]
  consider (raise) e where "out = Inl e" | (err) e where "out = Inr (Err e)" | (ok) "out = Inr (Ok ())"
    by (cases out; cases "projr out") auto
  then show ?thesis
  proof cases
    case raise
    have "st = begun (tc_servers new) (disconnect_all (gw_downstream g))"
      using run unfolding raise by (rule connect_all_raises)
    then show ?thesis
      using c raise assms(3)
      by (simp add: begun_fields get_runtime_config_def set_runtime_config_def)
  next
    case err
    have "ds_clients st = [] \<and> ds_successful st = {}"
      using connect_all_conflict_shape [OF run [unfolded err]] by blast
    then show ?thesis
      using c err
      by (simp add: get_runtime_config_def set_runtime_config_def with_registry_def)
  next
    case ok
    have "dsr.complete (ds_registry st)"
      using connect_all_publishes(1) [OF assms(4,5)] run ok by blast
    then show ?thesis
      using c ok by (simp add: get_runtime_config_def set_runtime_config_def)
  qed
qed

definition config_with :: "(string, server_config) dict \<Rightarrow> tela_config" where
  "config_with servers = \<lparr>tc_servers = servers, tc_profiles = [], tc_auth = \<lparr>ac_mode = OpenMode, ac_secrets = []\<rparr>,
     tc_audit = \<lparr>auc_level = L1, auc_output = []\<rparr>, tc_reaper = default_reaper_policy,
     tc_resolved_default_profile = None\<rparr>"

text \<open>A configuration that adds a server whose tool enters the reserved namespace.\<close>

lemma config_change_witness:
  "\<not> ds_complete (gw_downstream (snd (on_config_changed (one_starts [listed ''tela_x'' ''d''])
     (config_with two_servers)
     (initial_gateway\<lparr>gs_runtime := set_runtime_config (Some (config_with [])) initial_runtime\<rparr>))))"
proof -
  let ?g = "initial_gateway\<lparr>gs_runtime := set_runtime_config (Some (config_with [])) initial_runtime\<rparr>"
  let ?run = "on_config_changed (one_starts [listed ''tela_x'' ''d'']) (config_with two_servers) ?g"
  have old: "get_runtime_config (gs_runtime ?g) = Some (config_with [])"
    by (simp add: get_runtime_config_def set_runtime_config_def)
  have ch: "server_changes (config_with []) (config_with two_servers) \<noteq> ({}, {})"
    by (simp add: server_changes_def config_with_def two_servers_def)
  have ne: "tc_servers (config_with two_servers) \<noteq> []" and wf: "wf_dict (tc_servers (config_with two_servers))"
    by (simp_all add: config_with_def two_servers_def wf_dict_def)
  have nm: "names_match (one_starts [listed ''tela_x'' ''d''])"
    unfolding one_starts_def by (rule names_match_connect_server)
  have "isl (fst ?run)" by code_simp
  then obtain e where e: "fst ?run = Inl e" by (auto simp: isl_def)
  show ?thesis
    using config_change_outcomes [OF old ch ne wf nm surjective_pairing] unfolding e by simp
qed

text \<open>The digest sent to listeners depends on the exposed names and how often each occurs, not on the
  servers, their order or any other attribute of the tools.\<close>

theorem digest_of_exposed_names:
  assumes "mset (concat (map (\<lambda>(_, ts). map rt_name ts) a)) = mset (concat (map (\<lambda>(_, ts). map rt_name ts) b))"
  shows "tools_digest a = tools_digest b"
  using assms by (rule tools_digest_cong)

lemma digest_witness:
  "tools_digest [(''a'', [tool_of ''a'' ''x'']), (''b'', [tool_of ''b'' ''y''])]
     = tools_digest [(''c'', [tool_of ''c'' ''y'', tool_of ''c'' ''x''])]"
  by (rule digest_of_exposed_names) (simp add: tool_of_def)

end
