(* ===== verification/Recovery.thy ===== *)
theory Recovery
  imports Reload
begin

text \<open>
  \<^verbatim>\<open>core/recovery_helpers.py\<close> and \<^verbatim>\<open>shell/_downstream_recovery.py\<close>: calling a tool on a
  downstream session, and the recovery of a lost client with one retry. What the code awaits is
  given by two records: \<open>recovery_env\<close> holds the remaining budget at each reading of the clock, the
  runtime configuration at each reading of it (other tasks may have replaced it meanwhile), and how
  lock, connection, enumeration and convergence end under their timeouts; \<open>call_env\<close> adds the
  behaviour of the session. Diagnostics are log lines and are not modelled.
\<close>


section \<open>Helpers\<close>

datatype exc_class = TimeoutClass | BrokenTransport | RuntimeClass | OtherClass

record session_exc =
  sx_class :: exc_class
  sx_type_name :: string
  sx_text :: string

definition eligible_runtime_errors :: "string list" where
  "eligible_runtime_errors =
     [''Client is not connected. Use the '' @ squote ''async with client:'' @ '' context manager first.'',
      ''Server session was closed unexpectedly'']"

definition get_exception_text :: "session_exc \<Rightarrow> string" where
  "get_exception_text exc = sx_type_name exc @ '': '' @ sx_text exc"

definition is_recovery_eligible_exception :: "session_exc \<Rightarrow> bool" where
  "is_recovery_eligible_exception exc =
     (case sx_class exc of
        TimeoutClass \<Rightarrow> False
      | BrokenTransport \<Rightarrow> False
      | RuntimeClass \<Rightarrow> sx_text exc \<in> set eligible_runtime_errors
      | OtherClass \<Rightarrow> False)"

definition build_recovery_error ::
    "string \<Rightarrow> bool \<Rightarrow> bool \<Rightarrow> string \<Rightarrow> string \<Rightarrow> bool option \<Rightarrow> tela_error" where
  "build_recovery_error server attempted eligible stage underlying config_missing =
     \<lparr>te_code = ''DOWNSTREAM_UNAVAILABLE'',
      te_message = ''Downstream server '' @ squote server @ '' is not connected'',
      te_details = Some ([(''server_name'', JStr server), (''recovery_attempted'', JBool attempted),
        (''recovery_stage'', JStr stage), (''recovery_eligible'', JBool eligible),
        (''underlying_error'', JStr underlying)]
        @ (case config_missing of None \<Rightarrow> [] | Some b \<Rightarrow> [(''config_missing'', JBool b)]))\<rparr>"

definition recovery_timeout :: "string \<Rightarrow> string \<Rightarrow> tela_error" where
  "recovery_timeout server underlying =
     build_recovery_error server True True ''recovery_timeout'' underlying (Some False)"

definition reconnect_failed :: "string \<Rightarrow> string \<Rightarrow> tela_error" where
  "reconnect_failed server underlying =
     build_recovery_error server True True ''reconnect_started'' underlying (Some False)"

definition get_runtime_server_config :: "string \<Rightarrow> tela_config option \<Rightarrow> (server_config, tela_error) result" where
  "get_runtime_server_config server config =
     (case Option.bind config (\<lambda>c. dget (tc_servers c) server) of
        Some sc \<Rightarrow> Ok sc
      | None \<Rightarrow> Err (build_recovery_error server True True ''reconnect_started''
          (if config = None then ''Runtime config unavailable''
           else ''Server '' @ squote server @ '' missing from runtime config'') (Some True)))"


section \<open>Recovery of one client\<close>

datatype convergence_timing = InTime | CutBeforeKernel | CutAfterKernel

record recovery_env =
  re_remaining :: "nat \<Rightarrow> rat"
  re_config :: "nat \<Rightarrow> tela_config option"
  re_lock_acquired :: bool
  re_contended :: bool
  re_open :: "(client_handle, string) result option"
  re_tools :: "(raw_tool list, string) result option"
  re_timing :: convergence_timing
  re_disk_ok :: bool
  re_now :: string

type_synonym recovered = "(py_exc + (unit, tela_error) result) \<times> gateway"

definition on_downstream :: "(downstream \<Rightarrow> downstream) \<Rightarrow> gateway \<Rightarrow> gateway" where
  "on_downstream f g = g\<lparr>gw_downstream := f (gw_downstream g)\<rparr>"

definition close_handle :: "client_handle \<Rightarrow> gateway \<Rightarrow> gateway" where
  "close_handle h = on_downstream (close_handles [h])"

definition drop_client_for_server :: "string \<Rightarrow> gateway \<Rightarrow> gateway" where
  "drop_client_for_server server g =
     (let stale = dget (ds_clients (gw_downstream g)) server;
          g' = on_downstream (\<lambda>st. st\<lparr>ds_clients := dpop server (ds_clients st),
                                     ds_instructions := dpop server (ds_instructions st)\<rparr>) g
      in case stale of None \<Rightarrow> g' | Some h \<Rightarrow> close_handle h g')"

text \<open>The lock is free again when this runs, at the very end of a recovery.\<close>

definition prune_recovery_lock :: "string \<Rightarrow> gateway \<Rightarrow> gateway" where
  "prune_recovery_lock server =
     on_downstream (\<lambda>st. if has_key (ds_clients st) server then st else st\<lparr>ds_locks := ds_locks st - {server}\<rparr>)"

definition give_up_missing :: "string \<Rightarrow> tela_error \<Rightarrow> gateway \<Rightarrow> recovered" where
  "give_up_missing server err g = (Inr (Err err), prune_recovery_lock server (drop_client_for_server server g))"

definition roll_back :: "string \<Rightarrow> resolved_tool list \<Rightarrow> gateway \<Rightarrow> gateway" where
  "roll_back server previous g =
     with_registry (if previous \<noteq> [] then register server previous (gw_registry g)
                    else unregister server (gw_registry g)) g"

definition swap_client :: "string \<Rightarrow> client_handle \<Rightarrow> gateway \<Rightarrow> gateway" where
  "swap_client server h g =
     (let old = dget (ds_clients (gw_downstream g)) server;
          g' = on_downstream (\<lambda>st. st\<lparr>ds_clients := dset server h (ds_clients st),
                 ds_instructions := (if nonempty (ch_instructions h)
                    then dset server (the (ch_instructions h)) (ds_instructions st) else ds_instructions st)\<rparr>) g
      in case old of None \<Rightarrow> g' | Some o' \<Rightarrow> close_handle o' g')"

definition finish_recovery ::
    "recovery_env \<Rightarrow> string \<Rightarrow> server_config \<Rightarrow> client_handle \<Rightarrow> resolved_tool list \<Rightarrow> gateway \<Rightarrow> recovered" where
  "finish_recovery env server sc h previous g =
     (case get_runtime_server_config server (re_config env 2) of
        Err e \<Rightarrow> give_up_missing server e (roll_back server previous (close_handle h g))
      | Ok sc' \<Rightarrow>
          if sc' \<noteq> sc then
            (Inr (Err (reconnect_failed server ''Server config changed before recovered client swap'')),
             roll_back server previous (close_handle h g))
          else (Inr (Ok ()), swap_client server h g))"

definition converge_recovered ::
    "recovery_env \<Rightarrow> string \<Rightarrow> server_config \<Rightarrow> client_handle \<Rightarrow> raw_tool list \<Rightarrow> gateway \<Rightarrow> recovered" where
  "converge_recovered env server sc h tools g =
     (let previous = (case dget (get_all_tools (gw_registry g)) server of Some ts \<Rightarrow> ts | None \<Rightarrow> []);
          late = Inr (Err (recovery_timeout server ''Recovery timeout exhausted during convergence''))
      in if re_remaining env 3 \<le> 0 then
           (Inr (Err (recovery_timeout server ''Recovery timeout exhausted before convergence'')), close_handle h g)
         else (case re_timing env of
             CutBeforeKernel \<Rightarrow> (late, close_handle h g)
           | CutAfterKernel \<Rightarrow>
               (case converge_single_server_update server sc tools Reconnect g of
                  (Inl e, g1) \<Rightarrow> (Inl e, g1)
                | (Inr _, g1) \<Rightarrow> (late, close_handle h g1))
           | InTime \<Rightarrow>
               (case on_server_reconnect (re_disk_ok env) (re_now env) server sc tools g of
                  (Inl e, g1) \<Rightarrow> (Inl e, g1)
                | (Inr (Err e), g1) \<Rightarrow>
                    (Inr (Err (build_recovery_error server True True ''convergence_rejected''
                       (or_text e ''Convergence rejected recovered tools'') (Some False))), close_handle h g1)
                | (Inr (Ok _), g1) \<Rightarrow> finish_recovery env server sc h previous g1)))"

definition enumerate_recovered ::
    "recovery_env \<Rightarrow> string \<Rightarrow> server_config \<Rightarrow> client_handle \<Rightarrow> gateway \<Rightarrow> recovered" where
  "enumerate_recovered env server sc h g =
     (if re_remaining env 2 \<le> 0 then
        (Inr (Err (recovery_timeout server ''Recovery timeout exhausted before enumeration'')), close_handle h g)
      else (case re_tools env of
          None \<Rightarrow> (Inr (Err (recovery_timeout server ''Recovery timeout exhausted while enumerating tools'')),
                   close_handle h g)
        | Some (Err e) \<Rightarrow> (Inr (Err (reconnect_failed server
              (or_text (''DOWNSTREAM_UNAVAILABLE: re-enumeration failed for server '' @ squote server @ '': '' @ e)
                 ''Tool enumeration failed during recovery''))), close_handle h g)
        | Some (Ok tools) \<Rightarrow>
            (case get_runtime_server_config server (re_config env 1) of
               Err e \<Rightarrow> give_up_missing server e (close_handle h g)
             | Ok sc' \<Rightarrow>
                 if sc' \<noteq> sc then
                   (Inr (Err (reconnect_failed server ''Server config changed during recovery'')), close_handle h g)
                 else converge_recovered env server sc h tools g)))"

definition recover_locked :: "recovery_env \<Rightarrow> string \<Rightarrow> gateway \<Rightarrow> recovered" where
  "recover_locked env server g =
     (case get_runtime_server_config server (re_config env 0) of
        Err e \<Rightarrow> give_up_missing server e g
      | Ok sc \<Rightarrow>
          if re_contended env \<and> has_key (ds_clients (gw_downstream g)) server
             \<and> has_key (get_all_tools (gw_registry g)) server then (Inr (Ok ()), g)
          else if re_remaining env 1 \<le> 0 then
            (Inr (Err (recovery_timeout server ''Recovery timeout exhausted before reconnect'')), g)
          else (case re_open env of
              None \<Rightarrow> (Inr (Err (recovery_timeout server ''Recovery timeout exhausted while reconnecting'')), g)
            | Some (Err e) \<Rightarrow> (Inr (Err (reconnect_failed server (or_text e ''Reconnect transport open failed''))), g)
            | Some (Ok h) \<Rightarrow> enumerate_recovered env server sc h g))"

definition recover_server_client :: "recovery_env \<Rightarrow> string \<Rightarrow> gateway \<Rightarrow> recovered" where
  "recover_server_client env server g =
     (let g' = on_downstream (\<lambda>st. st\<lparr>ds_locks := insert server (ds_locks st)\<rparr>) g
      in if re_remaining env 0 \<le> 0 \<or> \<not> re_lock_acquired env then
           (Inr (Err (recovery_timeout server ''Recovery lock wait timed out'')), g')
         else recover_locked env server g')"


section \<open>Calling a tool\<close>

record call_env =
  ce_call :: "client_handle \<Rightarrow> string \<Rightarrow> jobject \<Rightarrow> session_exc + jobject"
  ce_recovery :: recovery_env
  ce_remaining :: rat
  ce_retry :: "client_handle \<Rightarrow> string \<Rightarrow> jobject \<Rightarrow> (session_exc + jobject) option"

definition log_call :: "client_handle \<Rightarrow> string \<Rightarrow> jobject \<Rightarrow> gateway \<Rightarrow> gateway" where
  "log_call h tool args g = g\<lparr>gw_calls := gw_calls g @ [(ch_id h, tool, args)]\<rparr>"

definition retry_call ::
    "call_env \<Rightarrow> string \<Rightarrow> string \<Rightarrow> jobject \<Rightarrow> gateway
       \<Rightarrow> (py_exc + (jobject, tela_error) result) \<times> gateway" where
  "retry_call env server tool args g =
     (case dget (ds_clients (gw_downstream g)) server of
        None \<Rightarrow> (Inr (Err (build_recovery_error server True True ''retry_failed''
                  ''Recovered client handle missing after convergence'' None)), g)
      | Some h \<Rightarrow>
          if ce_remaining env \<le> 0 then
            (Inr (Err (recovery_timeout server ''Recovery timeout exhausted before retry'')), g)
          else (let g' = log_call h tool args g in
            case ce_retry env h tool args of
              None \<Rightarrow> (Inr (Err (recovery_timeout server ''Recovery timeout exhausted during retry'')), g')
            | Some (Inl exc) \<Rightarrow> (Inr (Err (build_recovery_error server True True ''retry_failed''
                (get_exception_text exc) (Some False))), g')
            | Some (Inr payload) \<Rightarrow> (Inr (Ok payload), g')))"

definition recover_and_retry ::
    "call_env \<Rightarrow> string \<Rightarrow> string \<Rightarrow> jobject \<Rightarrow> gateway
       \<Rightarrow> (py_exc + (jobject, tela_error) result) \<times> gateway" where
  "recover_and_retry env server tool args g =
     (case recover_server_client (ce_recovery env) server g of
        (Inl e, g') \<Rightarrow> (Inl e, g')
      | (Inr (Err e), g') \<Rightarrow> (Inr (Err e), g')
      | (Inr (Ok _), g') \<Rightarrow> retry_call env server tool args g')"

definition call_tool ::
    "call_env \<Rightarrow> string \<Rightarrow> string \<Rightarrow> jobject \<Rightarrow> gateway
       \<Rightarrow> (py_exc + (jobject, tela_error) result) \<times> gateway" where
  "call_tool env server tool args g =
     (case dget (ds_clients (gw_downstream g)) server of
        None \<Rightarrow> recover_and_retry env server tool args g
      | Some h \<Rightarrow>
          (let g' = log_call h tool args g in
           case ce_call env h tool args of
             Inr payload \<Rightarrow> (Inr (Ok payload), g')
           | Inl exc \<Rightarrow>
               if is_recovery_eligible_exception exc then recover_and_retry env server tool args g'
               else (Inr (Err (build_recovery_error server False False ''not_attempted''
                       (get_exception_text exc) None)), g')))"


section \<open>Event entry points\<close>

definition handle_tools_list_changed ::
    "bool \<Rightarrow> string \<Rightarrow> string \<Rightarrow> server_config \<Rightarrow> (client_handle \<Rightarrow> (raw_tool list, string) result) \<Rightarrow> gateway
       \<Rightarrow> (py_exc + unit) \<times> gateway" where
  "handle_tools_list_changed disk_ok now_iso server sc list_tools g =
     (case dget (ds_clients (gw_downstream g)) server of
        None \<Rightarrow> (Inr (), g)
      | Some h \<Rightarrow>
          (case list_tools h of
             Err _ \<Rightarrow> (Inr (), g)
           | Ok tools \<Rightarrow>
               (let (res, g') = on_tools_changed disk_ok now_iso server sc tools g
                in (map_right (\<lambda>_. ()) res, g'))))"

definition handle_reconnect :: "recovery_env \<Rightarrow> string \<Rightarrow> gateway \<Rightarrow> (py_exc + unit) \<times> gateway" where
  "handle_reconnect env server g =
     (let (res, g') = recover_server_client env server g in (map_right (\<lambda>_. ()) res, g'))"



section \<open>Frames\<close>

text \<open>Two states that agree on everything a recovery must not touch.\<close>

definition same_sessions :: "gateway \<Rightarrow> gateway \<Rightarrow> bool" where
  "same_sessions g g' \<longleftrightarrow> gs_runtime g' = gs_runtime g \<and> gs_idle g' = gs_idle g \<and> gw_calls g' = gw_calls g"

named_theorems frames \<open>steps that keep runtime, idle manager and calls\<close>

lemma same_sessions_refl [frames]: "same_sessions g g"
  by (simp add: same_sessions_def)

lemma same_sessions_trans: "same_sessions a b \<Longrightarrow> same_sessions b c \<Longrightarrow> same_sessions a c"
  by (simp add: same_sessions_def)

lemma same_on_downstream [frames]: "same_sessions g (on_downstream f g)"
  by (simp add: same_sessions_def on_downstream_def)

lemma same_with_registry [frames]: "same_sessions g (with_registry r g)"
  by (simp add: same_sessions_def)

lemma same_close [frames]: "same_sessions g (close_handle h g)"
  by (simp add: close_handle_def same_on_downstream)

lemma same_roll_back [frames]: "same_sessions g (roll_back s ts g)"
  by (simp add: roll_back_def same_with_registry)

lemma same_prune [frames]: "same_sessions g (prune_recovery_lock s g)"
  by (simp add: prune_recovery_lock_def same_on_downstream)

lemma same_drop [frames]: "same_sessions g (drop_client_for_server s g)"
  by (auto simp: drop_client_for_server_def Let_def same_on_downstream split: option.split
      intro: same_sessions_trans [OF same_on_downstream same_close])

lemma same_swap [frames]: "same_sessions g (swap_client s h g)"
  by (auto simp: swap_client_def Let_def same_on_downstream split: option.split
      intro: same_sessions_trans [OF same_on_downstream same_close])

lemma same_converge: "same_sessions g (snd (converge_single_server_update s sc ts trig g))"
  by (auto simp: converge_single_server_update_def frames split: prod.split sum.split result.split)

lemma same_notify [frames]: "same_sessions g (notify_registry_tool_digest g)"
  by (simp add: same_sessions_def notify_registry_tool_digest_def)

lemma same_reconnect: "same_sessions g (snd (on_server_reconnect d n s sc ts g))"
proof -
  have "same_sessions g1 (snd (emit_conflict_warning d n out g1))" for out g1
    by (simp add: same_sessions_def emit_conflict_warning_def Let_def)
  then show ?thesis
    using same_converge [of g s sc ts Reconnect]
    by (auto simp: on_server_reconnect_def converge_and_notify_def split_beta split: prod.split sum.split
        intro: same_sessions_trans same_notify dest: arg_cong [of _ _ snd])
qed

lemma same_give_up: "same_sessions g (snd (give_up_missing s e g))"
  by (auto simp: give_up_missing_def intro: same_sessions_trans [OF same_drop same_prune])

lemma same_finish: "same_sessions g (snd (finish_recovery env s sc h prev g))"
proof -
  have rolled: "same_sessions g (roll_back s prev (close_handle h g))"
    by (rule same_sessions_trans [OF same_close same_roll_back])
  show ?thesis
    using same_sessions_trans [OF rolled same_give_up] rolled
    by (auto simp: finish_recovery_def frames split: result.split)
qed

lemma same_converge_recovered: "same_sessions g (snd (converge_recovered env s sc h ts g))"
proof -
  have "same_sessions g (close_handle h g1)" if "same_sessions g g1" for g1
    using that same_close by (rule same_sessions_trans)
  moreover have "same_sessions g (snd (finish_recovery env s sc h prev g1))" if "same_sessions g g1" for g1 prev
    using that same_finish by (rule same_sessions_trans)
  moreover note same_converge [of g s sc ts Reconnect] same_reconnect [of g "re_disk_ok env" "re_now env" s sc ts]
  ultimately show ?thesis
    by (auto simp: converge_recovered_def Let_def frames split: convergence_timing.split prod.splits sum.split result.split)
qed

lemma same_enumerate: "same_sessions g (snd (enumerate_recovered env s sc h g))"
  using same_sessions_trans [OF same_close same_give_up] same_converge_recovered
  by (auto simp: enumerate_recovered_def frames split: option.split result.split)

lemma same_recover: "same_sessions g (snd (recover_server_client env s g))"
proof -
  have "same_sessions g1 (snd (recover_locked env s g1))" for g1
    using same_give_up same_enumerate
    by (auto simp: recover_locked_def frames split: option.split result.split)
  then show ?thesis
    using same_sessions_trans [OF same_on_downstream]
    by (auto simp: recover_server_client_def Let_def frames)
qed



section \<open>What a failed recovery leaves\<close>

definition tools_for :: "gateway \<Rightarrow> string \<Rightarrow> resolved_tool list" where
  "tools_for g s = (case dget (get_all_tools (gw_registry g)) s of Some ts \<Rightarrow> ts | None \<Rightarrow> [])"

definition client_of :: "gateway \<Rightarrow> string \<Rightarrow> client_handle option" where
  "client_of g s = dget (ds_clients (gw_downstream g)) s"

lemma registry_steps [simp]:
  "tools_for (close_handle h g) = tools_for g" "tools_for (drop_client_for_server s g) = tools_for g"
  "tools_for (prune_recovery_lock s g) = tools_for g" "tools_for (swap_client s h g) = tools_for g"
  "tools_for (on_downstream (\<lambda>st. st\<lparr>ds_locks := f st\<rparr>) g) = tools_for g"
  "tools_for (notify_registry_tool_digest g) = tools_for g"
  by (auto simp: fun_eq_iff tools_for_def close_handle_def drop_client_for_server_def prune_recovery_lock_def
      swap_client_def on_downstream_def close_handles_def Let_def split: option.split)

lemma client_steps [simp]:
  "client_of (close_handle h g) = client_of g" "client_of (prune_recovery_lock s g) = client_of g"
  "client_of (with_registry r g) = client_of g" "client_of (roll_back s ts g) = client_of g"
  "client_of (on_downstream (\<lambda>st. st\<lparr>ds_locks := f st\<rparr>) g) = client_of g"
  "client_of (notify_registry_tool_digest g) = client_of g"
  "client_of (g\<lparr>gw_audit := a\<rparr>) = client_of g"
  by (simp_all add: fun_eq_iff client_of_def close_handle_def prune_recovery_lock_def on_downstream_def
      close_handles_def roll_back_def)

lemma client_drop: "client_of (drop_client_for_server s g) = (client_of g)(s := None)"
  by (auto simp: fun_eq_iff client_of_def drop_client_for_server_def close_handle_def on_downstream_def
      close_handles_def Let_def dict_simps split: option.split)

lemma client_swap: "client_of (swap_client s h g) = (client_of g)(s := Some h)"
  by (auto simp: fun_eq_iff client_of_def swap_client_def close_handle_def on_downstream_def
      close_handles_def Let_def dict_simps split: option.split)

lemma tools_roll_back:
  "tools_for (roll_back s ts g) s' = (if s' = s then ts else tools_for g s')"
  by (simp add: tools_for_def roll_back_def tools_register tools_unregister)

lemma tools_registered: "tools_for (with_registry (register s ts r) g) s'
    = (if s' = s then ts else tools_for (with_registry r g) s')"
  by (simp add: tools_for_def tools_register)

text \<open>The registry as listeners see it and the clients are as before, up to the client of the server itself.\<close>

definition undone :: "string \<Rightarrow> gateway \<Rightarrow> gateway \<Rightarrow> bool" where
  "undone s g g' \<longleftrightarrow> tools_for g' = tools_for g
     \<and> (client_of g' = client_of g \<or> client_of g' = (client_of g)(s := None))"

lemma undone_close: "undone s g g1 \<Longrightarrow> undone s g (close_handle h g1)"
  by (simp add: undone_def)

lemma undone_give_up: "undone s g g1 \<Longrightarrow> undone s g (snd (give_up_missing s e g1))"
  by (auto simp: undone_def give_up_missing_def client_drop)

lemma undone_refl: "undone s g g"
  by (simp add: undone_def)

lemma reconnect_cases:
  assumes "on_server_reconnect d n s sc ts g = (res, g1)"
  shows "case res of
     Inl e \<Rightarrow> g1 = g
   | Inr (Err _) \<Rightarrow> undone s g g1
   | Inr (Ok _) \<Rightarrow> client_of g1 = client_of g \<and> (\<forall>s'. s' \<noteq> s \<longrightarrow> tools_for g1 s' = tools_for g s')
       \<and> resolve_tools s sc ts = Inr (tools_for g1 s)"
proof -
  have run: "converge_and_notify d n Reconnect s sc ts g = (res, g1)"
    using assms by (simp only: on_server_reconnect_def)
  note c = converge_and_notify_cases [where trig = Reconnect and disk = d and now = n
      and server = s and sc = sc and raw = ts and g = g, unfolded run]
  consider (raise) e where "res = Inl e" | (err) e where "res = Inr (Err e)" | (ok) "res = Inr (Ok ())"
    by (cases res; cases "projr res") auto
  then show ?thesis
  proof cases
    case raise
    then show ?thesis using c by simp
  next
    case err
    then obtain entry where "g1 = g\<lparr>gw_audit := snd (audit_write d entry (gw_audit g))\<rparr>"
      using c by (simp only: prod.case sum.case result.case) blast
    then show ?thesis using err by (simp add: undone_def fun_eq_iff tools_for_def)
  next
    case ok
    then obtain resolved where r: "resolve_tools s sc ts = Inr resolved"
      and g1: "g1 = notify_registry_tool_digest (with_registry (register s resolved (gw_registry g)) g)"
      using c by (simp only: prod.case sum.case result.case) blast
    show ?thesis using r ok by (simp add: g1 tools_registered)
  qed
qed

lemma finish_undone:
  assumes "finish_recovery env s sc h (tools_for g s) g1 = (Inr (Err e), g')"
    and "client_of g1 = client_of g" and "\<forall>s'. s' \<noteq> s \<longrightarrow> tools_for g1 s' = tools_for g s'"
  shows "undone s g g'"
proof -
  let ?b = "roll_back s (tools_for g s) (close_handle h g1)"
  have b: "undone s g ?b"
    using assms(2,3) by (simp add: undone_def fun_eq_iff tools_roll_back)
  from assms(1) consider "g' = ?b" | e' where "g' = snd (give_up_missing s e' ?b)"
    by (auto simp: finish_recovery_def give_up_missing_def split: result.splits if_splits)
  then show ?thesis using b undone_give_up [OF b] by cases simp_all
qed

lemma converge_undone:
  assumes "converge_recovered env s sc h ts g = (Inr (Err e), g')" and "re_timing env \<noteq> CutAfterKernel"
  shows "undone s g g'"
proof (cases "re_remaining env 3 \<le> 0 \<or> re_timing env = CutBeforeKernel")
  case True
  then show ?thesis
    using assms(1) by (auto simp: converge_recovered_def Let_def undone_refl intro!: undone_close split: if_splits)
next
  case False
  then have t: "\<not> re_remaining env 3 \<le> 0" "re_timing env = InTime" using assms(2) by (cases "re_timing env"; simp)+
  obtain res g1 where rc: "on_server_reconnect (re_disk_ok env) (re_now env) s sc ts g = (res, g1)"
    by (cases "on_server_reconnect (re_disk_ok env) (re_now env) s sc ts g")
  note c = reconnect_cases [OF rc]
  have prev: "(case dget (get_all_tools (gw_registry g)) s of Some ts \<Rightarrow> ts | None \<Rightarrow> []) = tools_for g s"
    by (simp add: tools_for_def)
  note conv = assms(1) [unfolded converge_recovered_def Let_def rc prev t(2)]
  consider (raise) e where "res = Inl e" | (err) e where "res = Inr (Err e)" | (ok) "res = Inr (Ok ())"
    by (cases res; cases "projr res") auto
  then show ?thesis
  proof cases
    case raise
    then show ?thesis using conv t(1) by simp
  next
    case err
    then have "g' = close_handle h g1" using conv t(1) by simp
    then show ?thesis using c err by (simp add: undone_close)
  next
    case ok
    then have "finish_recovery env s sc h (tools_for g s) g1 = (Inr (Err e), g')" using conv t(1) by simp
    then show ?thesis using finish_undone c ok by simp
  qed
qed

lemma enumerate_undone:
  assumes "enumerate_recovered env s sc h g = (Inr (Err e), g')" and "re_timing env \<noteq> CutAfterKernel"
  shows "undone s g g'"
  using assms undone_close [OF undone_refl, of s g h] undone_give_up [OF undone_close [OF undone_refl], of s g _ h]
    converge_undone [OF _ assms(2)]
  by (auto simp: enumerate_recovered_def give_up_missing_def split: if_splits option.splits result.splits)

lemma recover_undone:
  assumes "recover_server_client env s g = (Inr (Err e), g')" and "re_timing env \<noteq> CutAfterKernel"
  shows "undone s g g'"
proof -
  let ?g = "on_downstream (\<lambda>st. st\<lparr>ds_locks := insert s (ds_locks st)\<rparr>) g"
  have "undone s ?g g'"
    using assms undone_refl [of s ?g] undone_give_up [OF undone_refl, of s ?g] enumerate_undone [OF _ assms(2)]
    by (auto simp: recover_server_client_def recover_locked_def give_up_missing_def Let_def
        split: if_splits option.splits result.splits)
  then show ?thesis by (simp add: undone_def)
qed

lemma recover_has_client:
  assumes "recover_server_client env s g = (Inr (Ok u), g')"
  shows "client_of g' s \<noteq> None"
proof -
  let ?g = "on_downstream (\<lambda>st. st\<lparr>ds_locks := insert s (ds_locks st)\<rparr>) g"
  have fin: "client_of g2 s \<noteq> None" if "finish_recovery env s sc h p g1 = (Inr (Ok u), g2)" for sc h p g1 g2
    using that by (auto simp: finish_recovery_def client_swap give_up_missing_def split: result.splits if_splits)
  have conv: "client_of g2 s \<noteq> None" if "converge_recovered env s sc h ts g1 = (Inr (Ok u), g2)" for sc h ts g1 g2
    using that fin
    by (auto simp: converge_recovered_def Let_def split: if_splits convergence_timing.splits prod.splits sum.splits result.splits)
  have enum: "client_of g2 s \<noteq> None" if "enumerate_recovered env s sc h g1 = (Inr (Ok u), g2)" for sc h g1 g2
    using that conv
    by (auto simp: enumerate_recovered_def give_up_missing_def split: if_splits option.splits result.splits)
  have "client_of g' s \<noteq> None"
    if "recover_locked env s ?g = (Inr (Ok u), g')"
    using that enum
    by (auto simp: recover_locked_def give_up_missing_def client_of_def has_key_dget
        split: if_splits option.splits result.splits)
  then show ?thesis
    using assms by (auto simp: recover_server_client_def Let_def split: if_splits)
qed



section \<open>The calls that reach a session\<close>

lemma log_call_fields [simp]:
  "gw_calls (log_call h tool args g) = gw_calls g @ [(ch_id h, tool, args)]"
  "gs_runtime (log_call h tool args g) = gs_runtime g" "gs_idle (log_call h tool args g) = gs_idle g"
  "gw_downstream (log_call h tool args g) = gw_downstream g" "gw_audit (log_call h tool args g) = gw_audit g"
  by (simp_all add: log_call_def)

lemma retry_call_calls:
  "\<exists>hs :: client_handle list. length hs \<le> 1 \<and> gw_calls (snd (retry_call env s tool args g))
     = gw_calls g @ map (\<lambda>h. (ch_id h, tool, args)) hs"
proof (cases "client_of g s")
  case None
  then show ?thesis by (intro exI [of _ "[]"]) (simp add: retry_call_def client_of_def)
next
  case (Some h)
  show ?thesis
  proof (cases "ce_remaining env \<le> 0")
    case True
    then show ?thesis using Some by (intro exI [of _ "[]"]) (simp add: retry_call_def client_of_def)
  next
    case False
    then show ?thesis using Some
      by (intro exI [of _ "[h]"]) (simp add: retry_call_def client_of_def Let_def split: option.split sum.split)
  qed
qed

lemma recover_and_retry_calls:
  "\<exists>hs :: client_handle list. length hs \<le> 1 \<and> gw_calls (snd (recover_and_retry env s tool args g))
     = gw_calls g @ map (\<lambda>h. (ch_id h, tool, args)) hs"
proof -
  obtain res g1 where r: "recover_server_client (ce_recovery env) s g = (res, g1)"
    by (cases "recover_server_client (ce_recovery env) s g")
  then have c: "gw_calls g1 = gw_calls g"
    using same_recover [of g "ce_recovery env" s] by (simp add: same_sessions_def)
  show ?thesis
  proof (cases "res = Inr (Ok ())")
    case True
    then show ?thesis using retry_call_calls [of env s tool args g1] c
      by (simp add: recover_and_retry_def r)
  next
    case False
    then have "snd (recover_and_retry env s tool args g) = g1"
      by (auto simp: recover_and_retry_def r split: sum.split result.split)
    then show ?thesis using c by (intro exI [of _ "[]"]) simp
  qed
qed

lemma recover_and_retry_runtime:
  "gs_runtime (snd (recover_and_retry env s tool args g)) = gs_runtime g"
  "gs_idle (snd (recover_and_retry env s tool args g)) = gs_idle g"
  using same_recover [of g "ce_recovery env" s]
  by (auto simp: recover_and_retry_def retry_call_def Let_def same_sessions_def
      split: prod.split sum.split result.split option.split)

lemma call_tool_runtime:
  "gs_runtime (snd (call_tool env s tool args g)) = gs_runtime g"
  "gs_idle (snd (call_tool env s tool args g)) = gs_idle g"
  by (auto simp: call_tool_def Let_def recover_and_retry_runtime split: option.split sum.split)

lemma call_tool_calls:
  "\<exists>hs :: client_handle list. length hs \<le> 2
     \<and> gw_calls (snd (call_tool env server tool args g)) = gw_calls g @ map (\<lambda>h. (ch_id h, tool, args)) hs
     \<and> (2 \<le> length hs \<longrightarrow> (\<exists>h exc. client_of g server = Some h \<and> ce_call env h tool args = Inl exc
          \<and> is_recovery_eligible_exception exc))"
proof (cases "client_of g server")
  case None
  then obtain hs :: "client_handle list" where "length hs \<le> 1" and
    "gw_calls (snd (recover_and_retry env server tool args g)) = gw_calls g @ map (\<lambda>h. (ch_id h, tool, args)) hs"
    using recover_and_retry_calls by blast
  then show ?thesis using None by (intro exI [of _ hs]) (simp add: call_tool_def client_of_def)
next
  case (Some h)
  then have cl: "dget (ds_clients (gw_downstream g)) server = Some h" by (simp add: client_of_def)
  show ?thesis
  proof (cases "\<exists>exc. ce_call env h tool args = Inl exc \<and> is_recovery_eligible_exception exc")
    case True
    then obtain exc where e: "ce_call env h tool args = Inl exc" "is_recovery_eligible_exception exc" by blast
    obtain hs :: "client_handle list" where "length hs \<le> 1" and
      "gw_calls (snd (recover_and_retry env server tool args (log_call h tool args g)))
         = gw_calls (log_call h tool args g) @ map (\<lambda>h. (ch_id h, tool, args)) hs"
      using recover_and_retry_calls by blast
    then show ?thesis using Some e cl by (intro exI [of _ "h # hs"]) (simp add: call_tool_def Let_def)
  next
    case False
    then show ?thesis using Some cl
      by (intro exI [of _ "[h]"]) (auto simp: call_tool_def Let_def split: sum.split)
  qed
qed


section \<open>Properties\<close>


definition idle_env :: "recovery_env" where
  "idle_env = \<lparr>re_remaining = (\<lambda>_. 15), re_config = (\<lambda>_. None), re_lock_acquired = True, re_contended = False,
     re_open = None, re_tools = None, re_timing = InTime, re_disk_ok = True, re_now = ''now''\<rparr>"

definition with_client :: "gateway" where
  "with_client = on_downstream (\<lambda>st. st\<lparr>ds_clients := [(''fs'', \<lparr>ch_id = 1, ch_instructions = None\<rparr>)]\<rparr>) initial_gateway"




text \<open>A recovery whose convergence is cut off by its timeout after the kernel has registered the new
  tools reports the timeout and closes the new client, but leaves the new tools published; one whose
  tools do not resolve raises, and neither keeps nor closes the new client.\<close>

theorem cut_convergence_is_not_undone:
  assumes "0 < re_remaining env 3" and "resolve_tools server sc tools = Inr resolved"
    and "conflict_free (get_all_tools (register server resolved (gw_registry g)))"
    and "resolve_tools server sc bad = Inl e"
  shows "\<exists>err. converge_recovered (env\<lparr>re_timing := CutAfterKernel\<rparr>) server sc h tools g
           = (Inr (Err err), close_handle h (with_registry (register server resolved (gw_registry g)) g))
    \<and> converge_recovered (env\<lparr>re_timing := InTime\<rparr>) server sc h bad g = (Inl e, g)"
proof -
  have k: "reregister server sc tools (gw_registry g) = (Inr (Ok resolved), register server resolved (gw_registry g))"
    using assms(2,3) by (simp add: reregister_def Let_def detect_conflicts_Nil)
  have b: "reregister server sc bad (gw_registry g) = (Inl e, gw_registry g)"
    using assms(4) by (simp add: reregister_def)
  show ?thesis
    using assms(1)
    by (simp add: converge_recovered_def Let_def converge_single_server_update_def k b
        on_server_reconnect_def converge_and_notify_def)
qed

lemma cut_convergence_witness:
  "\<exists>err. converge_recovered (idle_env\<lparr>re_timing := CutAfterKernel\<rparr>) ''fs'' (server_named ''fs'')
       \<lparr>ch_id = 2, ch_instructions = None\<rparr> [] with_client
     = (Inr (Err err), close_handle \<lparr>ch_id = 2, ch_instructions = None\<rparr>
          (with_registry (register ''fs'' [] empty_registry) with_client))"
proof -
  have r: "gw_registry with_client = empty_registry"
    by (simp add: with_client_def on_downstream_def initial_gateway_def initial_downstream_def)
  have "resolve_tools ''fs'' (server_named ''fs'') [] = Inr []" by code_simp
  moreover have "isl (resolve_tools ''fs'' (server_named ''fs'') [listed ''tela_x'' ''d''])" by code_simp
  then obtain e where "resolve_tools ''fs'' (server_named ''fs'') [listed ''tela_x'' ''d''] = Inl e"
    by (auto simp: isl_def)
  moreover have "conflict_free (get_all_tools (register ''fs'' [] empty_registry))"
  proof -
    have "detect_conflicts (get_all_tools (register ''fs'' [] empty_registry)) = []" by code_simp
    then show ?thesis by (simp only: detect_conflicts_Nil)
  qed
  ultimately show ?thesis
    using cut_convergence_is_not_undone [where env = idle_env and server = "''fs''" and sc = "server_named ''fs''"
        and tools = "[]" and resolved = "[]" and g = with_client and h = "\<lparr>ch_id = 2, ch_instructions = None\<rparr>"]
    by (fastforce simp: idle_env_def r)
qed

end
