(* ===== verification/Upstream.thy ===== *)
theory Upstream
  imports Recovery Enforcement
begin

text \<open>
  \<^verbatim>\<open>shell/upstream_utils.py\<close> and the tool handlers of \<^verbatim>\<open>shell/upstream.py\<close>: what a client
  sees of the tools (\<^verbatim>\<open>tools/list\<close>) and what happens to its calls (\<^verbatim>\<open>tools/call\<close>), with the
  audit entry each outcome leaves. Validation of \<^verbatim>\<open>_meta\<close> by Pydantic is the argument
  \<open>read_meta\<close>; the downstream call is \<open>call_tool\<close> with its environment. The clock readings of one
  request are its arguments. The lemmas show that the two handlers agree on which tools a
  connection may use.
\<close>


section \<open>Filtering\<close>

definition routing_name :: "resolved_tool \<Rightarrow> string" where
  "routing_name tool = or_else (rt_raw_name tool) (rt_name tool)"

definition default_of :: "(string, posture) dict \<Rightarrow> string \<Rightarrow> posture" where
  "default_of defaults server = (case dget defaults server of Some p \<Rightarrow> p | None \<Rightarrow> PostureNone)"

definition judge_tool ::
    "profile_config \<Rightarrow> (string, posture) dict \<Rightarrow> string \<times> resolved_tool \<Rightarrow> py_exc + resolved_tool \<times> verdict" where
  "judge_tool profile defaults st =
     (case st of (server, tool) \<Rightarrow>
       map_right (\<lambda>r. (tool, er_verdict r))
         (enforce (routing_name tool) tool profile allow_result (default_of defaults server)))"

definition filter_tools_for_profile ::
    "tools_by_server \<Rightarrow> profile_config \<Rightarrow> (string, posture) dict \<Rightarrow> py_exc + resolved_tool list" where
  "filter_tools_for_profile all_tools profile defaults =
     map_right (\<lambda>judged. map fst (filter (\<lambda>(_, v). v = ALLOW) judged))
       (mapE (judge_tool profile defaults)
         (concat (map (\<lambda>(server, tools). map (Pair server) tools) all_tools)))"

definition strip_meta :: "jobject \<Rightarrow> jobject \<times> json option" where
  "strip_meta arguments =
     (filter (\<lambda>(k, v). k \<noteq> ''_meta'') arguments,
      (case dget arguments ''_meta'' of Some JNull \<Rightarrow> None | m \<Rightarrow> m))"

definition enforce_tool_call ::
    "string \<Rightarrow> resolved_tool \<Rightarrow> profile_config \<Rightarrow> posture \<Rightarrow> py_exc + enforcement_result" where
  "enforce_tool_call name tool profile default_posture = enforce name tool profile allow_result default_posture"


section \<open>Names\<close>

text \<open>\<^verbatim>\<open>^[a-z][a-z0-9_]*$\<close> on the whole string.\<close>

definition name_char :: "char \<Rightarrow> bool" where
  "name_char c \<longleftrightarrow> is_lower c \<or> is_digit c \<or> c = CHR ''_''"

fun valid_shared_name :: "string \<Rightarrow> bool" where
  "valid_shared_name [] = False"
| "valid_shared_name (c # cs) = (is_lower c \<and> list_all name_char cs)"

definition invalid_shared_tool_name :: "string \<Rightarrow> string option" where
  "invalid_shared_tool_name n = (if valid_shared_name n then None else Some n)"


section \<open>Audit of calls\<close>

definition audit_meta_field :: "(json \<Rightarrow> meta_field option) \<Rightarrow> json option \<Rightarrow> (meta_field option, string) result" where
  "audit_meta_field read_meta meta =
     (case meta of
        None \<Rightarrow> Ok None
      | Some m \<Rightarrow> (case read_meta m of Some f \<Rightarrow> Ok (Some f) | None \<Rightarrow> Err ''invalid _meta audit payload: ''))"

record request_env =
  rq_now :: string
  rq_latency :: rat
  rq_disk_ok :: bool
  rq_read_meta :: "json \<Rightarrow> meta_field option"
  rq_call :: call_env

definition audit_tool_call ::
    "request_env \<Rightarrow> connection_context \<Rightarrow> audit_level \<Rightarrow> string \<Rightarrow> string \<Rightarrow> enforcement_result
       \<Rightarrow> jobject \<Rightarrow> json option \<Rightarrow> jobject option \<Rightarrow> gateway \<Rightarrow> gateway" where
  "audit_tool_call rq conn level tool_name server_name r arguments held response g =
     (let meta = (case audit_meta_field (rq_read_meta rq) held of Ok m \<Rightarrow> m | Err _ \<Rightarrow> None);
          entry = build_audit_entry level conn tool_name server_name r (Some (rq_latency rq)) (Some arguments)
            None response meta (rq_now rq)
      in g\<lparr>gw_audit := snd (audit_write (rq_disk_ok rq) entry (gw_audit g))\<rparr>)"


section \<open>tools/list\<close>

definition tool_descriptor :: "resolved_tool \<Rightarrow> jobject" where
  "tool_descriptor t =
     [(''name'', JStr (rt_name t)), (''inputSchema'', JDict (rt_schema t)), (''description'', JStr (rt_description t))]
     @ (case rt_annotations t of None \<Rightarrow> [] | Some a \<Rightarrow> [(''annotations'', JDict a)])
     @ (case rt_title t of None \<Rightarrow> [] | Some s \<Rightarrow> [(''title'', JStr s)])
     @ (case rt_output_schema t of None \<Rightarrow> [] | Some o' \<Rightarrow> [(''outputSchema'', JDict o')])"

definition touch :: "string \<Rightarrow> string \<Rightarrow> gateway \<Rightarrow> gateway" where
  "touch cid now_iso g = g\<lparr>gs_runtime := snd (touch_connection_activity cid now_iso (gs_runtime g))\<rparr>"

definition server_default_postures :: "tela_config \<Rightarrow> (string, posture) dict" where
  "server_default_postures cfg = map (\<lambda>(s, sc). (s, sc_default_posture sc)) (tc_servers cfg)"

definition handle_tools_list ::
    "string \<Rightarrow> connection_context \<Rightarrow> gateway \<Rightarrow> (py_exc + (jobject list, string) result) \<times> gateway" where
  "handle_tools_list now_iso conn g =
     (case get_runtime_config (gs_runtime g) of
        None \<Rightarrow> (Inr (Err ''GATEWAY_NOT_STARTED: gateway has not been started''), g)
      | Some cfg \<Rightarrow>
      (case dget (tc_profiles cfg) (cc_profile_id conn) of
        None \<Rightarrow> (Inr (Err (''PROFILE_NOT_FOUND: profile '' @ squote (cc_profile_id conn) @ '' not found'')), g)
      | Some profile \<Rightarrow>
          (let g1 = touch (cc_connection_id conn) now_iso g in
           case filter_tools_for_profile (get_all_tools (gw_registry g1)) profile (server_default_postures cfg) of
             Inl e \<Rightarrow> (Inl e, g1)
           | Inr tools \<Rightarrow>
               (let permitted = sort_key rt_name tools in
                case filter (\<lambda>t. invalid_shared_tool_name (rt_name t) \<noteq> None) permitted of
                  t # _ \<Rightarrow> (Inr (Err (''INVALID_TOOL_NAME: shared MCP tool names must be snake_case; got ''
                      @ squote (rt_name t))), g1)
                | [] \<Rightarrow> (Inr (Ok (map tool_descriptor permitted)), g1)))))"


section \<open>tools/call\<close>

definition plain_error :: "string \<Rightarrow> string \<Rightarrow> tela_error" where
  "plain_error code' msg = \<lparr>te_code = code', te_message = msg, te_details = None\<rparr>"

definition server_default :: "tela_config \<Rightarrow> string \<Rightarrow> posture" where
  "server_default cfg server =
     (case dget (tc_servers cfg) server of Some sc \<Rightarrow> sc_default_posture sc | None \<Rightarrow> PostureNone)"

type_synonym call_outcome = "(py_exc + (jobject, tela_error) result) \<times> gateway"

definition refuse_call ::
    "request_env \<Rightarrow> connection_context \<Rightarrow> tela_config \<Rightarrow> string \<Rightarrow> string \<Rightarrow> enforcement_result
       \<Rightarrow> jobject \<Rightarrow> json option \<Rightarrow> tela_error \<Rightarrow> gateway \<Rightarrow> call_outcome" where
  "refuse_call rq conn cfg tool_name server_name r arguments held err g =
     (Inr (Err err), audit_tool_call rq conn (auc_level (tc_audit cfg)) tool_name server_name r arguments held None g)"

definition downstream_denial :: "tela_error \<Rightarrow> enforcement_result" where
  "downstream_denial e = deny_result ''downstream_call'' (te_code e) (te_message e)"

definition forward_call ::
    "request_env \<Rightarrow> connection_context \<Rightarrow> tela_config \<Rightarrow> string \<Rightarrow> resolved_tool \<Rightarrow> jobject \<Rightarrow> json option
       \<Rightarrow> gateway \<Rightarrow> call_outcome" where
  "forward_call rq conn cfg tool_name tool stripped held g =
     (let g1 = g\<lparr>gs_runtime := increment_tool_calls (gs_runtime g)\<rparr>;
          level = auc_level (tc_audit cfg)
      in case call_tool (rq_call rq) (rt_server_name tool) (routing_name tool) stripped g1 of
           (Inl e, g2) \<Rightarrow> (Inl e, g2)
         | (Inr (Err e), g2) \<Rightarrow>
             (Inr (Err e), audit_tool_call rq conn level tool_name (rt_server_name tool) (downstream_denial e)
                stripped held None g2)
         | (Inr (Ok payload), g2) \<Rightarrow>
             (Inr (Ok payload), audit_tool_call rq conn level tool_name (rt_server_name tool) allow_result stripped held
                (if dget payload ''isError'' = Some (JBool True) then Some [(''isError'', JBool True)] else None) g2))"

definition handle_tools_call ::
    "request_env \<Rightarrow> connection_context option \<Rightarrow> string \<Rightarrow> jobject \<Rightarrow> gateway \<Rightarrow> call_outcome" where
  "handle_tools_call rq connection tool_name arguments g =
     (case get_runtime_config (gs_runtime g) of
        None \<Rightarrow> (Inr (Err (plain_error ''GATEWAY_NOT_STARTED'' ''Gateway has not been started'')), g)
      | Some cfg \<Rightarrow>
      (case connection of
        None \<Rightarrow> (Inr (Err (plain_error ''missing_bound_connection'' ''tools/call requires an admitted connection'')), g)
      | Some conn \<Rightarrow>
          if invalid_shared_tool_name tool_name \<noteq> None then
            (let msg = ''shared MCP tool names must be snake_case; got '' @ squote tool_name in
             refuse_call rq conn cfg tool_name ''unknown''
               (deny_result ''shared_surface_validation'' ''invalid_tool_name'' msg) arguments None
               (plain_error ''invalid_tool_name'' msg) g)
          else
            (let (stripped, held) = strip_meta arguments in
             case get_tool (gw_registry g) tool_name of
               None \<Rightarrow>
                 (let msg = ''Tool '' @ squote tool_name @ '' not found'' in
                  refuse_call rq conn cfg tool_name ''unknown'' (deny_result ''registry_lookup'' ''TOOL_NOT_FOUND'' msg)
                    stripped held (plain_error ''TOOL_NOT_FOUND'' msg) g)
             | Some tool \<Rightarrow>
             (case dget (tc_profiles cfg) (cc_profile_id conn) of
               None \<Rightarrow>
                 (let msg = ''Profile '' @ squote (cc_profile_id conn) @ '' not found'' in
                  refuse_call rq conn cfg tool_name (rt_server_name tool)
                    (deny_result ''profile_lookup'' ''PROFILE_NOT_FOUND'' msg) stripped held
                    (plain_error ''PROFILE_NOT_FOUND'' msg) g)
             | Some profile \<Rightarrow>
                 (let g1 = touch (cc_connection_id conn) (rq_now rq) g in
                  case enforce_tool_call (routing_name tool) tool profile (server_default cfg (rt_server_name tool)) of
                    Inl e \<Rightarrow> (Inl e, g1)
                  | Inr enforcement \<Rightarrow>
                      if er_verdict enforcement = DENY then
                        refuse_call rq conn cfg tool_name (rt_server_name tool) enforcement stripped held
                          (plain_error (or_else (er_error_code enforcement) ''AUTHZ_DENY'')
                             (or_else (er_error_message enforcement) ''Tool call denied'')) g1
                      else forward_call rq conn cfg tool_name tool stripped held g1)))))"


section \<open>Notification of one connection\<close>

definition notify_tools_changed ::
    "(session \<Rightarrow> bool) \<Rightarrow> connection_context \<Rightarrow> gateway \<Rightarrow> (unit, string) result \<times> gateway" where
  "notify_tools_changed send_ok conn g =
     (case get_captured_session (cc_connection_id conn) (gs_runtime g) of
        Err _ \<Rightarrow> (Ok (), g)
      | Ok s \<Rightarrow>
          if send_ok s then (Ok (), g)
          else (Err (''NOTIFICATION_SEND_FAILED: '' @ cc_connection_id conn),
                g\<lparr>gs_runtime := release_session (cc_connection_id conn) (gs_runtime g)\<rparr>))"

definition find_connection_for_session ::
    "session \<Rightarrow> connection_context list \<Rightarrow> runtime \<Rightarrow> (connection_context, string) result" where
  "find_connection_for_session s connections r =
     (case get_connection_id_for_session s r of
        Err _ \<Rightarrow> Err ''SESSION_NOT_REGISTERED: session has no binding''
      | Ok cid \<Rightarrow>
          (case find (\<lambda>c. cc_connection_id c = cid) connections of
             Some c \<Rightarrow> Ok c
           | None \<Rightarrow> Err (''CONNECTION_NOT_FOUND: no connection for '' @ squote cid)))"



section \<open>What the filter keeps\<close>

lemma enforce_verdict_allow:
  "enforce n t profile allow_result d = Inr r \<Longrightarrow> (er_verdict r = ALLOW) = authorized n t profile d"
  by (rule enforce_verdict(1))

lemma filter_tools_set:
  assumes "filter_tools_for_profile all profile defaults = Inr tools"
  shows "t \<in> set tools \<longleftrightarrow> (\<exists>s ts. (s, ts) \<in> set all \<and> t \<in> set ts
           \<and> authorized (routing_name t) t profile (default_of defaults s))"
proof -
  let ?pairs = "concat (map (\<lambda>(server, tools). map (Pair server) tools) all)"
  obtain judged where j: "mapE (judge_tool profile defaults) ?pairs = Inr judged"
    and tools: "tools = map fst (filter (\<lambda>(_, v). v = ALLOW) judged)"
    using assms by (auto simp: filter_tools_for_profile_def map_right_Inr_iff)
  have pairs: "(s, t) \<in> set ?pairs \<longleftrightarrow> (\<exists>ts. (s, ts) \<in> set all \<and> t \<in> set ts)" for s t by auto
  have "t \<in> set tools \<longleftrightarrow> (t, ALLOW) \<in> set judged" by (auto simp: tools image_iff)
  also have "\<dots> \<longleftrightarrow> (\<exists>s. (s, t) \<in> set ?pairs \<and> authorized (routing_name t) t profile (default_of defaults s))"
  proof
    assume "(t, ALLOW) \<in> set judged"
    then obtain s t' where "(s, t') \<in> set ?pairs" "judge_tool profile defaults (s, t') = Inr (t, ALLOW)"
      using mapE_Inr_set [OF j] by (metis surj_pair)
    then show "\<exists>s. (s, t) \<in> set ?pairs \<and> authorized (routing_name t) t profile (default_of defaults s)"
      by (auto simp only: judge_tool_def prod.case map_right_Inr_iff prod.inject dest: enforce_verdict_allow)
  next
    assume "\<exists>s. (s, t) \<in> set ?pairs \<and> authorized (routing_name t) t profile (default_of defaults s)"
    then obtain s where st: "(s, t) \<in> set ?pairs" and a: "authorized (routing_name t) t profile (default_of defaults s)"
      by blast
    then obtain y where y: "y \<in> set judged" "judge_tool profile defaults (s, t) = Inr y"
      using mapE_Inr_all [OF j] by blast
    then obtain r where "enforce (routing_name t) t profile allow_result (default_of defaults s) = Inr r"
      and "y = (t, er_verdict r)"
      by (auto simp: judge_tool_def map_right_Inr_iff)
    then show "(t, ALLOW) \<in> set judged" using a y(1) enforce_verdict_allow by fastforce
  qed
  finally show ?thesis unfolding pairs by blast
qed

lemma default_of_config: "default_of (server_default_postures cfg) s = server_default cfg s"
proof -
  have "dget (map (\<lambda>(s, sc). (s, sc_default_posture sc)) d) s = map_option sc_default_posture (dget d s)" for d :: "(string, server_config) dict"
    by (induction d) auto
  then show ?thesis
    by (simp add: default_of_def server_default_postures_def server_default_def split: option.split)
qed

text \<open>A registry as startup and reload leave it: complete, and every list has distinct names of its own server.\<close>

definition well_published :: "registry \<Rightarrow> bool" where
  "well_published r \<longleftrightarrow> dsr.complete r
     \<and> (\<forall>s ts. dget (get_all_tools r) s = Some ts \<longrightarrow>
          distinct (map rt_name ts) \<and> (\<forall>t \<in> set ts. rt_server_name t = s))"

lemma find_distinct:
  "distinct (map rt_name ts) \<Longrightarrow> t \<in> set ts \<Longrightarrow> find (\<lambda>u. rt_name u = rt_name t) ts = Some t"
  by (induction ts) (auto simp: image_iff)

lemma well_published_tool:
  assumes "well_published r" and "(s, ts) \<in> set (get_all_tools r)" and "t \<in> set ts"
  shows "get_tool r (rt_name t) = Some t" and "rt_server_name t = s"
proof -
  have inv: "registry_inv r" using assms(1) by (simp add: well_published_def dsr.complete_def)
  then have get: "dget (get_all_tools r) s = Some ts"
    using assms(2) registry_inv_parts(1) by (simp add: wf_dict_item)
  then show "rt_server_name t = s" using assms(1,3) by (simp add: well_published_def)
  have "exposes (get_all_tools r) s (rt_name t)" using assms(2,3) by (auto simp: exposes_def)
  then have "get_tool_server r (rt_name t) = Some s"
    using assms(1) by (simp add: well_published_def dsr.complete_def)
  then show "get_tool r (rt_name t) = Some t"
    using get assms(1,3) find_distinct [of ts t]
    by (simp add: get_tool_def get_tool_server_def get_all_tools_def well_published_def)
qed

lemma get_tool_listed:
  assumes "get_tool r n = Some t"
  shows "\<exists>s ts. (s, ts) \<in> set (get_all_tools r) \<and> t \<in> set ts \<and> rt_name t = n"
  using assms by (elim get_tool_Some) (auto simp: get_all_tools_def dest: dget_item)



section \<open>When a call is forwarded\<close>

definition call_admitted :: "tela_config \<Rightarrow> connection_context \<Rightarrow> string \<Rightarrow> registry \<Rightarrow> resolved_tool \<Rightarrow> bool" where
  "call_admitted cfg conn n r t \<longleftrightarrow> valid_shared_name n \<and> get_tool r n = Some t
     \<and> (\<exists>profile. dget (tc_profiles cfg) (cc_profile_id conn) = Some profile
          \<and> authorized (routing_name t) t profile (server_default cfg (rt_server_name t)))"

lemma audit_tool_call_fields [simp]:
  "gs_runtime (audit_tool_call rq conn l n sv r args held resp g) = gs_runtime g"
  "gs_idle (audit_tool_call rq conn l n sv r args held resp g) = gs_idle g"
  "gw_downstream (audit_tool_call rq conn l n sv r args held resp g) = gw_downstream g"
  "gw_calls (audit_tool_call rq conn l n sv r args held resp g) = gw_calls g"
  by (simp_all add: audit_tool_call_def Let_def)

lemma touch_fields [simp]:
  "gs_idle (touch cid now g) = gs_idle g" "gw_downstream (touch cid now g) = gw_downstream g"
  "gw_audit (touch cid now g) = gw_audit g" "gw_calls (touch cid now g) = gw_calls g"
  "gr_config (gs_runtime (touch cid now g)) = gr_config (gs_runtime g)"
  "gr_total_tool_calls (gs_runtime (touch cid now g)) = gr_total_tool_calls (gs_runtime g)"
  by (simp_all add: touch_def touch_connection_activity_def split_beta)

lemma refuse_call_effect:
  "fst (refuse_call rq conn cfg n sv r args held err g) = Inr (Err err)"
  "gw_calls (snd (refuse_call rq conn cfg n sv r args held err g)) = gw_calls g"
  "gs_runtime (snd (refuse_call rq conn cfg n sv r args held err g)) = gs_runtime g"
  by (simp_all add: refuse_call_def)

lemma forward_call_runtime:
  "gs_runtime (snd (forward_call rq conn cfg n t args held g)) = increment_tool_calls (gs_runtime g)"
proof -
  obtain res g2 where c: "call_tool (rq_call rq) (rt_server_name t) (routing_name t) args
      (g\<lparr>gs_runtime := increment_tool_calls (gs_runtime g)\<rparr>) = (res, g2)"
    by (cases "call_tool (rq_call rq) (rt_server_name t) (routing_name t) args
      (g\<lparr>gs_runtime := increment_tool_calls (gs_runtime g)\<rparr>)")
  then have "gs_runtime g2 = increment_tool_calls (gs_runtime g)"
    using call_tool_runtime(1) [of "rq_call rq" "rt_server_name t" "routing_name t" args
        "g\<lparr>gs_runtime := increment_tool_calls (gs_runtime g)\<rparr>"] by simp
  then show ?thesis by (simp add: forward_call_def c Let_def split: sum.split result.split)
qed

lemma forward_call_calls:
  "\<exists>hs :: client_handle list. length hs \<le> 2
     \<and> gw_calls (snd (forward_call rq conn cfg n t args held g))
         = gw_calls g @ map (\<lambda>h. (ch_id h, routing_name t, args)) hs"
proof -
  obtain res g2 where c: "call_tool (rq_call rq) (rt_server_name t) (routing_name t) args
      (g\<lparr>gs_runtime := increment_tool_calls (gs_runtime g)\<rparr>) = (res, g2)"
    by (cases "call_tool (rq_call rq) (rt_server_name t) (routing_name t) args
      (g\<lparr>gs_runtime := increment_tool_calls (gs_runtime g)\<rparr>)")
  then obtain hs :: "client_handle list" where hs: "length hs \<le> 2"
    "gw_calls g2 = gw_calls g @ map (\<lambda>h. (ch_id h, routing_name t, args)) hs"
    using call_tool_calls [of "rq_call rq" "rt_server_name t" "routing_name t" args
        "g\<lparr>gs_runtime := increment_tool_calls (gs_runtime g)\<rparr>"] by auto
  then have "gw_calls (snd (forward_call rq conn cfg n t args held g)) = gw_calls g2"
    by (simp add: forward_call_def c Let_def split: sum.split result.split)
  then show ?thesis using hs by auto
qed

text \<open>The handler either forwards an admitted call or leaves counter and sessions alone.\<close>

lemma handle_tools_call_cases:
  assumes cfg: "get_runtime_config (gs_runtime g) = Some cfg"
  shows "(\<exists>t. call_admitted cfg conn n (gw_registry g) t
        \<and> handle_tools_call rq (Some conn) n args g
          = forward_call rq conn cfg n t (fst (strip_meta args)) (snd (strip_meta args))
              (touch (cc_connection_id conn) (rq_now rq) g))
    \<or> ((\<nexists>t. call_admitted cfg conn n (gw_registry g) t)
        \<and> is_err (projr (fst (handle_tools_call rq (Some conn) n args g))) 
        \<and> \<not> isl (fst (handle_tools_call rq (Some conn) n args g))
        \<and> gw_calls (snd (handle_tools_call rq (Some conn) n args g)) = gw_calls g
        \<and> gr_total_tool_calls (gs_runtime (snd (handle_tools_call rq (Some conn) n args g)))
            = gr_total_tool_calls (gs_runtime g))
    \<or> (\<exists>t profile. get_tool (gw_registry g) n = Some t \<and> dget (tc_profiles cfg) (cc_profile_id conn) = Some profile
        \<and> isl (enforce (routing_name t) t profile allow_result (server_default cfg (rt_server_name t)))
        \<and> gw_calls (snd (handle_tools_call rq (Some conn) n args g)) = gw_calls g
        \<and> gr_total_tool_calls (gs_runtime (snd (handle_tools_call rq (Some conn) n args g)))
            = gr_total_tool_calls (gs_runtime g))"
proof (cases "valid_shared_name n")
  case False
  then show ?thesis
    by (simp add: handle_tools_call_def cfg invalid_shared_tool_name_def call_admitted_def refuse_call_effect
        refuse_call_def Let_def)
next
  case valid: True
  show ?thesis
  proof (cases "get_tool (gw_registry g) n")
    case None
    then show ?thesis using valid
      by (simp add: handle_tools_call_def cfg invalid_shared_tool_name_def call_admitted_def refuse_call_def
          Let_def split_beta)
  next
    case tool: (Some t)
    show ?thesis
    proof (cases "dget (tc_profiles cfg) (cc_profile_id conn)")
      case None
      then show ?thesis using valid tool
        by (simp add: handle_tools_call_def cfg invalid_shared_tool_name_def call_admitted_def refuse_call_def
            Let_def split_beta)
    next
      case prof: (Some profile)
      let ?d = "server_default cfg (rt_server_name t)"
      show ?thesis
      proof (cases "enforce (routing_name t) t profile allow_result ?d")
        case (Inl e)
        then show ?thesis using valid tool prof
          by (simp add: handle_tools_call_def cfg invalid_shared_tool_name_def enforce_tool_call_def Let_def split_beta)
      next
        case (Inr r)
        show ?thesis
        proof (cases "er_verdict r")
          case ALLOW
          then have "authorized (routing_name t) t profile ?d" using enforce_verdict_allow [OF Inr] by simp
          then show ?thesis using valid tool prof Inr ALLOW
            by (simp add: handle_tools_call_def cfg invalid_shared_tool_name_def enforce_tool_call_def
                call_admitted_def Let_def split_beta)
        next
          case DENY
          then have "\<not> authorized (routing_name t) t profile ?d" using enforce_verdict_allow [OF Inr] by simp
          then show ?thesis using valid tool prof Inr DENY
            by (simp add: handle_tools_call_def cfg invalid_shared_tool_name_def enforce_tool_call_def
                call_admitted_def refuse_call_def Let_def split_beta)
        qed
      qed
    qed
  qed
qed



section \<open>The audit entry of a call\<close>

text \<open>The last write to the store is an entry about this call, with the verdict of its outcome.\<close>

definition audited :: "request_env \<Rightarrow> connection_context \<Rightarrow> audit_level \<Rightarrow> string \<Rightarrow> bool \<Rightarrow> gateway \<Rightarrow> bool" where
  "audited rq conn level n ok g \<longleftrightarrow>
     (\<exists>e a. gw_audit g = snd (audit_write (rq_disk_ok rq) e a)
        \<and> ae_tool_name e = n \<and> ae_connection_id e = cc_connection_id conn \<and> ae_profile_id e = cc_profile_id conn
        \<and> ae_level e = level \<and> (ae_verdict e = ALLOW) = ok \<and> ae_request_content e = None
        \<and> ae_response_content e \<in> {None, Some [(''isError'', JBool True)]})"

lemma audited_tool_call:
  assumes "(er_verdict r = ALLOW) = ok" and "resp \<in> {None, Some [(''isError'', JBool True)]}"
  shows "audited rq conn level n ok (audit_tool_call rq conn level n sv r args held resp g)"
proof -
  define e where "e = build_audit_entry level conn n sv r (Some (rq_latency rq)) (Some args) None resp
    (case audit_meta_field (rq_read_meta rq) held of Ok m \<Rightarrow> m | Err _ \<Rightarrow> None) (rq_now rq)"
  have "gw_audit (audit_tool_call rq conn level n sv r args held resp g)
      = snd (audit_write (rq_disk_ok rq) e (gw_audit g))"
    by (simp add: audit_tool_call_def e_def Let_def)
  moreover have "ae_tool_name e = n" "ae_connection_id e = cc_connection_id conn"
    "ae_profile_id e = cc_profile_id conn" "ae_level e = level" "ae_request_content e = None"
    "ae_verdict e = er_verdict r" "ae_response_content e \<in> {None, resp}"
    by (simp_all add: e_def build_audit_entry_def)
  moreover have "ae_response_content e \<in> {None, Some [(''isError'', JBool True)]}"
    using assms(2) \<open>ae_response_content e \<in> {None, resp}\<close> by blast
  ultimately show ?thesis
    using assms(1) unfolding audited_def by (intro exI [of _ e] exI [of _ "gw_audit g"]) (simp only: simp_thms)
qed

lemma audited_refuse:
  "er_verdict r = DENY \<Longrightarrow>
     audited rq conn (auc_level (tc_audit cfg)) n False (snd (refuse_call rq conn cfg n sv r args held err g))"
  by (simp add: refuse_call_def audited_tool_call)

lemma audited_forward:
  assumes "fst (forward_call rq conn cfg n t args held g) = Inr res"
  shows "audited rq conn (auc_level (tc_audit cfg)) n (is_ok res) (snd (forward_call rq conn cfg n t args held g))"
proof -
  obtain out g2 where c: "call_tool (rq_call rq) (rt_server_name t) (routing_name t) args
      (g\<lparr>gs_runtime := increment_tool_calls (gs_runtime g)\<rparr>) = (out, g2)"
    by (cases "call_tool (rq_call rq) (rt_server_name t) (routing_name t) args
      (g\<lparr>gs_runtime := increment_tool_calls (gs_runtime g)\<rparr>)")
  have "er_verdict (downstream_denial e) = DENY" for e by (simp add: downstream_denial_def)
  then show ?thesis
    using assms by (auto simp: forward_call_def c Let_def audited_tool_call split: sum.splits result.splits)
qed

lemma audited_call:
  assumes "get_runtime_config (gs_runtime g) = Some cfg"
    and "fst (handle_tools_call rq (Some conn) n args g) = Inr res"
  shows "audited rq conn (auc_level (tc_audit cfg)) n (is_ok res) (snd (handle_tools_call rq (Some conn) n args g))"
  using assms(2)
  by (auto simp: handle_tools_call_def assms(1) Let_def split_beta refuse_call_effect audited_refuse audited_forward
      split: if_splits option.splits sum.splits)


section \<open>The lists that resolution produces are well published\<close>

lemma well_published_register:
  assumes "well_published r" and "resolve_tools s sc raw = Inr resolved" and "distinct (map raw_name raw)"
    and "conflict_free (get_all_tools (register s resolved r))"
  shows "well_published (register s resolved r)"
proof -
  have "distinct (map rt_name resolved)" using resolve_tools_distinct [OF assms(2,3)] .
  moreover have "\<forall>t \<in> set resolved. rt_server_name t = s" using resolve_tools_names(2) [OF assms(2)] by blast
  ultimately show ?thesis
    using assms(1,4) dsr.complete_reg by (auto simp: well_published_def tools_register)
qed



section \<open>List and call agree\<close>

definition advertised :: "jobject list \<Rightarrow> string \<Rightarrow> bool" where
  "advertised ds n \<longleftrightarrow> (\<exists>d \<in> set ds. dget d ''name'' = Some (JStr n))"

lemma filter_tools_total:
  assumes "filter_tools_for_profile all profile defaults = Inr tools" and "(s, ts) \<in> set all" and "t \<in> set ts"
  shows "\<not> isl (enforce (routing_name t) t profile allow_result (default_of defaults s))"
proof -
  let ?pairs = "concat (map (\<lambda>(server, tools). map (Pair server) tools) all)"
  obtain judged where j: "mapE (judge_tool profile defaults) ?pairs = Inr judged"
    using assms(1) by (auto simp: filter_tools_for_profile_def map_right_Inr_iff)
  have st: "(s, t) \<in> set ?pairs" using assms(2,3) by auto
  obtain y where "judge_tool profile defaults (s, t) = Inr y" using mapE_Inr_all [OF j st] by blast
  then show ?thesis by (auto simp: judge_tool_def map_right_Inr_iff)
qed

lemma tools_list_ok:
  assumes "handle_tools_list now conn g = (Inr (Ok ds), g1)" and "get_runtime_config (gs_runtime g) = Some cfg"
  obtains profile tools where "dget (tc_profiles cfg) (cc_profile_id conn) = Some profile"
    and "filter_tools_for_profile (get_all_tools (gw_registry g)) profile (server_default_postures cfg) = Inr tools"
    and "ds = map tool_descriptor (sort_key rt_name tools)"
    and "\<forall>t \<in> set tools. valid_shared_name (rt_name t)"
proof -
  obtain profile where p: "dget (tc_profiles cfg) (cc_profile_id conn) = Some profile"
    using assms by (auto simp: handle_tools_list_def split: option.splits)
  obtain tools where t: "filter_tools_for_profile (get_all_tools (gw_registry g)) profile (server_default_postures cfg)
      = Inr tools"
    using assms p by (auto simp: handle_tools_list_def Let_def split: sum.splits)
  have none: "filter (\<lambda>t. invalid_shared_tool_name (rt_name t) \<noteq> None) (sort_key rt_name tools) = []"
    using assms p t by (auto simp: handle_tools_list_def Let_def split: list.splits)
  then have d: "ds = map tool_descriptor (sort_key rt_name tools)"
    using assms p t by (simp add: handle_tools_list_def Let_def)
  have "\<forall>t \<in> set tools. valid_shared_name (rt_name t)"
    using none by (auto simp: filter_empty_conv invalid_shared_tool_name_def split: if_splits)
  with p t d show ?thesis by (rule that)
qed

lemma advertised_iff:
  "advertised (map tool_descriptor (sort_key rt_name tools)) n \<longleftrightarrow> (\<exists>t \<in> set tools. rt_name t = n)"
  by (auto simp: advertised_def tool_descriptor_def)

lemma advertised_admitted:
  assumes "well_published (gw_registry g)" and "get_runtime_config (gs_runtime g) = Some cfg"
    and "handle_tools_list now conn g = (Inr (Ok ds), g1)"
  shows "advertised ds n \<longleftrightarrow> (\<exists>t. call_admitted cfg conn n (gw_registry g) t)"
proof -
  obtain profile tools where p: "dget (tc_profiles cfg) (cc_profile_id conn) = Some profile"
    and f: "filter_tools_for_profile (get_all_tools (gw_registry g)) profile (server_default_postures cfg) = Inr tools"
    and ds: "ds = map tool_descriptor (sort_key rt_name tools)"
    and valid: "\<forall>t \<in> set tools. valid_shared_name (rt_name t)"
    using assms(3,2) by (rule tools_list_ok)
  have kept: "t \<in> set tools \<longleftrightarrow> get_tool (gw_registry g) (rt_name t) = Some t
      \<and> authorized (routing_name t) t profile (server_default cfg (rt_server_name t))" for t
    unfolding filter_tools_set [OF f] default_of_config
    using well_published_tool [OF assms(1)] get_tool_listed [of "gw_registry g" "rt_name t" t] by blast
  have "(\<exists>t \<in> set tools. rt_name t = n) \<longleftrightarrow> (\<exists>t. call_admitted cfg conn n (gw_registry g) t)"
  proof
    assume "\<exists>t \<in> set tools. rt_name t = n"
    then obtain t where t: "t \<in> set tools" and n: "rt_name t = n" by blast
    have "valid_shared_name n" using valid t n by blast
    then have "call_admitted cfg conn n (gw_registry g) t"
      using kept [of t] t n p by (simp add: call_admitted_def)
    then show "\<exists>t. call_admitted cfg conn n (gw_registry g) t" ..
  next
    assume "\<exists>t. call_admitted cfg conn n (gw_registry g) t"
    then obtain t where t: "get_tool (gw_registry g) n = Some t"
      "authorized (routing_name t) t profile (server_default cfg (rt_server_name t))"
      using p by (auto simp: call_admitted_def)
    then have "rt_name t = n" by (blast elim: get_tool_Some)
    then show "\<exists>t \<in> set tools. rt_name t = n" using kept t by blast
  qed
  then show ?thesis unfolding ds advertised_iff .
qed

lemma advertised_counts:
  assumes "well_published (gw_registry g)" and "get_runtime_config (gs_runtime g) = Some cfg"
    and "handle_tools_list now conn g = (Inr (Ok ds), g1)"
  shows "gr_total_tool_calls (gs_runtime (snd (handle_tools_call rq (Some conn) n args g)))
    = gr_total_tool_calls (gs_runtime g) + (if advertised ds n then 1 else 0)"
proof -
  obtain profile tools where p: "dget (tc_profiles cfg) (cc_profile_id conn) = Some profile"
    and f: "filter_tools_for_profile (get_all_tools (gw_registry g)) profile (server_default_postures cfg) = Inr tools"
    by (rule tools_list_ok [OF assms(3,2)])
  have total: "\<not> isl (enforce (routing_name t) t profile allow_result (server_default cfg (rt_server_name t)))"
    if found: "get_tool (gw_registry g) n = Some t" for t
  proof -
    obtain s ts where st: "(s, ts) \<in> set (get_all_tools (gw_registry g))" "t \<in> set ts"
      using get_tool_listed [OF found] by blast
    then have "rt_server_name t = s" by (rule well_published_tool(2) [OF assms(1)])
    then show ?thesis
      using filter_tools_total [OF f st] by (simp add: default_of_config)
  qed
  from handle_tools_call_cases [OF assms(2), of conn n rq args]
  consider (fwd) t where "call_admitted cfg conn n (gw_registry g) t"
      "handle_tools_call rq (Some conn) n args g
          = forward_call rq conn cfg n t (fst (strip_meta args)) (snd (strip_meta args))
              (touch (cc_connection_id conn) (rq_now rq) g)"
    | (no) "\<nexists>t. call_admitted cfg conn n (gw_registry g) t"
      "gr_total_tool_calls (gs_runtime (snd (handle_tools_call rq (Some conn) n args g)))
            = gr_total_tool_calls (gs_runtime g)"
    using total p by (elim disjE exE conjE) simp_all
  then show ?thesis
  proof cases
    case fwd
    then have "advertised ds n" using advertised_admitted [OF assms] by blast
    then show ?thesis using fwd(2) by (simp add: forward_call_runtime increment_tool_calls_def)
  next
    case no
    then show ?thesis using advertised_admitted [OF assms] by simp
  qed
qed


section \<open>Properties\<close>

text \<open>C1: On a registry as startup and reload publish it, a tool is advertised to a connection by tools/list
  exactly when a call of it by that connection passes every check and is forwarded downstream,
  which is when the call counter advances.\<close>

theorem advertised_iff_callable:
  assumes "well_published (gw_registry g)" and "get_runtime_config (gs_runtime g) = Some cfg"
    and "handle_tools_list now conn g = (Inr (Ok ds), g1)"
  shows "advertised ds n = (\<exists>t. call_admitted cfg conn n (gw_registry g) t)
    \<and> gr_total_tool_calls (gs_runtime (snd (handle_tools_call rq (Some conn) n args g)))
        = gr_total_tool_calls (gs_runtime g) + (if advertised ds n then 1 else 0)"
  using advertised_admitted [OF assms] advertised_counts [OF assms] by simp

definition sample_config :: tela_config where
  "sample_config = (config_with [(''fs'', server_named ''fs'')])\<lparr>tc_profiles := [(''dev'', sample_profile ReadWrite)]\<rparr>"

definition sample_gateway :: gateway where
  "sample_gateway = with_registry (register ''fs'' [sample_tool] empty_registry)
     (with_client\<lparr>gs_runtime := set_runtime_config (Some sample_config) initial_runtime\<rparr>)"

definition sample_connection :: connection_context where
  "sample_connection = system_connection\<lparr>cc_connection_id := ''conn_1'', cc_profile_id := ''dev''\<rparr>"

definition sample_request :: request_env where
  "sample_request = \<lparr>rq_now = ''now'', rq_latency = 1, rq_disk_ok = True, rq_read_meta = (\<lambda>_. None),
     rq_call = \<lparr>ce_call = (\<lambda>_ _ _. Inr []), ce_recovery = idle_env, ce_remaining = 15, ce_retry = (\<lambda>_ _ _. None)\<rparr>\<rparr>"

lemma sample_config_get: "get_runtime_config (gs_runtime sample_gateway) = Some sample_config"
  by (simp add: sample_gateway_def get_runtime_config_def set_runtime_config_def)

lemma sample_well_published: "well_published (gw_registry sample_gateway)"
proof -
  have "detect_conflicts (get_all_tools (register ''fs'' [sample_tool] empty_registry)) = []" by code_simp
  then have "dsr.complete (register ''fs'' [sample_tool] empty_registry)"
    unfolding detect_conflicts_Nil by (rule dsr.complete_reg [OF dsr.complete_empty])
  then show ?thesis
    by (simp add: well_published_def sample_gateway_def tools_register sample_tool_def dsr.tools_empty)
qed

lemma advertised_iff_callable_witness:
  "gr_total_tool_calls (gs_runtime (snd (handle_tools_call sample_request (Some sample_connection) ''fs_read'' []
     sample_gateway))) = 1
   \<and> gr_total_tool_calls (gs_runtime (snd (handle_tools_call sample_request (Some sample_connection) ''other'' []
     sample_gateway))) = 0"
proof -
  have list: "fst (handle_tools_list ''now'' sample_connection sample_gateway) = Inr (Ok [tool_descriptor sample_tool])"
    by code_simp
  then obtain g1 where l: "handle_tools_list ''now'' sample_connection sample_gateway
      = (Inr (Ok [tool_descriptor sample_tool]), g1)"
    by (rule fst_eq_pair)
  have "gr_total_tool_calls (gs_runtime sample_gateway) = 0"
    by (simp add: sample_gateway_def set_runtime_config_def initial_runtime_def)
  moreover have "advertised [tool_descriptor sample_tool] ''fs_read''" "\<not> advertised [tool_descriptor sample_tool] ''other''"
    by (simp_all add: advertised_def tool_descriptor_def sample_tool_def)
  ultimately show ?thesis
    using advertised_iff_callable [OF sample_well_published sample_config_get l, of "''fs_read''" sample_request "[]"]
      advertised_iff_callable [OF sample_well_published sample_config_get l, of "''other''" sample_request "[]"]
    by simp
qed





end
