(* ===== verification/Initialize.thy ===== *)
theory Initialize
  imports Upstream Token
begin

text \<open>
  \<^verbatim>\<open>handle_initialize\<close> of \<^verbatim>\<open>shell/upstream.py\<close> with its validators, and the session hook of
  \<^verbatim>\<open>shell/initialize_session_patch.py\<close> that runs it before every protocol initialize. The state
  is the runtime with the idle manager. Building a \<^verbatim>\<open>CapabilityToken\<close> from a dictionary is Pydantic's
  work: the argument \<open>build_token\<close>, which returns the token or the first validation error. The
  connection identifier drawn for a native client and the time are arguments too.
\<close>


section \<open>Client information\<close>

definition canonical_token_fields :: "string list" where
  "canonical_token_fields = [''token_id'', ''profile_id'', ''persona_ref'', ''instance_id'', ''max_depth'',
     ''issued_at'', ''expires_at'', ''token_version'', ''signature'']"

definition token_alias_fields :: "string list" where
  "token_alias_fields = [''profile_name'', ''tools_profile'']"

definition bridge_connection_id_key :: string where
  "bridge_connection_id_key = ''tela_bridge_connection_id''"

definition capability_token_key :: string where
  "capability_token_key = ''capability_token''"

definition reserved_client_key :: "string \<Rightarrow> bool" where
  "reserved_client_key k \<longleftrightarrow>
     k \<in> set canonical_token_fields \<or> k \<in> set token_alias_fields
     \<or> (k \<noteq> bridge_connection_id_key \<and> k \<noteq> capability_token_key
        \<and> (startswith k ''tela_'' \<or> startswith k ''opifex_''))"

definition invalid_reserved_client_info_key :: "jobject \<Rightarrow> string option" where
  "invalid_reserved_client_info_key client_info = find reserved_client_key (dkeys client_info)"

definition build_client_info_snapshot :: "jobject \<Rightarrow> capability_token option \<Rightarrow> (string, string) dict" where
  "build_client_info_snapshot client_info token =
     (let snapshot = map (\<lambda>(k, v). (k, py_str v)) (filter (\<lambda>(k, _). k \<noteq> capability_token_key) client_info)
      in case token of
           None \<Rightarrow> snapshot
         | Some t \<Rightarrow> dupdate snapshot
             (map (\<lambda>(k, v). (k, py_str v)) (filter (\<lambda>(_, v). v \<noteq> JNull) (token_dump t))))"


section \<open>Extracting the token\<close>

record token_field_error =
  ve_type :: string
  ve_msg :: string
  ve_loc :: "string list"

definition endswith :: "string \<Rightarrow> string \<Rightarrow> bool" where
  "endswith s p \<longleftrightarrow> startswith (rev s) (rev p)"

definition canonical_validation_error :: "token_field_error \<Rightarrow> string \<times> string \<times> string option" where
  "canonical_validation_error e =
     (let field = (if join ''.'' (ve_loc e) = [] then None else Some (join ''.'' (ve_loc e)));
          code' = (if ve_type e = ''missing'' then ''missing_required_field''
                   else if endswith (ve_type e) ''_type'' \<or> ve_type e = ''int_type'' \<or> ve_type e = ''string_type''
                     then ''wrong_type''
                   else if ve_type e = ''extra_forbidden'' then ''extra_key''
                   else ''token_schema_invalid'')
      in (code', ve_msg e, field))"

definition reject_initialize :: "string \<Rightarrow> string \<Rightarrow> string option \<Rightarrow> ('a, string) result" where
  "reject_initialize code' detail field =
     (case field of
        None \<Rightarrow> Err (''INITIALIZE_REJECTED: '' @ code' @ '': '' @ detail)
      | Some f \<Rightarrow> Err (''INITIALIZE_REJECTED: '' @ code' @ '': field='' @ f @ '': '' @ detail))"

type_synonym token_builder = "jobject \<Rightarrow> (capability_token, token_field_error) result"

definition extract_from_payload :: "token_builder \<Rightarrow> jobject \<Rightarrow> (capability_token, string) result" where
  "extract_from_payload build_token payload =
     (let aliases = sort (filter (\<lambda>k. k \<in> set token_alias_fields) (dkeys payload));
          extras = sort (filter (\<lambda>k. k \<notin> set canonical_token_fields \<and> k \<notin> set token_alias_fields) (dkeys payload))
      in if aliases \<noteq> [] then
           reject_initialize ''alias_field_present''
             (''capability_token field(s) '' @ join '', '' aliases @ '' are invalid; use '' @ squote ''profile_id'')
             (Some (join '', '' aliases))
         else if extras \<noteq> [] then
           reject_initialize ''extra_key'' (''rejected_keys='' @ join '','' extras) None
         else (case build_token payload of
             Ok t \<Rightarrow> Ok t
           | Err e \<Rightarrow> (case canonical_validation_error e of
               (code', detail, field) \<Rightarrow> reject_initialize code' detail field)))"

definition extract_capability_token :: "token_builder \<Rightarrow> jobject \<Rightarrow> (capability_token, string) result" where
  "extract_capability_token build_token client_info =
     (case invalid_reserved_client_info_key client_info of
        Some k \<Rightarrow>
          if k \<in> set token_alias_fields then
            reject_initialize ''alias_field_present''
              (''top-level client_info key '' @ squote k @ '' is invalid; use client_info.capability_token.profile_id'')
              (Some k)
          else
            reject_initialize ''extra_key''
              (''top-level client_info key '' @ squote k @ '' is reserved; use client_info.capability_token'') (Some k)
      | None \<Rightarrow>
          (case dget client_info capability_token_key of
             Some (JDict payload) \<Rightarrow> extract_from_payload build_token payload
           | _ \<Rightarrow> Err ''INITIALIZE_REJECTED: token mode requires client_info.capability_token object''))"


section \<open>Binding to a profile\<close>

definition resolve_initialize_profile_binding ::
    "string option \<Rightarrow> default_profile_status \<Rightarrow> (profile_binding, string) result" where
  "resolve_initialize_profile_binding dflt status =
     (if status = Missing then
        Err (''INITIALIZE_REJECTED: no default profile resolved; open mode requires an explicit default profile ''
             @ ''from config or CLI --default-profile'')
      else if status = Ambiguous then
        Err (''INITIALIZE_REJECTED: ambiguous default profile; multiple profiles marked default=true in open mode'')
      else if status = Resolved \<and> dflt = None then
        Err ''INITIALIZE_REJECTED: status is RESOLVED but resolved_default_profile is None''
      else Ok \<lparr>pb_status = status, pb_resolved = dflt\<rparr>)"

definition open_mode_status :: "tela_config \<Rightarrow> default_profile_status" where
  "open_mode_status cfg =
     (if tc_resolved_default_profile cfg \<noteq> None then Resolved
      else if 1 < length (filter (\<lambda>(_, p). pc_default p) (tc_profiles cfg)) then Ambiguous
      else Missing)"

text \<open>The profile a client is bound to, and the token it presented.\<close>

type_synonym admission = "py_exc + (string \<times> capability_token option, string) result"

definition admit_open :: "tela_config \<Rightarrow> admission" where
  "admit_open cfg =
     (case resolve_initialize_profile_binding (tc_resolved_default_profile cfg) (open_mode_status cfg) of
        Err e \<Rightarrow> Inr (Err e)
      | Ok binding \<Rightarrow>
          (case pb_resolved binding of
             Some p \<Rightarrow> Inr (Ok (p, None))
           | None \<Rightarrow> Inl (AssertionError [])))"

definition admit_token :: "token_builder \<Rightarrow> tela_config \<Rightarrow> string list \<Rightarrow> string \<Rightarrow> jobject \<Rightarrow> admission" where
  "admit_token build_token cfg secrets now_iso client_info =
     (case extract_capability_token build_token client_info of
        Err e \<Rightarrow> Inr (Err e)
      | Ok token \<Rightarrow>
          if secrets = [] then Inr (Err ''INITIALIZE_REJECTED: token mode requires secrets configured'')
          else (case resolve_token_init_binding token secrets now_iso of
              Inl e \<Rightarrow> Inl e
            | Inr binding \<Rightarrow>
                (let r = tb_token_result binding in
                 if er_verdict r = DENY then
                   Inr (Err (''INITIALIZE_REJECTED: '' @ or_else (er_error_code r) ''TOKEN_INVALID'' @ '': ''
                        @ or_else (er_error_message r) ''Token validation failed''))
                 else if \<not> has_key (tc_profiles cfg) (tb_profile_id binding) then
                   Inr (Err (''INITIALIZE_REJECTED: unknown_profile_binding: profile_id ''
                        @ squote (tb_profile_id binding) @ '' is not configured''))
                 else Inr (Ok (tb_profile_id binding, Some token)))))"


section \<open>The handler\<close>

record init_env =
  ie_build_token :: token_builder
  ie_fresh_id :: string
  ie_now :: string

type_synonym initialized = "(py_exc + (connection_context, string) result) \<times> gateway_state"

definition idle_decrement :: "gateway_state \<Rightarrow> (unit, string) result \<times> gateway_state" where
  "idle_decrement gs =
     (case gs_idle gs of
        None \<Rightarrow> (Ok (), gs)
      | Some m \<Rightarrow> (let (res, m') = decrement m in (res, gs\<lparr>gs_idle := Some m'\<rparr>)))"

definition idle_increment :: "gateway_state \<Rightarrow> gateway_state" where
  "idle_increment gs = gs\<lparr>gs_idle := map_option increment (gs_idle gs)\<rparr>"

definition admitted_context ::
    "init_env \<Rightarrow> tela_config \<Rightarrow> jobject \<Rightarrow> string option \<Rightarrow> string \<Rightarrow> capability_token option \<Rightarrow> connection_context" where
  "admitted_context env cfg client_info bridge profile_id token =
     \<lparr>cc_connection_id = (case bridge of Some b \<Rightarrow> or_else (Some b) (ie_fresh_id env) | None \<Rightarrow> ie_fresh_id env),
      cc_profile_id = profile_id, cc_connected_at = ie_now env, cc_tool_call_count = 0, cc_last_activity = [],
      cc_init_mode = Some (ac_mode (tc_auth cfg)),
      cc_client_info = Some (build_client_info_snapshot client_info
        (if ac_mode (tc_auth cfg) = TokenMode then token else None)),
      cc_bridge_connection_id = bridge\<rparr>"

definition admit_connection ::
    "init_env \<Rightarrow> tela_config \<Rightarrow> jobject \<Rightarrow> string option \<Rightarrow> gateway_state \<Rightarrow> initialized" where
  "admit_connection env cfg client_info bridge gs =
     (case (if ac_mode (tc_auth cfg) = OpenMode then admit_open cfg
            else admit_token (ie_build_token env) cfg (gr_secrets (gs_runtime gs)) (ie_now env) client_info) of
        Inl e \<Rightarrow> (Inl e, gs)
      | Inr (Err e) \<Rightarrow> (Inr (Err e), gs)
      | Inr (Ok (profile_id, token)) \<Rightarrow>
          (let ctx = admitted_context env cfg client_info bridge profile_id token
           in (Inr (Ok ctx),
               idle_increment (gs\<lparr>gs_runtime := add_runtime_connection ctx (gs_runtime gs)\<rparr>))))"

text \<open>A bridge identifier replaces whatever connection it had before.\<close>

definition retire_bridge :: "string \<Rightarrow> gateway_state \<Rightarrow> (unit, string) result \<times> gateway_state" where
  "retire_bridge cid gs =
     (let (removed, r) = remove_runtime_connection cid (gs_runtime gs); gs1 = gs\<lparr>gs_runtime := r\<rparr>;
          (res, gs2) = (if removed then idle_decrement gs1 else (Ok (), gs1))
      in case res of
           Err e \<Rightarrow> (Err e, gs2)
         | Ok _ \<Rightarrow> (Ok (), gs2\<lparr>gs_runtime := release_session cid (gs_runtime gs2)\<rparr>))"

definition handle_initialize :: "init_env \<Rightarrow> jobject \<Rightarrow> gateway_state \<Rightarrow> initialized" where
  "handle_initialize env client_info gs =
     (case get_runtime_config (gs_runtime gs) of
        None \<Rightarrow> (Inr (Err ''GATEWAY_NOT_STARTED: gateway has not been started''), gs)
      | Some cfg \<Rightarrow>
          (case dget client_info bridge_connection_id_key of
             None \<Rightarrow> admit_connection env cfg client_info None gs
           | Some JNull \<Rightarrow> admit_connection env cfg client_info None gs
           | Some v \<Rightarrow>
               (case has_bridge_registration (py_str v) (gs_runtime gs) of
                  Err e \<Rightarrow> (Inr (Err e), gs)
                | Ok registered \<Rightarrow>
                    if \<not> registered then
                      (Inr (Err (''CONNECTION_NOT_FOUND: bridge initialize requires pre-registered connection ''
                         @ squote (py_str v))), gs)
                    else (case retire_bridge (py_str v) gs of
                        (Err e, gs1) \<Rightarrow> (Inr (Err e), gs1)
                      | (Ok _, gs1) \<Rightarrow> admit_connection env cfg client_info (Some (py_str v)) gs1))))"


section \<open>The session hook\<close>

datatype session_reply = ErrorReply string | Handled | Raised

definition patched_received_request ::
    "init_env \<Rightarrow> jobject \<Rightarrow> session \<Rightarrow> bool \<Rightarrow> gateway_state \<Rightarrow> session_reply \<times> gateway_state" where
  "patched_received_request env client_info s handler_ok gs =
     (case handle_initialize env client_info gs of
        (Inl e, gs1) \<Rightarrow> (Raised, gs1)
      | (Inr (Err e), gs1) \<Rightarrow> (ErrorReply (or_text e ''INITIALIZE_REJECTED''), gs1)
      | (Inr (Ok ctx), gs1) \<Rightarrow>
          (let cid = cc_connection_id ctx; (captured, r) = capture_session cid s (gs_runtime gs1);
               cleaned = gs1\<lparr>gs_runtime := snd (cleanup_connection_by_id cid r)\<rparr>
           in case captured of
                Err e \<Rightarrow> (ErrorReply (or_text e ''INITIALIZE_REJECTED''), cleaned)
              | Ok _ \<Rightarrow> if handler_ok then (Handled, gs1\<lparr>gs_runtime := r\<rparr>) else (Raised, cleaned)))"


section \<open>What the handler does to the state\<close>

lemma idle_count_increment [simp]: "idle_count (idle_increment gs) = map_option Suc (idle_count gs)"
  by (simp add: idle_increment_def idle_count_def option.map_comp comp_def)

lemma idle_increment_runtime [simp]: "gs_runtime (idle_increment gs) = gs_runtime gs"
  by (simp add: idle_increment_def)

lemma idle_decrement_effect:
  "gs_runtime (snd (idle_decrement gs)) = gs_runtime gs"
  "idle_count (snd (idle_decrement gs)) = map_option (\<lambda>n. n - 1) (idle_count gs)"
  "is_ok (fst (idle_decrement gs)) \<longleftrightarrow> idle_count gs \<noteq> Some 0"
  by (auto simp: idle_decrement_def idle_count_def split_beta Let_def split: option.splits)

text \<open>The count that a state can afford to lose: without a manager there is no limit.\<close>

definition counted :: "nat \<Rightarrow> gateway_state \<Rightarrow> bool" where
  "counted n gs \<longleftrightarrow> (case idle_count gs of None \<Rightarrow> True | Some k \<Rightarrow> n \<le> k)"

lemma connection_ids_add [simp]:
  "connection_ids (add_runtime_connection ctx r) = connection_ids r @ [cc_connection_id ctx]"
  "bound_session (add_runtime_connection ctx r) = bound_session r"
  "gr_config (add_runtime_connection ctx r) = gr_config r"
  by (simp_all add: connection_ids_def add_runtime_connection_def bound_session_def fun_eq_iff)

lemma release_session_fields [simp]:
  "gr_config (release_session c r) = gr_config r" "gr_secrets (release_session c r) = gr_secrets r"
  "gr_pending (release_session c r) = gr_pending r"
  by (simp_all add: release_session_def)

lemma remove_runtime_connection_fields [simp]:
  "gr_config (snd (remove_runtime_connection c r)) = gr_config r"
  "gr_secrets (snd (remove_runtime_connection c r)) = gr_secrets r"
  "gr_pending (snd (remove_runtime_connection c r)) = gr_pending r"
  by (simp_all add: remove_runtime_connection_def Let_def)

text \<open>While every live connection is counted, retiring one cannot fail.\<close>

lemma retire_bridge_effect:
  assumes "counted (length (connection_ids (gs_runtime gs))) gs"
  shows "fst (retire_bridge cid gs) = Ok ()"
    and "connection_ids (gs_runtime (snd (retire_bridge cid gs))) =
      filter (\<lambda>d. d \<noteq> cid) (connection_ids (gs_runtime gs))"
    and "bound_session (gs_runtime (snd (retire_bridge cid gs))) d =
      (if d = cid then None else bound_session (gs_runtime gs) d)"
    and "idle_count (snd (retire_bridge cid gs)) =
      map_option (\<lambda>n. n - (if cid \<in> set (connection_ids (gs_runtime gs)) then 1 else 0)) (idle_count gs)"
    and "gr_config (gs_runtime (snd (retire_bridge cid gs))) = gr_config (gs_runtime gs)"
    and "gr_secrets (gs_runtime (snd (retire_bridge cid gs))) = gr_secrets (gs_runtime gs)"
    and "gr_pending (gs_runtime (snd (retire_bridge cid gs))) = gr_pending (gs_runtime gs)"
proof -
  let ?r = "gs_runtime gs" and ?gone = "cid \<in> set (connection_ids (gs_runtime gs))"
  let ?gs1 = "gs\<lparr>gs_runtime := snd (remove_runtime_connection cid ?r)\<rparr>"
  have one: "?gone \<Longrightarrow> idle_count gs \<noteq> Some 0"
    using assms by (auto simp: counted_def connection_ids_def)
  define st where "st = (if ?gone then idle_decrement ?gs1 else (Ok (), ?gs1))"
  have ok: "fst st = Ok ()"
    using one idle_decrement_effect(3) [of ?gs1] by (auto simp: st_def is_ok_def split: result.splits)
  have st: "gs_runtime (snd st) = snd (remove_runtime_connection cid ?r)"
    "idle_count (snd st) = map_option (\<lambda>n. n - (if ?gone then 1 else 0)) (idle_count gs)"
    by (simp_all add: st_def idle_decrement_effect option.map_ident)
  have eq: "retire_bridge cid gs =
      (Ok (), (snd st)\<lparr>gs_runtime := release_session cid (gs_runtime (snd st))\<rparr>)"
    using ok by (cases st)
      (simp add: retire_bridge_def split_beta Let_def removed_iff_present st_def [symmetric])
  show "fst (retire_bridge cid gs) = Ok ()"
    and "connection_ids (gs_runtime (snd (retire_bridge cid gs))) =
      filter (\<lambda>d. d \<noteq> cid) (connection_ids ?r)"
    and "bound_session (gs_runtime (snd (retire_bridge cid gs))) d = (if d = cid then None else bound_session ?r d)"
    and "idle_count (snd (retire_bridge cid gs)) = map_option (\<lambda>n. n - (if ?gone then 1 else 0)) (idle_count gs)"
    and "gr_config (gs_runtime (snd (retire_bridge cid gs))) = gr_config ?r"
    and "gr_secrets (gs_runtime (snd (retire_bridge cid gs))) = gr_secrets ?r"
    and "gr_pending (gs_runtime (snd (retire_bridge cid gs))) = gr_pending ?r"
    by (simp_all add: eq st session_laws connection_ids_remove)
qed

lemma admit_connection_cases:
  assumes "admit_connection env cfg client_info bridge gs = (out, gs')"
  obtains "\<nexists>ctx. out = Inr (Ok ctx)" and "gs' = gs"
  | profile_id token where
      "(if ac_mode (tc_auth cfg) = OpenMode then admit_open cfg
        else admit_token (ie_build_token env) cfg (gr_secrets (gs_runtime gs)) (ie_now env) client_info)
       = Inr (Ok (profile_id, token))"
      and "out = Inr (Ok (admitted_context env cfg client_info bridge profile_id token))"
      and "gs' = idle_increment (gs\<lparr>gs_runtime := add_runtime_connection
            (admitted_context env cfg client_info bridge profile_id token) (gs_runtime gs)\<rparr>)"
  using assms by (auto simp: admit_connection_def Let_def split: sum.splits result.splits prod.splits)

text \<open>The identifier the bridge announced, if any.\<close>

definition announced_bridge :: "jobject \<Rightarrow> string option" where
  "announced_bridge client_info =
     (case dget client_info bridge_connection_id_key of
        None \<Rightarrow> None | Some JNull \<Rightarrow> None | Some v \<Rightarrow> Some (py_str v))"

lemma handle_initialize_unfold:
  "handle_initialize env client_info gs =
     (case gr_config (gs_runtime gs) of
        None \<Rightarrow> (Inr (Err ''GATEWAY_NOT_STARTED: gateway has not been started''), gs)
      | Some cfg \<Rightarrow>
          (case announced_bridge client_info of
             None \<Rightarrow> admit_connection env cfg client_info None gs
           | Some b \<Rightarrow>
               (case has_bridge_registration b (gs_runtime gs) of
                  Err e \<Rightarrow> (Inr (Err e), gs)
                | Ok registered \<Rightarrow>
                    if \<not> registered then
                      (Inr (Err (''CONNECTION_NOT_FOUND: bridge initialize requires pre-registered connection ''
                         @ squote b)), gs)
                    else (case retire_bridge b gs of
                        (Err e, gs1) \<Rightarrow> (Inr (Err e), gs1)
                      | (Ok _, gs1) \<Rightarrow> admit_connection env cfg client_info (Some b) gs1))))"
  unfolding handle_initialize_def get_runtime_config_def announced_bridge_def
  by (simp split: option.split json.split)

text \<open>Every run admits from a base state: the state itself, or the state without the bridge's former
  connection.\<close>

definition base_state :: "jobject \<Rightarrow> gateway_state \<Rightarrow> gateway_state" where
  "base_state client_info gs =
     (case announced_bridge client_info of
        Some b \<Rightarrow> if b \<noteq> [] \<and> b \<in> gr_pending (gs_runtime gs) \<and> gr_config (gs_runtime gs) \<noteq> None
                  then snd (retire_bridge b gs) else gs
      | None \<Rightarrow> gs)"

lemma handle_initialize_cases:
  assumes run: "handle_initialize env client_info gs = (out, gs')"
    and inv: "counted (length (connection_ids (gs_runtime gs))) gs"
  obtains "\<nexists>ctx. out = Inr (Ok ctx)" and "gs' = base_state client_info gs"
  | cfg profile_id token where "gr_config (gs_runtime gs) = Some cfg"
      and "(if ac_mode (tc_auth cfg) = OpenMode then admit_open cfg
            else admit_token (ie_build_token env) cfg (gr_secrets (gs_runtime gs)) (ie_now env) client_info)
           = Inr (Ok (profile_id, token))"
      and "out = Inr (Ok (admitted_context env cfg client_info (announced_bridge client_info) profile_id token))"
      and "gs' = idle_increment ((base_state client_info gs)\<lparr>gs_runtime := add_runtime_connection
            (admitted_context env cfg client_info (announced_bridge client_info) profile_id token)
            (gs_runtime (base_state client_info gs))\<rparr>)"
      and "\<forall>b. announced_bridge client_info = Some b \<longrightarrow> b \<noteq> [] \<and> b \<in> gr_pending (gs_runtime gs)"
proof (cases "gr_config (gs_runtime gs)")
  case None
  then show ?thesis
    using run that(1) by (auto simp: handle_initialize_unfold base_state_def split: option.splits)
next
  case (Some cfg)
  show ?thesis
  proof (cases "announced_bridge client_info")
    case native: None
    then have "admit_connection env cfg client_info None gs = (out, gs')"
      using run Some by (simp add: handle_initialize_unfold)
    then show ?thesis
      by (rule admit_connection_cases) (use Some native that in \<open>auto simp: base_state_def\<close>)
  next
    case bridge: (Some b)
    show ?thesis
    proof (cases "b \<noteq> [] \<and> b \<in> gr_pending (gs_runtime gs)")
      case False
      then show ?thesis
        using run Some bridge that(1)
        by (auto simp: handle_initialize_unfold base_state_def has_bridge_registration_def split: if_splits)
    next
      case True
      then have base: "base_state client_info gs = snd (retire_bridge b gs)"
        using Some bridge by (simp add: base_state_def)
      have "retire_bridge b gs = (Ok (), base_state client_info gs)"
        using retire_bridge_effect(1) [OF inv, of b] base by (cases "retire_bridge b gs") simp
      then have "admit_connection env cfg client_info (Some b) (base_state client_info gs) = (out, gs')"
        using run Some bridge True by (simp add: handle_initialize_unfold has_bridge_registration_def)
      moreover have sec: "gr_secrets (gs_runtime (base_state client_info gs)) = gr_secrets (gs_runtime gs)"
        by (simp add: base retire_bridge_effect(6) [OF inv])
      ultimately show ?thesis
      proof (cases rule: admit_connection_cases)
        case 1
        then show ?thesis by (rule that(1))
      next
        case (2 profile_id token)
        show ?thesis
          by (rule that(2) [OF Some 2(1) [unfolded sec]]) (use 2 bridge True in simp_all)
      qed
    qed
  qed
qed


lemma retire_bridge_fields:
  "gr_config (gs_runtime (snd (retire_bridge b gs))) = gr_config (gs_runtime gs)"
  "gr_secrets (gs_runtime (snd (retire_bridge b gs))) = gr_secrets (gs_runtime gs)"
  by (simp_all add: retire_bridge_def split_beta Let_def idle_decrement_effect split: result.split)

text \<open>A result is admitted under the configuration and the secrets the call started with.\<close>

lemma handle_initialize_admits:
  assumes run: "handle_initialize env client_info gs = (Inr (Ok ctx), gs')"
    and cfg: "gr_config (gs_runtime gs) = Some cfg"
  obtains profile_id token where
      "(if ac_mode (tc_auth cfg) = OpenMode then admit_open cfg
        else admit_token (ie_build_token env) cfg (gr_secrets (gs_runtime gs)) (ie_now env) client_info)
       = Inr (Ok (profile_id, token))"
    and "ctx = admitted_context env cfg client_info (announced_bridge client_info) profile_id token"
proof -
  have "\<exists>bridge gs1. admit_connection env cfg client_info bridge gs1 = (Inr (Ok ctx), gs')
      \<and> bridge = announced_bridge client_info \<and> gr_secrets (gs_runtime gs1) = gr_secrets (gs_runtime gs)"
  proof (cases "announced_bridge client_info")
    case None
    then show ?thesis using run cfg by (simp add: handle_initialize_unfold) blast
  next
    case (Some b)
    obtain res gs1 where ret: "retire_bridge b gs = (res, gs1)" by fastforce
    then have sec: "gr_secrets (gs_runtime gs1) = gr_secrets (gs_runtime gs)"
      using retire_bridge_fields(2) [of b gs] by simp
    have "admit_connection env cfg client_info (Some b) gs1 = (Inr (Ok ctx), gs')"
      using run cfg Some ret by (simp add: handle_initialize_unfold split: result.splits if_splits)
    then show ?thesis using Some sec by auto
  qed
  then obtain bridge gs1 where adm: "admit_connection env cfg client_info bridge gs1 = (Inr (Ok ctx), gs')"
    and bridge: "bridge = announced_bridge client_info"
    and sec: "gr_secrets (gs_runtime gs1) = gr_secrets (gs_runtime gs)" by blast
  from adm show thesis
  proof (cases rule: admit_connection_cases)
    case (2 profile_id token)
    show thesis by (rule that [OF 2(1) [unfolded sec]]) (use 2(2) bridge in simp)
  qed simp
qed


section \<open>Genuine tokens\<close>

lemma signature_matches_genuine:
  "signature_matches payload sig secrets = Inr True \<Longrightarrow>
     \<exists>s \<in> set secrets. compute_signature payload s = Inr sig"
  by (induction secrets) (auto simp: compare_digest_def split: sum.splits bool.splits if_splits)

text \<open>A token accepted now: signed with one of the secrets, and not yet expired.\<close>

definition genuine :: "capability_token \<Rightarrow> string list \<Rightarrow> string \<Rightarrow> bool" where
  "genuine t secrets now_iso \<longleftrightarrow> (\<exists>s \<in> set secrets. ct_signature t = token_mac t s)
     \<and> (case (read_iso (ct_expires_at t), read_iso now_iso) of
          (Some e, Some n) \<Rightarrow> instant n < instant e | _ \<Rightarrow> False)"

lemma dt_le_InrE:
  assumes "dt_le a b = Inr c" and "is_aware a"
  shows "is_aware b" and "c = (instant a \<le> instant b)"
  using assms dt_le_aware [of a b] by (auto simp: dt_le_def is_aware_def split: datetime.splits option.splits if_splits)

lemma validate_token_genuine:
  assumes wf: "wf_token t" and run: "validate_token t secrets now_iso = Inr r" and "er_verdict r = ALLOW"
  shows "genuine t secrets now_iso"
proof -
  obtain payload where payload: "canonicalize_token_fields (token_dump t) = Inr payload"
    and sig: "signature_matches payload (ct_signature t) secrets = Inr True"
    and expiry: "is_expired (ct_expires_at t) now_iso = Inr False"
    using run assms(3)
    by (auto simp: validate_token_def deny_result_def split: if_splits sum.splits bool.splits)
  have "payload = token_claims t" using payload wf by (simp add: canonicalize_token wf_token_def)
  then have "\<exists>s \<in> set secrets. ct_signature t = token_mac t s"
    using signature_matches_genuine [OF sig]
    by (force simp: compute_signature_def token_mac_def signing_text_def split: if_splits)
  moreover obtain e n where "read_iso (ct_expires_at t) = Some e" "read_iso now_iso = Some n" "dt_le e n = Inr False"
    using expiry by (auto simp: is_expired_def split: option.splits)
  moreover have "is_aware e" using wf \<open>read_iso (ct_expires_at t) = Some e\<close> by (auto elim!: wf_token_expires)
  ultimately show ?thesis using dt_le_InrE(2) [of e n False] by (auto simp: genuine_def)
qed

lemma sort_Nil_iff: "sort xs = [] \<longleftrightarrow> xs = []"
  by (metis length_0_conv length_sort)

lemma extract_capability_token_Ok:
  assumes "extract_capability_token build client_info = Ok t"
  shows "\<exists>payload. dget client_info capability_token_key = Some (JDict payload)
    \<and> set (dkeys payload) \<subseteq> set canonical_token_fields \<and> build payload = Ok t
    \<and> invalid_reserved_client_info_key client_info = None"
  using assms
  by (auto simp: extract_capability_token_def extract_from_payload_def reject_initialize_def Let_def
      sort_Nil_iff filter_empty_conv split: option.splits if_splits json.splits result.splits prod.splits)

lemma admit_token_Ok:
  assumes "admit_token build cfg secrets now_iso client_info = Inr (Ok (profile_id, token))"
  obtains t r where "extract_capability_token build client_info = Ok t" and "token = Some t"
    and "profile_id = ct_profile_id t" and "has_key (tc_profiles cfg) profile_id"
    and "validate_token t secrets now_iso = Inr r" and "er_verdict r = ALLOW"
  using assms
  by (auto simp: admit_token_def resolve_token_init_binding_def Let_def
      split: result.splits if_splits sum.splits)
     (metis verdict.exhaust)


text \<open>Conversely a genuine token for a configured profile is accepted.\<close>

lemma admit_genuine:
  assumes "extract_capability_token build client_info = Ok t" and wf: "wf_token t" and "is_ascii (ct_signature t)"
    and secrets: "secrets \<noteq> []" "[] \<notin> set secrets" and gen: "genuine t secrets now_iso"
    and now: "read_iso now_iso = Some now" "is_aware now" and "has_key (tc_profiles cfg) (ct_profile_id t)"
    and named: "ct_token_id t \<noteq> []" "ct_profile_id t \<noteq> []" "ct_signature t \<noteq> []"
  shows "admit_token build cfg secrets now_iso client_info = Inr (Ok (ct_profile_id t, Some t))"
proof -
  obtain e where e: "read_iso (ct_expires_at t) = Some e" "instant now < instant e"
    using gen now by (auto simp: genuine_def split: option.splits)
  have "validate_token t secrets now_iso = Inr allow_result"
    using validate_token_wf [OF wf assms(3) secrets now e(1)] gen e(2) by (auto simp: genuine_def)
  moreover have "now_iso \<noteq> []" using now(1) by (auto simp: read_iso_def replace_char_def fromisoformat_def date_part_def)
  ultimately show ?thesis
    using assms by (simp add: admit_token_def resolve_token_init_binding_def allow_result_def)
qed


section \<open>Properties\<close>

definition signed_token :: capability_token where
  "signed_token = sample_token (token_mac (sample_token []) ''k'')"

definition token_client :: jobject where
  "token_client = [(capability_token_key, JDict (token_dump signed_token))]"

definition token_env :: init_env where
  "token_env = \<lparr>ie_build_token = (\<lambda>p. if p = token_dump signed_token then Ok signed_token
       else Err \<lparr>ve_type = ''missing'', ve_msg = ''Field required'', ve_loc = [''token_id'']\<rparr>),
     ie_fresh_id = ''conn_1'', ie_now = ''2026-06-01T00:00:00Z''\<rparr>"

definition token_gateway :: gateway_state where
  "token_gateway = \<lparr>gs_runtime = initial_runtime\<lparr>gr_config := Some (sample_config\<lparr>tc_auth :=
       \<lparr>ac_mode = TokenMode, ac_secrets = [''k'']\<rparr>\<rparr>), gr_secrets := [''k'']\<rparr>, gs_idle = None\<rparr>"

lemma extract_token_client:
  "extract_capability_token (ie_build_token token_env) token_client = Ok signed_token"
proof -
  have "filter (\<lambda>k. k \<in> set token_alias_fields) (dkeys (token_dump signed_token)) = []"
    "filter (\<lambda>k. k \<notin> set canonical_token_fields \<and> k \<notin> set token_alias_fields)
       (dkeys (token_dump signed_token)) = []"
    by (simp_all add: token_dump_def canonical_token_fields_def token_alias_fields_def)
  then show ?thesis
    by (simp add: extract_capability_token_def token_client_def invalid_reserved_client_info_key_def
        reserved_client_key_def canonical_token_fields_def token_alias_fields_def capability_token_key_def
        extract_from_payload_def token_env_def startswith_def)
qed

lemma token_mac_sample: "token_mac (sample_token a) s = token_mac (sample_token b) s"
  by (simp add: token_mac_def signing_text_eq sample_token_def)

lemma signed_token_admitted:
  "admit_token (ie_build_token token_env) (sample_config\<lparr>tc_auth := a\<rparr>) [''k'']
     (ie_now token_env) token_client = Inr (Ok (''dev'', Some signed_token))"
proof -
  have "genuine signed_token [''k''] (ie_now token_env)"
    using sample_times token_mac_sample [of "token_mac (sample_token []) ''k''" "''k''" "[]"]
    by (simp add: genuine_def signed_token_def token_env_def)
       (simp add: sample_token_def instant_def)
  moreover have "length (token_mac (sample_token []) ''k'') = 64"
    by (simp only: token_mac_def length_hmac_hexdigest)
  then have "ct_signature signed_token \<noteq> []" by (auto simp: signed_token_def sample_token_def)
  moreover have "is_ascii (ct_signature signed_token)"
    by (simp add: signed_token_def sample_token_def) (simp add: token_mac_def)
  ultimately show ?thesis
    using admit_genuine [OF extract_token_client, of "[''k'']" "ie_now token_env"] wf_sample_token sample_times(1)
    by (simp add: signed_token_def sample_token_def token_env_def is_aware_def sample_config_def has_key_def)
qed

text \<open>C7: In token mode a client is admitted only with a capability token whose object has canonical
  fields alone, which is signed with one of the gateway's secrets, has not expired, and names a
  configured profile; the connection is bound to that profile and to no other.\<close>

theorem token_mode_admits_only_genuine_tokens:
  assumes "handle_initialize env client_info gs = (Inr (Ok ctx), gs')"
    and "gr_config (gs_runtime gs) = Some cfg" and "ac_mode (tc_auth cfg) = TokenMode"
    and "\<forall>p t. ie_build_token env p = Ok t \<longrightarrow> wf_token t"
  shows "\<exists>payload t. dget client_info capability_token_key = Some (JDict payload)
    \<and> set (dkeys payload) \<subseteq> set canonical_token_fields \<and> ie_build_token env payload = Ok t
    \<and> invalid_reserved_client_info_key client_info = None
    \<and> genuine t (gr_secrets (gs_runtime gs)) (ie_now env)
    \<and> has_key (tc_profiles cfg) (ct_profile_id t) \<and> cc_profile_id ctx = ct_profile_id t"
proof -
  obtain profile_id token where
    adm: "admit_token (ie_build_token env) cfg (gr_secrets (gs_runtime gs)) (ie_now env) client_info
      = Inr (Ok (profile_id, token))"
    and ctx: "ctx = admitted_context env cfg client_info (announced_bridge client_info) profile_id token"
    using handle_initialize_admits [OF assms(1,2)] assms(3) by auto
  then obtain t r where t: "extract_capability_token (ie_build_token env) client_info = Ok t"
    "profile_id = ct_profile_id t" "has_key (tc_profiles cfg) profile_id"
    "validate_token t (gr_secrets (gs_runtime gs)) (ie_now env) = Inr r" "er_verdict r = ALLOW"
    by (elim admit_token_Ok)
  from extract_capability_token_Ok [OF t(1)] obtain payload where
    p: "dget client_info capability_token_key = Some (JDict payload)"
      "set (dkeys payload) \<subseteq> set canonical_token_fields" "ie_build_token env payload = Ok t"
      "invalid_reserved_client_info_key client_info = None"
    by blast
  have "genuine t (gr_secrets (gs_runtime gs)) (ie_now env)"
    using assms(4) p(3) t(4,5) by (intro validate_token_genuine) auto
  then show ?thesis using p t(2,3) ctx by (auto simp: admitted_context_def)
qed

lemma token_mode_witness:
  "\<exists>ctx gs'. handle_initialize token_env token_client token_gateway = (Inr (Ok ctx), gs')
     \<and> cc_profile_id ctx = ''dev''"
proof -
  let ?cfg = "sample_config\<lparr>tc_auth := \<lparr>ac_mode = TokenMode, ac_secrets = [''k'']\<rparr>\<rparr>"
  have cfg: "gr_config (gs_runtime token_gateway) = Some ?cfg" by (simp add: token_gateway_def)
  have "announced_bridge token_client = None"
    by (simp add: announced_bridge_def token_client_def capability_token_key_def bridge_connection_id_key_def)
  then obtain ctx gs' where run: "handle_initialize token_env token_client token_gateway = (Inr (Ok ctx), gs')"
    using signed_token_admitted
    by (simp add: handle_initialize_unfold admit_connection_def token_gateway_def Let_def)
  have wf: "\<forall>p t. ie_build_token token_env p = Ok t \<longrightarrow> wf_token t"
    by (simp add: token_env_def signed_token_def wf_sample_token)
  from token_mode_admits_only_genuine_tokens [OF run cfg _ wf] obtain t payload where
    "ie_build_token token_env payload = Ok t" "cc_profile_id ctx = ct_profile_id t" by auto
  then have "cc_profile_id ctx = ''dev''"
    by (auto simp: token_env_def signed_token_def sample_token_def split: if_splits)
  then show ?thesis using run by blast
qed

text \<open>A refused initialize leaves the runtime as it was, except that a registered bridge has then
  already lost the connection and the session it had: they are retired before the client is
  authenticated.\<close>

theorem refused_initialize_effects:
  assumes "handle_initialize env client_info gs = (out, gs')" and "\<nexists>ctx. out = Inr (Ok ctx)"
    and "counted (length (connection_ids (gs_runtime gs))) gs"
  defines "lost \<equiv> (case announced_bridge client_info of
      Some b \<Rightarrow> if b \<noteq> [] \<and> b \<in> gr_pending (gs_runtime gs) \<and> gr_config (gs_runtime gs) \<noteq> None then {b} else {}
    | None \<Rightarrow> {})"
  shows "connection_ids (gs_runtime gs') = filter (\<lambda>d. d \<notin> lost) (connection_ids (gs_runtime gs))
    \<and> (\<forall>d. bound_session (gs_runtime gs') d = (if d \<in> lost then None else bound_session (gs_runtime gs) d))
    \<and> gr_pending (gs_runtime gs') = gr_pending (gs_runtime gs)
    \<and> (lost = {} \<longrightarrow> gs' = gs)"
proof -
  have "gs' = base_state client_info gs"
    using assms(1) assms(2) by (cases rule: handle_initialize_cases [OF assms(1,3)]) auto
  then show ?thesis
    using retire_bridge_effect [OF assms(3)]
    by (auto simp: base_state_def lost_def split: option.splits)
qed

definition bridge_gateway :: gateway_state where
  "bridge_gateway = \<lparr>gs_runtime = initial_runtime\<lparr>gr_config := Some (sample_config\<lparr>tc_auth :=
       \<lparr>ac_mode = TokenMode, ac_secrets = [''k'']\<rparr>\<rparr>), gr_secrets := [''k''], gr_pending := {''bridge_1''},
       gr_connections := [sample_connection\<lparr>cc_connection_id := ''bridge_1''\<rparr>],
       gr_sessions := [(''bridge_1'', 7)]\<rparr>, gs_idle = None\<rparr>"

lemma refused_initialize_witness:
  "bound_session (gs_runtime bridge_gateway) ''bridge_1'' = Some 7
   \<and> bound_session (gs_runtime (snd (handle_initialize token_env
       [(bridge_connection_id_key, JStr ''bridge_1'')] bridge_gateway))) ''bridge_1'' = None"
proof -
  let ?info = "[(bridge_connection_id_key, JStr ''bridge_1'')]"
  have bridge: "announced_bridge ?info = Some ''bridge_1''" by (simp add: announced_bridge_def py_str_def)
  have inv: "counted (length (connection_ids (gs_runtime bridge_gateway))) bridge_gateway"
    by (simp add: counted_def idle_count_def bridge_gateway_def)
  obtain out gs' where run: "handle_initialize token_env ?info bridge_gateway = (out, gs')" by fastforce
  have "\<nexists>ctx. out = Inr (Ok ctx)"
  proof (rule notI, elim exE)
    fix ctx assume "out = Inr (Ok ctx)"
    with run have "handle_initialize token_env ?info bridge_gateway = (Inr (Ok ctx), gs')" by simp
    moreover have "gr_config (gs_runtime bridge_gateway) = Some (sample_config\<lparr>tc_auth :=
       \<lparr>ac_mode = TokenMode, ac_secrets = [''k'']\<rparr>\<rparr>)" by (simp add: bridge_gateway_def)
    ultimately obtain profile_id token where "admit_token (ie_build_token token_env)
        (sample_config\<lparr>tc_auth := \<lparr>ac_mode = TokenMode, ac_secrets = [''k'']\<rparr>\<rparr>)
        (gr_secrets (gs_runtime bridge_gateway)) (ie_now token_env) ?info = Inr (Ok (profile_id, token))"
      by (rule handle_initialize_admits) simp
    then obtain t where "extract_capability_token (ie_build_token token_env) ?info = Ok t"
      by (elim admit_token_Ok)
    from extract_capability_token_Ok [OF this] show False
      by (simp add: bridge_connection_id_key_def capability_token_key_def)
  qed
  from refused_initialize_effects [OF run this inv] show ?thesis
    using run bridge by (simp add: bridge_gateway_def bound_session_def)
qed

end
