(* ===== verification/Http_Routes.thy ===== *)
theory Http_Routes
  imports Initialize
begin

text \<open>
  The HTTP surface of the gateway: \<^verbatim>\<open>core/bearer.py\<close>, \<^verbatim>\<open>shell/http_auth.py\<close> (the middleware),
  \<^verbatim>\<open>shell/gateway_http_auth.py\<close>, \<^verbatim>\<open>shell/gateway_lifecycle.py\<close> (the status facts),
  \<^verbatim>\<open>shell/http_routes.py\<close>, \<^verbatim>\<open>shell/authorization_explain.py\<close> and the route adapters of
  \<^verbatim>\<open>shell/gateway.py\<close>. Headers are what the ASGI server delivers: names in lower case, values
  decoded as Latin-1. A handler's postcondition is part of it: where the result violates it the
  value is \<open>Inl (AssertionError _)\<close>. The monotonic clock, the process number and the attachment
  registry read from disk are arguments.
\<close>


section \<open>Bearer tokens\<close>

definition extract_bearer_from_header_value :: "string \<Rightarrow> string option" where
  "extract_bearer_from_header_value value =
     (if \<not> startswith value ''Bearer '' then None
      else (let token = py_strip (drop 7 value) in if token = [] then None else Some token))"

definition auth_error :: string where
  "auth_error = ''AUTH_INVALID_TOKEN: bearer token validation failed''"

definition validate_bearer_token :: "string \<Rightarrow> string \<Rightarrow> py_exc + (unit, string) result" where
  "validate_bearer_token request_token expected_token =
     map_right (\<lambda>same. if same then Ok () else Err auth_error) (compare_digest request_token expected_token)"

definition extract_bearer_token :: "string option \<Rightarrow> (string, string) result" where
  "extract_bearer_token authorization_header =
     (case authorization_header of
        None \<Rightarrow> Err auth_error
      | Some value \<Rightarrow>
          (case extract_bearer_from_header_value value of None \<Rightarrow> Err auth_error | Some t \<Rightarrow> Ok t))"


section \<open>Lifecycle facts\<close>

record lifecycle_facts =
  lf_snapshot :: status_snapshot
  lf_server_count :: nat
  lf_profile_count :: nat
  lf_connected_servers :: "string list"
  lf_active_connections :: nat
  lf_total_tool_calls :: nat
  lf_state :: string
  lf_degraded_reason :: "string option"

definition lifecycle_state ::
    "string set \<Rightarrow> nat \<Rightarrow> string list \<Rightarrow> startup_snapshot \<Rightarrow> string \<times> string option" where
  "lifecycle_state configured server_count live startup =
     (if server_count = 0 then (''ready'', None)
      else if sn_in_progress startup \<noteq> [] then (''warming'', None)
      else if live \<noteq> [] then
        (case sn_degraded_reason startup of
           Some reason \<Rightarrow> (''degraded'', Some reason)
         | None \<Rightarrow> if length live < server_count then (''degraded'', Some ''downstream_not_fully_converged'')
                   else (''ready'', None))
      else if \<not> configured \<subseteq> set (sn_attempted startup) then (''warming'', None)
      else (case sn_degraded_reason startup of
           Some reason \<Rightarrow> (''degraded'', Some reason)
         | None \<Rightarrow> if sn_complete startup then (''degraded'', Some ''startup_convergence_no_connected_providers'')
                   else (''warming'', None)))"

definition get_lifecycle_status_facts :: "gateway \<Rightarrow> lifecycle_facts" where
  "get_lifecycle_status_facts g =
     (let snap = get_runtime_status_snapshot (gs_runtime g);
          live = dkeys (get_all_tools (gw_registry g));
          servers = (case ss_config snap of Some c \<Rightarrow> dkeys (tc_servers c) | None \<Rightarrow> []);
          profiles = (case ss_config snap of Some c \<Rightarrow> dkeys (tc_profiles c) | None \<Rightarrow> []);
          (state, reason) = lifecycle_state (set servers) (length servers) live
            (get_downstream_startup_snapshot (gw_downstream g))
      in \<lparr>lf_snapshot = snap, lf_server_count = length servers, lf_profile_count = length profiles,
          lf_connected_servers = live, lf_active_connections = length (ss_connections snap),
          lf_total_tool_calls = ss_total_tool_calls snap, lf_state = state, lf_degraded_reason = reason\<rparr>)"


section \<open>The middleware\<close>

record http_scope =
  sc_type :: string
  sc_method :: "string option"
  sc_path :: "string option"
  sc_headers :: "(string \<times> string) list"

datatype middleware_action = Forward | Send401 | Send503Warming

definition bearer_of_scope :: "http_scope \<Rightarrow> string option" where
  "bearer_of_scope scope = Option.bind (map_of (sc_headers scope) ''authorization'') extract_bearer_from_header_value"

definition bearer_auth_middleware :: "http_scope \<Rightarrow> gateway \<Rightarrow> py_exc + middleware_action" where
  "bearer_auth_middleware scope g =
     (if sc_type scope \<noteq> ''http'' then Inr Forward
      else if sc_method scope = Some ''GET'' \<and> sc_path scope = Some ''/health'' then Inr Forward
      else (case gr_bearer_token (gs_runtime g) of
          None \<Rightarrow> Inr Send401
        | Some expected \<Rightarrow>
            (case bearer_of_scope scope of
               None \<Rightarrow> Inr Send401
             | Some token \<Rightarrow>
                 (case validate_bearer_token token expected of
                    Inl e \<Rightarrow> Inl e
                  | Inr (Err _) \<Rightarrow> Inr Send401
                  | Inr (Ok _) \<Rightarrow>
                      if sc_method scope = Some ''POST'' \<and> sc_path scope = Some ''/mcp''
                         \<and> lf_state (get_lifecycle_status_facts g) = ''warming''
                      then Inr Send503Warming else Inr Forward))))"


section \<open>Handlers\<close>

text \<open>A handler decorated with \<^verbatim>\<open>@post\<close>.\<close>

definition ensure_post :: "string \<Rightarrow> bool \<Rightarrow> 'a \<Rightarrow> py_exc + 'a" where
  "ensure_post name holds x = (if holds then Inr x else Inl (AssertionError (''Postcondition failed for '' @ name)))"

definition not_started :: string where
  "not_started = ''GATEWAY_NOT_STARTED: gateway has not been started''"

definition handle_health :: "nat \<Rightarrow> py_exc + (string \<times> nat, string) result" where
  "handle_health pid = ensure_post ''handle_health'' (0 < pid) (Ok (''ok'', pid))"

record status_response =
  sp_uptime :: rat
  sp_server_count :: nat
  sp_connected_servers :: "string list"
  sp_active_connections :: nat
  sp_profile_count :: nat
  sp_total_tool_calls :: nat
  sp_connections :: "connection_context list"
  sp_audit_entries :: "audit_entry list"
  sp_state :: string
  sp_degraded_reason :: "string option"

definition uptime_of :: "rat \<Rightarrow> rat option \<Rightarrow> rat" where
  "uptime_of clock start_time =
     (let start = (case start_time of Some t \<Rightarrow> t | None \<Rightarrow> 0) in if 0 < start then clock - start else 0)"

definition status_response_of :: "rat \<Rightarrow> gateway \<Rightarrow> status_response" where
  "status_response_of clock g =
     (let facts = get_lifecycle_status_facts g; snap = lf_snapshot facts
      in \<lparr>sp_uptime = uptime_of clock (ss_start_time snap), sp_server_count = lf_server_count facts,
          sp_connected_servers = lf_connected_servers facts, sp_active_connections = lf_active_connections facts,
          sp_profile_count = lf_profile_count facts, sp_total_tool_calls = lf_total_tool_calls facts,
          sp_connections = ss_connections snap,
          sp_audit_entries = get_recent_audit_entries None (gw_audit g),
          sp_state = lf_state facts, sp_degraded_reason = lf_degraded_reason facts\<rparr>)"

definition runtime_started :: "runtime \<Rightarrow> bool" where
  "runtime_started r \<longleftrightarrow> gr_config r \<noteq> None \<and> gr_running r"

definition status_post :: "(status_response, string) result \<Rightarrow> bool" where
  "status_post res \<longleftrightarrow> (case res of
       Ok s \<Rightarrow> sp_active_connections s = length (sp_connections s)
     | Err e \<Rightarrow> is_auth_error e \<or> is_gateway_not_started_error e \<or> startswith e ''AUDIT_QUERY_ERROR'')"

definition handle_status :: "rat \<Rightarrow> string \<Rightarrow> string \<Rightarrow> gateway \<Rightarrow> py_exc + (status_response, string) result" where
  "handle_status clock request_token expected_token g =
     (case validate_bearer_token request_token expected_token of
        Inl e \<Rightarrow> Inl e
      | Inr auth \<Rightarrow>
          (let res = (case auth of
               Err e \<Rightarrow> Err e
             | Ok _ \<Rightarrow> if \<not> runtime_started (gs_runtime g) then Err not_started
                       else Ok (status_response_of clock g))
           in ensure_post ''handle_status'' (status_post res) res))"

record probe_snapshot =
  pr_running :: bool
  pr_state :: string
  pr_degraded_reason :: string
  pr_active_connections :: nat
  pr_connections :: "connection_context list"

definition probe_post :: "(probe_snapshot, string) result \<Rightarrow> bool" where
  "probe_post res \<longleftrightarrow> (case res of
       Ok p \<Rightarrow> pr_active_connections p = length (pr_connections p)
     | Err e \<Rightarrow> is_gateway_not_started_error e)"

definition handle_operator_probe :: "rat \<Rightarrow> gateway \<Rightarrow> py_exc + (probe_snapshot, string) result" where
  "handle_operator_probe timeout_seconds g =
     (if timeout_seconds \<le> 0 then Inl (AssertionError ''Precondition failed for handle_operator_probe'')
      else let snap = get_runtime_status_snapshot (gs_runtime g); facts = get_lifecycle_status_facts g;
          res = (if \<not> runtime_started (gs_runtime g) then Err not_started
                 else Ok \<lparr>pr_running = ss_running snap, pr_state = lf_state facts,
                   pr_degraded_reason = (case lf_degraded_reason facts of
                       Some d \<Rightarrow> d | None \<Rightarrow> ''lockfile_endpoint_not_verified''),
                   pr_active_connections = length (ss_connections snap),
                   pr_connections = ss_connections snap\<rparr>)
      in ensure_post ''handle_operator_probe'' (probe_post res) res)"

definition displayed_attachment :: "client_attachment \<Rightarrow> client_attachment" where
  "displayed_attachment a =
     (let stale_candidate = (ca_stale_candidate a \<or> ca_recoverability a = VStale)
      in a\<lparr>ca_display_state := classify_attachment_display_state (ca_runtime_state a) (ca_recoverability a)
             stale_candidate (ca_unknown_state a),
           ca_stale_candidate := stale_candidate\<rparr>)"

definition clients_post :: "(client_attachment list, string) result \<Rightarrow> bool" where
  "clients_post res \<longleftrightarrow> (case res of Ok _ \<Rightarrow> True
     | Err e \<Rightarrow> is_gateway_not_started_error e \<or> startswith e ''ATTACHMENT_REGISTRY_'')"

definition handle_operator_clients ::
    "(client_attachment list option, string) result \<Rightarrow> gateway \<Rightarrow> py_exc + (client_attachment list, string) result" where
  "handle_operator_clients attachments g =
     (let res = (if \<not> runtime_started (gs_runtime g) then Ok []
                 else (case attachments of
                     Err e \<Rightarrow> Err e
                   | Ok None \<Rightarrow> Ok []
                   | Ok (Some as) \<Rightarrow> Ok (map displayed_attachment as)))
      in ensure_post ''handle_operator_clients'' (clients_post res) res)"

definition handle_operator_audit ::
    "string option \<Rightarrow> int option \<Rightarrow> gateway \<Rightarrow> py_exc + (audit_page, string) result" where
  "handle_operator_audit cursor limit g =
     (let res = audit_query_paginated cursor limit (gw_audit g)
      in ensure_post ''handle_operator_audit''
           (case res of Ok _ \<Rightarrow> True | Err e \<Rightarrow> startswith e ''AUDIT_QUERY_ERROR'') res)"

text \<open>The body of a confirmed connect or disconnect.\<close>

record confirmation =
  cf_connection_id :: string
  cf_status :: string

definition connect_post :: "(confirmation, string) result \<Rightarrow> bool" where
  "connect_post res \<longleftrightarrow> (case res of Ok c \<Rightarrow> cf_status c = ''connected''
     | Err e \<Rightarrow> is_auth_error e \<or> is_gateway_not_started_error e)"

definition handle_connect ::
    "string \<Rightarrow> string \<Rightarrow> string \<Rightarrow> gateway \<Rightarrow> (py_exc + (confirmation, string) result) \<times> gateway" where
  "handle_connect request_token expected_token server_name g =
     (case validate_bearer_token request_token expected_token of
        Inl e \<Rightarrow> (Inl e, g)
      | Inr auth \<Rightarrow>
          (let (res, g') = (case auth of
               Err e \<Rightarrow> (Err e, g)
             | Ok _ \<Rightarrow>
                 if \<not> runtime_started (gs_runtime g) then (Err not_started, g)
                 else (let (registered, r) = register_bridge_connection server_name (gs_runtime g)
                   in (map_result (\<lambda>_. \<lparr>cf_connection_id = server_name, cf_status = ''connected''\<rparr>) registered,
                       g\<lparr>gs_runtime := r\<rparr>)))
           in (ensure_post ''handle_connect'' (connect_post res) res, g')))"

definition connection_not_found :: "string \<Rightarrow> string" where
  "connection_not_found cid = ''CONNECTION_NOT_FOUND: connection '' @ squote cid @ '' not found''"

definition disconnect_post :: "(confirmation, string) result \<Rightarrow> bool" where
  "disconnect_post res \<longleftrightarrow> (case res of Ok c \<Rightarrow> cf_status c = ''disconnected''
     | Err e \<Rightarrow> is_auth_error e \<or> is_gateway_not_started_error e \<or> is_connection_not_found_error e)"

definition handle_disconnect ::
    "string \<Rightarrow> string \<Rightarrow> string \<Rightarrow> gateway \<Rightarrow> (py_exc + (confirmation, string) result) \<times> gateway" where
  "handle_disconnect request_token expected_token cid g =
     (case validate_bearer_token request_token expected_token of
        Inl e \<Rightarrow> (Inl e, g)
      | Inr auth \<Rightarrow>
          (let (res, g') = (case auth of
               Err e \<Rightarrow> (Err e, g)
             | Ok _ \<Rightarrow>
                 if \<not> runtime_started (gs_runtime g) then (Err not_started, g)
                 else (let (cleaned, r) = cleanup_connection_by_id cid (gs_runtime g); g1 = g\<lparr>gs_runtime := r\<rparr>
                   in case cleaned of
                        Err e \<Rightarrow> (Err e, g1)
                      | Ok out \<Rightarrow>
                          if \<not> (co_removed_runtime out \<or> co_removed_bridge out) then
                            (Err (connection_not_found cid), g1)
                          else (Ok \<lparr>cf_connection_id = cid, cf_status = ''disconnected''\<rparr>, g1)))
           in (ensure_post ''handle_disconnect'' (disconnect_post res) res, g')))"


section \<open>Authorization visibility\<close>

record tool_explanation =
  tx_name :: string
  tx_server_name :: string
  tx_family :: string
  tx_posture :: "posture option"
  tx_default_posture :: posture
  tx_explanation :: explanation

record profile_explanation =
  px_profile_id :: string
  px_capabilities :: "(string, posture) dict"
  px_tools :: "tool_explanation list"

definition explain_tool ::
    "tela_config \<Rightarrow> profile_config \<Rightarrow> string \<times> resolved_tool \<Rightarrow> py_exc + tool_explanation" where
  "explain_tool cfg profile st =
     (case st of (server, tool) \<Rightarrow>
       let dflt = (case dget (tc_servers cfg) server of Some sc \<Rightarrow> sc_default_posture sc | None \<Rightarrow> PostureNone)
       in map_right (\<lambda>ex. \<lparr>tx_name = rt_name tool, tx_server_name = rt_server_name tool, tx_family = rt_family tool,
              tx_posture = rt_posture tool, tx_default_posture = dflt, tx_explanation = ex\<rparr>)
            (explain_authorization (routing_name tool) tool profile allow_result dflt))"

definition explain_profile ::
    "tela_config \<Rightarrow> tools_by_server \<Rightarrow> string \<Rightarrow> profile_config \<Rightarrow> py_exc + profile_explanation" where
  "explain_profile cfg tools profile_id profile =
     map_right (\<lambda>ts. \<lparr>px_profile_id = profile_id, px_capabilities = sort_key fst (pc_capabilities profile), px_tools = ts\<rparr>)
       (mapE (explain_tool cfg profile)
         (concat (map (\<lambda>(server, ts). map (Pair server) ts) (sort_key fst tools))))"

fun explain_profiles ::
    "tela_config \<Rightarrow> tools_by_server \<Rightarrow> string list \<Rightarrow> py_exc + (profile_explanation list, string) result" where
  "explain_profiles cfg tools [] = Inr (Ok [])"
| "explain_profiles cfg tools (p # ps) =
     (case dget (tc_profiles cfg) p of
        None \<Rightarrow> Inr (Err (''PROFILE_NOT_FOUND: profile '' @ squote p @ '' not found''))
      | Some profile \<Rightarrow>
          (case explain_profile cfg tools p profile of
             Inl e \<Rightarrow> Inl e
           | Inr payload \<Rightarrow> map_right (map_result (Cons payload)) (explain_profiles cfg tools ps)))"

definition explain_post :: "(profile_explanation list, string) result \<Rightarrow> bool" where
  "explain_post res \<longleftrightarrow> (case res of Ok _ \<Rightarrow> True
     | Err e \<Rightarrow> is_gateway_not_started_error e \<or> startswith e ''PROFILE_NOT_FOUND'' \<or> startswith e ''DOWNSTREAM_'')"

definition handle_authorization_explain ::
    "string option \<Rightarrow> gateway \<Rightarrow> py_exc + (profile_explanation list, string) result" where
  "handle_authorization_explain profile_id g =
     (case (case get_runtime_config (gs_runtime g) of
          None \<Rightarrow> Inr (Err not_started)
        | Some cfg \<Rightarrow>
            explain_profiles cfg (get_all_tools (gw_registry g))
              (case profile_id of Some p \<Rightarrow> [p] | None \<Rightarrow> sort (dkeys (tc_profiles cfg)))) of
        Inl e \<Rightarrow> Inl e
      | Inr res \<Rightarrow> ensure_post ''handle_authorization_explain'' (explain_post res) res)"


section \<open>Routes\<close>

text \<open>A response: status 200 with its body, or an error status with the text of the error.\<close>

datatype 'b http_reply = Body 'b | Failed nat string

definition as_error_response :: "string \<Rightarrow> 'b http_reply" where
  "as_error_response e = Failed (error_to_http_status e) e"

definition reply_of :: "py_exc + ('b, string) result \<Rightarrow> py_exc + 'b http_reply" where
  "reply_of = map_right (\<lambda>r. case r of Ok b \<Rightarrow> Body b | Err e \<Rightarrow> as_error_response e)"

definition auth_handoff :: "string option \<Rightarrow> gateway \<Rightarrow> py_exc + (string \<times> string, string \<times> nat) result" where
  "auth_handoff header g =
     (case extract_bearer_token header of
        Err e \<Rightarrow> Inr (Err (e, 401))
      | Ok token \<Rightarrow>
          (let expected = (case gr_bearer_token (gs_runtime g) of Some t \<Rightarrow> t | None \<Rightarrow> [])
           in map_right (\<lambda>r. case r of Ok _ \<Rightarrow> Ok (token, expected) | Err e \<Rightarrow> Err (e, error_to_http_status e))
                (validate_bearer_token token expected)))"

definition with_auth ::
    "string option \<Rightarrow> gateway \<Rightarrow> (string \<Rightarrow> string \<Rightarrow> (py_exc + 'b http_reply) \<times> gateway)
       \<Rightarrow> (py_exc + 'b http_reply) \<times> gateway" where
  "with_auth header g handler =
     (case auth_handoff header g of
        Inl e \<Rightarrow> (Inl e, g)
      | Inr (Err (e, status)) \<Rightarrow> (Inr (Failed status e), g)
      | Inr (Ok (token, expected)) \<Rightarrow> handler token expected)"

definition health_route :: "nat \<Rightarrow> py_exc + (string \<times> nat) http_reply" where
  "health_route pid = map_right (\<lambda>r. case r of Ok b \<Rightarrow> Body b | Err e \<Rightarrow> Failed 500 e) (handle_health pid)"

definition status_route ::
    "rat \<Rightarrow> string option \<Rightarrow> gateway \<Rightarrow> (py_exc + status_response http_reply) \<times> gateway" where
  "status_route clock header g =
     with_auth header g (\<lambda>token expected. (reply_of (handle_status clock token expected g), g))"

text \<open>How the text of a query parameter reads as a \<^verbatim>\<open>float\<close>.\<close>

datatype float_text = NotNumeric | NotFinite | Finite rat

definition operator_probe_route ::
    "string option \<Rightarrow> float_text option \<Rightarrow> gateway \<Rightarrow> (py_exc + probe_snapshot http_reply) \<times> gateway" where
  "operator_probe_route header timeout g =
     with_auth header g (\<lambda>_ _.
       ((case timeout of
           None \<Rightarrow> reply_of (handle_operator_probe 5 g)
         | Some NotNumeric \<Rightarrow> Inr (Failed 400 ''INVALID_REQUEST: timeout_seconds must be numeric'')
         | Some NotFinite \<Rightarrow>
             Inr (Failed 400 ''INVALID_REQUEST: timeout_seconds must be finite and greater than zero'')
         | Some (Finite t) \<Rightarrow>
             if t \<le> 0 then
               Inr (Failed 400 ''INVALID_REQUEST: timeout_seconds must be finite and greater than zero'')
             else reply_of (handle_operator_probe t g)), g))"

definition operator_clients_route ::
    "string option \<Rightarrow> (client_attachment list option, string) result \<Rightarrow> gateway
       \<Rightarrow> (py_exc + client_attachment list http_reply) \<times> gateway" where
  "operator_clients_route header attachments g =
     with_auth header g (\<lambda>_ _. (reply_of (handle_operator_clients attachments g), g))"

definition authorization_explain_route ::
    "string option \<Rightarrow> string option \<Rightarrow> gateway \<Rightarrow> (py_exc + profile_explanation list http_reply) \<times> gateway" where
  "authorization_explain_route header profile_id g =
     with_auth header g (\<lambda>_ _. (reply_of (handle_authorization_explain profile_id g), g))"

definition operator_audit_route ::
    "string option \<Rightarrow> string option \<Rightarrow> string option \<Rightarrow> gateway \<Rightarrow> (py_exc + audit_page http_reply) \<times> gateway" where
  "operator_audit_route header cursor limit_value g =
     with_auth header g (\<lambda>_ _.
       ((case limit_value of
           None \<Rightarrow> reply_of (handle_operator_audit cursor None g)
         | Some text' \<Rightarrow>
             (case py_int text' of
                None \<Rightarrow> Inr (Failed 400 ''INVALID_REQUEST: limit must be an integer'')
              | Some n \<Rightarrow> reply_of (handle_operator_audit cursor (Some n) g))), g))"

definition canonical_connect_keys :: "string list" where
  "canonical_connect_keys = [''server_name'']"

definition forbidden_connect_keys :: "string list" where
  "forbidden_connect_keys = [''profile_id'', ''profile_name'', ''tools_profile'', ''default_profile'']"

definition validate_connect_request_payload :: "json \<Rightarrow> auth_mode \<Rightarrow> (string, string) result" where
  "validate_connect_request_payload payload mode =
     (case payload of
        JDict d \<Rightarrow>
          (let binding = sort (filter (\<lambda>k. k \<in> set forbidden_connect_keys) (remdups (dkeys d)));
               extra = sort (filter (\<lambda>k. k \<notin> set canonical_connect_keys) (remdups (dkeys d)))
           in if mode = TokenMode \<and> binding \<noteq> [] then
                Err (''fabricated_profile_binding_forbidden: token-mode /connect must ''
                  @ ''not carry profile binding fields: '' @ join '','' binding)
              else (case dget d ''server_name'' of
                  None \<Rightarrow> Err ''missing_required_field: field=server_name''
                | Some (JStr name) \<Rightarrow>
                    if extra \<noteq> [] then Err (''extra_key: rejected_keys='' @ join '','' extra) else Ok name
                | Some _ \<Rightarrow> Err ''wrong_type: field=server_name''))
      | _ \<Rightarrow> Err ''wrong_type: field=server_name'')"

definition connect_handler ::
    "string \<Rightarrow> string \<Rightarrow> json \<Rightarrow> gateway \<Rightarrow> (py_exc + (confirmation, string) result) \<times> gateway" where
  "connect_handler request_token expected_token payload g =
     (case gr_startup (gs_runtime g) of
        None \<Rightarrow> (Inr (Err ''GATEWAY_NOT_STARTED: startup auth mode is unavailable''), g)
      | Some startup \<Rightarrow>
          (case validate_connect_request_payload payload (st_auth_mode startup) of
             Err e \<Rightarrow> (Inr (Err e), g)
           | Ok name \<Rightarrow> handle_connect request_token expected_token name g))"

text \<open>\<open>raw\<close> is the decoded body, \<open>None\<close> when it is not JSON.\<close>

definition connect_route ::
    "string option \<Rightarrow> json option \<Rightarrow> gateway \<Rightarrow> (py_exc + confirmation http_reply) \<times> gateway" where
  "connect_route header raw g =
     with_auth header g (\<lambda>token expected.
       case raw of
         None \<Rightarrow> (Inr (Failed 400 ''INVALID_REQUEST: invalid connect payload''), g)
       | Some payload \<Rightarrow> (let (res, g') = connect_handler token expected payload g in (reply_of res, g')))"

text \<open>A step of the connection bookkeeping, run on the whole gateway.\<close>

definition lift_state :: "(gateway_state \<Rightarrow> 'a \<times> gateway_state) \<Rightarrow> gateway \<Rightarrow> 'a \<times> gateway" where
  "lift_state f g =
     (let (x, s) = f (gateway_state.truncate g) in (x, g\<lparr>gs_runtime := gs_runtime s, gs_idle := gs_idle s\<rparr>))"

text \<open>\<open>target\<close> is the identifier of a valid body, \<open>None\<close> when the body is not valid.\<close>

definition disconnect_route ::
    "string option \<Rightarrow> string option \<Rightarrow> gateway \<Rightarrow> (py_exc + confirmation http_reply) \<times> gateway" where
  "disconnect_route header target g =
     with_auth header g (\<lambda>token expected.
       case target of
         None \<Rightarrow> (Inr (Failed 400 ''INVALID_REQUEST: invalid disconnect payload''), g)
       | Some cid \<Rightarrow>
           (let existed = cid \<in> set (connection_ids (gs_runtime g));
                (res, g1) = handle_disconnect token expected cid g
            in case res of
                 Inl e \<Rightarrow> (Inl e, g1)
               | Inr (Err e) \<Rightarrow> (Inr (as_error_response e), g1)
               | Inr (Ok c) \<Rightarrow> (Inr (Body c), if existed then snd (lift_state idle_decrement g1) else g1)))"


section \<open>Authentication\<close>

lemma compare_digest_True: "compare_digest a b = Inr True \<longleftrightarrow> is_ascii a \<and> is_ascii b \<and> a = b"
  by (auto simp: compare_digest_def)

lemma validate_bearer_Ok: "validate_bearer_token t x = Inr (Ok ()) \<longleftrightarrow> is_ascii t \<and> t = x"
  by (auto simp: validate_bearer_token_def map_right_Inr_iff compare_digest_def split: if_splits)

lemma validate_bearer_Err: "validate_bearer_token t x = Inr (Err e) \<Longrightarrow> e = auth_error"
  by (auto simp: validate_bearer_token_def map_right_Inr_iff split: if_splits)

lemma auth_error_status [simp]: "error_to_http_status auth_error = 401" "is_auth_error auth_error"
  by (simp_all add: auth_error_def error_to_http_status_def is_auth_error_def startswith_def)

lemma not_started_status [simp]:
  "error_to_http_status not_started = 503" "is_gateway_not_started_error not_started"
  by (simp_all add: not_started_def error_to_http_status_def error_tests startswith_def)

lemma extract_bearer_nonempty: "extract_bearer_from_header_value v = Some t \<Longrightarrow> t \<noteq> []"
  by (auto simp: extract_bearer_from_header_value_def Let_def split: if_splits)

text \<open>The header carries the gateway's token.\<close>

definition authenticated :: "string option \<Rightarrow> gateway \<Rightarrow> bool" where
  "authenticated header g \<longleftrightarrow> (\<exists>v t. header = Some v \<and> extract_bearer_from_header_value v = Some t
     \<and> gr_bearer_token (gs_runtime g) = Some t \<and> is_ascii t)"

lemma auth_handoff_Ok:
  "auth_handoff header g = Inr (Ok (t, x)) \<longleftrightarrow> x = t \<and> is_ascii t \<and>
     (\<exists>v. header = Some v \<and> extract_bearer_from_header_value v = Some t \<and> gr_bearer_token (gs_runtime g) = Some t)"
proof -
  have unit: "map_right (\<lambda>r. case r of Ok _ \<Rightarrow> Ok y | Err e \<Rightarrow> Err (e, f e)) w = Inr (Ok z) \<longleftrightarrow> w = Inr (Ok ()) \<and> y = z"
    for y z :: "string \<times> string" and f :: "string \<Rightarrow> nat" and w :: "py_exc + (unit, string) result"
    by (cases w; cases "projr w") auto
  show ?thesis
    using extract_bearer_nonempty
    by (cases header; cases "gr_bearer_token (gs_runtime g)")
      (auto simp: auth_handoff_def extract_bearer_token_def unit validate_bearer_Ok split: option.splits)
qed

lemma auth_handoff_authenticated:
  assumes "authenticated header g"
  obtains t where "is_ascii t" and "auth_handoff header g = Inr (Ok (t, t))"
  using assms by (auto simp: authenticated_def auth_handoff_Ok)

lemma with_auth_refused:
  assumes "\<not> authenticated header g"
  shows "snd (with_auth header g k) = g" and "fst (with_auth header g k) \<noteq> Inr (Body b)"
proof -
  have "auth_handoff header g \<noteq> Inr (Ok p)" for p
    using assms by (cases p) (auto simp: auth_handoff_Ok authenticated_def)
  then show "snd (with_auth header g k) = g" "fst (with_auth header g k) \<noteq> Inr (Body b)"
    by (auto simp: with_auth_def split: sum.split result.split)
qed

lemmas route_defs = status_route_def operator_probe_route_def operator_clients_route_def
  authorization_explain_route_def operator_audit_route_def connect_route_def disconnect_route_def


section \<open>The reported state after a startup\<close>

lemma registry_keys:
  "s \<in> set (dkeys (get_all_tools r)) \<longleftrightarrow> (\<exists>ts. dget (get_all_tools r) s = Some ts)"
  by (metis has_key_def has_key_dget not_None_eq)

lemma lifecycle_after_startup:
  assumes cfg: "gr_config (gs_runtime g) = Some cfg" and wf: "wf_dict (tc_servers cfg)"
    and names: "names_match start" and some: "tc_servers cfg \<noteq> []"
    and run: "connect_all start (tc_servers cfg) None st = (Inr (Ok ()), gw_downstream g)"
  shows "set (lf_connected_servers (get_lifecycle_status_facts g)) = {s. \<exists>d. connects start (tc_servers cfg) s d}"
    and "lf_state (get_lifecycle_status_facts g)
      = (if \<exists>s. fails start (tc_servers cfg) s then ''degraded'' else ''ready'')"
proof -
  let ?ds = "gw_downstream g" and ?servers = "tc_servers cfg"
  let ?live = "dkeys (get_all_tools (ds_registry ?ds))"
  note pub = connect_all_publishes [OF wf names run]
  have live: "set ?live = {s. \<exists>d. connects start ?servers s d}"
    using pub(2) pub(3) pub(4) registry_keys [of _ "ds_registry ?ds"] by (auto simp del: set_map) blast
  then show "set (lf_connected_servers (get_lifecycle_status_facts g)) = {s. \<exists>d. connects start ?servers s d}"
    by (simp add: get_lifecycle_status_facts_def Let_def split_beta del: set_map)
  have split: "ds_successful ?ds = set ?live" using live pub(4) by auto
  have none: "ds_failed ?ds = [] \<longleftrightarrow> \<not> (\<exists>s. fails start ?servers s)"
    using pub(5) by (metis (no_types, lifting) empty_iff list.map_disc_iff list.set_intros(1) neq_Nil_conv set_empty)
  have full: "ds_failed ?ds = [] \<Longrightarrow> length ?live = length (dkeys ?servers) \<and> ?live \<noteq> []"
  proof -
    assume "ds_failed ?ds = []"
    then have same: "set ?live = set (dkeys ?servers)" using pub(6,7) split by simp
    have "wf_dict (get_all_tools (ds_registry ?ds))" using pub(1) by (simp add: dsr.complete_def dsr.tools_wf)
    then have "length ?live = length (dkeys ?servers)"
      using same wf by (metis distinct_card wf_dict_def)
    then show ?thesis using some by auto
  qed
  show "lf_state (get_lifecycle_status_facts g)
      = (if \<exists>s. fails start ?servers s then ''degraded'' else ''ready'')"
  proof (cases "ds_failed ?ds = []")
    case True
    then show ?thesis
      using full none some pub(8)
      by (auto simp: get_lifecycle_status_facts_def lifecycle_state_def get_runtime_status_snapshot_def cfg Let_def
          get_downstream_startup_snapshot_def degraded_reason_from_failures_def)
  next
    case False
    have "set (dkeys ?servers) \<subseteq> ds_attempted ?ds" using pub(7) by simp
    moreover have "finite (ds_attempted ?ds)" using pub(7) by simp
    ultimately show ?thesis
      using False none some pub(8)
      by (auto simp: get_lifecycle_status_facts_def lifecycle_state_def get_runtime_status_snapshot_def cfg Let_def
          get_downstream_startup_snapshot_def degraded_reason_from_failures_def)
  qed
qed

lemma lifecycle_after_rejection:
  assumes cfg: "gr_config (gs_runtime g) = Some cfg" and some: "tc_servers cfg \<noteq> []"
    and run: "connect_all start (tc_servers cfg) lists_given st = (Inr (Err e), gw_downstream g)"
  shows "lf_state (get_lifecycle_status_facts g) = ''degraded''"
proof -
  let ?ds = "gw_downstream g"
  obtain conn failures resolved where so: "startup_outcomes start (tc_servers cfg) lists_given = Inr (conn, failures)"
    and rc: "resolve_connected (tc_servers cfg) conn = Inr resolved"
    using run by (rule connect_all_Inr)
  have "?ds = mark_startup_finished {} failures
      ((close_handles (List.map_filter (\<lambda>(_, data). cs_handle data) conn) (begun (tc_servers cfg) st))
         \<lparr>ds_registry := empty_registry\<rparr>)"
    using run connect_all_cases [OF so rc, of st] by (auto split: if_splits)
  then have "ds_in_progress ?ds = {}" "ds_complete ?ds" "ds_registry ?ds = empty_registry"
    "ds_attempted ?ds = set (dkeys (tc_servers cfg))"
    by (simp_all add: mark_startup_finished_def close_handles_def begun_fields)
  then show ?thesis
    using some
    by (simp add: get_lifecycle_status_facts_def lifecycle_state_def get_runtime_status_snapshot_def cfg Let_def
        get_downstream_startup_snapshot_def dsr.tools_empty split: option.split)
qed

lemma lifecycle_after_exception:
  assumes cfg: "gr_config (gs_runtime g) = Some cfg" and some: "tc_servers cfg \<noteq> []"
    and run: "connect_all start (tc_servers cfg) lists_given st = (Inl e, gw_downstream g)"
  shows "lf_state (get_lifecycle_status_facts g) = ''warming''"
proof -
  have "ds_in_progress (gw_downstream g) = set (dkeys (tc_servers cfg))"
    by (simp add: connect_all_raises [OF run] begun_fields)
  then have "sorted_list_of_set (ds_in_progress (gw_downstream g)) \<noteq> []" using some by simp
  then show ?thesis
    using some
    by (simp add: get_lifecycle_status_facts_def lifecycle_state_def get_runtime_status_snapshot_def cfg Let_def
        get_downstream_startup_snapshot_def)
qed


section \<open>Disconnecting\<close>

lemma lift_state_effect:
  "gs_runtime (snd (lift_state f g)) = gs_runtime (snd (f (gateway_state.truncate g)))"
  "gs_idle (snd (lift_state f g)) = gs_idle (snd (f (gateway_state.truncate g)))"
  by (simp_all add: lift_state_def split_beta Let_def)

definition counted_connections :: "gateway \<Rightarrow> nat option" where
  "counted_connections g = map_option im_count (gs_idle g)"

lemma idle_decrement_lifted:
  "gs_runtime (snd (lift_state idle_decrement g)) = gs_runtime g"
  "counted_connections (snd (lift_state idle_decrement g)) = map_option (\<lambda>n. n - 1) (counted_connections g)"
  using idle_decrement_effect(1,2) [of "gateway_state.truncate g"]
  by (simp_all add: lift_state_effect counted_connections_def idle_count_def gateway_state.truncate_def)

lemma not_found_status [simp]:
  "is_connection_not_found_error (connection_not_found cid)"
  "error_to_http_status (connection_not_found cid) = 404"
  by (simp_all add: connection_not_found_def error_to_http_status_def error_tests startswith_def)

lemma handle_disconnect_cases:
  assumes "is_ascii t" and "runtime_started (gs_runtime g)" and "cid \<noteq> []"
  shows "handle_disconnect t t cid g =
    (Inr (if cid \<in> set (connection_ids (gs_runtime g)) \<or> cid \<in> gr_pending (gs_runtime g)
          then Ok \<lparr>cf_connection_id = cid, cf_status = ''disconnected''\<rparr>
          else Err (connection_not_found cid)),
     g\<lparr>gs_runtime := snd (cleanup_connection_by_id cid (gs_runtime g))\<rparr>)"
proof -
  have "validate_bearer_token t t = Inr (Ok ())" using assms(1) by (simp add: validate_bearer_Ok)
  then show ?thesis
    using assms(2,3)
    by (simp add: handle_disconnect_def cleanup_teardown store.teardown_flag ensure_post_def disconnect_post_def Let_def)
qed


section \<open>Properties\<close>

text \<open>What the status reports after a startup over the configured servers: \<^verbatim>\<open>warming\<close> if the startup
  was left by an exception, \<^verbatim>\<open>degraded\<close> if the tools conflict, and otherwise \<^verbatim>\<open>ready\<close> exactly when no
  server failed, with the servers that connected listed.\<close>

theorem startup_state_reported:
  assumes "gr_config (gs_runtime g) = Some cfg" and "wf_dict (tc_servers cfg)" and "names_match start"
    and "tc_servers cfg \<noteq> []"
    and "connect_all start (tc_servers cfg) None st = (out, gw_downstream g)"
  shows "case out of
      Inl _ \<Rightarrow> lf_state (get_lifecycle_status_facts g) = ''warming''
    | Inr (Err _) \<Rightarrow> lf_state (get_lifecycle_status_facts g) = ''degraded''
    | Inr (Ok _) \<Rightarrow> lf_state (get_lifecycle_status_facts g)
          = (if \<exists>s. fails start (tc_servers cfg) s then ''degraded'' else ''ready'')
        \<and> set (lf_connected_servers (get_lifecycle_status_facts g)) = {s. \<exists>d. connects start (tc_servers cfg) s d}"
proof (cases out)
  case (Inl e)
  then show ?thesis using lifecycle_after_exception [OF assms(1,4)] assms(5) by auto
next
  case (Inr res)
  show ?thesis
  proof (cases res)
    case (Ok u)
    then show ?thesis using lifecycle_after_startup [OF assms(1-4)] assms(5) Inr by simp
  next
    case (Err e)
    then show ?thesis using lifecycle_after_rejection [OF assms(1,4)] assms(5) Inr by auto
  qed
qed

definition started_gateway :: gateway where
  "started_gateway = initial_gateway\<lparr>gs_runtime := initial_runtime\<lparr>gr_config := Some (config_with two_servers),
     gr_running := True, gr_bearer_token := Some ''secret'', gr_pending := {''bridge_1''}\<rparr>,
     gs_idle := Some (new_idle_manager 60),
     gw_downstream := snd (connect_all (one_starts [listed ''read'' ''d'']) two_servers None initial_downstream)\<rparr>"

lemma startup_state_witness: "lf_state (get_lifecycle_status_facts started_gateway) = ''degraded''"
proof -
  let ?start = "one_starts [listed ''read'' ''d'']"
  have "fst (connect_all ?start two_servers None initial_downstream) = Inr (Ok ())" by code_simp
  then have run: "connect_all ?start (tc_servers (config_with two_servers)) None initial_downstream
      = (Inr (Ok ()), gw_downstream started_gateway)"
    by (cases "connect_all ?start two_servers None initial_downstream")
      (simp add: started_gateway_def config_with_def)
  have "wf_dict (tc_servers (config_with two_servers))" "tc_servers (config_with two_servers) \<noteq> []"
    by (simp_all add: config_with_def two_servers_def wf_dict_def)
  moreover have "names_match ?start" unfolding one_starts_def by (rule names_match_connect_server)
  moreover have "isl (?start ''web'' (server_named ''web'')) = False"
    "is_err (projr (?start ''web'' (server_named ''web'')))" by code_simp+
  then have "\<exists>e. ?start ''web'' (server_named ''web'') = Inr (Err e)"
    by (cases "?start ''web'' (server_named ''web'')"; cases "projr (?start ''web'' (server_named ''web''))") auto
  then have "fails ?start (tc_servers (config_with two_servers)) ''web''"
    by (simp add: fails_def config_with_def two_servers_def)
  moreover have "gr_config (gs_runtime started_gateway) = Some (config_with two_servers)"
    by (simp add: started_gateway_def)
  ultimately show ?thesis using startup_state_reported [OF _ _ _ _ run] by auto
qed

text \<open>The middleware lets an HTTP request through exactly if it is the liveness probe or carries the
  gateway's token and is not an MCP admission while the gateway is warming; it answers such an
  admission with the transient 503, and everything else without the token with 401.\<close>

theorem middleware_decides:
  "(bearer_auth_middleware scope g = Inr Forward) =
     (sc_type scope \<noteq> ''http'' \<or> (sc_method scope = Some ''GET'' \<and> sc_path scope = Some ''/health'')
      \<or> (authenticated (map_of (sc_headers scope) ''authorization'') g
         \<and> \<not> (sc_method scope = Some ''POST'' \<and> sc_path scope = Some ''/mcp''
              \<and> lf_state (get_lifecycle_status_facts g) = ''warming'')))
   \<and> (bearer_auth_middleware scope g = Inr Send503Warming) =
     (sc_type scope = ''http'' \<and> authenticated (map_of (sc_headers scope) ''authorization'') g
      \<and> sc_method scope = Some ''POST'' \<and> sc_path scope = Some ''/mcp''
      \<and> lf_state (get_lifecycle_status_facts g) = ''warming'')"
proof -
  let ?h = "map_of (sc_headers scope) ''authorization''"
  have unit: "r = Ok () \<or> (\<exists>e. r = Err e)" for r :: "(unit, string) result" by (cases r) auto
  have auth: "authenticated ?h g \<longleftrightarrow> (\<exists>x t. gr_bearer_token (gs_runtime g) = Some x \<and> bearer_of_scope scope = Some t
      \<and> validate_bearer_token t x = Inr (Ok ()))"
    by (auto simp: authenticated_def bearer_of_scope_def validate_bearer_Ok bind_eq_Some_conv)
  show ?thesis
    unfolding bearer_auth_middleware_def auth
    by (auto split: option.split sum.split result.split)
qed

text \<open>C24: Every protected route answers with a body only to the gateway's own token, and without it the
  connect and disconnect routes change nothing.\<close>

theorem protected_routes_need_token:
  assumes "\<not> authenticated header g"
  shows "fst (status_route clock header g) \<noteq> Inr (Body b1)
    \<and> fst (operator_probe_route header timeout g) \<noteq> Inr (Body b2)
    \<and> fst (operator_clients_route header attachments g) \<noteq> Inr (Body b3)
    \<and> fst (authorization_explain_route header profile_id g) \<noteq> Inr (Body b4)
    \<and> fst (operator_audit_route header cursor limit_value g) \<noteq> Inr (Body b5)
    \<and> fst (connect_route header raw g) \<noteq> Inr (Body b6) \<and> snd (connect_route header raw g) = g
    \<and> fst (disconnect_route header target g) \<noteq> Inr (Body b7) \<and> snd (disconnect_route header target g) = g"
  unfolding route_defs by (intro conjI with_auth_refused [OF assms])

lemma protected_routes_witness:
  "snd (disconnect_route (Some ''Bearer wrong'') (Some ''bridge_1'') started_gateway) = started_gateway"
proof -
  have "extract_bearer_from_header_value ''Bearer wrong'' = Some ''wrong''" by code_simp
  then have "\<not> authenticated (Some ''Bearer wrong'') started_gateway"
    by (simp add: authenticated_def started_gateway_def)
  from protected_routes_need_token [OF this] show ?thesis by blast
qed

text \<open>A disconnect with the gateway's token succeeds exactly for an identifier that is connected or
  pending, and answers 404 otherwise; afterwards the identifier has no connection, session or
  registration, and the idle count has gone down by one exactly if it had a connection.\<close>

theorem disconnect_route_effects:
  assumes "authenticated header g" and "runtime_started (gs_runtime g)" and "cid \<noteq> []"
  defines "out \<equiv> disconnect_route header (Some cid) g"
  shows "fst out = Inr (if cid \<in> set (connection_ids (gs_runtime g)) \<or> cid \<in> gr_pending (gs_runtime g)
      then Body \<lparr>cf_connection_id = cid, cf_status = ''disconnected''\<rparr>
      else Failed 404 (connection_not_found cid))
    \<and> connection_ids (gs_runtime (snd out)) = filter (\<lambda>d. d \<noteq> cid) (connection_ids (gs_runtime g))
    \<and> bound_session (gs_runtime (snd out)) cid = None \<and> cid \<notin> gr_pending (gs_runtime (snd out))
    \<and> counted_connections (snd out) =
        map_option (\<lambda>n. if cid \<in> set (connection_ids (gs_runtime g)) then n - 1 else n) (counted_connections g)"
proof -
  obtain t where "is_ascii t" and auth: "auth_handoff header g = Inr (Ok (t, t))"
    using assms(1) by (rule auth_handoff_authenticated)
  note dis = handle_disconnect_cases [OF \<open>is_ascii t\<close> assms(2,3)]
  have idle: "counted_connections (g\<lparr>gs_runtime := r\<rparr>) = counted_connections g" for r
    by (simp add: counted_connections_def)
  show ?thesis
    using cleanup_pending [OF assms(3), of "gs_runtime g"] assms(3)
    by (auto simp: out_def disconnect_route_def with_auth_def auth dis Let_def idle_decrement_lifted cleanup_ids cleanup_bound
        idle as_error_response_def option.map_ident)
qed

lemma disconnect_route_witness:
  "counted_connections (snd (disconnect_route (Some ''Bearer secret'') (Some ''bridge_1'') started_gateway)) = Some 0"
proof -
  have "extract_bearer_from_header_value ''Bearer secret'' = Some ''secret''" by code_simp
  then have "authenticated (Some ''Bearer secret'') started_gateway"
    by (simp add: authenticated_def started_gateway_def is_ascii_def)
  moreover have "runtime_started (gs_runtime started_gateway)"
    by (simp add: runtime_started_def started_gateway_def)
  moreover have "connection_ids (gs_runtime started_gateway) = []" "counted_connections started_gateway = Some 0"
    by (simp_all add: counted_connections_def started_gateway_def new_idle_manager_def connection_ids_def
        initial_runtime_def)
  ultimately show ?thesis
    using disconnect_route_effects [of "Some ''Bearer secret''" started_gateway "''bridge_1''"] by simp
qed

text \<open>An empty identifier, which the request models accept, is not answered with an error: the result
  of connect and of disconnect violates the handler's postcondition, and an AssertionError escapes.\<close>

theorem empty_identifier_violates_contract:
  assumes "authenticated header g" and "runtime_started (gs_runtime g)"
    and "gr_startup (gs_runtime g) = Some startup"
  shows "fst (disconnect_route header (Some []) g) = Inl (AssertionError ''Postcondition failed for handle_disconnect'')
    \<and> fst (connect_route header (Some (JDict [(''server_name'', JStr [])])) g)
        = Inl (AssertionError ''Postcondition failed for handle_connect'')"
proof -
  obtain t where t: "is_ascii t" and auth: "auth_handoff header g = Inr (Ok (t, t))"
    using assms(1) by (rule auth_handoff_authenticated)
  have ok: "validate_bearer_token t t = Inr (Ok ())" using t by (simp add: validate_bearer_Ok)
  have "fst (handle_disconnect t t [] g) = Inl (AssertionError ''Postcondition failed for handle_disconnect'')"
    using assms(2)
    by (simp add: handle_disconnect_def ok cleanup_connection_by_id_def remove_bridge_registration_def split_beta Let_def
        ensure_post_def disconnect_post_def error_tests startswith_def)
  moreover have "fst (handle_connect t t [] g) = Inl (AssertionError ''Postcondition failed for handle_connect'')"
    using assms(2)
    by (simp add: handle_connect_def ok register_bridge_connection_def Let_def
        ensure_post_def connect_post_def error_tests startswith_def)
  moreover have "validate_connect_request_payload (JDict [(''server_name'', JStr [])]) mode = Ok []" for mode
    by (simp add: validate_connect_request_payload_def forbidden_connect_keys_def canonical_connect_keys_def Let_def)
  ultimately show ?thesis
    using assms(3)
    by (simp add: disconnect_route_def connect_route_def with_auth_def auth connect_handler_def Let_def split_beta reply_of_def)
qed

lemma empty_identifier_witness:
  "isl (fst (disconnect_route (Some ''Bearer secret'') (Some [])
     (started_gateway\<lparr>gs_runtime := (gs_runtime started_gateway)\<lparr>gr_startup := Some
        \<lparr>st_transport = THttp, st_port = Some 8080, st_auth_mode = OpenMode, st_default_profile = None, st_host = ''127.0.0.1''\<rparr>\<rparr>\<rparr>)))"
proof -
  let ?g = "started_gateway\<lparr>gs_runtime := (gs_runtime started_gateway)\<lparr>gr_startup := Some
        \<lparr>st_transport = THttp, st_port = Some 8080, st_auth_mode = OpenMode, st_default_profile = None,
         st_host = ''127.0.0.1''\<rparr>\<rparr>\<rparr>"
  have "extract_bearer_from_header_value ''Bearer secret'' = Some ''secret''" by code_simp
  then have "authenticated (Some ''Bearer secret'') ?g"
    by (simp add: authenticated_def started_gateway_def is_ascii_def)
  moreover have "runtime_started (gs_runtime ?g)" by (simp add: runtime_started_def started_gateway_def)
  ultimately show ?thesis using empty_identifier_violates_contract [of _ ?g] by simp
qed

end
