(* ===== verification/Builtin_Tools.thy ===== *)
theory Builtin_Tools
  imports Upstream
begin

text \<open>
  \<^verbatim>\<open>shell/builtin_tools.py\<close>: the two tools the gateway answers itself. A payload entry is a JSON
  object in the order the code builds it. The tools raise instead of returning a result.
\<close>


section \<open>Registration\<close>

definition raise_if_invalid_shared_tool_name :: "string \<Rightarrow> py_exc + unit" where
  "raise_if_invalid_shared_tool_name name =
     (if valid_shared_name name then Inr ()
      else Inl (RuntimeError (''INVALID_TOOL_NAME: shared MCP tool names must be snake_case; got '' @ squote name)))"

definition empty_schema :: jobject where
  "empty_schema = [(''type'', JStr ''object''), (''properties'', JDict []), (''required'', JList []),
     (''additionalProperties'', JBool False)]"

definition builtin_tools :: "jobject list" where
  "builtin_tools =
     [[(''name'', JStr ''tela_list_providers''),
       (''description'', JStr ''List connected downstream providers with their status and tool counts.''),
       (''inputSchema'', JDict empty_schema)],
      [(''name'', JStr ''tela_list_profiles''),
       (''description'', JStr ''List configured profiles with their capabilities and default status.''),
       (''inputSchema'', JDict empty_schema)]]"

definition builtin_tool_names :: "string list" where
  "builtin_tool_names = [''tela_list_providers'', ''tela_list_profiles'']"

definition tool_name_of :: "jobject \<Rightarrow> string" where
  "tool_name_of tool = (case dget tool ''name'' of Some v \<Rightarrow> py_str v | None \<Rightarrow> [])"

definition register_builtin_tools :: "(jobject list, string) result" where
  "register_builtin_tools =
     (case find (\<lambda>t. \<not> valid_shared_name (tool_name_of t)) builtin_tools of
        Some t \<Rightarrow> Err (''INVALID_TOOL_NAME: shared MCP tool names must be snake_case; got '' @ squote (tool_name_of t))
      | None \<Rightarrow> Ok builtin_tools)"


section \<open>Profiles\<close>

definition canonical_profile_keys :: "string list" where
  "canonical_profile_keys = [''profile_id'', ''capabilities'', ''default'']"

definition legacy_profile_keys :: "string list" where
  "legacy_profile_keys = [''profile_name'', ''families'']"

definition canonical_postures :: "string list" where
  "canonical_postures = map posture_value [PostureNone, ReadOnly, ReadWrite, Destructive]"

definition named_fields :: "string \<Rightarrow> string list \<Rightarrow> string" where
  "named_fields code' keys =
     (if length keys = 1 then code' @ '': field='' @ hd keys else code' @ '': fields='' @ join '','' keys)"

definition canonical_capability :: "json \<Rightarrow> bool" where
  "canonical_capability v = (case v of JStr p \<Rightarrow> p \<in> set canonical_postures | _ \<Rightarrow> False)"

text \<open>One entry; the value is its identifier if it is a default.\<close>

definition validate_profile_entry :: "jobject \<Rightarrow> py_exc + string option" where
  "validate_profile_entry entry =
     (let legacy = sort (filter (\<lambda>k. k \<in> set legacy_profile_keys) (remdups (dkeys entry)));
          missing = sort (filter (\<lambda>k. \<not> has_key entry k) canonical_profile_keys);
          extra = sort (filter (\<lambda>k. k \<notin> set canonical_profile_keys) (remdups (dkeys entry)))
      in if legacy \<noteq> [] then Inl (RuntimeError (named_fields ''legacy_alias'' legacy))
         else if missing \<noteq> [] then Inl (RuntimeError (named_fields ''missing_required_field'' missing))
         else if extra \<noteq> [] then Inl (RuntimeError (''extra_key: rejected_keys='' @ join '','' extra))
         else (case (dget entry ''profile_id'', dget entry ''default'', dget entry ''capabilities'') of
             (Some (JStr pid), Some (JBool dflt), Some (JDict caps)) \<Rightarrow>
               if \<not> list_all (\<lambda>(_, v). canonical_capability v) caps
               then Inl (RuntimeError ''bad_enum: field=capabilities'')
               else Inr (if dflt then Some pid else None)
           | (Some (JStr _), Some (JBool _), _) \<Rightarrow> Inl (RuntimeError ''wrong_type: field=capabilities'')
           | (Some (JStr _), _, _) \<Rightarrow> Inl (RuntimeError ''wrong_type: field=default'')
           | _ \<Rightarrow> Inl (RuntimeError ''wrong_type: field=profile_id'')))"

definition validate_profile_list_payload :: "jobject list \<Rightarrow> py_exc + jobject list" where
  "validate_profile_list_payload profiles =
     (case mapE validate_profile_entry profiles of
        Inl e \<Rightarrow> Inl e
      | Inr dflts \<Rightarrow>
          (let ids = List.map_filter id dflts in
           if 1 < length ids then
             Inl (RuntimeError (''invalid_default_profile_state: multiple profiles marked default=true: ''
               @ join '', '' (sort ids)))
           else Inr profiles))"

definition profile_info :: "string \<times> profile_config \<Rightarrow> jobject" where
  "profile_info np = (case np of (name, p) \<Rightarrow>
     [(''profile_id'', JStr name),
      (''capabilities'', JDict (map (\<lambda>(k, v). (k, JStr (posture_value v))) (sort_key fst (pc_capabilities p)))),
      (''default'', JBool (pc_default p))])"

definition not_started_text :: string where
  "not_started_text = ''GATEWAY_NOT_STARTED: gateway has not been started''"

definition handle_profiles_list :: "gateway \<Rightarrow> py_exc + jobject list" where
  "handle_profiles_list g =
     (case get_runtime_config (gs_runtime g) of
        None \<Rightarrow> Inl (RuntimeError (''handle_profiles_list requires a valid runtime config: '' @ repr_str not_started_text))
      | Some cfg \<Rightarrow> validate_profile_list_payload (map profile_info (sort_key fst (tc_profiles cfg))))"


section \<open>Providers\<close>

definition provider_status :: "downstream \<Rightarrow> string \<Rightarrow> string" where
  "provider_status ds server =
     (if server \<in> ds_successful ds then ''connected''
      else if server \<in> ds_attempted ds then ''failed'' else ''disconnected'')"

definition provider_tool_names ::
    "tools_by_server \<Rightarrow> profile_config \<Rightarrow> (string, posture) dict \<Rightarrow> string \<Rightarrow> py_exc + string list" where
  "provider_tool_names all_tools profile defaults server =
     (case dget all_tools server of
        None \<Rightarrow> Inr []
      | Some tools \<Rightarrow>
          (case filter_tools_for_profile [(server, tools)] profile defaults of
             Inl e \<Rightarrow> Inl e
           | Inr kept \<Rightarrow>
               (let names = sort (map rt_name kept)
                in map_right (\<lambda>_. names) (mapE raise_if_invalid_shared_tool_name names))))"

record provider_info =
  pv_provider_name :: string
  pv_profile_id :: string
  pv_status :: string
  pv_tool_prefix :: "string option"
  pv_tool_count :: nat
  pv_tool_names :: "string list"

definition provider_entry ::
    "downstream \<Rightarrow> string \<Rightarrow> profile_config \<Rightarrow> (string, posture) dict \<Rightarrow> string \<times> server_config
       \<Rightarrow> py_exc + provider_info" where
  "provider_entry ds profile_id profile defaults entry =
     (case entry of (server, sc) \<Rightarrow>
       map_right (\<lambda>names. \<lparr>pv_provider_name = server, pv_profile_id = profile_id,
           pv_status = provider_status ds server, pv_tool_prefix = sc_tool_prefix sc,
           pv_tool_count = length names, pv_tool_names = names\<rparr>)
         (provider_tool_names (get_all_tools (ds_registry ds)) profile defaults server))"

definition handle_list_providers :: "connection_context option \<Rightarrow> gateway \<Rightarrow> py_exc + provider_info list" where
  "handle_list_providers connection g =
     (case get_runtime_config (gs_runtime g) of
        None \<Rightarrow> Inl (RuntimeError (''handle_list_providers requires a valid runtime config: '' @ repr_str not_started_text))
      | Some cfg \<Rightarrow>
      (case connection of
        None \<Rightarrow> Inl (RuntimeError ''missing_bound_profile: tela_list_providers requires an admitted connection'')
      | Some conn \<Rightarrow>
      (case dget (tc_profiles cfg) (cc_profile_id conn) of
        None \<Rightarrow> Inl (RuntimeError (''missing_bound_profile: profile '' @ squote (cc_profile_id conn) @ '' is not configured''))
      | Some profile \<Rightarrow>
          mapE (provider_entry (gw_downstream g) (cc_profile_id conn) profile (server_default_postures cfg))
            (sort_key fst (tc_servers cfg)))))"

definition provider_json :: "provider_info \<Rightarrow> jobject" where
  "provider_json p =
     [(''provider_name'', JStr (pv_provider_name p)), (''profile_id'', JStr (pv_profile_id p)),
      (''status'', JStr (pv_status p)),
      (''tool_prefix'', case pv_tool_prefix p of None \<Rightarrow> JNull | Some t \<Rightarrow> JStr t),
      (''tool_count'', JInt (int (pv_tool_count p))), (''tool_names'', JList (map JStr (pv_tool_names p)))]"


section \<open>The profile list is canonical\<close>

lemma canonical_posture [simp]: "canonical_capability (JStr (posture_value p))"
  by (cases p) (simp_all add: canonical_capability_def canonical_postures_def)

lemma validate_profile_info: "validate_profile_entry (profile_info (name, p)) = Inr (if pc_default p then Some name else None)"
proof -
  let ?e = "profile_info (name, p)"
  have keys: "dkeys ?e = canonical_profile_keys" by (simp add: profile_info_def canonical_profile_keys_def)
  have "filter (\<lambda>k. k \<in> set legacy_profile_keys) (remdups (dkeys ?e)) = []"
    "filter (\<lambda>k. \<not> has_key ?e k) canonical_profile_keys = []"
    "filter (\<lambda>k. k \<notin> set canonical_profile_keys) (remdups (dkeys ?e)) = []"
    unfolding has_key_def keys by (simp_all add: filter_empty_conv canonical_profile_keys_def legacy_profile_keys_def)
  then show ?thesis
    by (simp add: validate_profile_entry_def Let_def) (simp add: profile_info_def list_all_iff split_beta)
qed

lemma mapE_total: "(\<And>x. x \<in> set xs \<Longrightarrow> f x = Inr (h x)) \<Longrightarrow> mapE f xs = Inr (map h xs)"
  by (induction xs) auto

lemma validated_profiles:
  "validate_profile_list_payload (map profile_info ps) =
     (let ids = map fst (filter (\<lambda>(_, p). pc_default p) ps) in
      if 1 < length ids then Inl (RuntimeError (''invalid_default_profile_state: multiple profiles marked default=true: ''
               @ join '', '' (sort ids)))
      else Inr (map profile_info ps))"
proof -
  have "mapE validate_profile_entry (map profile_info ps)
      = Inr (map (\<lambda>(name, p). if pc_default p then Some name else None) ps)"
    by (induction ps) (auto simp: validate_profile_info)
  moreover have "List.map_filter id (map (\<lambda>(name, p). if pc_default p then Some name else None) ps)
      = map fst (filter (\<lambda>(_, p). pc_default p) ps)"
    by (induction ps) (auto simp: List.map_filter_simps)
  ultimately show ?thesis by (simp add: validate_profile_list_payload_def)
qed


text \<open>What an accepted entry is made of.\<close>

definition canonical_profile :: "jobject \<Rightarrow> bool" where
  "canonical_profile e \<longleftrightarrow> set (dkeys e) = set canonical_profile_keys
     \<and> (\<exists>pid dflt caps. dget e ''profile_id'' = Some (JStr pid) \<and> dget e ''default'' = Some (JBool dflt)
          \<and> dget e ''capabilities'' = Some (JDict caps) \<and> (\<forall>(k, v) \<in> set caps. canonical_capability v))"

lemma sorted_filter_Nil: "sort (filter P xs) = [] \<longleftrightarrow> (\<forall>x \<in> set xs. \<not> P x)"
  by (metis filter_empty_conv length_0_conv length_sort)

lemma validate_profile_entry_Inr:
  assumes "validate_profile_entry e = Inr d"
  shows "canonical_profile e"
proof -
  have keys: "\<forall>k \<in> set (dkeys e). k \<in> set canonical_profile_keys" "\<forall>k \<in> set canonical_profile_keys. has_key e k"
    using assms by (auto simp: validate_profile_entry_def Let_def sorted_filter_Nil split: if_splits)
  then have "set (dkeys e) = set canonical_profile_keys" by (auto simp: has_key_def)
  moreover have "\<exists>pid dflt caps. dget e ''profile_id'' = Some (JStr pid) \<and> dget e ''default'' = Some (JBool dflt)
          \<and> dget e ''capabilities'' = Some (JDict caps) \<and> list_all (\<lambda>(_, v). canonical_capability v) caps"
    using assms by (auto simp: validate_profile_entry_def Let_def split: if_splits option.splits json.splits)
  ultimately show ?thesis by (auto simp: canonical_profile_def list_all_iff)
qed

lemma validate_profile_list_Inr:
  assumes "validate_profile_list_payload ps = Inr qs"
  shows "qs = ps" and "\<forall>e \<in> set qs. canonical_profile e"
proof -
  obtain ds where "mapE validate_profile_entry ps = Inr ds"
    using assms by (auto simp: validate_profile_list_payload_def split: sum.splits)
  then have "\<exists>d. validate_profile_entry e = Inr d" if "e \<in> set ps" for e
    using mapE_Inr_all [of validate_profile_entry ps ds e] that by blast
  moreover show "qs = ps"
    using assms by (auto simp: validate_profile_list_payload_def Let_def split: sum.splits if_splits)
  ultimately show "\<forall>e \<in> set qs. canonical_profile e" using validate_profile_entry_Inr by blast
qed


section \<open>The provider list\<close>

lemma mapE_map:
  "mapE f xs = Inr ys \<Longrightarrow> (\<And>x y. f x = Inr y \<Longrightarrow> h y = k x) \<Longrightarrow> map h ys = map k xs"
  by (induction xs arbitrary: ys) (auto split: sum.splits)

lemma raise_if_invalid_all:
  "mapE raise_if_invalid_shared_tool_name ns = Inr us \<Longrightarrow> \<forall>n \<in> set ns. valid_shared_name n"
  by (induction ns arbitrary: us) (auto simp: raise_if_invalid_shared_tool_name_def split: if_splits sum.splits)

lemma provider_tool_names_Inr:
  assumes "provider_tool_names all_tools profile defaults server = Inr names"
  shows "set names = {rt_name t |t. \<exists>ts. dget all_tools server = Some ts \<and> t \<in> set ts
      \<and> authorized (routing_name t) t profile (default_of defaults server)}"
    and "\<forall>n \<in> set names. valid_shared_name n" and "sorted names"
proof -
  show "set names = {rt_name t |t. \<exists>ts. dget all_tools server = Some ts \<and> t \<in> set ts
      \<and> authorized (routing_name t) t profile (default_of defaults server)}"
  proof (cases "dget all_tools server")
    case None
    then show ?thesis using assms by (simp add: provider_tool_names_def)
  next
    case (Some ts)
    then obtain kept where "filter_tools_for_profile [(server, ts)] profile defaults = Inr kept"
      and "names = sort (map rt_name kept)"
      using assms by (auto simp: provider_tool_names_def Let_def map_right_Inr_iff split: sum.splits)
    then show ?thesis using filter_tools_set [of "[(server, ts)]" profile defaults kept] Some by auto
  qed
  show "\<forall>n \<in> set names. valid_shared_name n" "sorted names"
    using assms raise_if_invalid_all
    by (auto simp: provider_tool_names_def Let_def map_right_Inr_iff split: option.splits sum.splits)
qed


section \<open>Properties\<close>

text \<open>C26: What the profile tool emits is canonical: every entry has exactly the three canonical keys, a string
  identifier, a boolean default and capabilities that map to posture names; the tool raises on a
  running gateway exactly when two profiles are marked default, and otherwise lists every profile.\<close>

theorem profile_list_is_canonical:
  assumes "get_runtime_config (gs_runtime g) = Some cfg"
  shows "(\<forall>e \<in> set (case handle_profiles_list g of Inr payload \<Rightarrow> payload | Inl _ \<Rightarrow> []). canonical_profile e)
    \<and> (isl (handle_profiles_list g) = (1 < length (filter (\<lambda>(_, p). pc_default p) (tc_profiles cfg))))
    \<and> (\<not> isl (handle_profiles_list g) \<longrightarrow>
         projr (handle_profiles_list g) = map profile_info (sort_key fst (tc_profiles cfg)))"
proof -
  let ?ps = "sort_key fst (tc_profiles cfg)"
  have run: "handle_profiles_list g = validate_profile_list_payload (map profile_info ?ps)"
    using assms by (simp add: handle_profiles_list_def)
  have len: "length (map fst (filter (\<lambda>(_, p). pc_default p) ?ps)) = length (filter (\<lambda>(_, p). pc_default p) (tc_profiles cfg))"
    by (simp add: filter_sort)
  have "\<forall>e \<in> set (case handle_profiles_list g of Inr payload \<Rightarrow> payload | Inl _ \<Rightarrow> []). canonical_profile e"
    using validate_profile_list_Inr(2) [of "map profile_info ?ps"]
    by (cases "validate_profile_list_payload (map profile_info ?ps)") (simp_all add: run)
  then show ?thesis by (simp add: run validated_profiles Let_def len [simplified])
qed

lemma profile_list_witness:
  "handle_profiles_list sample_gateway =
     Inr [[(''profile_id'', JStr ''dev''), (''capabilities'', JDict [(''fs'', JStr (posture_value ReadWrite))]),
           (''default'', JBool True)]]"
proof -
  have "length (filter (\<lambda>(_, p). pc_default p) (tc_profiles sample_config)) = 1"
    by (simp add: sample_config_def sample_profile_def)
  then have "\<not> isl (handle_profiles_list sample_gateway)"
    and "projr (handle_profiles_list sample_gateway) = map profile_info (sort_key fst (tc_profiles sample_config))"
    using profile_list_is_canonical [OF sample_config_get] by simp_all
  then show ?thesis
    by (cases "handle_profiles_list sample_gateway")
      (simp_all add: sample_config_def sample_profile_def profile_info_def)
qed

text \<open>The provider tool lists every configured server once, in order of name, and reports for the caller's
  profile exactly the names of that server's tools the enforcement chain admits, all of them
  snake case.\<close>

theorem provider_list_reports_callable_tools:
  assumes "handle_list_providers (Some conn) g = Inr providers"
    and "get_runtime_config (gs_runtime g) = Some cfg"
    and "dget (tc_profiles cfg) (cc_profile_id conn) = Some profile"
  shows "map pv_provider_name providers = map fst (sort_key fst (tc_servers cfg))
    \<and> (\<forall>p \<in> set providers. pv_tool_count p = length (pv_tool_names p)
         \<and> (\<forall>n \<in> set (pv_tool_names p). valid_shared_name n)
         \<and> set (pv_tool_names p) = {rt_name t |t. \<exists>ts. dget (get_all_tools (gw_registry g)) (pv_provider_name p) = Some ts
              \<and> t \<in> set ts \<and> authorized (routing_name t) t profile (server_default cfg (pv_provider_name p))})"
proof -
  let ?entry = "provider_entry (gw_downstream g) (cc_profile_id conn) profile (server_default_postures cfg)"
  have run: "mapE ?entry (sort_key fst (tc_servers cfg)) = Inr providers"
    using assms by (simp add: handle_list_providers_def)
  have entry: "pv_provider_name p = fst e \<and> pv_tool_count p = length (pv_tool_names p)
      \<and> provider_tool_names (get_all_tools (gw_registry g)) profile (server_default_postures cfg) (fst e)
          = Inr (pv_tool_names p)" if "?entry e = Inr p" for e p
    using that by (auto simp: provider_entry_def map_right_Inr_iff split: prod.splits)
  have "map pv_provider_name providers = map fst (sort_key fst (tc_servers cfg))"
    using mapE_map [OF run] entry by blast
  moreover have "pv_tool_count p = length (pv_tool_names p)
         \<and> (\<forall>n \<in> set (pv_tool_names p). valid_shared_name n)
         \<and> set (pv_tool_names p) = {rt_name t |t. \<exists>ts. dget (get_all_tools (gw_registry g)) (pv_provider_name p) = Some ts
              \<and> t \<in> set ts \<and> authorized (routing_name t) t profile (server_default cfg (pv_provider_name p))}"
    if p: "p \<in> set providers" for p
  proof -
    obtain e where "?entry e = Inr p" using mapE_Inr_set [OF run p] by blast
    note e = entry [OF this]
    then show ?thesis
      using provider_tool_names_Inr [of "get_all_tools (gw_registry g)" profile "server_default_postures cfg" "fst e"]
      by (simp add: default_of_config)
  qed
  ultimately show ?thesis by blast
qed

lemma provider_list_witness:
  "\<exists>p. handle_list_providers (Some sample_connection) sample_gateway = Inr [p] \<and> set (pv_tool_names p) = {''fs_read''}"
proof -
  have "case handle_list_providers (Some sample_connection) sample_gateway of
      Inr ps \<Rightarrow> map pv_provider_name ps = [''fs''] \<and> map pv_tool_names ps = [[''fs_read'']] | Inl _ \<Rightarrow> False"
    by code_simp
  then obtain ps where run: "handle_list_providers (Some sample_connection) sample_gateway = Inr ps"
    and names: "map pv_tool_names ps = [[''fs_read'']]"
    by (auto split: sum.splits)
  have "dget (tc_profiles sample_config) (cc_profile_id sample_connection) = Some (sample_profile ReadWrite)"
    by (simp add: sample_config_def sample_connection_def)
  from provider_list_reports_callable_tools [OF run sample_config_get this] names
  show ?thesis unfolding run by (cases ps) auto
qed

end
