(* ===== verification/Bridge_Protocol.thy ===== *)
theory Bridge_Protocol
  imports Py_Json Py_Datetime
begin

text \<open>
  \<^verbatim>\<open>core/bridge_protocol.py\<close>: what the connection bridge decides from the text of JSON-RPC
  messages, whether a request may be sent again after a recovery, whether a response asks for
  one, and the headers and timeouts of its HTTP requests. Decoding bytes to a JSON value,
  \<^verbatim>\<open>json.loads(payload.decode())\<close>, is the parameter \<open>loads\<close>, \<open>None\<close> when it fails;
  every decision is a function of the decoded value.
\<close>

type_synonym 'p loads = "'p \<Rightarrow> json option"

datatype replay_policy = Safe | Unsafe

definition decoded_object :: "'p loads \<Rightarrow> 'p \<Rightarrow> jobject option" where
  "decoded_object loads payload = (case loads payload of Some (JDict d) \<Rightarrow> Some d | _ \<Rightarrow> None)"

definition extract_jsonrpc_method :: "'p loads \<Rightarrow> 'p \<Rightarrow> string option" where
  "extract_jsonrpc_method loads payload = (case decoded_object loads payload of
     None \<Rightarrow> None
   | Some d \<Rightarrow> (case dget d ''method'' of Some (JStr m) \<Rightarrow> Some m | _ \<Rightarrow> None))"

definition item_text :: "json \<Rightarrow> string list" where
  "item_text item = (case item of
     JDict d \<Rightarrow> (case dget d ''text'' of Some (JStr t) \<Rightarrow> [t] | _ \<Rightarrow> [])
   | _ \<Rightarrow> [])"

definition error_message_of :: "jobject \<Rightarrow> string option" where
  "error_message_of d = (case dget d ''error'' of
     Some (JDict e) \<Rightarrow> (case dget e ''message'' of Some (JStr m) \<Rightarrow> Some m | _ \<Rightarrow> None)
   | _ \<Rightarrow> None)"

definition extract_bridge_error_messages :: "'p loads \<Rightarrow> 'p \<Rightarrow> string list" where
  "extract_bridge_error_messages loads payload = (case decoded_object loads payload of
     None \<Rightarrow> []
   | Some d \<Rightarrow>
       (case error_message_of d of Some m \<Rightarrow> [m] | None \<Rightarrow> [])
       @ (case dget d ''result'' of
            Some (JDict r) \<Rightarrow>
              if dget r ''isError'' = Some (JBool True) then
                (case dget r ''content'' of Some (JList items) \<Rightarrow> concat (map item_text items) | _ \<Rightarrow> [])
              else []
          | _ \<Rightarrow> []))"

definition recovery_markers :: "string list" where
  "recovery_markers = [''reconnect_required:'', ''bridge initialize requires pre-registered connection'']"

definition asks_recovery :: "'p loads \<Rightarrow> 'p \<Rightarrow> bool" where
  "asks_recovery loads payload = (case Option.bind (decoded_object loads payload) error_message_of of
     None \<Rightarrow> False
   | Some m \<Rightarrow> list_ex (\<lambda>marker. contains marker (py_lower m)) recovery_markers)"

definition response_requires_bridge_recovery :: "'p loads \<Rightarrow> 'p list \<Rightarrow> bool" where
  "response_requires_bridge_recovery loads messages = list_ex (asks_recovery loads) messages"

datatype request_id = IdInt int | IdStr string

definition jsonrpc_request_id :: "'p loads \<Rightarrow> 'p \<Rightarrow> request_id option" where
  "jsonrpc_request_id loads payload = (case decoded_object loads payload of
     None \<Rightarrow> None
   | Some d \<Rightarrow> (case dget d ''id'' of
        Some (JInt i) \<Rightarrow> Some (IdInt i)
      | Some (JStr s) \<Rightarrow> Some (IdStr s)
      | _ \<Rightarrow> None))"

definition jsonrpc_is_notification :: "'p loads \<Rightarrow> 'p \<Rightarrow> bool" where
  "jsonrpc_is_notification loads payload = (case decoded_object loads payload of
     None \<Rightarrow> False
   | Some d \<Rightarrow> (case dget d ''method'' of Some (JStr _) \<Rightarrow> True | _ \<Rightarrow> False) \<and> \<not> has_key d ''id'')"

definition replayable_methods :: "string list" where
  "replayable_methods = [''initialize'', ''ping'', ''tools/list'']"

text \<open>Membership of a set hashes its operand first: a list or a dictionary raises.\<close>

definition in_replayable :: "json option \<Rightarrow> py_exc + bool" where
  "in_replayable m = (case m of
     Some (JStr s) \<Rightarrow> Inr (s \<in> set replayable_methods)
   | Some (JList _) \<Rightarrow> Inl (TypeError (''unhashable type: '' @ squote ''list''))
   | Some (JDict _) \<Rightarrow> Inl (TypeError (''unhashable type: '' @ squote ''dict''))
   | _ \<Rightarrow> Inr False)"

definition bridge_replay_policy :: "'p loads \<Rightarrow> 'p \<Rightarrow> py_exc + replay_policy" where
  "bridge_replay_policy loads payload = (case decoded_object loads payload of
     None \<Rightarrow> Inr Unsafe
   | Some d \<Rightarrow> (case in_replayable (dget d ''method'') of
        Inl e \<Rightarrow> Inl e
      | Inr False \<Rightarrow> Inr Unsafe
      | Inr True \<Rightarrow> Inr (if jsonrpc_request_id loads payload = None then Unsafe else Safe)))"


section \<open>Requests over HTTP\<close>

definition bridge_http_headers :: "string \<Rightarrow> int \<Rightarrow> string option \<Rightarrow> py_exc + (string, string) dict" where
  "bridge_http_headers bearer_token payload_length session_id =
     (if bearer_token = [] \<or> payload_length < 0
      then Inl (AssertionError ''Precondition failed for bridge_http_headers'')
      else Inr ([(''Authorization'', ''Bearer '' @ bearer_token),
                 (''Content-Type'', ''application/json''),
                 (''Accept'', ''application/json, text/event-stream''),
                 (''Content-Length'', show_int payload_length)]
                @ (case session_id of None \<Rightarrow> [] | Some s \<Rightarrow> [(''mcp-session-id'', s)])))"

datatype pyfloat = Finite rat | PosInf | NegInf | NaN

definition finite_positive :: "pyfloat \<Rightarrow> bool" where
  "finite_positive x = (case x of Finite q \<Rightarrow> 0 < q | _ \<Rightarrow> False)"

definition is_finite :: "pyfloat \<Rightarrow> bool" where
  "is_finite x = (case x of Finite _ \<Rightarrow> True | _ \<Rightarrow> False)"

definition float_le_zero :: "pyfloat \<Rightarrow> bool" where
  "float_le_zero x = (case x of Finite q \<Rightarrow> q \<le> 0 | NegInf \<Rightarrow> True | _ \<Rightarrow> False)"

definition bridge_http_timeouts_valid :: "pyfloat \<Rightarrow> pyfloat \<Rightarrow> pyfloat option \<Rightarrow> bool" where
  "bridge_http_timeouts_valid connect_t write_t response_t =
     (if \<not> is_finite connect_t then False
      else if \<not> is_finite write_t then False
      else if float_le_zero connect_t \<or> float_le_zero write_t then False
      else (case response_t of
          None \<Rightarrow> True
        | Some r \<Rightarrow> is_finite r \<and> \<not> float_le_zero r))"


section \<open>Laws\<close>

lemma bridge_replay_policy_Safe:
  "bridge_replay_policy loads p = Inr Safe \<longleftrightarrow>
     (\<exists>m i. extract_jsonrpc_method loads p = Some m \<and> m \<in> set replayable_methods
        \<and> jsonrpc_request_id loads p = Some i)"
  by (auto simp: bridge_replay_policy_def extract_jsonrpc_method_def in_replayable_def
      split: option.splits json.splits bool.splits sum.splits)

lemma bridge_replay_policy_raises:
  "isl (bridge_replay_policy loads p) \<longleftrightarrow>
     (\<exists>d. decoded_object loads p = Some d
        \<and> (case dget d ''method'' of Some (JList _) \<Rightarrow> True | Some (JDict _) \<Rightarrow> True | _ \<Rightarrow> False))"
  by (auto simp: bridge_replay_policy_def in_replayable_def
      split: option.splits json.splits bool.splits)

lemma timeouts_valid_iff:
  "bridge_http_timeouts_valid c w r \<longleftrightarrow>
     finite_positive c \<and> finite_positive w \<and> (case r of None \<Rightarrow> True | Some x \<Rightarrow> finite_positive x)"
  by (auto simp: bridge_http_timeouts_valid_def finite_positive_def is_finite_def float_le_zero_def
      split: pyfloat.splits option.splits)

lemma notification_has_no_id: "jsonrpc_is_notification loads p \<Longrightarrow> jsonrpc_request_id loads p = None"
  by (auto simp: jsonrpc_is_notification_def jsonrpc_request_id_def has_key_dget
      split: option.splits json.splits)

text \<open>Only the gateway's own error envelope asks for a recovery: the result is never read.\<close>

lemma asks_recovery_error_only:
  assumes "decoded_object loads p = Some d" and "decoded_object loads q = Some d'"
    and "dget d ''error'' = dget d' ''error''"
  shows "asks_recovery loads p = asks_recovery loads q"
  using assms by (simp add: asks_recovery_def error_message_of_def)


section \<open>Properties\<close>

text \<open>A request is replayed after a recovery only when its method is one of the three safe ones
  and it has a usable identifier; so a tool call, a notification, a batch or a payload that is not
  JSON is never replayed. A method that is a list or an object makes the decision raise instead.\<close>

theorem replay_only_safe_requests:
  "(bridge_replay_policy loads p = Inr Safe) =
     (\<exists>m i. extract_jsonrpc_method loads p = Some m \<and> m \<in> {''initialize'', ''ping'', ''tools/list''}
        \<and> jsonrpc_request_id loads p = Some i)
   \<and> (jsonrpc_is_notification loads p \<longrightarrow> bridge_replay_policy loads p \<noteq> Inr Safe)
   \<and> isl (bridge_replay_policy loads p) =
     (\<exists>d. decoded_object loads p = Some d
        \<and> (case dget d ''method'' of Some (JList _) \<Rightarrow> True | Some (JDict _) \<Rightarrow> True | _ \<Rightarrow> False))"
  using bridge_replay_policy_Safe [of loads p] bridge_replay_policy_raises [of loads p]
    notification_has_no_id [of loads p]
  by (auto simp: replayable_methods_def)

lemma replay_only_safe_witness:
  "bridge_replay_policy (\<lambda>p. Some (JDict [(''method'', JStr p)])) ''ping'' \<noteq> Inr Safe"
proof -
  have "jsonrpc_is_notification (\<lambda>p. Some (JDict [(''method'', JStr p)])) ''ping''"
    by (simp add: jsonrpc_is_notification_def decoded_object_def has_key_def)
  then show ?thesis
    using replay_only_safe_requests [of "\<lambda>p. Some (JDict [(''method'', JStr p)])" "''ping''"] by blast
qed

text \<open>Whether a response asks for a recovery depends on the message of the gateway's own error
  envelope alone: text of a tool result, however it reads, never triggers one.\<close>

theorem recovery_ignores_tool_results:
  assumes "list_all2 (\<lambda>p q. map_option error_message_of (decoded_object loads p)
      = map_option error_message_of (decoded_object loads q)) ps qs"
  shows "response_requires_bridge_recovery loads ps = response_requires_bridge_recovery loads qs"
  using assms
proof (induction rule: list_all2_induct)
  case (Cons p ps q qs)
  have "Option.bind (decoded_object loads p) error_message_of
      = Option.bind (decoded_object loads q) error_message_of"
    using Cons.hyps(1)
    by (cases "decoded_object loads p"; cases "decoded_object loads q") auto
  then show ?case using Cons.IH by (simp add: response_requires_bridge_recovery_def asks_recovery_def)
qed simp

lemma recovery_ignores_tool_results_witness:
  "\<not> response_requires_bridge_recovery (\<lambda>p. Some p)
      [JDict [(''result'', JStr ''RECONNECT_REQUIRED: stale'')]]"
proof -
  have "response_requires_bridge_recovery (\<lambda>p. Some p) [JDict [(''result'', JStr ''RECONNECT_REQUIRED: stale'')]]
      = response_requires_bridge_recovery (\<lambda>p. Some p) [JDict []]"
    by (rule recovery_ignores_tool_results) (simp add: decoded_object_def error_message_of_def)
  then show ?thesis
    by (simp add: response_requires_bridge_recovery_def asks_recovery_def decoded_object_def error_message_of_def)
qed

end
