(* ===== verification/Gateway.thy ===== *)
theory Gateway
  imports Http_Routes Builtin_Tools Bridge_Protocol
begin

text \<open>
  \<^verbatim>\<open>shell/gateway.py\<close> (with \<^verbatim>\<open>shell/surface_instructions.py\<close> and \<^verbatim>\<open>core/surface_manifest.py\<close>): the
  instruction text, startup in its two phases, shutdown and status, and the protocol handlers that
  resolve the connection of a session before they list or call tools. The FastMCP server is a
  library object: what the gateway passes to its constructor is the record \<open>upstream_config\<close>, and
  \<^verbatim>\<open>request_ctx.get().session\<close> is an argument, \<open>None\<close> where the lookup raises. A handler that waits for
  the convergence event has not returned yet: its value is \<open>None\<close>.
\<close>


section \<open>Instruction text\<close>

definition newline :: string where
  "newline = [CHR 0x0A]"

definition tool_section :: "string \<Rightarrow> string \<Rightarrow> resolved_tool list \<Rightarrow> string" where
  "tool_section server text' tools =
     ''## '' @ server @ newline @ newline @ text'
     @ (if tools = [] then []
        else newline @ newline @ ''Available tools:'' @ newline
          @ join newline (map (\<lambda>n. ''- '' @ n) (sort (map rt_name tools))))"

definition server_text :: "(string, string) dict \<Rightarrow> string \<Rightarrow> server_config \<Rightarrow> string option" where
  "server_text downstream_instructions server sc =
     (case sc_instructions sc of
        Some (InstrBool False) \<Rightarrow> None
      | Some (InstrText t) \<Rightarrow> Some t
      | _ \<Rightarrow> dget downstream_instructions server)"

definition merge_downstream_instructions ::
    "(string, server_config) dict \<Rightarrow> (string, string) dict \<Rightarrow> tools_by_server \<Rightarrow> string option" where
  "merge_downstream_instructions servers downstream_instructions tools =
     (let parts = concat (map (\<lambda>(server, sc).
            case server_text downstream_instructions server sc of
              None \<Rightarrow> []
            | Some t \<Rightarrow> if t = [] then [] else
                [tool_section server t (case dget tools server of Some ts \<Rightarrow> ts | None \<Rightarrow> [])]) servers)
      in if parts = [] then None else Some (join (newline @ newline) parts))"

definition build_manifest_header ::
    "(string, server_config) dict \<Rightarrow> string set \<Rightarrow> tools_by_server \<Rightarrow> string" where
  "build_manifest_header servers connected_names tools =
     (let parts = map (\<lambda>s. s @ '' ('' @ show_nat (length (case dget tools s of Some ts \<Rightarrow> ts | None \<Rightarrow> []))
                          @ '' tools)'')
                    (filter (\<lambda>s. s \<in> connected_names) (sort (dkeys servers)))
      in if parts = [] then ''Connected at startup: (none)''
         else ''Connected at startup: '' @ join '', '' parts)"

definition surface_text :: string where
  "surface_text = join newline
    [''# tela gateway surface contract'', [],
     ''This document defines the authoritative instruction surface presented to'',
     ''upstream MCP clients connecting to the tela gateway.'', [],
     ''## Gateway capabilities'', [],
     ''- Built-in MCP tools: `tela_list_providers`, `tela_list_profiles`.'',
     ''- Operator-only surfaces (not MCP built-ins): `tela profiles`, `tela status`, `tela connections`, ''
       @ ''`tela audit`, `GET /status`, `GET /operator/audit`, `GET /health`, `POST /connect`, ''
       @ ''`POST /disconnect`, `POST /mcp`.'',
     ''- Gateway does not proxy or forward to operator surfaces.'', [],
     ''## Server instructions'', [],
     ''Instructions for individual servers are provided below, where available.'', [], []]"

definition get_gateway_surface_instructions :: "string option \<Rightarrow> string" where
  "get_gateway_surface_instructions manifest_header =
     (case manifest_header of None \<Rightarrow> surface_text | Some h \<Rightarrow> h @ newline @ newline @ surface_text)"

definition compose_gateway_and_downstream :: "string \<Rightarrow> string option \<Rightarrow> (string, string) result" where
  "compose_gateway_and_downstream gateway_text downstream_text =
     (if py_strip gateway_text = [] then Err ''INSTRUCTIONS_COMPOSE_ERROR: gateway instructions are empty''
      else (case downstream_text of
          None \<Rightarrow> Ok gateway_text | Some d \<Rightarrow> Ok (gateway_text @ newline @ newline @ d)))"

record upstream_config =
  us_instructions :: string
  us_endpoint :: "(string \<times> int) option"

definition create_upstream_server ::
    "startup_config \<Rightarrow> tela_config \<Rightarrow> string option \<Rightarrow> downstream \<Rightarrow> (upstream_config, string) result" where
  "create_upstream_server st cfg manifest ds =
     (case compose_gateway_and_downstream (get_gateway_surface_instructions manifest)
             (merge_downstream_instructions (tc_servers cfg) (ds_instructions ds) (get_all_tools (ds_registry ds))) of
        Err e \<Rightarrow> Err e
      | Ok text' \<Rightarrow> Ok \<lparr>us_instructions = text',
          us_endpoint = (if st_transport st \<in> {TSse, THttp} then map_option (Pair (st_host st)) (st_port st) else None)\<rparr>)"


section \<open>Configuration\<close>

definition override_with :: "rat option \<Rightarrow> rat \<Rightarrow> rat" where
  "override_with o' v = (case o' of None \<Rightarrow> v | Some x \<Rightarrow> x)"

definition apply_reaper_overrides ::
    "tela_config \<Rightarrow> rat option \<Rightarrow> rat option \<Rightarrow> rat option \<Rightarrow> tela_config" where
  "apply_reaper_overrides cfg sweep_interval native_ttl bridge_ttl =
     (if sweep_interval = None \<and> native_ttl = None \<and> bridge_ttl = None then cfg
      else cfg\<lparr>tc_reaper := \<lparr>
        rp_sweep_interval = override_with sweep_interval (rp_sweep_interval (tc_reaper cfg)),
        rp_native_idle_ttl = override_with native_ttl (rp_native_idle_ttl (tc_reaper cfg)),
        rp_bridge_idle_ttl = override_with bridge_ttl (rp_bridge_idle_ttl (tc_reaper cfg))\<rparr>\<rparr>)"

definition gateway_reload_config_from_disk ::
    "(tela_config, string) result \<Rightarrow> rat option \<Rightarrow> rat option \<Rightarrow> rat option
       \<Rightarrow> (string \<Rightarrow> server_config \<Rightarrow> py_exc + (connected_server, string) result) \<Rightarrow> gateway
       \<Rightarrow> (py_exc + (unit, string) result) \<times> gateway" where
  "gateway_reload_config_from_disk loaded sweep_interval native_ttl bridge_ttl start g =
     (case loaded of
        Err e \<Rightarrow> (Inr (Err e), g)
      | Ok cfg \<Rightarrow> on_config_changed start (apply_reaper_overrides cfg sweep_interval native_ttl bridge_ttl) g)"

text \<open>\<open>load\<close> stands for the file at the binding's path, read with its default profile.\<close>

definition bind_gateway_startup ::
    "gateway_transport \<Rightarrow> int option \<Rightarrow> string option \<Rightarrow> tela_config option \<Rightarrow> (tela_config, string) result
       \<Rightarrow> (startup_config, string) result" where
  "bind_gateway_startup transport port cli_default_profile config load =
     map_result (\<lambda>cfg. \<lparr>st_transport = transport, st_port = port, st_auth_mode = ac_mode (tc_auth cfg),
         st_default_profile = cli_default_profile, st_host = ''127.0.0.1''\<rparr>)
       (case config of Some cfg \<Rightarrow> Ok cfg | None \<Rightarrow> load)"

definition default_tela_config :: tela_config where
  "default_tela_config = \<lparr>tc_servers = [], tc_profiles = [], tc_auth = \<lparr>ac_mode = TokenMode, ac_secrets = []\<rparr>,
     tc_audit = \<lparr>auc_level = L2, auc_output = ''~/.tela/audit.jsonl''\<rparr>, tc_reaper = default_reaper_policy,
     tc_resolved_default_profile = None\<rparr>"


section \<open>Startup and shutdown\<close>

definition with_runtime :: "(runtime \<Rightarrow> runtime) \<Rightarrow> gateway \<Rightarrow> gateway" where
  "with_runtime f g = g\<lparr>gs_runtime := f (gs_runtime g)\<rparr>"

definition gateway_prepare_startup ::
    "rat \<Rightarrow> startup_config \<Rightarrow> tela_config option \<Rightarrow> string option \<Rightarrow> gateway
       \<Rightarrow> (unit, string) result \<times> gateway" where
  "gateway_prepare_startup clock startup tela_cfg bearer g =
     (let g1 = with_runtime (set_runtime_converge_event (Some False)) g;
          cfg = (case tela_cfg of Some c \<Rightarrow> c | None \<Rightarrow> default_tela_config);
          manifest = build_manifest_header (tc_servers cfg) (set (dkeys (ds_clients (gw_downstream g1))))
            (get_all_tools (gw_registry g1))
      in case create_upstream_server startup cfg (Some manifest) (gw_downstream g1) of
           Err e \<Rightarrow> (Err e, g1)
         | Ok _ \<Rightarrow>
             (let g2 = set_notify_callback True g1;
                  g3 = with_runtime (\<lambda>r. set_runtime_secrets (ac_secrets (tc_auth cfg))
                    ((set_upstream_server True (set_runtime_total_tool_calls 0 r))
                      \<lparr>gr_config := Some cfg, gr_startup := Some startup, gr_start_time := Some clock,
                       gr_running := True, gr_bearer_token := bearer\<rparr>)) g2
              in (Ok (), g3\<lparr>gw_downstream := mark_startup_begin (set (dkeys (tc_servers cfg))) (gw_downstream g3)\<rparr>)))"

record converge_env =
  cv_start :: "string \<Rightarrow> server_config \<Rightarrow> py_exc + (connected_server, string) result"
  cv_tool_lists :: "(string, raw_tool list) dict option"
  cv_audit_path :: string
  cv_mkdir_ok :: bool
  cv_send_ok :: "session \<Rightarrow> bool"

definition notify_connections :: "(session \<Rightarrow> bool) \<Rightarrow> connection_context list \<Rightarrow> gateway \<Rightarrow> gateway" where
  "notify_connections send_ok conns g = fold (\<lambda>c g. snd (notify_tools_changed send_ok c g)) conns g"

definition set_converged :: "gateway \<Rightarrow> gateway" where
  "set_converged = with_runtime (\<lambda>r. r\<lparr>gr_converge := map_option (\<lambda>_. True) (gr_converge r)\<rparr>)"

definition gateway_converge_startup ::
    "converge_env \<Rightarrow> gateway \<Rightarrow> (py_exc + (unit, string) result) \<times> gateway" where
  "gateway_converge_startup env g =
     (case gr_config (gs_runtime g) of
        None \<Rightarrow> (Inr (Err ''STARTUP_NOT_PREPARED: runtime config unavailable''), g)
      | Some cfg \<Rightarrow>
          (let (conn_res, ds) = connect_all (cv_start env) (tc_servers cfg) (cv_tool_lists env) (gw_downstream g);
               g1 = g\<lparr>gw_downstream := ds\<rparr>
           in case conn_res of
                Inl e \<Rightarrow> (Inl e, g1)
              | Inr (Err e) \<Rightarrow> (Inr (Err e), g1)
              | Inr (Ok _) \<Rightarrow>
                  (let (audit_res, store') = audit_init (cv_audit_path env) (cv_mkdir_ok env) (gw_audit g1);
                       g2 = g1\<lparr>gw_audit := store'\<rparr>
                   in case audit_res of
                        Err e \<Rightarrow> (Inr (Err e), g2)
                      | Ok _ \<Rightarrow>
                          (let g3 = with_runtime (set_runtime_reaper True) g2
                           in (Inr (Ok ()),
                               set_converged (notify_connections (cv_send_ok env) (gr_connections (gs_runtime g3)) g3))))))"

fun cleanup_all :: "string list \<Rightarrow> runtime \<Rightarrow> (unit, string) result \<times> runtime" where
  "cleanup_all [] r = (Ok (), r)"
| "cleanup_all (cid # cids) r =
     (let (res, r') = cleanup_connection_by_id cid r
      in case res of Err e \<Rightarrow> (Err e, r') | Ok _ \<Rightarrow> cleanup_all cids r')"

definition reset_runtime :: "runtime \<Rightarrow> runtime" where
  "reset_runtime r = set_runtime_secrets [] (clear_session_registry ((set_runtime_total_tool_calls 0
     (set_upstream_server False (r\<lparr>gr_config := None, gr_startup := None\<rparr>)))
       \<lparr>gr_running := False, gr_start_time := None, gr_connections := [], gr_pending := {}, gr_bearer_token := None\<rparr>))"

definition gateway_shutdown :: "gateway \<Rightarrow> (unit, string) result \<times> gateway" where
  "gateway_shutdown g =
     (let g1 = with_runtime (\<lambda>r. set_runtime_converge_event None (set_runtime_reaper False r)) g;
          g2 = set_notify_callback False (g1\<lparr>gw_downstream := disconnect_all (gw_downstream g1),
                 gw_audit := audit_close (gw_audit g1)\<rparr>);
          (res, r) = cleanup_all (connection_ids (gs_runtime g2)) (gs_runtime g2)
      in case res of
           Err e \<Rightarrow> (Err e, g2\<lparr>gs_runtime := r\<rparr>)
         | Ok _ \<Rightarrow> (Ok (), g2\<lparr>gs_runtime := reset_runtime r\<rparr>))"

definition gateway_start ::
    "rat \<Rightarrow> converge_env \<Rightarrow> startup_config \<Rightarrow> tela_config option \<Rightarrow> string option \<Rightarrow> gateway
       \<Rightarrow> (py_exc + (unit, string) result) \<times> gateway" where
  "gateway_start clock env startup tela_cfg bearer g =
     (case gateway_prepare_startup clock startup tela_cfg bearer g of
        (Err e, g1) \<Rightarrow> (Inr (Err e), g1)
      | (Ok _, g1) \<Rightarrow>
          (case gateway_converge_startup env g1 of
             (Inl e, g2) \<Rightarrow> (Inl e, g2)
           | (Inr (Err e), g2) \<Rightarrow> (Inr (Err e), snd (gateway_shutdown g2))
           | (Inr (Ok _), g2) \<Rightarrow> (Inr (Ok ()), g2)))"

record gateway_status_facts =
  gt_uptime :: rat
  gt_facts :: lifecycle_facts

definition gateway_status :: "rat \<Rightarrow> gateway \<Rightarrow> gateway_status_facts" where
  "gateway_status clock g =
     (let facts = get_lifecycle_status_facts g
      in \<lparr>gt_uptime = (case ss_start_time (lf_snapshot facts) of
             Some t \<Rightarrow> if t = 0 then 0 else clock - t | None \<Rightarrow> 0), gt_facts = facts\<rparr>)"

definition gateway_connections :: "gateway \<Rightarrow> connection_context list" where
  "gateway_connections g = gr_connections (gs_runtime g)"


section \<open>Resolving the connection of a session\<close>

definition reconnect_text :: string where
  "reconnect_text = ''RECONNECT_REQUIRED: no live session or connection available; ''
     @ ''client must re-establish the MCP connection''"

definition adoptable :: "runtime \<Rightarrow> connection_context \<Rightarrow> bool" where
  "adoptable r c \<longleftrightarrow> startswith (cc_connection_id c) ''bridge_''
     \<and> is_err (get_captured_session (cc_connection_id c) r)"

definition adopt_bridge ::
    "string \<Rightarrow> session \<Rightarrow> gateway \<Rightarrow> (py_exc + connection_context) \<times> gateway" where
  "adopt_bridge now_iso s g =
     (case find (adoptable (gs_runtime g)) (gr_connections (gs_runtime g)) of
        None \<Rightarrow> (Inl (RuntimeError reconnect_text), g)
      | Some c \<Rightarrow> (Inr c, touch (cc_connection_id c) now_iso
          (with_runtime (\<lambda>r. snd (capture_session (cc_connection_id c) s r)) g)))"

definition ensure_connection ::
    "string \<Rightarrow> session option \<Rightarrow> gateway \<Rightarrow> (py_exc + connection_context) \<times> gateway" where
  "ensure_connection now_iso request_session g =
     (case request_session of
        None \<Rightarrow> (Inl (RuntimeError reconnect_text), g)
      | Some s \<Rightarrow>
          (case find_connection_for_session s (gr_connections (gs_runtime g)) (gs_runtime g) of
             Ok c \<Rightarrow> (Inr c, touch (cc_connection_id c) now_iso g)
           | Err _ \<Rightarrow> adopt_bridge now_iso s g))"

definition ensure_bound_connection ::
    "string \<Rightarrow> session option \<Rightarrow> gateway \<Rightarrow> (py_exc + connection_context) \<times> gateway" where
  "ensure_bound_connection now_iso request_session g =
     (case request_session of
        None \<Rightarrow> (Inl (RuntimeError (''RECONNECT_REQUIRED: no live session or admitted connection ''
                    @ ''available for builtin tool call'')), g)
      | Some s \<Rightarrow>
          (case find_connection_for_session s (gr_connections (gs_runtime g)) (gs_runtime g) of
             Ok c \<Rightarrow> (Inr c, touch (cc_connection_id c) now_iso g)
           | Err _ \<Rightarrow> (Inl (RuntimeError (''RECONNECT_REQUIRED: no admitted connection bound to the ''
                    @ ''current session for builtin tool call'')), g)))"

definition capture_request_session :: "session option \<Rightarrow> string \<Rightarrow> gateway \<Rightarrow> gateway" where
  "capture_request_session request_session cid g =
     (case request_session of None \<Rightarrow> g | Some s \<Rightarrow> with_runtime (\<lambda>r. snd (capture_session cid s r)) g)"

text \<open>The event exists and has not been set: whoever waits for it stays.\<close>

definition converging :: "gateway \<Rightarrow> bool" where
  "converging g \<longleftrightarrow> gr_converge (gs_runtime g) = Some False"

definition list_tools_converged ::
    "string \<Rightarrow> session option \<Rightarrow> connection_context \<Rightarrow> gateway \<Rightarrow> (py_exc + jobject list) \<times> gateway" where
  "list_tools_converged now_iso request_session conn g =
     (let (res, g1) = handle_tools_list now_iso conn (capture_request_session request_session (cc_connection_id conn) g)
      in (case res of
            Inl e \<Rightarrow> Inl e
          | Inr (Err e) \<Rightarrow> Inl (RuntimeError (or_text e ''TOOLS_LIST_REJECTED''))
          | Inr (Ok tools) \<Rightarrow>
              (case register_builtin_tools of
                 Err e \<Rightarrow> Inl (RuntimeError (or_text e ''builtin registration failed''))
               | Ok own \<Rightarrow> Inr (sort_key tool_name_of (tools @ own))), g1))"

definition list_tools ::
    "string \<Rightarrow> session option \<Rightarrow> gateway \<Rightarrow> (py_exc + jobject list) option \<times> gateway" where
  "list_tools now_iso request_session g =
     (case ensure_connection now_iso request_session g of
        (Inl e, g1) \<Rightarrow> (Some (Inl e), g1)
      | (Inr conn, g1) \<Rightarrow>
          if converging g1 then (None, g1)
          else (let (res, g2) = list_tools_converged now_iso request_session conn g1 in (Some res, g2)))"


section \<open>Built-in tools\<close>

text \<open>\<^verbatim>\<open>message.split(": ", 1)\<close>\<close>

fun split_colon :: "string \<Rightarrow> (string \<times> string) option" where
  "split_colon [] = None"
| "split_colon (c # cs) =
     (if startswith (c # cs) '': '' then Some ([], drop 2 (c # cs))
      else map_option (\<lambda>(a, b). (c # a, b)) (split_colon cs))"

definition error_code_text :: "string \<Rightarrow> bool" where
  "error_code_text t \<longleftrightarrow> t \<noteq> [] \<and> (list_all (\<lambda>c. is_lower c \<or> c = CHR ''_'') t \<or> list_all (\<lambda>c. is_upper c \<or> c = CHR ''_'') t)"

definition builtin_tool_error_details :: "py_exc \<Rightarrow> string \<times> string" where
  "builtin_tool_error_details exc =
     (case split_colon (exc_text exc) of
        Some (maybe_code, detail) \<Rightarrow>
          if error_code_text maybe_code then (maybe_code, detail) else (''BUILTIN_TOOL_ERROR'', exc_text exc)
      | None \<Rightarrow> (''BUILTIN_TOOL_ERROR'', exc_text exc))"

definition validate_builtin_arguments :: "string \<Rightarrow> json \<Rightarrow> (jobject, string) result" where
  "validate_builtin_arguments tool_name arguments =
     (case arguments of
        JDict d \<Rightarrow>
          if d \<noteq> [] then Err (''extra_key: rejected_keys='' @ join '','' (sort (dkeys d))) else Ok d
      | _ \<Rightarrow> Err (''wrong_type: '' @ tool_name @ '' requires an empty object argument payload''))"

text \<open>The resource a built-in tool returns: its address and the value whose JSON text it carries.\<close>

definition build_builtin_json_result :: "string \<Rightarrow> jobject list \<Rightarrow> string \<times> json" where
  "build_builtin_json_result tool_name payload = (''tela://builtin/'' @ tool_name, JList (map JDict payload))"

definition builtin_payload :: "string \<Rightarrow> connection_context \<Rightarrow> gateway \<Rightarrow> py_exc + jobject list" where
  "builtin_payload tool_name conn g =
     (if tool_name = ''tela_list_profiles'' then handle_profiles_list g
      else if tool_name = ''tela_list_providers'' then map_right (map provider_json) (handle_list_providers (Some conn) g)
      else Inl (RuntimeError (''TOOL_NOT_FOUND: builtin tool '' @ squote tool_name @ '' not found'')))"

definition audit_builtin ::
    "request_env \<Rightarrow> connection_context \<Rightarrow> string \<Rightarrow> enforcement_result \<Rightarrow> jobject option \<Rightarrow> gateway \<Rightarrow> gateway" where
  "audit_builtin rq conn tool_name r arguments g =
     g\<lparr>gw_audit := snd (audit_write (rq_disk_ok rq)
        (build_audit_entry L2 conn tool_name ''tela'' r (Some (rq_latency rq)) arguments None None None (rq_now rq))
        (gw_audit g))\<rparr>"

definition handle_builtin_call ::
    "request_env \<Rightarrow> string \<Rightarrow> json \<Rightarrow> connection_context \<Rightarrow> gateway \<Rightarrow> (py_exc + string \<times> json) \<times> gateway" where
  "handle_builtin_call rq tool_name arguments conn g =
     (let outcome = (case validate_builtin_arguments tool_name arguments of
            Err e \<Rightarrow> Inl (RuntimeError e)
          | Ok _ \<Rightarrow> builtin_payload tool_name conn g)
      in case outcome of
           Inr payload \<Rightarrow>
             (Inr (build_builtin_json_result tool_name payload), audit_builtin rq conn tool_name allow_result None g)
         | Inl exc \<Rightarrow>
             (let (code', msg) = builtin_tool_error_details exc in
              (Inl exc, audit_builtin rq conn tool_name (deny_result ''builtin_tool_error'' code' msg)
                 (case arguments of JDict d \<Rightarrow> if d = [] then None else Some d | _ \<Rightarrow> None) g)))"


section \<open>Calling a tool\<close>

datatype tool_reply = BuiltinReply string json | DownstreamReply jobject

definition call_downstream ::
    "request_env \<Rightarrow> string \<Rightarrow> json \<Rightarrow> connection_context \<Rightarrow> gateway \<Rightarrow> (py_exc + tool_reply) \<times> gateway" where
  "call_downstream rq tool_name arguments conn g =
     (case arguments of
        JDict d \<Rightarrow>
          (let (res, g1) = handle_tools_call rq (Some conn) tool_name d g
           in (case res of
                 Inl e \<Rightarrow> Inl e
               | Inr (Err err) \<Rightarrow> Inl (RuntimeError (te_code err @ '': '' @ te_message err))
               | Inr (Ok payload) \<Rightarrow> Inr (DownstreamReply payload), g1))
      | _ \<Rightarrow> (Inl (RuntimeError (''INVALID_TOOL_INPUT: '' @ tool_name @ '' requires an object argument payload'')), g))"

definition call_tool_of_session ::
    "request_env \<Rightarrow> session option \<Rightarrow> string \<Rightarrow> json \<Rightarrow> gateway \<Rightarrow> (py_exc + tool_reply) option \<times> gateway" where
  "call_tool_of_session rq request_session tool_name arguments g =
     (let owned = tool_name \<in> set builtin_tool_names in
      case (if owned then ensure_bound_connection (rq_now rq) request_session g
            else ensure_connection (rq_now rq) request_session g) of
        (Inl e, g1) \<Rightarrow> (Some (Inl e), g1)
      | (Inr conn, g1) \<Rightarrow>
          (let g2 = capture_request_session request_session (cc_connection_id conn) g1 in
           if owned then
             (let (res, g3) = handle_builtin_call rq tool_name arguments conn g2
              in (Some (map_right (\<lambda>(uri, v). BuiltinReply uri v) res), g3))
           else if converging g2 then (None, g2)
           else (let (res, g3) = call_downstream rq tool_name arguments conn g2 in (Some res, g3))))"

text \<open>The request handler: an exception becomes an error result, unless it asks the bridge to recover.\<close>

datatype request_outcome = Replied tool_reply | ErrorResult string | Reraised py_exc

definition gateway_error_payload :: "string \<Rightarrow> json" where
  "gateway_error_payload msg = JDict [(''error'', JDict [(''message'', JStr msg)])]"

definition call_tool_request ::
    "request_env \<Rightarrow> session option \<Rightarrow> string \<Rightarrow> json \<Rightarrow> gateway \<Rightarrow> request_outcome option \<times> gateway" where
  "call_tool_request rq request_session tool_name arguments g =
     (let (res, g1) = call_tool_of_session rq request_session tool_name arguments g
      in (case res of
            None \<Rightarrow> None
          | Some (Inr reply) \<Rightarrow> Some (Replied reply)
          | Some (Inl e) \<Rightarrow>
              if tool_name \<notin> set builtin_tool_names
                 \<and> response_requires_bridge_recovery (\<lambda>p. Some p) [gateway_error_payload (exc_text e)]
                 \<and> request_session \<noteq> None
              then Some (Reraised e) else Some (ErrorResult (exc_text e)), g1))"


section \<open>Startup\<close>

lemma with_runtime_fields [simp]:
  "gs_runtime (with_runtime f g) = f (gs_runtime g)" "gs_idle (with_runtime f g) = gs_idle g"
  "gw_downstream (with_runtime f g) = gw_downstream g" "gw_audit (with_runtime f g) = gw_audit g"
  "gw_calls (with_runtime f g) = gw_calls g" "gw_callback (with_runtime f g) = gw_callback g"
  by (simp_all add: with_runtime_def)

lemma notify_keeps:
  "gw_downstream (snd (notify_tools_changed ok c g)) = gw_downstream g"
  "gs_idle (snd (notify_tools_changed ok c g)) = gs_idle g"
  "gr_config (gs_runtime (snd (notify_tools_changed ok c g))) = gr_config (gs_runtime g)"
  "gr_running (gs_runtime (snd (notify_tools_changed ok c g))) = gr_running (gs_runtime g)"
  "gr_converge (gs_runtime (snd (notify_tools_changed ok c g))) = gr_converge (gs_runtime g)"
  "gr_reaper (gs_runtime (snd (notify_tools_changed ok c g))) = gr_reaper (gs_runtime g)"
  "gr_connections (gs_runtime (snd (notify_tools_changed ok c g))) = gr_connections (gs_runtime g)"
  by (simp_all add: notify_tools_changed_def release_session_def split: result.split)

lemma notify_connections_keeps:
  "gw_downstream (notify_connections ok cs g) = gw_downstream g"
  "gs_idle (notify_connections ok cs g) = gs_idle g"
  "gr_config (gs_runtime (notify_connections ok cs g)) = gr_config (gs_runtime g)"
  "gr_running (gs_runtime (notify_connections ok cs g)) = gr_running (gs_runtime g)"
  "gr_converge (gs_runtime (notify_connections ok cs g)) = gr_converge (gs_runtime g)"
  "gr_reaper (gs_runtime (notify_connections ok cs g)) = gr_reaper (gs_runtime g)"
  "gr_connections (gs_runtime (notify_connections ok cs g)) = gr_connections (gs_runtime g)"
  by (induction cs arbitrary: g) (simp_all add: notify_connections_def notify_keeps)

lemma lstrip_keeps: "x \<in> set xs \<Longrightarrow> \<not> is_space x \<Longrightarrow> x \<in> set (lstrip xs)"
  by (induction xs) (auto simp: lstrip_def)

lemma py_strip_nonempty: "x \<in> set xs \<Longrightarrow> \<not> is_space x \<Longrightarrow> py_strip xs \<noteq> []"
  unfolding py_strip_def by (metis lstrip_keeps set_rev empty_iff empty_set)

lemma compose_succeeds:
  "compose_gateway_and_downstream (get_gateway_surface_instructions m) d =
     Ok (get_gateway_surface_instructions m @ (case d of None \<Rightarrow> [] | Some t \<Rightarrow> newline @ newline @ t))"
proof -
  have "CHR ''#'' \<in> set surface_text" by (simp add: surface_text_def newline_def)
  then have "CHR ''#'' \<in> set (get_gateway_surface_instructions m)"
    by (simp add: get_gateway_surface_instructions_def split: option.split)
  then have "py_strip (get_gateway_surface_instructions m) \<noteq> []"
    by (rule py_strip_nonempty) (simp add: is_space_def)
  then show ?thesis by (simp add: compose_gateway_and_downstream_def split: option.split)
qed

definition effective_config :: "tela_config option \<Rightarrow> tela_config" where
  "effective_config c = (case c of Some cfg \<Rightarrow> cfg | None \<Rightarrow> default_tela_config)"

lemma prepare_effect:
  assumes "gateway_prepare_startup clock startup tela_cfg bearer g = (res, g')"
  shows "res = Ok ()" and "gr_config (gs_runtime g') = Some (effective_config tela_cfg)"
    and "gr_running (gs_runtime g')" and "gr_converge (gs_runtime g') = Some False"
    and "gr_connections (gs_runtime g') = gr_connections (gs_runtime g)"
    and "gr_sessions (gs_runtime g') = gr_sessions (gs_runtime g)"
  using assms
  by (auto simp: gateway_prepare_startup_def create_upstream_server_def compose_succeeds Let_def effective_config_def
      set_notify_callback_def set_runtime_secrets_def set_upstream_server_def set_runtime_total_tool_calls_def
      set_runtime_converge_event_def)

lemma converge_startup_cases:
  assumes "gateway_converge_startup env g = (out, g')" and "gr_config (gs_runtime g) = Some cfg"
  obtains e where "out = Inl e" and "gs_runtime g' = gs_runtime g"
      and "connect_all (cv_start env) (tc_servers cfg) (cv_tool_lists env) (gw_downstream g) = (Inl e, gw_downstream g')"
  | e where "out = Inr (Err e)" and "gs_runtime g' = gs_runtime g"
  | "out = Inr (Ok ())" and "gr_config (gs_runtime g') = Some cfg"
      and "gr_running (gs_runtime g') = gr_running (gs_runtime g)"
      and "gr_converge (gs_runtime g') = map_option (\<lambda>_. True) (gr_converge (gs_runtime g))"
      and "gr_reaper (gs_runtime g')" and "gr_connections (gs_runtime g') = gr_connections (gs_runtime g)"
      and "connect_all (cv_start env) (tc_servers cfg) (cv_tool_lists env) (gw_downstream g)
           = (Inr (Ok ()), gw_downstream g')"
  using assms
  by (auto simp: gateway_converge_startup_def Let_def set_converged_def notify_connections_keeps set_runtime_reaper_def
      split: prod.splits sum.splits result.splits)

lemma cleanup_all_ok:
  "[] \<notin> set cids \<Longrightarrow> fst (cleanup_all cids r) = Ok ()"
proof (induction cids arbitrary: r)
  case (Cons c cs)
  then have "is_ok (fst (cleanup_connection_by_id c r))" by (auto simp: cleanup_ok)
  then show ?case
    using Cons by (cases "cleanup_connection_by_id c r") (auto simp: is_ok_def)
qed simp

lemma shutdown_effect:
  assumes "[] \<notin> set (connection_ids (gs_runtime g))"
  shows "fst (gateway_shutdown g) = Ok ()"
    and "gs_runtime (snd (gateway_shutdown g)) = initial_runtime"
    and "gw_downstream (snd (gateway_shutdown g)) = disconnect_all (gw_downstream g)"
    and "as_path (gw_audit (snd (gateway_shutdown g))) = None"
    and "gs_idle (snd (gateway_shutdown g)) = gs_idle g" and "\<not> gw_callback (snd (gateway_shutdown g))"
proof -
  let ?r = "set_runtime_converge_event None (set_runtime_reaper False (gs_runtime g))"
  have ids: "connection_ids ?r = connection_ids (gs_runtime g)"
    by (simp add: connection_ids_def set_runtime_converge_event_def set_runtime_reaper_def)
  have keep: "gr_reaper (snd (cleanup_all cs r)) = gr_reaper r \<and> gr_converge (snd (cleanup_all cs r)) = gr_converge r"
    for cs r
  proof (induction cs arbitrary: r)
    case (Cons c cs)
    obtain res r' where st: "cleanup_connection_by_id c r = (res, r')" by fastforce
    have "gr_reaper (snd (cleanup_connection_by_id c r)) = gr_reaper r
        \<and> gr_converge (snd (cleanup_connection_by_id c r)) = gr_converge r"
      by (simp add: cleanup_connection_by_id_def remove_runtime_connection_def remove_bridge_registration_def
          release_session_def Let_def)
    then show ?case using Cons.IH [of r'] by (cases res) (simp_all add: st)
  qed simp
  obtain r where r: "cleanup_all (connection_ids (gs_runtime g)) ?r = (Ok (), r)"
    using cleanup_all_ok [OF assms, of ?r] by (cases "cleanup_all (connection_ids (gs_runtime g)) ?r") auto
  have "gr_reaper r = False" "gr_converge r = None"
    using keep [of "connection_ids (gs_runtime g)" ?r, unfolded r snd_conv]
    by (simp_all add: set_runtime_converge_event_def set_runtime_reaper_def)
  then have "reset_runtime r = initial_runtime"
    by (simp add: reset_runtime_def initial_runtime_def set_runtime_secrets_def clear_session_registry_def
        set_runtime_total_tool_calls_def set_upstream_server_def)
  then show "fst (gateway_shutdown g) = Ok ()"
    and "gs_runtime (snd (gateway_shutdown g)) = initial_runtime"
    and "gw_downstream (snd (gateway_shutdown g)) = disconnect_all (gw_downstream g)"
    and "as_path (gw_audit (snd (gateway_shutdown g))) = None"
    and "gs_idle (snd (gateway_shutdown g)) = gs_idle g" and "\<not> gw_callback (snd (gateway_shutdown g))"
    by (simp_all add: gateway_shutdown_def Let_def set_notify_callback_def ids r audit_close_def)
qed


section \<open>Calls while converging\<close>

lemma capture_request_fields [simp]:
  "gw_calls (capture_request_session s cid g) = gw_calls g" "gw_audit (capture_request_session s cid g) = gw_audit g"
  "gr_converge (gs_runtime (capture_request_session s cid g)) = gr_converge (gs_runtime g)"
  "gw_downstream (capture_request_session s cid g) = gw_downstream g"
  by (auto simp: capture_request_session_def capture_session_def split: option.split)

lemma touch_converge [simp]: "gr_converge (gs_runtime (touch cid now g)) = gr_converge (gs_runtime g)"
  by (simp add: touch_def touch_connection_activity_def split_beta)

lemma ensure_connection_fields:
  "gw_calls (snd (ensure_connection now s g)) = gw_calls g"
  "gw_audit (snd (ensure_connection now s g)) = gw_audit g"
  "gr_converge (gs_runtime (snd (ensure_connection now s g))) = gr_converge (gs_runtime g)"
  by (auto simp: ensure_connection_def adopt_bridge_def capture_session_def split: option.split result.split)


section \<open>Properties\<close>

text \<open>C13: A start that succeeds leaves the gateway running, converged and with its reaper. One that fails
  with an error leaves no trace: configuration, connections, sessions, token and clients are gone.
  One that is left by an exception is not undone: the gateway stays up, reports \<^verbatim>\<open>warming\<close>, and the
  convergence its clients wait for is never signalled.\<close>

theorem gateway_start_outcomes:
  assumes "gateway_start clock env startup tela_cfg bearer g = (out, g')"
    and "[] \<notin> set (connection_ids (gs_runtime g))"
  shows "case out of
      Inr (Ok _) \<Rightarrow> runtime_started (gs_runtime g') \<and> gr_converge (gs_runtime g') = Some True \<and> gr_reaper (gs_runtime g')
    | Inr (Err _) \<Rightarrow> gs_runtime g' = initial_runtime \<and> gw_registry g' = empty_registry
        \<and> ds_clients (gw_downstream g') = [] \<and> \<not> gw_callback g'
    | Inl _ \<Rightarrow> runtime_started (gs_runtime g') \<and> converging g'
        \<and> (tc_servers (effective_config tela_cfg) \<noteq> [] \<longrightarrow> lf_state (get_lifecycle_status_facts g') = ''warming'')"
proof -
  obtain r1 g1 where prep: "gateway_prepare_startup clock startup tela_cfg bearer g = (r1, g1)" by fastforce
  note p = prepare_effect [OF prep]
  obtain r2 g2 where conv: "gateway_converge_startup env g1 = (r2, g2)" by fastforce
  have out: "(out, g') = (case r2 of Inl e \<Rightarrow> (Inl e, g2)
      | Inr (Err e) \<Rightarrow> (Inr (Err e), snd (gateway_shutdown g2)) | Inr (Ok _) \<Rightarrow> (Inr (Ok ()), g2))"
    using assms(1) by (simp add: gateway_start_def prep p(1) conv split: sum.splits result.splits)
  have ids: "[] \<notin> set (connection_ids (gs_runtime g1))" using assms(2) p(5) by (simp add: connection_ids_def)
  from conv p(2) show ?thesis
  proof (cases rule: converge_startup_cases)
    case (1 e)
    have cfg: "gr_config (gs_runtime g2) = Some (effective_config tela_cfg)" using 1(2) p(2) by simp
    then have "tc_servers (effective_config tela_cfg) \<noteq> [] \<Longrightarrow> lf_state (get_lifecycle_status_facts g2) = ''warming''"
      using lifecycle_after_exception [OF cfg _ 1(3)] by simp
    then show ?thesis using out 1 p by (simp add: runtime_started_def converging_def)
  next
    case (2 e)
    then have "[] \<notin> set (connection_ids (gs_runtime g2))" using ids by simp
    then show ?thesis using out 2 shutdown_effect [of g2] by (simp add: disconnect_all_def close_all_clients_def close_handles_def)
  next
    case 3
    then show ?thesis using out p by (simp add: runtime_started_def)
  qed
qed

definition sample_startup :: startup_config where
  "sample_startup = \<lparr>st_transport = THttp, st_port = Some 8080, st_auth_mode = OpenMode, st_default_profile = None,
     st_host = ''127.0.0.1''\<rparr>"

definition sample_converge :: "raw_tool list \<Rightarrow> converge_env" where
  "sample_converge tools = \<lparr>cv_start = one_starts tools, cv_tool_lists = None, cv_audit_path = ''/tmp/audit.jsonl'',
     cv_mkdir_ok = True, cv_send_ok = (\<lambda>_. True)\<rparr>"

text \<open>A server that lists a tool in the reserved namespace stops the startup with an exception.\<close>

lemma gateway_start_witness:
  "converging (snd (gateway_start 1 (sample_converge [listed ''tela_x'' ''d'']) sample_startup
     (Some (config_with two_servers)) None initial_gateway))"
proof -
  let ?run = "gateway_start 1 (sample_converge [listed ''tela_x'' ''d'']) sample_startup
     (Some (config_with two_servers)) None initial_gateway"
  have "isl (fst ?run)" by code_simp
  moreover have "[] \<notin> set (connection_ids (gs_runtime initial_gateway))"
    by (simp add: initial_gateway_def initial_runtime_def connection_ids_def)
  ultimately show ?thesis
    using gateway_start_outcomes [OF surjective_pairing, where clock = 1 and startup = sample_startup
        and env = "sample_converge [listed ''tela_x'' ''d'']" and tela_cfg = "Some (config_with two_servers)"
        and bearer = None and g = initial_gateway]
    by (auto simp: isl_def)
qed

text \<open>While startup converges, a call of a downstream tool is neither forwarded nor audited nor answered:
  it fails for want of a connection, or waits.\<close>

theorem no_call_before_convergence:
  assumes "converging g" and "tool_name \<notin> set builtin_tool_names"
  shows "gw_calls (snd (call_tool_of_session rq s tool_name arguments g)) = gw_calls g
    \<and> gw_audit (snd (call_tool_of_session rq s tool_name arguments g)) = gw_audit g
    \<and> (fst (call_tool_of_session rq s tool_name arguments g) = None
       \<or> (\<exists>e. fst (call_tool_of_session rq s tool_name arguments g) = Some (Inl e)))"
proof -
  obtain res g1 where e: "ensure_connection (rq_now rq) s g = (res, g1)" by fastforce
  have "gw_calls g1 = gw_calls g" "gw_audit g1 = gw_audit g" "converging g1"
    using ensure_connection_fields [of "rq_now rq" s g] assms(1) by (simp_all add: e converging_def)
  moreover from this have "converging (capture_request_session s cid g1)" for cid by (simp add: converging_def)
  ultimately show ?thesis
    using assms(2) by (cases res) (simp_all add: call_tool_of_session_def e)
qed

lemma no_call_before_convergence_witness:
  "fst (call_tool_of_session sample_request (Some 3) ''fs_read'' (JDict [])
     (with_runtime (\<lambda>r. r\<lparr>gr_converge := Some False, gr_connections := [sample_connection],
        gr_sessions := [(''conn_1'', 3)]\<rparr>) sample_gateway)) = None"
proof -
  let ?g = "with_runtime (\<lambda>r. r\<lparr>gr_converge := Some False, gr_connections := [sample_connection],
        gr_sessions := [(''conn_1'', 3)]\<rparr>) sample_gateway"
  have c: "converging ?g" by (simp add: converging_def)
  have n: "''fs_read'' \<notin> set builtin_tool_names" by (simp add: builtin_tool_names_def)
  have "fst (call_tool_of_session sample_request (Some 3) ''fs_read'' (JDict []) ?g) \<noteq> Some (Inl e)" for e
    using c n
    by (simp add: call_tool_of_session_def ensure_connection_def find_connection_for_session_def
        get_connection_id_for_session_def sample_connection_def converging_def Let_def)
  then show ?thesis using no_call_before_convergence [OF c n, of sample_request "Some 3" "JDict []"] by blast
qed

text \<open>A call of a built-in tool, whatever its arguments, writes exactly one audit entry, of the caller, at
  the second level, allowed exactly if the call returned; it reaches no downstream server and
  changes nothing else.\<close>

theorem builtin_call_audited:
  "\<exists>e. snd (handle_builtin_call rq tool_name arguments conn g)
        = g\<lparr>gw_audit := snd (audit_write (rq_disk_ok rq) e (gw_audit g))\<rparr>
     \<and> ae_tool_name e = tool_name \<and> ae_server_name e = ''tela'' \<and> ae_level e = L2
     \<and> ae_connection_id e = cc_connection_id conn \<and> ae_profile_id e = cc_profile_id conn
     \<and> (ae_verdict e = ALLOW) = (\<not> isl (fst (handle_builtin_call rq tool_name arguments conn g)))"
proof -
  have entry: "\<exists>e. audit_builtin rq conn tool_name r args g = g\<lparr>gw_audit := snd (audit_write (rq_disk_ok rq) e (gw_audit g))\<rparr>
     \<and> ae_tool_name e = tool_name \<and> ae_server_name e = ''tela'' \<and> ae_level e = L2
     \<and> ae_connection_id e = cc_connection_id conn \<and> ae_profile_id e = cc_profile_id conn
     \<and> ae_verdict e = er_verdict r" for r args
    unfolding audit_builtin_def
    by (rule exI [of _ "build_audit_entry L2 conn tool_name ''tela'' r (Some (rq_latency rq)) args None None None (rq_now rq)"])
      (simp add: build_audit_entry_def)
  define outcome where "outcome = (case validate_builtin_arguments tool_name arguments of
            Err e \<Rightarrow> Inl (RuntimeError e) | Ok _ \<Rightarrow> builtin_payload tool_name conn g)"
  show ?thesis
  proof (cases outcome)
    case (Inl exc)
    obtain c m where "builtin_tool_error_details exc = (c, m)" by fastforce
    then have "handle_builtin_call rq tool_name arguments conn g = (Inl exc, audit_builtin rq conn tool_name
        (deny_result ''builtin_tool_error'' c m) (case arguments of JDict d \<Rightarrow> if d = [] then None else Some d | _ \<Rightarrow> None) g)"
      unfolding handle_builtin_call_def outcome_def [symmetric] by (simp add: Inl)
    moreover have "er_verdict (deny_result ''builtin_tool_error'' c m) = DENY" by (simp add: deny_result_def)
    moreover note entry [of "deny_result ''builtin_tool_error'' c m"
        "case arguments of JDict d \<Rightarrow> if d = [] then None else Some d | _ \<Rightarrow> None"]
    ultimately show ?thesis by (elim exE conjE) (rule_tac x = e in exI, simp)
  next
    case (Inr payload)
    have "handle_builtin_call rq tool_name arguments conn g = (Inr (build_builtin_json_result tool_name payload),
        audit_builtin rq conn tool_name allow_result None g)"
      unfolding handle_builtin_call_def outcome_def [symmetric] by (simp add: Inr)
    then show ?thesis using entry [of allow_result None] by (simp add: allow_result_def)
  qed
qed

end
