(* ===== verification/Sessions.thy ===== *)
theory Sessions
  imports Gateway
begin

text \<open>
  The connections of a running gateway, over all the components that touch them: the session hook,
  the connect and disconnect routes, the reaper, the protocol handlers and the notifications. A step
  of the gateway (\<open>gateway_step\<close>) is one of these operations; between two steps any other may run.
  The specification is a table of connection identifiers, bound sessions and the number of counted
  connections (\<open>table_step\<close>); every gateway step is simulated by table steps, and the invariant of
  the table carries over to the reachable gateway states.
\<close>


section \<open>The session table\<close>

type_synonym session_table = "string list \<times> (string, session) dict \<times> nat option"

text \<open>A session is unbound from a live connection only when a notification to it was lost.\<close>

inductive table_step :: "bool \<Rightarrow> session_table \<Rightarrow> session_table \<Rightarrow> bool" for lossy where
  Admit: "c \<notin> set ids \<Longrightarrow> c \<noteq> [] \<Longrightarrow> table_step lossy (ids, b, n) (ids @ [c], dset c s b, map_option Suc n)"
| Drop: "c \<in> set ids \<Longrightarrow>
     table_step lossy (ids, b, n) (filter (\<lambda>d. d \<noteq> c) ids, dpop c b, map_option (\<lambda>k. k - 1) n)"
| Forget: "table_step lossy (ids, b, n) (filter (\<lambda>d. d \<noteq> c) ids, dpop c b, n)"
| Bind: "c \<in> set ids \<Longrightarrow> dget b c = None \<Longrightarrow> table_step lossy (ids, b, n) (ids, dset c s b, n)"
| Unbind: "lossy \<Longrightarrow> table_step lossy (ids, b, n) (ids, dpop c b, n)"

inductive_cases table_stepE: "table_step lossy (ids, b, n) t"

text \<open>Identifiers are distinct and not empty, only live connections have sessions, and each is counted.\<close>

definition coherent :: "session_table \<Rightarrow> bool" where
  "coherent t \<longleftrightarrow> (case t of (ids, b, n) \<Rightarrow> distinct ids \<and> [] \<notin> set ids \<and> wf_dict b
     \<and> set (dkeys b) \<subseteq> set ids \<and> (case n of None \<Rightarrow> True | Some k \<Rightarrow> length ids \<le> k))"

lemma length_remove_distinct: "distinct xs \<Longrightarrow> x \<in> set xs \<Longrightarrow> length (filter (\<lambda>y. y \<noteq> x) xs) = length xs - 1"
proof -
  assume d: "distinct xs" and x: "x \<in> set xs"
  have "length (filter (\<lambda>y. y \<noteq> x) xs) = card (set xs - {x})"
    using d by (subst distinct_card [symmetric]) (auto intro: arg_cong [where f = card])
  then show ?thesis using d x by (simp add: distinct_card card_Diff_singleton)
qed

lemma keys_dset: "set (dkeys (dset k v d)) = insert k (set (dkeys d))"
  using has_key_dset [of k v d] by (auto simp: has_key_def)

lemma keys_dpop: "set (dkeys (dpop k d)) = set (dkeys d) - {k}"
  using has_key_dpop [of k d] by (auto simp: has_key_def)

lemma coherent_step: "table_step lossy t t' \<Longrightarrow> coherent t \<Longrightarrow> coherent t'"
proof (induction rule: table_step.induct)
  case (Admit c ids b n s)
  then show ?case by (auto simp: coherent_def keys_dset simp del: set_map split: option.splits)
next
  case (Drop c ids b n)
  then show ?case
    using length_remove_distinct [of ids c]
    by (auto simp: coherent_def keys_dpop simp del: set_map split: option.splits)
next
  case (Forget ids b n c)
  have "length (filter (\<lambda>d. d \<noteq> c) ids) \<le> length ids" by simp
  with Forget show ?case
    by (auto simp: coherent_def keys_dpop simp del: set_map length_filter_le split: option.splits intro: order_trans)
next
  case (Bind c ids b n s)
  then show ?case by (auto simp: coherent_def keys_dset simp del: set_map split: option.splits)
next
  case (Unbind ids b n c)
  then show ?case by (auto simp: coherent_def keys_dpop simp del: set_map split: option.splits)
qed

lemma coherent_steps: "(table_step lossy)\<^sup>*\<^sup>* t t' \<Longrightarrow> coherent t \<Longrightarrow> coherent t'"
  by (induction rule: rtranclp_induct) (auto intro: coherent_step)


section \<open>The table of a gateway\<close>

definition table_of :: "'a gateway_state_scheme \<Rightarrow> session_table" where
  "table_of g = (connection_ids (gs_runtime g), gr_sessions (gs_runtime g), map_option im_count (gs_idle g))"

lemma table_of_truncate [simp]: "table_of (gateway_state.truncate g) = table_of g"
  by (simp add: table_of_def gateway_state.truncate_def)

lemma table_of_lift [simp]: "table_of (snd (lift_state f g)) = table_of (snd (f (gateway_state.truncate g)))"
  by (simp add: table_of_def lift_state_effect)

lemma table_of_runtime:
  "table_of (g\<lparr>gs_runtime := r\<rparr>) = (connection_ids r, gr_sessions r, map_option im_count (gs_idle g))"
  by (simp add: table_of_def)

lemma table_of_cong:
  "connection_ids (gs_runtime g') = connection_ids (gs_runtime g) \<Longrightarrow> gr_sessions (gs_runtime g') = gr_sessions (gs_runtime g)
     \<Longrightarrow> gs_idle g' = gs_idle g \<Longrightarrow> table_of g' = table_of g"
  by (simp add: table_of_def)

lemma cleanup_sessions:
  "gr_sessions (snd (cleanup_connection_by_id cid r)) = (if cid = [] then gr_sessions r else dpop cid (gr_sessions r))"
  by (simp add: cleanup_connection_by_id_def remove_bridge_registration_def release_session_def
      remove_runtime_connection_def Let_def)

lemma cleanup_forgets:
  "cid \<noteq> [] \<Longrightarrow> table_step lossy (table_of g) (table_of (g\<lparr>gs_runtime := snd (cleanup_connection_by_id cid (gs_runtime g))\<rparr>))"
  unfolding table_of_runtime table_of_def
  using Forget [where ids = "connection_ids (gs_runtime g)" and b = "gr_sessions (gs_runtime g)"
      and n = "map_option im_count (gs_idle g)" and c = cid]
  by (simp add: cleanup_ids cleanup_sessions)


section \<open>The reaper\<close>

lemma sweep_connection_table:
  assumes "cc_connection_id c \<noteq> []" and "cc_connection_id c \<in> set (connection_ids (gs_runtime gs))"
  shows "(table_step lossy)\<^sup>*\<^sup>* (table_of gs) (table_of (fst (sweep_connection rc now c (gs, out))))"
proof -
  have "fst (sweep_connection rc now c (gs, out)) = gs
      \<or> (\<exists>f. fst (sweep_connection rc now c (gs, out)) = fst (reap f (cc_connection_id c) gs out))"
    by (auto simp: sweep_connection_def Let_def split: option.splits)
  then show ?thesis
  proof
    assume "\<exists>f. fst (sweep_connection rc now c (gs, out)) = fst (reap f (cc_connection_id c) gs out)"
    then obtain f where eq: "fst (sweep_connection rc now c (gs, out)) = fst (reap f (cc_connection_id c) gs out)" ..
    have "table_of (fst (reap f (cc_connection_id c) gs out)) =
        (filter (\<lambda>d. d \<noteq> cc_connection_id c) (connection_ids (gs_runtime gs)), dpop (cc_connection_id c) (gr_sessions (gs_runtime gs)),
         map_option (\<lambda>k. k - 1) (map_option im_count (gs_idle gs)))"
      using reap_effect(1,2) [OF assms(1), of f gs out] assms(1)
      by (simp add: table_of_def cleanup_ids cleanup_sessions idle_count_def)
    then have "table_step lossy (table_of gs) (table_of (fst (reap f (cc_connection_id c) gs out)))"
      using Drop [OF assms(2)] by (simp add: table_of_def)
    then show ?thesis unfolding eq by blast
  qed simp
qed

lemma sweep_fold_table:
  assumes "distinct (map cc_connection_id cs)" and "[] \<notin> set (map cc_connection_id cs)"
    and "set (map cc_connection_id cs) \<subseteq> set (connection_ids (gs_runtime gs))"
  shows "(table_step lossy)\<^sup>*\<^sup>* (table_of gs) (table_of (fst (fold (sweep_connection rc now) cs (gs, out))))"
  using assms
proof (induction cs arbitrary: gs out)
  case (Cons c cs)
  let ?st = "sweep_connection rc now c (gs, out)"
  have c: "cc_connection_id c \<noteq> []" "cc_connection_id c \<in> set (connection_ids (gs_runtime gs))"
    using Cons.prems by auto
  have "connection_ids (gs_runtime (fst ?st)) = connection_ids (gs_runtime gs)
      \<or> connection_ids (gs_runtime (fst ?st)) = filter (\<lambda>d. d \<noteq> cc_connection_id c) (connection_ids (gs_runtime gs))"
    using sweep_connection_effect(1) [OF c(1), of rc now gs out] by (metis (no_types))
  moreover have "set (map cc_connection_id cs) \<subseteq> set (connection_ids (gs_runtime gs)) - {cc_connection_id c}"
    using Cons.prems by (auto simp del: set_map)
  ultimately have "set (map cc_connection_id cs) \<subseteq> set (connection_ids (gs_runtime (fst ?st)))"
    by (auto simp del: set_map)
  then have "(table_step lossy)\<^sup>*\<^sup>* (table_of (fst ?st)) (table_of (fst (fold (sweep_connection rc now) cs ?st)))"
    using Cons.IH [of "fst ?st" "snd ?st"] Cons.prems by simp
  then show ?case
    using sweep_connection_table [OF c, where rc = rc and now = now and out = out and lossy = lossy]
    by (simp add: rtranclp_trans)
qed simp

lemma sweep_table:
  assumes "coherent (table_of gs)"
  shows "(table_step lossy)\<^sup>*\<^sup>* (table_of gs) (table_of (fst (sweep rc now gs)))"
  using assms sweep_fold_table [where cs = "gr_connections (gs_runtime gs)" and gs = gs and rc = rc and now = now]
  by (simp add: sweep_def Let_def coherent_def table_of_def connection_ids_def)


section \<open>Initialize\<close>

lemma counted_coherent:
  "coherent (table_of gs) \<Longrightarrow> counted (length (connection_ids (gs_runtime gs))) gs"
  by (simp add: coherent_def table_of_def counted_def idle_count_def split: option.splits)

lemma retire_bridge_table:
  assumes "coherent (table_of gs)"
  shows "(table_step lossy)\<^sup>*\<^sup>* (table_of gs) (table_of (snd (retire_bridge b gs)))"
    and "b \<notin> set (connection_ids (gs_runtime (snd (retire_bridge b gs))))"
    and "dget (gr_sessions (gs_runtime (snd (retire_bridge b gs)))) b = None"
proof -
  note eff = retire_bridge_effect [OF counted_coherent [OF assms]]
  let ?gone = "b \<in> set (connection_ids (gs_runtime gs))"
  have "gr_sessions (gs_runtime (snd (retire_bridge b gs))) = dpop b (gr_sessions (gs_runtime gs))"
    using eff(1) [of b]
    by (auto simp: retire_bridge_def split_beta Let_def idle_decrement_effect release_session_def
        remove_runtime_connection_def split: result.splits)
  then have t: "table_of (snd (retire_bridge b gs)) =
      (filter (\<lambda>d. d \<noteq> b) (connection_ids (gs_runtime gs)), dpop b (gr_sessions (gs_runtime gs)),
       map_option (\<lambda>n. n - (if ?gone then 1 else 0)) (map_option im_count (gs_idle gs)))"
    using eff(2,4) [of b] by (simp add: table_of_def idle_count_def)
  show "(table_step lossy)\<^sup>*\<^sup>* (table_of gs) (table_of (snd (retire_bridge b gs)))"
  proof (cases ?gone)
    case True
    then have "table_step lossy (table_of gs) (table_of (snd (retire_bridge b gs)))"
      unfolding t using Drop [OF True] by (simp add: table_of_def)
    then show ?thesis ..
  next
    case False
    then have "table_step lossy (table_of gs) (table_of (snd (retire_bridge b gs)))"
      unfolding t using Forget by (simp add: table_of_def option.map_ident)
    then show ?thesis ..
  qed
  show "b \<notin> set (connection_ids (gs_runtime (snd (retire_bridge b gs))))"
    "dget (gr_sessions (gs_runtime (snd (retire_bridge b gs)))) b = None"
    using t by (simp_all add: table_of_def dict_simps)
qed

lemma base_state_table:
  assumes "coherent (table_of gs)"
  shows "(table_step lossy)\<^sup>*\<^sup>* (table_of gs) (table_of (base_state ci gs))"
    and "announced_bridge ci = Some b \<Longrightarrow> b \<noteq> [] \<Longrightarrow> b \<in> gr_pending (gs_runtime gs) \<Longrightarrow> gr_config (gs_runtime gs) \<noteq> None
      \<Longrightarrow> b \<notin> set (connection_ids (gs_runtime (base_state ci gs)))"
    and "announced_bridge ci = None \<Longrightarrow> base_state ci gs = gs"
  using retire_bridge_table [OF assms] by (auto simp: base_state_def split: option.split)

lemma dget_outside: "set (dkeys b) \<subseteq> A \<Longrightarrow> c \<notin> A \<Longrightarrow> dget b c = None"
  using map_of_eq_None_iff [of b c] by auto

lemma admitted_id: "cc_connection_id (admitted_context env cfg ci bridge p t) =
    (case bridge of Some b \<Rightarrow> if b = [] then ie_fresh_id env else b | None \<Rightarrow> ie_fresh_id env)"
  by (simp add: admitted_context_def or_else_def split: option.split)

lemma hook_table:
  assumes co: "coherent (table_of gs)" and fresh: "ie_fresh_id env \<notin> set (connection_ids (gs_runtime gs))" "ie_fresh_id env \<noteq> []"
  shows "(table_step lossy)\<^sup>*\<^sup>* (table_of gs) (table_of (snd (patched_received_request env ci s handler_ok gs)))"
proof -
  obtain out gs1 where run: "handle_initialize env ci gs = (out, gs1)" by fastforce
  let ?base = "base_state ci gs"
  note base = base_state_table(1) [OF co, where ci = ci and lossy = lossy] base_state_table(2,3) [OF co, where ci = ci]
  have cb: "coherent (table_of ?base)" using coherent_steps [OF base(1) co] .
  from handle_initialize_cases [OF run counted_coherent [OF co]] show ?thesis
  proof cases
    case 1
    then have "snd (patched_received_request env ci s handler_ok gs) = ?base"
      using run by (auto simp: patched_received_request_def split: sum.splits result.splits)
    then show ?thesis using base(1) by simp
  next
    case (2 cfg p t)
    let ?ctx = "admitted_context env cfg ci (announced_bridge ci) p t" and ?r = "gs_runtime ?base"
    define c where "c = cc_connection_id ?ctx"
    have new: "c \<notin> set (connection_ids ?r) \<and> c \<noteq> []"
      using base(2,3) 2(1,5) fresh by (auto simp: c_def admitted_id split: option.splits)
    then have "dget (gr_sessions ?r) c = None"
      using cb by (intro dget_outside [of _ "set (connection_ids ?r)"]) (auto simp: coherent_def table_of_def)
    then have cap: "capture_session c s (gs_runtime gs1) = (Ok (), (gs_runtime gs1)\<lparr>gr_sessions := dset c s (gr_sessions ?r)\<rparr>)"
      using new 2(4) by (simp add: capture_session_def add_runtime_connection_def)
    let ?gs2 = "gs1\<lparr>gs_runtime := (gs_runtime gs1)\<lparr>gr_sessions := dset c s (gr_sessions ?r)\<rparr>\<rparr>"
    have "table_of ?gs2 = (connection_ids ?r @ [c], dset c s (gr_sessions ?r), map_option Suc (map_option im_count (gs_idle ?base)))"
      using idle_count_increment [of "?base\<lparr>gs_runtime := add_runtime_connection ?ctx ?r\<rparr>"] 2(4)
      by (simp add: table_of_def connection_ids_def add_runtime_connection_def idle_count_def c_def idle_increment_def
          option.map_comp comp_def)
    then have adm: "(table_step lossy)\<^sup>*\<^sup>* (table_of gs) (table_of ?gs2)"
      using base(1) Admit [where c = c and ids = "connection_ids ?r" and b = "gr_sessions ?r"
          and n = "map_option im_count (gs_idle ?base)" and s = s] new
      by (simp add: table_of_def rtranclp.rtrancl_into_rtrancl)
    show ?thesis
    proof (cases handler_ok)
      case True
      then have "snd (patched_received_request env ci s handler_ok gs) = ?gs2"
        using run 2(3) cap by (simp add: patched_received_request_def c_def [symmetric] Let_def)
      then show ?thesis using adm by simp
    next
      case False
      then have "snd (patched_received_request env ci s handler_ok gs)
          = ?gs2\<lparr>gs_runtime := snd (cleanup_connection_by_id c (gs_runtime ?gs2))\<rparr>"
        using run 2(3) cap by (simp add: patched_received_request_def c_def [symmetric] Let_def)
      then show ?thesis using adm cleanup_forgets [where cid = c and g = ?gs2 and lossy = lossy] new by (simp add: rtranclp.rtrancl_into_rtrancl)
    qed
  qed
qed


section \<open>Steps of the gateway\<close>

lemma touch_table [simp]: "table_of (touch cid now g) = table_of g"
  by (simp add: table_of_def touch_def touch_connection_activity_def split_beta)
    (simp add: connection_ids_def touch_first_ids)

lemma with_runtime_table:
  "table_of (with_runtime f g) = (connection_ids (f (gs_runtime g)), gr_sessions (f (gs_runtime g)), map_option im_count (gs_idle g))"
  by (simp add: table_of_def)

lemma same_sessions_table: "same_sessions g g' \<Longrightarrow> table_of g' = table_of g"
  by (simp add: same_sessions_def table_of_def)

lemma capture_table:
  assumes "cid \<in> set (connection_ids (gs_runtime g))"
  shows "(table_step lossy)\<^sup>*\<^sup>* (table_of g) (table_of (with_runtime (\<lambda>r. snd (capture_session cid s r)) g))"
proof -
  have "table_of (with_runtime (\<lambda>r. snd (capture_session cid s r)) g) = table_of g
      \<or> table_step lossy (table_of g) (table_of (with_runtime (\<lambda>r. snd (capture_session cid s r)) g))"
    using Bind [OF assms, where b = "gr_sessions (gs_runtime g)" and s = s]
    by (auto simp: with_runtime_table table_of_def capture_session_def connection_ids_def split: option.split)
  then show ?thesis by auto
qed

lemma find_connection_in:
  "find_connection_for_session s cs r = Ok c \<Longrightarrow> c \<in> set cs \<and> (cc_connection_id c, s) \<in> set (gr_sessions r)"
  by (auto simp: find_connection_for_session_def find_Some_iff in_set_conv_nth split: result.splits option.splits
      dest: connection_for_session)

lemma ensure_connection_table:
  "(table_step lossy)\<^sup>*\<^sup>* (table_of g) (table_of (snd (ensure_connection now s g)))"
  "fst (ensure_connection now s g) = Inr c \<Longrightarrow> cc_connection_id c \<in> set (connection_ids (gs_runtime g))"
proof -
  have adopt: "c \<in> set (gr_connections (gs_runtime g))" if "find P (gr_connections (gs_runtime g)) = Some c" for P c
    using that by (auto simp: find_Some_iff)
  show "(table_step lossy)\<^sup>*\<^sup>* (table_of g) (table_of (snd (ensure_connection now s g)))"
    using capture_table [where g = g and lossy = lossy]
    by (auto simp: ensure_connection_def adopt_bridge_def connection_ids_def dest!: adopt split: option.split result.split)
  show "fst (ensure_connection now s g) = Inr c \<Longrightarrow> cc_connection_id c \<in> set (connection_ids (gs_runtime g))"
    by (auto simp: ensure_connection_def adopt_bridge_def connection_ids_def split: option.splits result.splits
        dest: adopt find_connection_in)
qed

lemma ensure_bound_table [simp]: "table_of (snd (ensure_bound_connection now s g)) = table_of g"
  by (simp add: ensure_bound_connection_def split: option.split result.split)

lemma ensure_bound_in:
  "fst (ensure_bound_connection now s g) = Inr c \<Longrightarrow> cc_connection_id c \<in> set (connection_ids (gs_runtime g))"
  by (auto simp: ensure_bound_connection_def connection_ids_def split: option.splits result.splits
      dest: find_connection_in)

lemma capture_request_table:
  "cid \<in> set (connection_ids (gs_runtime g)) \<Longrightarrow>
     (table_step lossy)\<^sup>*\<^sup>* (table_of g) (table_of (capture_request_session s cid g))"
  using capture_table by (auto simp: capture_request_session_def split: option.split)

lemma tools_list_table: "table_of (snd (handle_tools_list now conn g)) = table_of g"
  by (auto simp: handle_tools_list_def Let_def split: option.split sum.split list.split)

lemma audit_tool_call_table: "table_of (audit_tool_call rq conn l n sv r args held resp g) = table_of g"
  by (simp add: table_of_def)

lemma forward_call_table: "table_of (snd (forward_call rq conn cfg n t args held g)) = table_of g"
proof -
  let ?g = "g\<lparr>gs_runtime := increment_tool_calls (gs_runtime g)\<rparr>"
  have "table_of (snd (call_tool env sv tool a ?g)) = table_of g" for env sv tool a
    by (simp add: table_of_def call_tool_runtime increment_tool_calls_def connection_ids_def)
  then have "table_of g2 = table_of g" if "call_tool env sv tool a ?g = (res, g2)" for env sv tool a res g2
    using that by (metis snd_conv)
  then show ?thesis
    by (auto simp: forward_call_def Let_def audit_tool_call_table split: prod.split sum.split result.split)
qed

lemma tools_call_table: "table_of (snd (handle_tools_call rq conn n args g)) = table_of g"
  by (auto simp: handle_tools_call_def Let_def refuse_call_def audit_tool_call_table forward_call_table split_beta
      split: option.split sum.split)

lemma builtin_call_table: "table_of (snd (handle_builtin_call rq n args conn g)) = table_of g"
  by (simp add: handle_builtin_call_def Let_def audit_builtin_def table_of_def split_beta split: sum.split)

lemma list_tools_table: "(table_step lossy)\<^sup>*\<^sup>* (table_of g) (table_of (snd (list_tools now s g)))"
proof -
  obtain res g1 where e: "ensure_connection now s g = (res, g1)" by fastforce
  have one: "(table_step lossy)\<^sup>*\<^sup>* (table_of g) (table_of g1)"
    using ensure_connection_table(1) [of lossy g now s] by (simp add: e)
  show ?thesis
  proof (cases res)
    case (Inr c)
    have "connection_ids (gs_runtime g1) = connection_ids (gs_runtime g)"
      using e by (auto simp: ensure_connection_def adopt_bridge_def connection_ids_def capture_session_def touch_def
          touch_connection_activity_def split_beta touch_first_ids split: option.splits result.splits)
    then have "cc_connection_id c \<in> set (connection_ids (gs_runtime g1))"
      using ensure_connection_table(2) [of now s g c] e Inr by simp
    note two = capture_request_table [OF this, where s = s and lossy = lossy]
    show ?thesis
      using one rtranclp_trans [OF one two]
      by (simp add: list_tools_def e Inr list_tools_converged_def split_beta Let_def tools_list_table)
  qed (simp add: list_tools_def e one)
qed

lemma connect_route_table: "table_of (snd (connect_route header raw g)) = table_of g"
proof -
  have "table_of (snd (handle_connect t x n g)) = table_of g" for t x n
    by (auto simp: handle_connect_def register_bridge_connection_def table_of_def connection_ids_def Let_def
        split: sum.split result.split)
  then show ?thesis
    by (auto simp: connect_route_def with_auth_def connect_handler_def Let_def split_beta
        split: sum.split result.split option.split)
qed

end
