(* ===== verification/Gateway_Steps.thy ===== *)
theory Gateway_Steps
  imports Sessions
begin

text \<open>
  The operations of a running gateway as a step relation \<open>gateway_step\<close>: initialize requests, the
  connect and disconnect routes, the reaper, the protocol requests, notifications, and the events
  of reload and recovery. The asynchronous program runs one of them between two suspension points;
  \<open>reaches\<close> is any sequence of them. The parameter \<open>lossy\<close> says whether notifications may be lost.
  The session table (Sessions) is the abstract specification that the steps refine.
\<close>


section \<open>The remaining operations on the table\<close>

lemma cleanup_table:
  assumes "cid \<noteq> []"
  shows "table_of (g\<lparr>gs_runtime := snd (cleanup_connection_by_id cid (gs_runtime g))\<rparr>) =
    (filter (\<lambda>d. d \<noteq> cid) (connection_ids (gs_runtime g)), dpop cid (gr_sessions (gs_runtime g)), map_option im_count (gs_idle g))"
  using assms by (simp add: table_of_def cleanup_ids cleanup_sessions)

lemma cleanup_steps:
  assumes "coherent (table_of g)"
  shows "(table_step lossy)\<^sup>*\<^sup>* (table_of g)
    (table_of (g\<lparr>gs_runtime := snd (cleanup_connection_by_id cid (gs_runtime g))\<rparr>))"
proof (cases "cid = []")
  case True
  have "[] \<notin> set (connection_ids (gs_runtime g))" using assms by (simp add: coherent_def table_of_def)
  then have "filter (\<lambda>d. d \<noteq> []) (connection_ids (gs_runtime g)) = connection_ids (gs_runtime g)"
    by (intro filter_True) auto
  then have "table_of (g\<lparr>gs_runtime := snd (cleanup_connection_by_id cid (gs_runtime g))\<rparr>) = table_of g"
    by (simp add: table_of_def cleanup_ids cleanup_sessions True)
  then show ?thesis by simp
qed (simp add: cleanup_forgets r_into_rtranclp)

lemma handle_disconnect_state:
  "snd (handle_disconnect t x cid g) = g
   \<or> snd (handle_disconnect t x cid g) = g\<lparr>gs_runtime := snd (cleanup_connection_by_id cid (gs_runtime g))\<rparr>"
  by (auto simp: handle_disconnect_def Let_def split_beta split: sum.split result.split)

lemma disconnect_route_state:
  defines "after \<equiv> \<lambda>cid g. g\<lparr>gs_runtime := snd (cleanup_connection_by_id cid (gs_runtime g))\<rparr>"
  shows "snd (disconnect_route header target g) = g
   \<or> (\<exists>cid. snd (disconnect_route header target g) = after cid g)
   \<or> (\<exists>cid. cid \<in> set (connection_ids (gs_runtime g)) \<and> snd (disconnect_route header target g) = snd (lift_state idle_decrement (after cid g)))"
proof (cases "auth_handoff header g")
  case (Inr a)
  show ?thesis
  proof (cases a)
    case (Ok te)
    obtain t x where te: "te = (t, x)" by fastforce
    show ?thesis
    proof (cases target)
      case None
      then show ?thesis by (simp add: disconnect_route_def with_auth_def Inr Ok te)
    next
      case (Some cid)
      obtain res g1 where run: "handle_disconnect t x cid g = (res, g1)" by fastforce
      have g1: "g1 = g \<or> g1 = after cid g"
        using handle_disconnect_state [of t x cid g] by (simp add: run after_def)
      have moved: "g1 = after cid g" if "res = Inr (Ok c)" for c
        using run that
        by (auto simp: handle_disconnect_def after_def Let_def split_beta ensure_post_def split: sum.splits result.splits if_splits)
      show ?thesis
        using g1 moved
        by (cases res rule: sum.exhaust; cases "projr res")
          (auto simp: disconnect_route_def with_auth_def Inr Ok te Some run Let_def)
    qed
  qed (simp add: disconnect_route_def with_auth_def Inr split: prod.split)
qed (simp add: disconnect_route_def with_auth_def)

lemma disconnect_route_table:
  assumes "coherent (table_of g)"
  shows "(table_step lossy)\<^sup>*\<^sup>* (table_of g) (table_of (snd (disconnect_route header target g)))"
  using disconnect_route_state [of header target g]
proof (elim disjE exE conjE)
  fix cid assume c: "cid \<in> set (connection_ids (gs_runtime g))"
    and eq: "snd (disconnect_route header target g) = snd (lift_state idle_decrement
      (g\<lparr>gs_runtime := snd (cleanup_connection_by_id cid (gs_runtime g))\<rparr>))"
  have "cid \<noteq> []" using assms c by (auto simp: coherent_def table_of_def)
  then have "table_of (snd (disconnect_route header target g)) = (filter (\<lambda>d. d \<noteq> cid) (connection_ids (gs_runtime g)),
      dpop cid (gr_sessions (gs_runtime g)), map_option (\<lambda>k. k - 1) (map_option im_count (gs_idle g)))"
    using idle_decrement_effect(2) [where gs = "gateway_state.truncate
      (g\<lparr>gs_runtime := snd (cleanup_connection_by_id cid (gs_runtime g))\<rparr>)"]
    by (simp add: eq table_of_def lift_state_effect idle_decrement_effect cleanup_ids cleanup_sessions idle_count_def
        gateway_state.truncate_def)
  then have "table_step lossy (table_of g) (table_of (snd (disconnect_route header target g)))"
    using Drop [OF c, where lossy = lossy and b = "gr_sessions (gs_runtime g)" and n = "map_option im_count (gs_idle g)"]
    by (simp add: table_of_def)
  then show ?thesis ..
qed (simp_all add: cleanup_steps [OF assms])

lemma notify_table:
  assumes "(\<exists>s. \<not> send_ok s) \<Longrightarrow> lossy"
  shows "(table_step lossy)\<^sup>*\<^sup>* (table_of g) (table_of (snd (notify_tools_changed send_ok conn g)))"
proof (cases "get_captured_session (cc_connection_id conn) (gs_runtime g)")
  case (Ok s)
  show ?thesis
  proof (cases "send_ok s")
    case False
    then have lossy using assms by blast
    then show ?thesis
      using Ok False Unbind [of lossy "connection_ids (gs_runtime g)" "gr_sessions (gs_runtime g)"
          "map_option im_count (gs_idle g)" "cc_connection_id conn"]
      by (simp add: notify_tools_changed_def table_of_def release_session_def connection_ids_def r_into_rtranclp)
  qed (simp add: notify_tools_changed_def Ok)
qed (simp add: notify_tools_changed_def)

lemma reload_tables [simp]:
  "table_of (with_registry r g) = table_of g" "table_of (notify_registry_tool_digest g) = table_of g"
  "table_of (set_converged g) = table_of g"
  by (simp_all add: table_of_def set_converged_def connection_ids_def)

lemma tools_list_changed_table: "table_of (snd (handle_tools_list_changed d n s sc list g)) = table_of g"
proof -
  have "same_sessions g1 (snd (emit_conflict_warning d n out g1))" for out g1
    by (simp add: same_sessions_def emit_conflict_warning_def Let_def)
  then have "same_sessions g (snd (on_tools_changed d n s sc ts g))" for ts
    using same_converge [of g s sc ts ReloadTools]
    by (auto simp: on_tools_changed_def converge_and_notify_def split_beta split: prod.split sum.split
        intro: same_sessions_trans same_notify dest: arg_cong [of _ _ snd])
  then have "same_sessions g (snd (handle_tools_list_changed d n s sc list g))"
    by (auto simp: handle_tools_list_changed_def frames split_beta Let_def split: option.split result.split)
  then show ?thesis by (rule same_sessions_table)
qed

lemma reconnect_table: "table_of (snd (handle_reconnect env s g)) = table_of g"
  using same_sessions_table [OF same_recover] by (simp add: handle_reconnect_def split_beta)

lemma call_downstream_table: "table_of (snd (call_downstream rq n args conn g)) = table_of g"
  using tools_call_table by (auto simp: call_downstream_def split_beta split: json.split)

lemma config_changed_table: "table_of (snd (on_config_changed start cfg g)) = table_of g"
  by (auto simp: on_config_changed_def Let_def server_changes_def table_of_def connection_ids_def set_runtime_config_def
      split: option.split sum.split result.split prod.split)

lemma ensure_connection_ids:
  "connection_ids (gs_runtime (snd (ensure_connection now s g))) = connection_ids (gs_runtime g)"
  by (auto simp: ensure_connection_def adopt_bridge_def connection_ids_def capture_session_def touch_def
      touch_connection_activity_def split_beta touch_first_ids split: option.splits result.splits)

lemma call_session_table: "(table_step lossy)\<^sup>*\<^sup>* (table_of g) (table_of (snd (call_tool_of_session rq s n args g)))"
proof -
  define resolve where "resolve = (if n \<in> set builtin_tool_names then ensure_bound_connection (rq_now rq) s g
      else ensure_connection (rq_now rq) s g)"
  obtain res g1 where e: "resolve = (res, g1)" by fastforce
  then have g1: "g1 = snd (ensure_connection (rq_now rq) s g) \<or> table_of g1 = table_of g"
    by (metis ensure_bound_table resolve_def snd_conv)
  then have one: "(table_step lossy)\<^sup>*\<^sup>* (table_of g) (table_of g1)"
    using ensure_connection_table(1) [where lossy = lossy and g = g and now = "rq_now rq" and s = s] by auto
  show ?thesis
  proof (cases res)
    case (Inr c)
    have "connection_ids (gs_runtime g1) = connection_ids (gs_runtime g)"
      using g1 ensure_connection_ids [of "rq_now rq" s g] by (auto simp: table_of_def)
    then have "cc_connection_id c \<in> set (connection_ids (gs_runtime g1))"
      using ensure_connection_table(2) [of "rq_now rq" s g c] ensure_bound_in [of "rq_now rq" s g c] e Inr
      by (auto simp: resolve_def split: if_splits)
    from one capture_request_table [OF this, where s = s and lossy = lossy]
    have two: "(table_step lossy)\<^sup>*\<^sup>* (table_of g) (table_of (capture_request_session s (cc_connection_id c) g1))"
      by (rule rtranclp_trans)
    then show ?thesis
      unfolding call_tool_of_session_def Let_def resolve_def [symmetric] e Inr
      by (simp add: split_beta builtin_call_table call_downstream_table)
  qed (simp add: call_tool_of_session_def Let_def resolve_def [symmetric] e one)
qed

lemma call_request_table: "(table_step lossy)\<^sup>*\<^sup>* (table_of g) (table_of (snd (call_tool_request rq s n args g)))"
  using call_session_table by (simp add: call_tool_request_def split_beta Let_def)


section \<open>The steps\<close>

inductive gateway_step :: "bool \<Rightarrow> gateway \<Rightarrow> gateway \<Rightarrow> bool" for lossy where
  Initialized: "ie_fresh_id env \<notin> set (connection_ids (gs_runtime g)) \<Longrightarrow> ie_fresh_id env \<noteq> [] \<Longrightarrow>
     gateway_step lossy g (snd (lift_state (patched_received_request env ci s handler_ok) g))"
| ConnectAnnounced: "gateway_step lossy g (snd (connect_route header raw g))"
| Disconnected: "gateway_step lossy g (snd (disconnect_route header target g))"
| Swept: "gateway_step lossy g (snd (lift_state (\<lambda>gs. prod.swap (sweep rc now gs)) g))"
| ToolsListed: "gateway_step lossy g (snd (list_tools now_iso request_session g))"
| ToolCalled: "gateway_step lossy g (snd (call_tool_request rq request_session n args g))"
| Notified: "((\<exists>s. \<not> send_ok s) \<Longrightarrow> lossy) \<Longrightarrow>
     gateway_step lossy g (snd (notify_tools_changed send_ok conn g))"
| ToolsChanged: "gateway_step lossy g (snd (handle_tools_list_changed disk_ok now_iso server sc relist g))"
| Reconnected: "gateway_step lossy g (snd (handle_reconnect renv server g))"
| ConfigChanged: "gateway_step lossy g (snd (on_config_changed start cfg g))"
| Converged: "gateway_step lossy g (set_converged g)"

text \<open>A fresh process, started or not, has no connection.\<close>

definition fresh_gateway :: "gateway \<Rightarrow> bool" where
  "fresh_gateway g \<longleftrightarrow> gr_connections (gs_runtime g) = [] \<and> gr_sessions (gs_runtime g) = []"

definition reaches :: "bool \<Rightarrow> gateway \<Rightarrow> gateway \<Rightarrow> bool" where
  "reaches lossy g g' \<longleftrightarrow> fresh_gateway g \<and> (gateway_step lossy)\<^sup>*\<^sup>* g g'"

lemma fresh_coherent: "fresh_gateway g \<Longrightarrow> coherent (table_of g)"
  by (simp add: fresh_gateway_def coherent_def table_of_def connection_ids_def wf_dict_def split: option.split)

lemma step_table:
  assumes "gateway_step lossy g g'" and "coherent (table_of g)"
  shows "(table_step lossy)\<^sup>*\<^sup>* (table_of g) (table_of g')"
  using assms
proof (induction rule: gateway_step.induct)
  case (Initialized env g ci s handler_ok)
  then show ?case
    using hook_table [where gs = "gateway_state.truncate g" and env = env and lossy = lossy and ci = ci and s = s
        and handler_ok = handler_ok]
    by (simp add: gateway_state.truncate_def [of g, symmetric]) (simp add: gateway_state.truncate_def)
next
  case (Swept g rc now)
  then show ?case
    using sweep_table [where gs = "gateway_state.truncate g" and lossy = lossy and rc = rc and now = now] by simp
next
  case (Notified send_ok g conn)
  then show ?case by (intro notify_table) auto
qed (auto simp: connect_route_table disconnect_route_table list_tools_table call_request_table tools_list_changed_table
      reconnect_table config_changed_table)

lemma reaches_table:
  assumes "reaches lossy g g'"
  shows "coherent (table_of g')" and "(table_step lossy)\<^sup>*\<^sup>* (table_of g) (table_of g')"
proof -
  have steps: "(gateway_step lossy)\<^sup>*\<^sup>* g g'" and init: "coherent (table_of g)"
    using assms by (simp_all add: reaches_def fresh_coherent)
  from steps have "coherent (table_of g') \<and> (table_step lossy)\<^sup>*\<^sup>* (table_of g) (table_of g')"
  proof (induction rule: rtranclp_induct)
    case (step g1 g2)
    then have "(table_step lossy)\<^sup>*\<^sup>* (table_of g1) (table_of g2)" by (intro step_table) auto
    then show ?case using step.IH coherent_steps by (blast intro: rtranclp_trans)
  qed (simp add: init)
  then show "coherent (table_of g')" "(table_step lossy)\<^sup>*\<^sup>* (table_of g) (table_of g')" by auto
qed


section \<open>Runs that lose no notification\<close>

definition all_bound :: "session_table \<Rightarrow> bool" where
  "all_bound t \<longleftrightarrow> (case t of (ids, b, n) \<Rightarrow> set ids \<subseteq> set (dkeys b))"

lemma all_bound_step: "table_step False t t' \<Longrightarrow> all_bound t \<Longrightarrow> all_bound t'"
proof (induction rule: table_step.induct)
  case (Admit c ids b n s)
  then show ?case by (auto simp: all_bound_def keys_dset simp del: set_map)
next
  case (Drop c ids b n)
  then show ?case by (auto simp: all_bound_def keys_dpop simp del: set_map)
next
  case (Forget ids b n c)
  then show ?case by (auto simp: all_bound_def keys_dpop simp del: set_map)
next
  case (Bind c ids b n s)
  then show ?case by (auto simp: all_bound_def keys_dset simp del: set_map)
qed simp

lemma all_bound_steps: "(table_step False)\<^sup>*\<^sup>* t t' \<Longrightarrow> all_bound t \<Longrightarrow> all_bound t'"
  by (induction rule: rtranclp_induct) (auto intro: all_bound_step)

lemma bound_key: "cid \<in> set (dkeys (gr_sessions r)) \<longleftrightarrow> bound_session r cid \<noteq> None"
  by (metis bound_session_def has_key_def has_key_dget)

lemma lossless_bound:
  assumes "reaches False g g'" and "c \<in> set (gr_connections (gs_runtime g'))"
  shows "bound_session (gs_runtime g') (cc_connection_id c) \<noteq> None"
proof -
  have "all_bound (table_of g)" using assms(1)
    by (simp add: reaches_def fresh_gateway_def all_bound_def table_of_def connection_ids_def)
  then have "all_bound (table_of g')" using reaches_table(2) [OF assms(1)] by (rule all_bound_steps [rotated])
  then have "cc_connection_id c \<in> set (dkeys (gr_sessions (gs_runtime g')))"
    using assms(2) unfolding all_bound_def table_of_def connection_ids_def prod.case by auto
  then show ?thesis unfolding bound_key .
qed

lemma find_connection_bound:
  "find_connection_for_session s cs r = Ok c \<Longrightarrow> wf_dict (gr_sessions r) \<Longrightarrow> bound_session r (cc_connection_id c) = Some s"
  using find_connection_in [of s cs r c] by (simp add: bound_session_def wf_dict_def)


section \<open>Properties\<close>







text \<open>C33: When the notifications to two bridge clients are lost, the next request of the second client adopts
  the connection of the first: it is served, and from then on bound, under the first client's profile.\<close>

theorem lost_notifications_cross_profiles:
  assumes "gr_connections (gs_runtime g) = [a, b]" and "cc_connection_id a \<noteq> cc_connection_id b"
    and "startswith (cc_connection_id a) ''bridge_''"
    and "gr_sessions (gs_runtime g) = [(cc_connection_id a, sa), (cc_connection_id b, sb)]"
  defines "g2 \<equiv> snd (notify_tools_changed (\<lambda>_. False) b (snd (notify_tools_changed (\<lambda>_. False) a g)))"
  shows "fst (ensure_connection now_iso (Some sb) g2) = Inr a
    \<and> bound_session (gs_runtime (snd (ensure_connection now_iso (Some sb) g2))) (cc_connection_id a) = Some sb"
proof -
  have g2: "gs_runtime g2 = (gs_runtime g)\<lparr>gr_sessions := []\<rparr>"
    using assms(2,4)
    by (auto simp: g2_def notify_tools_changed_def get_captured_session_def release_session_def)
  have "cc_connection_id a \<noteq> []" using assms(3) by (auto simp: startswith_def)
  then show ?thesis
    using assms(1-3)
    by (simp add: ensure_connection_def adopt_bridge_def find_connection_for_session_def
        get_connection_id_for_session_def g2 adoptable_def get_captured_session_def touch_def
        touch_connection_activity_def split_beta capture_session_def bound_session_def dict_simps)
qed

definition two_bridges :: gateway where
  "two_bridges = with_runtime (\<lambda>r. r\<lparr>gr_connections :=
       [sample_connection\<lparr>cc_connection_id := ''bridge_a'', cc_profile_id := ''admin''\<rparr>,
        sample_connection\<lparr>cc_connection_id := ''bridge_b'', cc_profile_id := ''dev''\<rparr>],
     gr_sessions := [(''bridge_a'', 1), (''bridge_b'', 2)]\<rparr>) initial_gateway"

lemma lost_notifications_witness:
  "map_right cc_profile_id (fst (ensure_connection ''now'' (Some 2)
     (snd (notify_tools_changed (\<lambda>_. False) (sample_connection\<lparr>cc_connection_id := ''bridge_b'', cc_profile_id := ''dev''\<rparr>)
       (snd (notify_tools_changed (\<lambda>_. False) (sample_connection\<lparr>cc_connection_id := ''bridge_a'', cc_profile_id := ''admin''\<rparr>)
         two_bridges)))))) = Inr ''admin''"
  using lost_notifications_cross_profiles [of two_bridges
      "sample_connection\<lparr>cc_connection_id := ''bridge_a'', cc_profile_id := ''admin''\<rparr>"
      "sample_connection\<lparr>cc_connection_id := ''bridge_b'', cc_profile_id := ''dev''\<rparr>" 1 2 "''now''"]
  by (simp add: two_bridges_def startswith_def)

end
