(* ===== verification/Startup_Coordination.thy ===== *)
theory Startup_Coordination
  imports Py_Sha256
begin

text \<open>
  How \<^verbatim>\<open>tela connect\<close> finds or starts the one gateway of a configuration: the discovery lockfile
  (\<^verbatim>\<open>shell/lockfile.py\<close>) and the arbitration between starters (\<^verbatim>\<open>shell/startup_coordinator.py\<close>).
  Everything outside the process is the world \<open>'w\<close>: every operation of the record \<open>start_env\<close> takes it and
  returns it, so other processes may act between any two of them. Path resolution is stable.
\<close>


section \<open>The lockfile\<close>

record lockfile_data =
  lk_pid :: int
  lk_host :: string
  lk_port :: int
  lk_token :: string
  lk_started_at :: string
  lk_config_path :: string
  lk_version :: string

text \<open>What \<^verbatim>\<open>ps\<close> reports of a process, and what signal 0 to it does.\<close>

datatype ps_report = PsFailed | PsNoProcess | PsState string

datatype signal_outcome = Delivered | PidOverflow | NoSuchProcess | NotPermitted | OtherOSError

definition is_zombie_process :: "ps_report \<Rightarrow> (bool, string) result" where
  "is_zombie_process ps =
     (case ps of
        PsFailed \<Rightarrow> Err ''LOCKFILE_ZOMBIE_CHECK_ERROR''
      | PsNoProcess \<Rightarrow> Ok False
      | PsState stat \<Rightarrow> Ok (CHR ''Z'' \<in> set (map (\<lambda>c. if is_lower c then char_of (code c - 32) else c) (py_strip stat))))"

definition is_stale :: "ps_report \<Rightarrow> signal_outcome \<Rightarrow> bool" where
  "is_stale ps sig =
     (if is_zombie_process ps = Ok True then True
      else (case sig of Delivered \<Rightarrow> False | NotPermitted \<Rightarrow> False
            | PidOverflow \<Rightarrow> True | NoSuchProcess \<Rightarrow> True | OtherOSError \<Rightarrow> True))"

datatype file_read = Missing | Unreadable string | Content string

text \<open>The file system and the process table, as the lockfile operations use them.\<close>

record 'w lock_env =
  le_read :: "'w \<Rightarrow> file_read \<times> 'w"
  le_decode :: "string \<Rightarrow> (lockfile_data, string) result"
  le_encode :: "lockfile_data \<Rightarrow> string"
  le_replace :: "string \<Rightarrow> 'w \<Rightarrow> string option \<times> 'w"
  le_unlink :: "'w \<Rightarrow> string option \<times> 'w"
  le_ps :: "int \<Rightarrow> 'w \<Rightarrow> ps_report \<times> 'w"
  le_kill :: "int \<Rightarrow> 'w \<Rightarrow> signal_outcome \<times> 'w"

definition lockfile_is_stale :: "'w lock_env \<Rightarrow> int \<Rightarrow> 'w \<Rightarrow> bool \<times> 'w" where
  "lockfile_is_stale env pid w =
     (let (ps, w1) = le_ps env pid w in
      if is_zombie_process ps = Ok True then (True, w1)
      else (let (sig, w2) = le_kill env pid w1 in (is_stale ps sig, w2)))"

definition write_lockfile :: "'w lock_env \<Rightarrow> lockfile_data \<Rightarrow> 'w \<Rightarrow> (unit, string) result \<times> 'w" where
  "write_lockfile env data w =
     (case le_replace env (le_encode env data) w of
        (None, w1) \<Rightarrow> (Ok (), w1)
      | (Some e, w1) \<Rightarrow> (Err (''LOCKFILE_WRITE_ERROR: '' @ e), w1))"

definition stale_text :: "int \<Rightarrow> string" where
  "stale_text pid = ''LOCKFILE_STALE: no live process found for pid '' @ show_int pid
     @ ''; lockfile should be considered stale''"

definition read_lockfile :: "'w lock_env \<Rightarrow> 'w \<Rightarrow> (lockfile_data, string) result \<times> 'w" where
  "read_lockfile env w =
     (case le_read env w of
        (Missing, w1) \<Rightarrow> (Err ''LOCKFILE_READ_ERROR: lockfile does not exist'', w1)
      | (Unreadable e, w1) \<Rightarrow> (Err (''LOCKFILE_READ_ERROR: '' @ e), w1)
      | (Content raw, w1) \<Rightarrow>
          (case le_decode env raw of
             Err e \<Rightarrow> (Err (''LOCKFILE_PARSE_ERROR: '' @ e), w1)
           | Ok data \<Rightarrow>
               (let (stale, w2) = lockfile_is_stale env (lk_pid data) w1
                in (if stale then Err (stale_text (lk_pid data)) else Ok data, w2))))"

text \<open>The removal of a file that is not there succeeds: \<open>None\<close>.\<close>

definition delete_lockfile :: "'w lock_env \<Rightarrow> 'w \<Rightarrow> (unit, string) result \<times> 'w" where
  "delete_lockfile env w =
     (case le_unlink env w of
        (None, w1) \<Rightarrow> (Ok (), w1)
      | (Some e, w1) \<Rightarrow> (Err (''LOCKFILE_DELETE_ERROR: '' @ e), w1))"

definition delete_lockfile_if_stale :: "'w lock_env \<Rightarrow> 'w \<Rightarrow> (bool, string) result \<times> 'w" where
  "delete_lockfile_if_stale env w =
     (case le_read env w of
        (Missing, w1) \<Rightarrow> (Ok False, w1)
      | (Unreadable e, w1) \<Rightarrow> (Err (''LOCKFILE_READ_ERROR: '' @ e), w1)
      | (Content raw, w1) \<Rightarrow>
          (case le_decode env raw of
             Err e \<Rightarrow> (Err (''LOCKFILE_PARSE_ERROR: '' @ e), w1)
           | Ok data \<Rightarrow>
               (let (stale, w2) = lockfile_is_stale env (lk_pid data) w1 in
                if \<not> stale then (Ok False, w2)
                else (case delete_lockfile env w2 of
                    (Err e, w3) \<Rightarrow> (Err e, w3)
                  | (Ok _, w3) \<Rightarrow> (Ok True, w3)))))"


section \<open>Who owns a lockfile\<close>

record 'w start_env =
  se_resolve :: "string \<Rightarrow> (string, string) result"
  se_absolute_or_exists :: "string \<Rightarrow> bool"
  se_lock_dir :: string
  se_read :: "'w \<Rightarrow> (lockfile_data, string) result \<times> 'w"
  se_wait :: "rat \<Rightarrow> int option \<Rightarrow> 'w \<Rightarrow> (lockfile_data, string) result \<times> 'w"
  se_autostart :: "string \<Rightarrow> string option \<Rightarrow> 'w \<Rightarrow> (int, string) result \<times> 'w"
  se_flock :: "string \<Rightarrow> 'w \<Rightarrow> (bool, string) result \<times> 'w"
  se_unlock :: "string \<Rightarrow> 'w \<Rightarrow> 'w"
  se_delete_stale :: "'w \<Rightarrow> 'w"
  se_clock :: "'w \<Rightarrow> rat \<times> 'w"
  se_sleep :: "rat \<Rightarrow> 'w \<Rightarrow> 'w"

definition normalize_config_path :: "'w start_env \<Rightarrow> string \<Rightarrow> (string, string) result" where
  "normalize_config_path env raw =
     (case se_resolve env raw of Ok p \<Rightarrow> Ok p | Err e \<Rightarrow> Err (''CONFIG_PATH_RESOLVE_ERROR: '' @ e))"

definition requested_config_owner_path :: "'w start_env \<Rightarrow> string \<Rightarrow> (string option, string) result" where
  "requested_config_owner_path env raw =
     (if \<not> se_absolute_or_exists env raw then Ok None
      else map_result Some (normalize_config_path env raw))"

definition lockfile_owned_by_config :: "'w start_env \<Rightarrow> lockfile_data \<Rightarrow> string \<Rightarrow> (bool, string) result" where
  "lockfile_owned_by_config env lockfile requested =
     (case requested_config_owner_path env requested of
        Err e \<Rightarrow> Err e
      | Ok None \<Rightarrow> Ok True
      | Ok (Some owner) \<Rightarrow>
          map_result (\<lambda>p. p = owner) (normalize_config_path env (lk_config_path lockfile)))"

definition startup_lock_path :: "'w start_env \<Rightarrow> string \<Rightarrow> (string, string) result" where
  "startup_lock_path env requested =
     map_result (\<lambda>p. se_lock_dir env @ ''/startup.'' @ take 16 (sha256_hexdigest (utf8_encode p)) @ ''.lock'')
       (normalize_config_path env requested)"

text \<open>The handle of an acquired lock is its path; \<open>None\<close> when another process holds it.\<close>

definition try_acquire_startup_lock :: "'w start_env \<Rightarrow> string \<Rightarrow> 'w \<Rightarrow> (string option, string) result \<times> 'w" where
  "try_acquire_startup_lock env requested w =
     (case startup_lock_path env requested of
        Err e \<Rightarrow> (Err e, w)
      | Ok path \<Rightarrow>
          (case se_flock env path w of
             (Err e, w1) \<Rightarrow> (Err (''STARTUP_LOCK_ERROR: '' @ e), w1)
           | (Ok acquired, w1) \<Rightarrow> (Ok (if acquired then Some path else None), w1)))"


section \<open>Waiting for the leader\<close>

definition poll_seconds :: rat where
  "poll_seconds = 1 / 10"

text \<open>One round of the loop: a value to return, or another round after a pause.\<close>

definition poll_lockfile ::
    "'w start_env \<Rightarrow> string \<Rightarrow> int option \<Rightarrow> 'w \<Rightarrow> (lockfile_data, string) result option \<times> 'w" where
  "poll_lockfile env requested expected_pid w =
     (case se_read env w of
        (Ok lockfile, w1) \<Rightarrow>
          if expected_pid \<noteq> None \<and> expected_pid \<noteq> Some (lk_pid lockfile) then (None, se_sleep env poll_seconds w1)
          else (case lockfile_owned_by_config env lockfile requested of
              Err e \<Rightarrow> (Some (Err e), w1)
            | Ok False \<Rightarrow> (None, se_sleep env poll_seconds w1)
            | Ok True \<Rightarrow> (Some (Ok lockfile), w1))
      | (Err e, w1) \<Rightarrow>
          (None, se_sleep env poll_seconds (if startswith e ''LOCKFILE_STALE'' then se_delete_stale env w1 else w1)))"

partial_function (option) wait_until ::
    "'w start_env \<Rightarrow> rat \<Rightarrow> string \<Rightarrow> int option \<Rightarrow> 'w \<Rightarrow> ((lockfile_data, string) result \<times> 'w) option" where
  "wait_until env deadline requested expected_pid w =
     (let (now, w1) = se_clock env w in
      if deadline \<le> now then Some (Err ''LOCKFILE_WAIT_TIMEOUT: timed out waiting for gateway.lock'', w1)
      else (case poll_lockfile env requested expected_pid w1 of
          (Some res, w2) \<Rightarrow> Some (res, w2)
        | (None, w2) \<Rightarrow> wait_until env deadline requested expected_pid w2))"

definition wait_for_owned_live_lockfile ::
    "'w start_env \<Rightarrow> rat \<Rightarrow> string \<Rightarrow> int option \<Rightarrow> 'w \<Rightarrow> ((lockfile_data, string) result \<times> 'w) option" where
  "wait_for_owned_live_lockfile env timeout requested expected_pid w =
     (let (now, w1) = se_clock env w in wait_until env (now + timeout) requested expected_pid w1)"


section \<open>Discovery\<close>

definition race_wait_seconds :: rat where
  "race_wait_seconds = 3 / 10"

definition start_race_retries :: nat where
  "start_race_retries = 3"

text \<open>What a round with the lock does with a lockfile it waited for: return it, fail, or go on.\<close>

definition accept_owned ::
    "'w start_env \<Rightarrow> string \<Rightarrow> (lockfile_data, string) result \<Rightarrow> (lockfile_data, string) result option" where
  "accept_owned env config_path waited =
     (case waited of
        Err _ \<Rightarrow> None
      | Ok lockfile \<Rightarrow>
          (case lockfile_owned_by_config env lockfile config_path of
             Err e \<Rightarrow> Some (Err e)
           | Ok owned \<Rightarrow> if owned then Some (Ok lockfile) else None))"

definition leader_round ::
    "'w start_env \<Rightarrow> string \<Rightarrow> string option \<Rightarrow> rat \<Rightarrow> 'w \<Rightarrow> (lockfile_data, string) result option \<times> 'w" where
  "leader_round env config_path default_profile timeout w =
     (let (raced, w1) = se_wait env race_wait_seconds None w in
      case accept_owned env config_path raced of
        Some res \<Rightarrow> (Some res, w1)
      | None \<Rightarrow>
          (case se_autostart env config_path default_profile w1 of
             (Err _, w2) \<Rightarrow> (None, w2)
           | (Ok pid, w2) \<Rightarrow>
               (let (waited, w3) = se_wait env timeout (Some pid) w2 in (accept_owned env config_path waited, w3))))"

fun discovery_rounds ::
    "'w start_env \<Rightarrow> string \<Rightarrow> string option \<Rightarrow> rat \<Rightarrow> nat \<Rightarrow> 'w
       \<Rightarrow> ((lockfile_data, string) result \<times> 'w) option" where
  "discovery_rounds env config_path default_profile timeout 0 w =
     Some (Err ''DISCOVERY_FAILED: could not discover or auto-start tela serve via lockfile'', w)"
| "discovery_rounds env config_path default_profile timeout (Suc k) w =
     (case try_acquire_startup_lock env config_path w of
        (Err e, w1) \<Rightarrow> Some (Err e, w1)
      | (Ok (Some handle), w1) \<Rightarrow>
          (let (res, w2) = leader_round env config_path default_profile timeout w1; w3 = se_unlock env handle w2
           in case res of Some r \<Rightarrow> Some (r, w3)
            | None \<Rightarrow> discovery_rounds env config_path default_profile timeout k w3)
      | (Ok None, w1) \<Rightarrow>
          (case wait_for_owned_live_lockfile env timeout config_path None w1 of
             None \<Rightarrow> None
           | Some (Ok lockfile, w2) \<Rightarrow> Some (Ok lockfile, w2)
           | Some (Err _, w2) \<Rightarrow> discovery_rounds env config_path default_profile timeout k w2))"

definition discover_or_autostart ::
    "'w start_env \<Rightarrow> string \<Rightarrow> string option \<Rightarrow> rat \<Rightarrow> 'w \<Rightarrow> ((lockfile_data, string) result \<times> 'w) option" where
  "discover_or_autostart env config_path default_profile timeout w =
     (let (immediate, w1) = se_read env w in
      case accept_owned env config_path immediate of
        Some res \<Rightarrow> Some (res, w1)
      | None \<Rightarrow> discovery_rounds env config_path default_profile timeout start_race_retries w1)"



section \<open>Laws\<close>

lemma accept_owned_Ok: "accept_owned env cfg r = Some (Ok l) \<Longrightarrow> lockfile_owned_by_config env l cfg = Ok True"
  by (auto simp: accept_owned_def split: result.splits if_splits)

lemma poll_lockfile_Ok:
  "poll_lockfile env cfg pid w = (Some (Ok l), w') \<Longrightarrow> lockfile_owned_by_config env l cfg = Ok True"
  by (auto simp: poll_lockfile_def split: prod.splits result.splits if_splits bool.splits)

lemma wait_until_Ok:
  assumes "wait_until env deadline cfg pid w = Some r" and "fst r = Ok l"
  shows "lockfile_owned_by_config env l cfg = Ok True"
proof -
  have "fst r = Ok l \<longrightarrow> lockfile_owned_by_config env l cfg = Ok True"
    by (rule wait_until.raw_induct [OF _ assms(1), where P = "\<lambda>env d cfg p w r. fst r = Ok l \<longrightarrow> lockfile_owned_by_config env l cfg = Ok True"])
      (auto simp: Let_def split: prod.splits if_splits option.splits dest: poll_lockfile_Ok)
  then show ?thesis using assms(2) by simp
qed

lemma leader_round_Ok:
  "leader_round env cfg prof timeout w = (Some (Ok l), w') \<Longrightarrow> lockfile_owned_by_config env l cfg = Ok True"
  by (auto simp: leader_round_def split: prod.splits option.splits result.splits dest: accept_owned_Ok)

lemma discovery_rounds_Ok:
  "discovery_rounds env cfg prof timeout k w = Some (Ok l, w') \<Longrightarrow> lockfile_owned_by_config env l cfg = Ok True"
proof (induction k arbitrary: w)
  case (Suc k)
  then show ?case
    by (auto simp: wait_for_owned_live_lockfile_def Let_def split: prod.splits option.splits result.splits
        dest: leader_round_Ok wait_until_Ok [where l = l])
qed simp


section \<open>The order of lock operations\<close>

datatype startup_event = Locked string | Unlocked string | Spawned string

text \<open>The same environment, with a record of locks, unlocks and started servers beside its world.\<close>

definition traced :: "'w start_env \<Rightarrow> ('w \<times> startup_event list) start_env" where
  "traced env =
     \<lparr>se_resolve = se_resolve env, se_absolute_or_exists = se_absolute_or_exists env, se_lock_dir = se_lock_dir env,
      se_read = (\<lambda>(w, t). let (r, w1) = se_read env w in (r, (w1, t))),
      se_wait = (\<lambda>d p (w, t). let (r, w1) = se_wait env d p w in (r, (w1, t))),
      se_autostart = (\<lambda>c p (w, t). let (r, w1) = se_autostart env c p w in (r, (w1, t @ [Spawned c]))),
      se_flock = (\<lambda>path (w, t). let (r, w1) = se_flock env path w
        in (r, (w1, if r = Ok True then t @ [Locked path] else t))),
      se_unlock = (\<lambda>path (w, t). (se_unlock env path w, t @ [Unlocked path])),
      se_delete_stale = (\<lambda>(w, t). (se_delete_stale env w, t)),
      se_clock = (\<lambda>(w, t). let (r, w1) = se_clock env w in (r, (w1, t))),
      se_sleep = (\<lambda>d (w, t). (se_sleep env d w, t))\<rparr>"

text \<open>One process holds at most one lock, starts servers only under it, and gives it back.\<close>

fun disciplined :: "string option \<Rightarrow> startup_event list \<Rightarrow> bool" where
  "disciplined held [] = (held = None)"
| "disciplined None (Locked path # es) = disciplined (Some path) es"
| "disciplined (Some path) (Unlocked q # es) = (q = path \<and> disciplined None es)"
| "disciplined (Some path) (Spawned c # es) = disciplined (Some path) es"
| "disciplined _ _ = False"

definition spawns :: "startup_event list \<Rightarrow> nat" where
  "spawns es = length (filter (\<lambda>e. case e of Spawned _ \<Rightarrow> True | _ \<Rightarrow> False) es)"

lemma disciplined_append: "disciplined h a \<Longrightarrow> disciplined h (a @ b) = disciplined None b"
  by (induction h a rule: disciplined.induct) auto

lemma spawns_append [simp]: "spawns (a @ b) = spawns a + spawns b"
  by (simp add: spawns_def)

lemma poll_traced: "snd (snd (poll_lockfile (traced env) cfg pid wt)) = snd wt"
  by (cases wt) (auto simp: poll_lockfile_def traced_def lockfile_owned_by_config_def split_beta Let_def
      split: result.split option.split bool.split)

lemma clock_traced: "snd (snd (se_clock (traced env) wt)) = snd wt"
  by (cases wt) (simp add: traced_def split_beta)

lemma wait_traced:
  assumes "wait_until (traced env) deadline cfg pid wt = Some r"
  shows "snd (snd r) = snd wt"
proof -
  have "traced env = traced env \<longrightarrow> snd (snd r) = snd wt"
  proof (rule wait_until.raw_induct [OF _ assms, where P = "\<lambda>e d c p w r. e = traced env \<longrightarrow> snd (snd r) = snd w"], intro impI)
    fix wait e d c p w and r :: "(lockfile_data, string) result \<times> 'a \<times> startup_event list"
    assume IH: "\<And>e d c p w r. wait e d c p w = Some r \<Longrightarrow> e = traced env \<longrightarrow> snd (snd r) = snd w"
      and body: "(let (now, w1) = se_clock e w in if d \<le> now
        then Some (Err ''LOCKFILE_WAIT_TIMEOUT: timed out waiting for gateway.lock'', w1)
        else case poll_lockfile e c p w1 of (None, w2) \<Rightarrow> wait e d c p w2 | (Some res, w2) \<Rightarrow> Some (res, w2)) = Some r"
      and e: "e = traced env"
    obtain now w1 where ck: "se_clock e w = (now, w1)" by (metis prod.collapse)
    obtain res w2 where pl: "poll_lockfile e c p w1 = (res, w2)" by (metis prod.collapse)
    have "snd w1 = snd w" using clock_traced [of env w] ck e by simp
    moreover have "snd w2 = snd w1" using poll_traced [of env c p w1] pl e by simp
    ultimately show "snd (snd r) = snd w"
      using body IH [of e d c p w2 r] e by (auto simp: ck [unfolded e] pl [unfolded e] Let_def split: if_splits option.splits)
  qed
  then show ?thesis by simp
qed

lemma follower_traced:
  assumes "wait_for_owned_live_lockfile (traced env) timeout cfg pid wt = Some (r, wt')"
  shows "snd wt' = snd wt"
proof -
  obtain now w1 where ck: "se_clock (traced env) wt = (now, w1)" by (metis prod.collapse)
  then have "snd w1 = snd wt" using clock_traced [of env wt] by simp
  moreover have "snd wt' = snd w1"
    using wait_traced [of env "now + timeout" cfg pid w1 "(r, wt')"] assms
    by (simp add: wait_for_owned_live_lockfile_def ck)
  ultimately show ?thesis by simp
qed

lemma leader_traced:
  "\<exists>es. snd (snd (leader_round (traced env) cfg prof timeout (w, t))) = t @ es \<and> (es = [] \<or> (\<exists>c. es = [Spawned c]))"
  by (auto simp: leader_round_def traced_def Let_def split_beta split: option.split result.split)

text \<open>What a run of rounds adds to the record.\<close>

lemma rounds_traced:
  "discovery_rounds (traced env) cfg prof timeout k (w, t) = Some (r, w', t') \<Longrightarrow>
     \<exists>es. t' = t @ es \<and> disciplined None es \<and> spawns es \<le> k"
proof (induction k arbitrary: w t)
  case (Suc k)
  let ?env = "traced env"
  obtain got w1 t1 where acq: "try_acquire_startup_lock ?env cfg (w, t) = (got, w1, t1)" by (metis prod.collapse)
  have t1: "t1 = t @ (case got of Ok (Some handle) \<Rightarrow> [Locked handle] | _ \<Rightarrow> [])"
    using acq by (auto simp: try_acquire_startup_lock_def traced_def split_beta Let_def
        split: result.splits option.splits if_splits)
  show ?case
  proof (cases got)
    case (Err e)
    then show ?thesis using Suc.prems acq t1 by (auto intro!: exI [of _ "[]"] simp: spawns_def)
  next
    case (Ok handle)
    show ?thesis
    proof (cases handle)
      case None
      then have acq: "try_acquire_startup_lock ?env cfg (w, t) = (Ok None, w1, t)" using acq t1 Ok by simp
      obtain q w2 t2 where f: "wait_for_owned_live_lockfile ?env timeout cfg None (w1, t) = Some (q, w2, t2)"
        using Suc.prems acq by (cases "wait_for_owned_live_lockfile ?env timeout cfg None (w1, t)") auto
      have t2: "t2 = t" using follower_traced [OF f] by simp
      show ?thesis
      proof (cases q)
        case (Err e)
        then have "discovery_rounds ?env cfg prof timeout k (w2, t) = Some (r, w', t')"
          using Suc.prems acq f t2 by simp
        from Suc.IH [OF this] show ?thesis using le_SucI by blast
      qed (use Suc.prems acq f t2 in \<open>auto intro!: exI [of _ "[]"] simp: spawns_def\<close>)
    next
      case (Some path)
      obtain res w2 t2 where lead: "leader_round ?env cfg prof timeout (w1, t1) = (res, w2, t2)" by (metis prod.collapse)
      obtain es where es: "t2 = t1 @ es" "es = [] \<or> (\<exists>c. es = [Spawned c])"
        using leader_traced [of env cfg prof timeout w1 t1] by (auto simp: lead)
      let ?seg = "Locked path # es @ [Unlocked path]"
      have seg: "disciplined None ?seg" "spawns ?seg \<le> 1" using es(2) by (auto simp: spawns_def)
      have un: "se_unlock ?env path (w2, t2) = (se_unlock env path w2, t @ ?seg)"
        using t1 es(1) Ok Some by (simp add: traced_def)
      show ?thesis
      proof (cases res)
        case None
        then have "discovery_rounds ?env cfg prof timeout k (se_unlock env path w2, t @ ?seg) = Some (r, w', t')"
          using Suc.prems acq Ok Some lead un by simp
        from Suc.IH [OF this] obtain fs where fs: "t' = (t @ ?seg) @ fs" "disciplined None fs" "spawns fs \<le> k" by blast
        have "disciplined None (?seg @ fs)" using disciplined_append [OF seg(1)] fs(2) by simp
        moreover have "spawns (?seg @ fs) \<le> Suc k" using seg(2) fs(3) unfolding spawns_append by simp
        ultimately show ?thesis using fs(1) by (intro exI [of _ "?seg @ fs"]) simp
      next
        case (Some x)
        then have "t' = t @ ?seg" using Suc.prems acq Ok \<open>handle = Some path\<close> lead un by simp
        then show ?thesis using seg by (intro exI [of _ ?seg]) simp
      qed
    qed
  qed
qed (auto intro!: exI [of _ "[]"] simp: spawns_def)


section \<open>The wait ends\<close>

text \<open>A clock that never goes back, and that a pause moves on.\<close>

definition advancing :: "'w start_env \<Rightarrow> ('w \<Rightarrow> rat) \<Rightarrow> bool" where
  "advancing env time \<longleftrightarrow>
     (\<forall>w. fst (se_clock env w) = time w \<and> time w \<le> time (snd (se_clock env w)) \<and> time w \<le> time (snd (se_read env w))
        \<and> time w \<le> time (se_delete_stale env w) \<and> (\<forall>d. time w + d \<le> time (se_sleep env d w)))"

lemma poll_advances:
  "advancing env time \<Longrightarrow> poll_lockfile env cfg pid w = (None, w') \<Longrightarrow> time w + poll_seconds \<le> time w'"
proof -
  assume adv: "advancing env time" and poll: "poll_lockfile env cfg pid w = (None, w')"
  obtain r w1 where rd: "se_read env w = (r, w1)" by fastforce
  have "time w \<le> time w1" using adv rd by (metis advancing_def snd_conv)
  moreover have "w' = se_sleep env poll_seconds w1 \<or> w' = se_sleep env poll_seconds (se_delete_stale env w1)"
    using poll rd by (auto simp: poll_lockfile_def split: result.splits if_splits bool.splits)
  moreover have "time w1 + poll_seconds \<le> time (se_sleep env poll_seconds w1)"
    "time w1 \<le> time (se_delete_stale env w1)"
    "time (se_delete_stale env w1) + poll_seconds \<le> time (se_sleep env poll_seconds (se_delete_stale env w1))"
    using adv by (simp_all add: advancing_def)
  ultimately show ?thesis by (auto intro: order_trans add_right_mono)
qed

lemma wait_until_returns:
  assumes adv: "advancing env time" and "deadline - time w \<le> of_nat n * poll_seconds"
  shows "wait_until env deadline cfg pid w \<noteq> None"
  using assms(2)
proof (induction n arbitrary: w)
  case 0
  then have "deadline \<le> fst (se_clock env w)" using adv by (simp add: advancing_def)
  then show ?case by (subst wait_until.simps) (simp add: split_beta)
next
  case (Suc n)
  obtain now w1 where ck: "se_clock env w = (now, w1)" by fastforce
  then have t1: "time w \<le> time w1" using adv by (metis advancing_def snd_conv)
  show ?case
  proof (cases "poll_lockfile env cfg pid w1")
    case (Pair res w2)
    show ?thesis
    proof (cases res)
      case None
      then have "time w1 + poll_seconds \<le> time w2" using poll_advances [OF adv] Pair by simp
      then have "deadline - time w2 \<le> of_nat n * poll_seconds" using Suc.prems t1 by (simp add: algebra_simps)
      then show ?thesis using Suc.IH [of w2] by (subst wait_until.simps) (simp add: ck Pair None)
    qed (subst wait_until.simps, simp add: ck Pair)
  qed
qed

lemma follower_returns:
  assumes "advancing env time"
  shows "wait_for_owned_live_lockfile env timeout cfg pid w \<noteq> None"
proof -
  obtain now w1 where ck: "se_clock env w = (now, w1)" by fastforce
  obtain n where "(now + timeout - time w1) / poll_seconds \<le> of_nat n" using reals_Archimedean2 less_imp_le by blast
  then have "now + timeout - time w1 \<le> of_nat n * poll_seconds" by (simp add: poll_seconds_def field_simps)
  then show ?thesis using wait_until_returns [OF assms] by (simp add: wait_for_owned_live_lockfile_def ck)
qed

lemma rounds_return:
  "advancing env time \<Longrightarrow> discovery_rounds env cfg prof timeout k w \<noteq> None"
proof (induction k arbitrary: w)
  case (Suc k)
  obtain got w1 where acq: "try_acquire_startup_lock env cfg w = (got, w1)" by fastforce
  obtain q w2 where f: "wait_for_owned_live_lockfile env timeout cfg None w1 = Some (q, w2)"
    using follower_returns [OF Suc.prems, of timeout cfg None w1] by auto
  note IH = Suc.IH [OF Suc.prems]
  show ?case
  proof (cases got)
    case (Ok handle)
    show ?thesis
    proof (cases handle)
      case None
      then show ?thesis using IH [of w2] acq f Ok by (cases q) simp_all
    next
      case (Some path)
      then show ?thesis
        using IH acq Ok by (cases "leader_round env cfg prof timeout w1") (simp add: Let_def split: option.split)
    qed
  qed (simp add: acq)
qed simp


section \<open>Properties\<close>

text \<open>Whatever other processes do meanwhile, a lockfile that discovery returns belongs to the requested
  configuration, as far as ownership can be asserted for its path.\<close>

theorem discovery_returns_owned:
  assumes "discover_or_autostart env cfg prof timeout w = Some (Ok l, w')"
  shows "lockfile_owned_by_config env l cfg = Ok True"
  using assms by (auto simp: discover_or_autostart_def Let_def split: prod.splits option.splits
      dest: accept_owned_Ok discovery_rounds_Ok)

text \<open>A world of one lockfile, found or not, whose clock ticks.\<close>

definition sample_lockfile :: lockfile_data where
  "sample_lockfile = \<lparr>lk_pid = 42, lk_host = ''127.0.0.1'', lk_port = 8080, lk_token = ''t'', lk_started_at = ''now'',
     lk_config_path = ''/tela.yaml'', lk_version = ''1''\<rparr>"

definition sample_start_env :: "(lockfile_data, string) result \<Rightarrow> bool \<Rightarrow> rat start_env" where
  "sample_start_env found free = \<lparr>se_resolve = Ok, se_absolute_or_exists = (\<lambda>_. True), se_lock_dir = ''/home'',
     se_read = (\<lambda>w. (found, w)), se_wait = (\<lambda>_ _ w. (found, w)), se_autostart = (\<lambda>_ _ w. (Ok 42, w)),
     se_flock = (\<lambda>_ w. (Ok free, w)), se_unlock = (\<lambda>_ w. w), se_delete_stale = (\<lambda>w. w),
     se_clock = (\<lambda>w. (w, w)), se_sleep = (\<lambda>d w. w + d)\<rparr>"

lemma discovery_owned_witness:
  "lockfile_owned_by_config (sample_start_env (Ok sample_lockfile) True) sample_lockfile ''/tela.yaml'' = Ok True"
proof -
  have "discover_or_autostart (sample_start_env (Ok sample_lockfile) True) ''/tela.yaml'' None 1 0 = Some (Ok sample_lockfile, 0)"
    by (simp add: discover_or_autostart_def sample_start_env_def accept_owned_def lockfile_owned_by_config_def
        requested_config_owner_path_def normalize_config_path_def sample_lockfile_def)
  then show ?thesis by (rule discovery_returns_owned)
qed



text \<open>C30: Discovery always returns, also while another process holds the lock and no lockfile ever
  appears, if the clock does not go back and a pause moves it on by its length.\<close>

theorem discovery_returns:
  assumes "advancing env time"
  shows "discover_or_autostart env cfg prof timeout w \<noteq> None"
  using rounds_return [OF assms] by (auto simp: discover_or_autostart_def Let_def split: prod.split option.split)

lemma discovery_returns_witness:
  "discover_or_autostart (sample_start_env (Err ''LOCKFILE_READ_ERROR: lockfile does not exist'') False) ''/tela.yaml'' None 5 0 \<noteq> None"
proof -
  have "advancing (sample_start_env (Err ''LOCKFILE_READ_ERROR: lockfile does not exist'') False) (\<lambda>w. w)"
    by (simp add: advancing_def sample_start_env_def)
  then show ?thesis by (rule discovery_returns)
qed

text \<open>A file system whose file another process may replace while this one asks for a process's state;
  the second component is what that process is about to publish. No process is alive.\<close>

definition publishing_env :: "(string \<Rightarrow> (lockfile_data, string) result) \<Rightarrow> (int \<Rightarrow> bool) \<Rightarrow> (string option \<times> string option) lock_env" where
  "publishing_env decode alive =
     \<lparr>le_read = (\<lambda>w. (case fst w of None \<Rightarrow> Missing | Some raw \<Rightarrow> Content raw, w)),
      le_decode = decode, le_encode = lk_token,
      le_replace = (\<lambda>raw w. (None, (Some raw, snd w))),
      le_unlink = (\<lambda>w. (None, (None, snd w))),
      le_ps = (\<lambda>pid w. (if alive pid then PsState ''S'' else PsNoProcess,
        (case snd w of None \<Rightarrow> w | Some raw \<Rightarrow> (Some raw, None)))),
      le_kill = (\<lambda>pid w. (if alive pid then Delivered else NoSuchProcess, w))\<rparr>"

lemma publishing_stale:
  "lockfile_is_stale (publishing_env decode alive) pid w =
     (\<not> alive pid, case snd w of None \<Rightarrow> w | Some raw \<Rightarrow> (Some raw, None))"
proof -
  have "py_strip ''S'' = ''S''" by code_simp
  then show ?thesis
    by (simp add: lockfile_is_stale_def publishing_env_def is_stale_def is_zombie_process_def is_lower_def)
qed

lemma publishing_fields:
  "le_read (publishing_env decode alive) w = (case fst w of None \<Rightarrow> Missing | Some raw \<Rightarrow> Content raw, w)"
  "le_decode (publishing_env decode alive) = decode" "le_unlink (publishing_env decode alive) w = (None, (None, snd w))"
  by (simp_all add: publishing_env_def)

text \<open>The cleanup of a stale lockfile removes exactly a lockfile whose process is gone, as long as no one
  else writes; but it is not atomic: a live lockfile published while it asks for the process is removed.\<close>

theorem stale_cleanup_race:
  assumes "decode old = Ok d" and "\<not> alive (lk_pid d)"
  shows "delete_lockfile_if_stale (publishing_env decode alive) (Some old, None) = (Ok True, (None, None))
    \<and> (\<forall>live e. decode live = Ok e \<longrightarrow> alive (lk_pid e) \<longrightarrow>
        delete_lockfile_if_stale (publishing_env decode alive) (Some live, None) = (Ok False, (Some live, None))
        \<and> delete_lockfile_if_stale (publishing_env decode alive) (Some old, Some live) = (Ok True, (None, None)))"
  using assms
  by (simp add: delete_lockfile_if_stale_def publishing_stale publishing_fields delete_lockfile_def)

lemma stale_cleanup_witness:
  "delete_lockfile_if_stale (publishing_env (\<lambda>raw. Ok (sample_lockfile\<lparr>lk_pid := int (length raw)\<rparr>)) (\<lambda>pid. pid = 2))
     (Some ''o'', Some ''nn'') = (Ok True, (None, None))"
proof -
  let ?decode = "\<lambda>raw. Ok (sample_lockfile\<lparr>lk_pid := int (length raw)\<rparr>)"
  have "?decode ''o'' = Ok (sample_lockfile\<lparr>lk_pid := 1\<rparr>)" "\<not> (\<lambda>pid. pid = 2) (lk_pid (sample_lockfile\<lparr>lk_pid := 1\<rparr>))"
    by simp_all
  from stale_cleanup_race [where decode = ?decode and old = "''o''" and alive = "\<lambda>pid. pid = 2", OF this]
  show ?thesis by simp
qed

end
