(* ===== verification/Bridge_Transport.thy ===== *)
theory Bridge_Transport
  imports Bridge_Protocol
begin

text \<open>
  The transports of \<^verbatim>\<open>tela connect\<close>: the frames it exchanges with its client over stdio
  (\<open>read_framed_message\<close>, \<open>write_framed_message\<close> of \<^verbatim>\<open>commands/connect_bridge.py\<close>) and the
  payloads it takes from HTTP responses (\<^verbatim>\<open>commands/connect_transport.py\<close>). Bytes are characters;
  a stream is what is left to read of it. The stream is the process's buffered standard input, whose
  \<^verbatim>\<open>read(n)\<close> raises for a negative length other than -1 and for one beyond 63 bits.
\<close>


section \<open>Bytes\<close>

definition is_byte_space :: "char \<Rightarrow> bool" where
  "is_byte_space c \<longleftrightarrow> (9 \<le> code c \<and> code c \<le> 13) \<or> code c = 32"

definition bytes_strip :: "string \<Rightarrow> string" where
  "bytes_strip s = rev (dropWhile is_byte_space (rev (dropWhile is_byte_space s)))"

definition bytes_lower :: "string \<Rightarrow> string" where
  "bytes_lower s = map (\<lambda>c. if is_upper c then char_of (code c + 32) else c) s"

text \<open>\<^verbatim>\<open>int(b)\<close>: as for text, but only the blanks of ASCII surround the number.\<close>

definition bytes_int :: "string \<Rightarrow> int option" where
  "bytes_int s =
     (let t = bytes_strip s in
      if t \<noteq> [] \<and> (is_space (hd t) \<or> is_space (last t)) then None else py_int t)"

definition bytes_rstrip :: "char set \<Rightarrow> string \<Rightarrow> string" where
  "bytes_rstrip A s = rev (dropWhile (\<lambda>c. c \<in> A) (rev s))"


section \<open>Reading\<close>

definition read_line :: "string \<Rightarrow> string \<times> string" where
  "read_line s =
     (case dropWhile (\<lambda>c. c \<noteq> CHR 0x0A) s of
        [] \<Rightarrow> (s, [])
      | c # rest \<Rightarrow> (takeWhile (\<lambda>c. c \<noteq> CHR 0x0A) s @ [c], rest))"

lemma read_line_append: "fst (read_line s) @ snd (read_line s) = s"
  unfolding read_line_def
  by (metis (no_types, lifting) append.assoc append_Cons append_Nil append_Nil2 fst_conv list.exhaust list.simps(4,5)
      prod.collapse snd_conv takeWhile_dropWhile_id)

lemma read_line_Nil: "fst (read_line s) = [] \<longleftrightarrow> s = []"
  by (auto simp: read_line_def split: list.split)

lemma read_line_shorter: "read_line s = (line, rest) \<Longrightarrow> line \<noteq> [] \<Longrightarrow> length rest < length s"
  using read_line_append [of s] by (metis fst_conv length_append length_greater_0_conv less_add_same_cancel2 snd_conv)

definition read_bytes :: "int \<Rightarrow> string \<Rightarrow> py_exc + string \<times> string" where
  "read_bytes n s =
     (if n < - (2 ^ 63) \<or> 2 ^ 63 \<le> n then
        Inl (OverflowError (''cannot fit '' @ squote ''int'' @ '' into an index-sized integer''))
      else if n < - 1 then Inl (ValueError ''read length must be non-negative or -1'')
      else if n = - 1 then Inr (s, []) else Inr (take (nat n) s, drop (nat n) s))"

text \<open>The lines up to a blank one; \<open>None\<close> when the stream ends before it.\<close>

function skip_headers :: "string \<Rightarrow> string option" where
  "skip_headers s =
     (let (line, rest) = read_line s in
      if line = [] then None
      else if line = [CHR 0x0D, CHR 0x0A] \<or> line = [CHR 0x0A] then Some rest else skip_headers rest)"
  by auto
termination by (relation "measure length") (auto dest: read_line_shorter [OF sym])

declare skip_headers.simps [simp del]

record bridge_message =
  bm_payload :: string
  bm_framed :: bool

type_synonym read_result = "(bridge_message option, string) result \<times> string"

definition read_frame_body :: "int \<Rightarrow> string \<Rightarrow> py_exc + read_result" where
  "read_frame_body content_length body =
     map_right (\<lambda>(payload, rest).
         (if int (length payload) \<noteq> content_length then Err ''MCP_FORWARD_FAILED: EOF while reading MCP frame body''
          else Ok (Some \<lparr>bm_payload = payload, bm_framed = True\<rparr>), rest))
       (read_bytes content_length body)"

definition read_framed :: "string \<Rightarrow> string \<Rightarrow> py_exc + read_result" where
  "read_framed header_line rest =
     (case bytes_int (bytes_strip (drop 1 (dropWhile (\<lambda>c. c \<noteq> CHR '':'') header_line))) of
        None \<Rightarrow> Inr (Err ''MCP_FORWARD_FAILED: invalid Content-Length header'', rest)
      | Some content_length \<Rightarrow>
          (case skip_headers rest of
             None \<Rightarrow> Inr (Err ''MCP_FORWARD_FAILED: EOF while reading MCP headers'', [])
           | Some body \<Rightarrow> read_frame_body content_length body))"

function read_framed_message :: "string \<Rightarrow> py_exc + read_result" where
  "read_framed_message s =
     (let (line, rest) = read_line s in
      if line = [] then Inr (Ok None, rest)
      else if bytes_strip line = [] then read_framed_message rest
      else if startswith (bytes_lower line) ''content-length:'' then read_framed line rest
      else Inr (Ok (Some \<lparr>bm_payload = bytes_strip line, bm_framed = False\<rparr>), rest))"
  by auto
termination by (relation "measure length") (auto dest: read_line_shorter [OF sym])

declare read_framed_message.simps [simp del]


section \<open>Writing\<close>

definition crlf :: string where
  "crlf = [CHR 0x0D, CHR 0x0A]"

definition framed_text :: "bool \<Rightarrow> string \<Rightarrow> string" where
  "framed_text framed payload =
     (if framed then ''Content-Length: '' @ show_nat (length payload) @ crlf @ crlf @ payload
      else bytes_rstrip {CHR 0x0D, CHR 0x0A} payload @ [CHR 0x0A])"

text \<open>What the output stream does with a write: it may be closed, or fail for another reason.\<close>

datatype pipe = PipeOpen | PipeBroken | PipeError string

definition write_framed_message :: "pipe \<Rightarrow> bool \<Rightarrow> string \<Rightarrow> string \<Rightarrow> (unit, string) result \<times> string" where
  "write_framed_message pipe framed payload out =
     (case pipe of
        PipeOpen \<Rightarrow> (Ok (), out @ framed_text framed payload)
      | PipeBroken \<Rightarrow> (Err ''BRIDGE_WRITE_FAILED: upstream client disconnected (BrokenPipe)'', out)
      | PipeError e \<Rightarrow> (Err (''BRIDGE_WRITE_FAILED: '' @ e), out))"


section \<open>Payloads of HTTP messages\<close>

definition inject_bridge_connection_id :: "string loads \<Rightarrow> string option \<Rightarrow> string \<Rightarrow> string" where
  "inject_bridge_connection_id loads connection_id payload =
     (case connection_id of
        None \<Rightarrow> payload
      | Some cid \<Rightarrow>
          (case decoded_object loads payload of
             None \<Rightarrow> payload
           | Some message \<Rightarrow>
               if dget message ''method'' \<noteq> Some (JStr ''initialize'') then payload
               else (case dget message ''params'' of
                   Some (JDict params) \<Rightarrow>
                     (case dget params ''clientInfo'' of
                        Some (JDict client_info) \<Rightarrow>
                          if dget client_info ''tela_bridge_connection_id'' = Some (JStr cid) then payload
                          else dumps_default (JDict (dset ''params'' (JDict (dset ''clientInfo''
                            (JDict (dset ''tela_bridge_connection_id'' (JStr cid) client_info)) params)) message))
                      | _ \<Rightarrow> payload)
                 | _ \<Rightarrow> payload)))"

text \<open>\<^verbatim>\<open>str.splitlines\<close>, for text of code points at most 255.\<close>

definition is_line_break :: "char \<Rightarrow> bool" where
  "is_line_break c \<longleftrightarrow> (10 \<le> code c \<and> code c \<le> 13) \<or> (28 \<le> code c \<and> code c \<le> 30) \<or> code c = 133"

fun splitlines_from :: "string \<Rightarrow> string \<Rightarrow> string list" where
  "splitlines_from acc [] = (if acc = [] then [] else [rev acc])"
| "splitlines_from acc [c] = [if is_line_break c then rev acc else rev (c # acc)]"
| "splitlines_from acc (c # d # cs) =
     (if c = CHR 0x0D \<and> d = CHR 0x0A then rev acc # splitlines_from [] cs
      else if is_line_break c then rev acc # splitlines_from [] (d # cs)
      else splitlines_from (c # acc) (d # cs))"

definition splitlines :: "string \<Rightarrow> string list" where
  "splitlines s = splitlines_from [] s"

definition flush_event :: "string list \<Rightarrow> string list" where
  "flush_event current =
     (let payload = join [CHR 0x0A] current in if payload \<noteq> [] \<and> payload \<noteq> ''[DONE]'' then [payload] else [])"

definition sse_line :: "string list \<times> string list \<Rightarrow> string \<Rightarrow> string list \<times> string list" where
  "sse_line st line =
     (case st of (payloads, current) \<Rightarrow>
        let stripped = py_strip line in
        if stripped = [] then (payloads @ flush_event current, [])
        else if startswith stripped ''data:'' then (payloads, current @ [lstrip (drop 5 stripped)])
        else st)"

text \<open>The argument is the decoded body and the results are the payloads before encoding.\<close>

definition parse_sse_payloads :: "string \<Rightarrow> string list" where
  "parse_sse_payloads text =
     (case foldl sse_line ([], []) (splitlines text) of (payloads, current) \<Rightarrow> payloads @ flush_event current)"

text \<open>\<open>decode\<close> and \<open>encode\<close> are the UTF-8 codec, which replaces what it cannot decode.\<close>

definition extract_response_messages ::
    "(string \<Rightarrow> string) \<Rightarrow> (string \<Rightarrow> string) \<Rightarrow> string \<Rightarrow> string \<Rightarrow> string list" where
  "extract_response_messages decode encode content_type body =
     (if body = [] then []
      else if contains ''text/event-stream'' (py_lower content_type)
        then map encode (parse_sse_payloads (decode body))
      else [body])"


section \<open>Frames\<close>

lemma read_line_break: "CHR 0x0A \<notin> set line \<Longrightarrow> read_line (line @ CHR 0x0A # rest) = (line @ [CHR 0x0A], rest)"
proof -
  assume l: "CHR 0x0A \<notin> set line"
  then have "dropWhile (\<lambda>c. c \<noteq> CHR 0x0A) (line @ CHR 0x0A # rest) = CHR 0x0A # rest"
    by (subst dropWhile_append2) auto
  moreover have "takeWhile (\<lambda>c. c \<noteq> CHR 0x0A) (line @ CHR 0x0A # rest) = line"
    using l by (subst takeWhile_append2) auto
  ultimately show ?thesis by (simp add: read_line_def)
qed

lemma digits_no_break: "CHR 0x0A \<notin> set (show_nat n)" "CHR '':'' \<notin> set (show_nat n)"
  using show_nat_digits [of n] by (auto simp: list_all_iff is_digit_def)

lemma byte_space_is_space: "is_byte_space c \<Longrightarrow> is_space c"
  by (auto simp: is_byte_space_def is_space_def)

lemma digit_not_byte_space: "is_digit c \<Longrightarrow> \<not> is_byte_space c"
  by (auto simp: is_digit_def is_byte_space_def)

lemma bytes_strip_solid:
  "t \<noteq> [] \<Longrightarrow> \<not> is_byte_space (hd t) \<Longrightarrow> \<not> is_byte_space (last t) \<Longrightarrow> list_all is_byte_space a
     \<Longrightarrow> list_all is_byte_space b \<Longrightarrow> bytes_strip (a @ t @ b) = t"
proof -
  assume t: "t \<noteq> []" "\<not> is_byte_space (hd t)" "\<not> is_byte_space (last t)"
    and ab: "list_all is_byte_space a" "list_all is_byte_space b"
  have "dropWhile is_byte_space (a @ t @ b) = t @ b"
    using t(1,2) ab(1) by (subst dropWhile_append2) (auto simp: list_all_iff neq_Nil_conv)
  moreover have "dropWhile is_byte_space (rev b @ rev t) = rev t"
    using t(1,3) ab(2) by (cases t rule: rev_cases) (simp, subst dropWhile_append2, auto simp: list_all_iff)
  ultimately show ?thesis by (simp add: bytes_strip_def)
qed

lemma bytes_int_show_nat:
  assumes "length (show_nat n) \<le> 4300"
  shows "bytes_int (show_nat n) = Some (int n)"
proof -
  have d: "is_digit (hd (show_nat n))" "is_digit (last (show_nat n))"
    using show_nat_digits [of n] by (auto simp: list_all_iff)
  then have sp: "\<not> is_space (hd (show_nat n))" "\<not> is_space (last (show_nat n))" by (auto dest: digit_not_space)
  then have "bytes_strip (show_nat n) = show_nat n"
    using bytes_strip_solid [of "show_nat n" "[]" "[]"] byte_space_is_space by auto
  then show ?thesis using sp py_int_show_nat [OF assms] by (simp add: bytes_int_def)
qed

lemma length_header_token:
  "bytes_strip (drop 1 (dropWhile (\<lambda>c. c \<noteq> CHR '':'') (''Content-Length: '' @ show_nat n @ crlf))) = show_nat n"
proof -
  have d: "is_digit (hd (show_nat n))" "is_digit (last (show_nat n))"
    using show_nat_digits [of n] by (auto simp: list_all_iff)
  then have "\<not> is_byte_space (hd (show_nat n))" "\<not> is_byte_space (last (show_nat n))"
    by (auto dest: digit_not_space byte_space_is_space)
  then have "bytes_strip ('' '' @ show_nat n @ crlf) = show_nat n"
    by (intro bytes_strip_solid) (auto simp: is_byte_space_def crlf_def)
  then show ?thesis by simp
qed

lemma read_frame_written:
  assumes len: "length p < 10 ^ 10"
  shows "read_framed_message (framed_text True p @ rest) = Inr (Ok (Some \<lparr>bm_payload = p, bm_framed = True\<rparr>), rest)"
proof -
  let ?head = "''Content-Length: '' @ show_nat (length p) @ crlf"
  have line: "read_line (framed_text True p @ rest) = (?head, crlf @ p @ rest)"
    using read_line_break [of "''Content-Length: '' @ show_nat (length p) @ [CHR 0x0D]" "crlf @ p @ rest"] digits_no_break
    by (simp add: framed_text_def crlf_def)
  have lower: "startswith (bytes_lower ?head) ''content-length:''"
  proof -
    have "bytes_lower ?head = bytes_lower ''Content-Length: '' @ bytes_lower (show_nat (length p) @ crlf)"
      by (simp add: bytes_lower_def)
    moreover have "bytes_lower ''Content-Length: '' = ''content-length: ''" by code_simp
    ultimately show ?thesis by simp
  qed
  have strip: "bytes_strip ?head \<noteq> []"
  proof -
    have "bytes_strip ([] @ (''Content-Length: '' @ show_nat (length p)) @ crlf) = ''Content-Length: '' @ show_nat (length p)"
      using digit_not_byte_space [of "last (show_nat (length p))"] show_nat_digits [of "length p"]
      by (intro bytes_strip_solid) (auto simp: crlf_def is_byte_space_def list_all_iff)
    then show ?thesis by simp
  qed
  have "read_line (crlf @ p @ rest) = (crlf, p @ rest)"
    using read_line_break [of "[CHR 0x0D]" "p @ rest"] by (simp add: crlf_def)
  then have body: "skip_headers (crlf @ p @ rest) = Some (p @ rest)"
    by (subst skip_headers.simps) (simp add: crlf_def)
  have num: "bytes_int (show_nat (length p)) = Some (int (length p))"
    using show_nat_short [OF len] by (rule bytes_int_show_nat)
  have "read_framed ?head (crlf @ p @ rest) = Inr (Ok (Some \<lparr>bm_payload = p, bm_framed = True\<rparr>), rest)"
    using len unfolding read_framed_def length_header_token num
    by (simp add: body read_frame_body_def read_bytes_def)
  then show ?thesis
    by (subst read_framed_message.simps) (simp only: line lower strip Let_def prod.case if_True if_False, simp)
qed

lemma bytes_strip_suffix:
  assumes "list_all is_byte_space b"
  shows "bytes_strip (x @ b) = bytes_strip x"
proof (cases "list_all is_byte_space x")
  case True
  with assms have "dropWhile is_byte_space (x @ b) = []" "dropWhile is_byte_space x = []"
    by (simp_all only: dropWhile_eq_Nil_conv list_all_iff set_append) auto
  then show ?thesis by (simp only: bytes_strip_def)
next
  case False
  then have "dropWhile is_byte_space (x @ b) = dropWhile is_byte_space x @ b"
    using dropWhile_append1 [of _ x is_byte_space b] by (auto simp: list_all_iff)
  moreover have "dropWhile is_byte_space (rev b @ y) = dropWhile is_byte_space y" for y
    using assms by (subst dropWhile_append2) (auto simp: list_all_iff)
  ultimately show ?thesis by (simp add: bytes_strip_def)
qed

lemma bytes_rstrip_suffix:
  obtains b where "p = bytes_rstrip A p @ b" and "set b \<subseteq> A"
proof
  show "p = bytes_rstrip A p @ rev (takeWhile (\<lambda>c. c \<in> A) (rev p))"
    unfolding bytes_rstrip_def by (metis rev_append rev_rev_ident takeWhile_dropWhile_id)
  show "set (rev (takeWhile (\<lambda>c. c \<in> A) (rev p))) \<subseteq> A" by (auto dest: set_takeWhileD)
qed

lemma read_line_written:
  assumes "CHR 0x0A \<notin> set p" and "bytes_strip p \<noteq> []" and "\<not> startswith (bytes_lower p) ''content-length:''"
  shows "read_framed_message (framed_text False p @ rest)
    = Inr (Ok (Some \<lparr>bm_payload = bytes_strip p, bm_framed = False\<rparr>), rest)"
proof -
  let ?A = "{CHR 0x0D, CHR 0x0A}" and ?m = "''content-length:''"
  obtain b where p: "p = bytes_rstrip ?A p @ b" and b: "set b \<subseteq> ?A" by (rule bytes_rstrip_suffix)
  define q where "q = bytes_rstrip ?A p"
  have p: "p = q @ b" using p by (simp add: q_def)
  have b: "list_all is_byte_space b" using b by (auto simp: list_all_iff is_byte_space_def)
  have line: "read_line (framed_text False p @ rest) = (q @ [CHR 0x0A], rest)"
  proof -
    have "CHR 0x0A \<notin> set q" using assms(1) p by simp
    moreover have "framed_text False p = q @ [CHR 0x0A]" by (simp add: framed_text_def q_def)
    ultimately show ?thesis using read_line_break [of q rest] by simp
  qed
  have strip: "bytes_strip (q @ [CHR 0x0A]) = bytes_strip p"
    using bytes_strip_suffix [OF b, of q] bytes_strip_suffix [of "[CHR 0x0A]" q] p by (simp add: is_byte_space_def)
  have "\<not> startswith (bytes_lower (q @ [CHR 0x0A])) ?m"
  proof
    assume "startswith (bytes_lower (q @ [CHR 0x0A])) ?m"
    then obtain t where t: "bytes_lower q @ [CHR 0x0A] = ?m @ t"
      by (auto simp: startswith_iff bytes_lower_def is_upper_def)
    then obtain t' where "bytes_lower q = ?m @ t'" by (cases t rule: rev_cases) auto
    then have "bytes_lower p = ?m @ t' @ bytes_lower b" using p by (simp add: bytes_lower_def)
    then show False using assms(3) unfolding startswith_iff by blast
  qed
  then show ?thesis
    using assms(2) by (subst read_framed_message.simps) (simp add: line strip)
qed


section \<open>Events\<close>

lemma splitlines_char: "\<not> is_line_break c \<Longrightarrow> splitlines_from acc (c # s) = splitlines_from (c # acc) s"
  by (cases s) (auto simp: is_line_break_def)

lemma splitlines_break: "is_line_break c \<Longrightarrow> c \<noteq> CHR 0x0D \<Longrightarrow> splitlines_from acc (c # s) = rev acc # splitlines s"
  by (cases s) (auto simp: splitlines_def)

lemma splitlines_line:
  assumes "list_all (\<lambda>c. \<not> is_line_break c) line" and "is_line_break c" and "c \<noteq> CHR 0x0D"
  shows "splitlines (line @ c # s) = line # splitlines s"
proof -
  have "splitlines_from acc (line @ c # s) = (rev acc @ line) # splitlines s" for acc
    using assms by (induction line arbitrary: acc) (simp_all add: splitlines_char splitlines_break)
  then show ?thesis by (simp add: splitlines_def)
qed

lemma line_feed_break: "is_line_break (CHR 0x0A)"
  by (simp add: is_line_break_def)

lemma splitlines_lf: "list_all (\<lambda>c. \<not> is_line_break c) line \<Longrightarrow> splitlines (line @ CHR 0x0A # s) = line # splitlines s"
  by (rule splitlines_line) (simp_all add: line_feed_break)

definition sse_event :: "string \<Rightarrow> string" where
  "sse_event payload = ''event: message'' @ [CHR 0x0A] @ ''data: '' @ payload @ [CHR 0x0A, CHR 0x0A]"

definition plain_payload :: "string \<Rightarrow> bool" where
  "plain_payload p \<longleftrightarrow> p \<noteq> [] \<and> p \<noteq> ''[DONE]'' \<and> list_all (\<lambda>c. \<not> is_line_break c) p
     \<and> \<not> is_space (hd p) \<and> \<not> is_space (last p)"

lemma splitlines_event:
  "plain_payload p \<Longrightarrow> splitlines (sse_event p @ s) = ''event: message'' # (''data: '' @ p) # [] # splitlines s"
proof -
  assume "plain_payload p"
  then have l: "list_all (\<lambda>c. \<not> is_line_break c) (''data: '' @ p)"
    by (simp add: plain_payload_def is_line_break_def)
  have e: "list_all (\<lambda>c. \<not> is_line_break c) ''event: message''" by (simp add: is_line_break_def)
  show ?thesis
    using splitlines_lf [OF e, of "(''data: '' @ p) @ CHR 0x0A # [] @ CHR 0x0A # s"]
      splitlines_lf [OF l, of "[] @ CHR 0x0A # s"] splitlines_lf [of "[]" s]
    by (simp add: sse_event_def)
qed

lemma data_line:
  assumes "plain_payload p"
  shows "sse_line (ps, []) (''data: '' @ p) = (ps, [p])" and "flush_event [p] = [p]"
proof -
  have p: "p \<noteq> []" "\<not> is_space (hd p)" "\<not> is_space (last p)" "p \<noteq> ''[DONE]''"
    using assms by (simp_all add: plain_payload_def)
  then have "py_strip (''data: '' @ p) = ''data: '' @ p" by (intro py_strip_id) (auto simp: is_space_def)
  moreover have "is_space (CHR '' '')" by (simp add: is_space_def)
  then have "lstrip ('' '' @ p) = p" using p by (cases p) (simp_all add: lstrip_def)
  ultimately show "sse_line (ps, []) (''data: '' @ p) = (ps, [p])" by (simp add: sse_line_def)
  show "flush_event [p] = [p]" using p by (simp add: flush_event_def)
qed

lemma event_lines:
  assumes "plain_payload p"
  shows "foldl sse_line (ps, []) [''event: message'', ''data: '' @ p, []] = (ps @ [p], [])"
proof -
  have "py_strip ''event: message'' = ''event: message''" by code_simp
  then have "sse_line (ps, []) ''event: message'' = (ps, [])" by (simp add: sse_line_def)
  moreover have "sse_line (ps, [p]) [] = (ps @ [p], [])"
    using data_line(2) [OF assms] by (simp add: sse_line_def py_strip_def lstrip_def)
  ultimately show ?thesis using data_line(1) [OF assms] by simp
qed

lemma parse_events:
  "list_all plain_payload qs \<Longrightarrow> foldl sse_line (ps, []) (splitlines (concat (map sse_event qs))) = (ps @ qs, [])"
proof (induction qs arbitrary: ps)
  case (Cons q qs)
  then have "splitlines (concat (map sse_event (q # qs)))
      = [''event: message'', ''data: '' @ q, []] @ splitlines (concat (map sse_event qs))"
    by (simp add: splitlines_event)
  then show ?case
    using event_lines [of q ps] Cons by (simp only: foldl_append) simp
qed (simp add: splitlines_def)

section \<open>Properties\<close>

text \<open>C31: What one side writes the other reads: a message written in either framing is read back whole, with
  its framing, and the stream stands after it. Line framing loses only surrounding blanks, and needs a
  payload without line feed that is neither blank nor looks like a length header.\<close>

theorem frames_round_trip:
  assumes "length p < 10 ^ 10"
    and "\<not> framed \<Longrightarrow> CHR 0x0A \<notin> set p \<and> bytes_strip p \<noteq> [] \<and> \<not> startswith (bytes_lower p) ''content-length:''"
  shows "read_framed_message (framed_text framed p @ rest)
    = Inr (Ok (Some \<lparr>bm_payload = (if framed then p else bytes_strip p), bm_framed = framed\<rparr>), rest)"
  using assms by (cases framed) (simp_all add: read_frame_written read_line_written)

lemma frames_round_trip_witness:
  "read_framed_message (framed_text True ''{}'' @ framed_text False ''[] '')
      = Inr (Ok (Some \<lparr>bm_payload = ''{}'', bm_framed = True\<rparr>), framed_text False ''[] '')
   \<and> read_framed_message (framed_text False ''[] '')
      = Inr (Ok (Some \<lparr>bm_payload = ''[]'', bm_framed = False\<rparr>), [])"
proof -
  have s: "bytes_strip ''[] '' = ''[]''" by code_simp
  have "\<not> startswith (bytes_lower ''[] '') ''content-length:''" by code_simp
  then show ?thesis
    using frames_round_trip [of "''{}''" True "framed_text False ''[] ''"] frames_round_trip [of "''[] ''" False "[]"]
    by (simp add: s)
qed

text \<open>A length that is not a number, a body or a header section cut short are errors of the reader; but a
  length below -1, or beyond 63 bits, is not: the read raises, and no one on the way catches it.\<close>

theorem bad_lengths_raise:
  assumes "bytes_int (bytes_strip (drop 1 (dropWhile (\<lambda>c. c \<noteq> CHR '':'') header))) = Some n"
    and "skip_headers rest = Some body" and "n < - 1 \<or> 2 ^ 63 \<le> n"
  shows "isl (read_framed header rest)"
  using assms by (auto simp: read_framed_def read_frame_body_def read_bytes_def)

lemma bad_lengths_witness: "isl (read_framed ''Content-Length: -5'' (crlf @ ''{}''))"
proof -
  have "bytes_int (bytes_strip (drop 1 (dropWhile (\<lambda>c. c \<noteq> CHR '':'') ''Content-Length: -5''))) = Some (- 5)" by code_simp
  moreover have "skip_headers (crlf @ ''{}'') = Some ''{}''" by code_simp
  ultimately show ?thesis by (rule bad_lengths_raise) simp
qed

text \<open>The payloads of a stream of server-sent events come out as they went in, in order, provided that
  each is one line in the sense of \<^verbatim>\<open>str.splitlines\<close>; a payload with one of its further line breaks
  (as U+0085, which JSON allows inside a string) loses everything after it.\<close>

theorem events_round_trip:
  assumes "list_all plain_payload ps" and "plain_payload a" and "list_all (\<lambda>c. \<not> is_line_break c) b"
    and "py_strip b \<noteq> []" and "\<not> startswith (py_strip b) ''data:''"
  shows "parse_sse_payloads (concat (map sse_event ps)) = ps
    \<and> parse_sse_payloads (sse_event (a @ CHR 0x85 # b)) = [a]"
proof -
  have cut: "list_all (\<lambda>c. \<not> is_line_break c) (''data: '' @ a)"
    using assms(2) by (simp add: plain_payload_def is_line_break_def)
  have e: "list_all (\<lambda>c. \<not> is_line_break c) ''event: message''" by (simp add: is_line_break_def)
  have "splitlines (sse_event (a @ CHR 0x85 # b)) = [''event: message'', ''data: '' @ a, b, []]"
    using splitlines_lf [OF e, of "(''data: '' @ a) @ CHR 0x85 # b @ CHR 0x0A # [] @ CHR 0x0A # []"]
      splitlines_line [OF cut, of "CHR 0x85" "b @ CHR 0x0A # [] @ CHR 0x0A # []"]
      splitlines_lf [OF assms(3), of "[] @ CHR 0x0A # []"] splitlines_lf [of "[]" "[]"]
    by (simp add: sse_event_def is_line_break_def splitlines_def)
  moreover have "sse_line ([], []) ''event: message'' = ([], [])"
  proof -
    have "py_strip ''event: message'' = ''event: message''" by code_simp
    then show ?thesis by (simp add: sse_line_def)
  qed
  moreover have "sse_line ([], [a]) b = ([], [a])" using assms(4,5) by (simp add: sse_line_def Let_def)
  moreover have "sse_line ([], [a]) [] = ([a], [])"
    using data_line(2) [OF assms(2)] by (simp add: sse_line_def py_strip_def lstrip_def)
  moreover have "flush_event [] = []" by (simp add: flush_event_def)
  ultimately have "parse_sse_payloads (sse_event (a @ CHR 0x85 # b)) = [a]"
    using data_line(1) [OF assms(2), of "[]"] by (simp add: parse_sse_payloads_def)
  moreover have "parse_sse_payloads (concat (map sse_event ps)) = ps"
    using parse_events [OF assms(1), of "[]"] \<open>flush_event [] = []\<close> by (simp add: parse_sse_payloads_def)
  ultimately show ?thesis by blast
qed

lemma events_round_trip_witness:
  "parse_sse_payloads (concat (map sse_event [''{1}'', ''{2}''])) = [''{1}'', ''{2}'']
   \<and> parse_sse_payloads (sse_event (''{a'' @ CHR 0x85 # ''b}'')) = [''{a'']"
proof -
  have "list_all plain_payload [''{1}'', ''{2}'']" "plain_payload ''{a''"
    by (simp_all add: plain_payload_def is_line_break_def is_space_def)
  moreover have "list_all (\<lambda>c. \<not> is_line_break c) ''b}''" by (simp add: is_line_break_def)
  moreover have "py_strip ''b}'' = ''b}''" by code_simp
  ultimately show ?thesis by (intro events_round_trip) simp_all
qed

end
