(* ===== verification/Http_Client.thy ===== *)
theory Http_Client
  imports Py_Json
begin

text \<open>
  \<^verbatim>\<open>commands/http_client.py\<close> with \<^verbatim>\<open>core/http_transient.py\<close> and \<^verbatim>\<open>shell/transient_types.py\<close>: one HTTP request,
  repeated while the failure is one that passes. \<^verbatim>\<open>urlopen\<close> and \<^verbatim>\<open>time.sleep\<close> are operations on a world
  \<open>'w\<close>; an answer is of a type \<open>'r\<close> the caller chooses. What \<^verbatim>\<open>urlopen\<close> raises that is not a \<^verbatim>\<open>URLError\<close>,
  for one a timeout while it waits for the answer, is raised by the request as well.
\<close>


section \<open>Failures that pass\<close>

datatype os_class = ConnectionRefused | ConnectionReset | ConnectionAborted | BrokenPipe | TimedOut | OtherOSClass

datatype errno = ECONNREFUSED | ECONNRESET | ECONNABORTED | EPIPE | ETIMEDOUT | OtherErrno

text \<open>The \<^verbatim>\<open>reason\<close> of a \<^verbatim>\<open>URLError\<close>: an \<^verbatim>\<open>OSError\<close> with its class and number, a text, or another object.\<close>

datatype url_reason = ReasonOS os_class errno | ReasonText string | ReasonObject

definition transient_connection_exceptions :: "os_class set" where
  "transient_connection_exceptions = {ConnectionRefused, ConnectionReset, ConnectionAborted, BrokenPipe, TimedOut}"

definition transient_errnos :: "errno set" where
  "transient_errnos = {ECONNREFUSED, ECONNRESET, ECONNABORTED, EPIPE, ETIMEDOUT}"

definition transient_reason_markers :: "string list" where
  "transient_reason_markers = [''connection refused'', ''connection reset'', ''connection aborted'', ''broken pipe'',
     ''timed out'', ''temporarily unavailable'']"

fun is_transient_url_error :: "url_reason \<Rightarrow> bool" where
  "is_transient_url_error (ReasonOS cls num) =
     (cls \<in> transient_connection_exceptions \<or> num \<in> transient_errnos)"
| "is_transient_url_error (ReasonText t) = list_ex (\<lambda>marker. contains marker (py_lower t)) transient_reason_markers"
| "is_transient_url_error ReasonObject = False"


section \<open>The request\<close>

text \<open>What one attempt comes to; \<open>'b\<close> is the body of an error answer, and a \<^verbatim>\<open>URLError\<close> has its text beside it.\<close>

datatype ('r, 'b) http_attempt = Response 'r | StatusError int 'b | UrlError url_reason string | AttemptRaises py_exc

record 'b retry_policy =
  rt_max_retries :: int
  rt_backoff :: rat
  rt_on_503 :: bool
  rt_on_transient :: bool
  rt_is_503_retryable :: "('b \<Rightarrow> bool) option"

definition retries_503 :: "'b retry_policy \<Rightarrow> int \<Rightarrow> int \<Rightarrow> bool" where
  "retries_503 p status attempt \<longleftrightarrow> status = 503 \<and> rt_on_503 p \<and> attempt < rt_max_retries p"

definition predicate_allows :: "'b retry_policy \<Rightarrow> 'b \<Rightarrow> bool" where
  "predicate_allows p body = (case rt_is_503_retryable p of None \<Rightarrow> True | Some f \<Rightarrow> f body)"

text \<open>One turn of the loop: \<open>Inr None\<close> is another attempt after a pause, with the error to remember.\<close>

definition after_attempt ::
    "'b retry_policy \<Rightarrow> string \<Rightarrow> int \<Rightarrow> string \<Rightarrow> ('r, 'b) http_attempt \<Rightarrow> py_exc + ('r, string) result option \<times> string" where
  "after_attempt p url attempt last_error outcome =
     (case outcome of
        AttemptRaises exc \<Rightarrow> Inl exc
      | Response r \<Rightarrow> Inr (Some (Ok r), last_error)
      | StatusError status body \<Rightarrow>
          if retries_503 p status attempt \<and> predicate_allows p body then Inr (None, last_error)
          else Inr (Some (Err (''HTTP_'' @ show_int status @ '': '' @ url)), last_error)
      | UrlError reason text' \<Rightarrow>
          (let e = ''HTTP_CONNECT_ERROR: '' @ text' in
           if \<not> rt_on_transient p \<or> \<not> is_transient_url_error reason \<or> attempt = rt_max_retries p
           then Inr (Some (Err e), e) else Inr (None, e)))"

text \<open>\<open>attempts\<close> counts the attempts that are left.\<close>

fun retry_loop ::
    "'b retry_policy \<Rightarrow> string \<Rightarrow> ('w \<Rightarrow> ('r, 'b) http_attempt \<times> 'w) \<Rightarrow> (rat \<Rightarrow> 'w \<Rightarrow> 'w) \<Rightarrow> nat \<Rightarrow> int \<Rightarrow> string \<Rightarrow> 'w
       \<Rightarrow> (py_exc + ('r, string) result) \<times> 'w" where
  "retry_loop p url send pause 0 attempt last_error w = (Inr (Err last_error), w)"
| "retry_loop p url send pause (Suc attempts) attempt last_error w =
     (let (outcome, w1) = send w in
      case after_attempt p url attempt last_error outcome of
        Inl exc \<Rightarrow> (Inl exc, w1)
      | Inr (Some res, _) \<Rightarrow> (Inr res, w1)
      | Inr (None, e) \<Rightarrow>
          retry_loop p url send pause attempts (attempt + 1) e (pause (rt_backoff p * of_int (attempt + 1)) w1))"

definition retry_http_request ::
    "'b retry_policy \<Rightarrow> string \<Rightarrow> ('w \<Rightarrow> ('r, 'b) http_attempt \<times> 'w) \<Rightarrow> (rat \<Rightarrow> 'w \<Rightarrow> 'w) \<Rightarrow> 'w
       \<Rightarrow> (py_exc + ('r, string) result) \<times> 'w" where
  "retry_http_request p url send pause w = retry_loop p url send pause (nat (rt_max_retries p + 1)) 0 [] w"

text \<open>The requests of the operator commands: one attempt.\<close>

definition single_attempt :: "'b retry_policy" where
  "single_attempt = \<lparr>rt_max_retries = 0, rt_backoff = 1 / 2, rt_on_503 = False, rt_on_transient = False,
     rt_is_503_retryable = None\<rparr>"

lemma single_attempt_once:
  "retry_http_request single_attempt url send pause w =
     (case send w of
        (AttemptRaises exc, w1) \<Rightarrow> (Inl exc, w1)
      | (Response r, w1) \<Rightarrow> (Inr (Ok r), w1)
      | (StatusError status body, w1) \<Rightarrow> (Inr (Err (''HTTP_'' @ show_int status @ '': '' @ url)), w1)
      | (UrlError reason t, w1) \<Rightarrow> (Inr (Err (''HTTP_CONNECT_ERROR: '' @ t)), w1))"
  by (simp add: retry_http_request_def single_attempt_def after_attempt_def retries_503_def Let_def
      split: prod.split http_attempt.split)


section \<open>The body of an answer\<close>

text \<open>\<^verbatim>\<open>response.read().decode("utf-8")\<close>\<close>

datatype body_read = BodyText string | BodyOSError string | BodyUndecodable string | BodyRaises py_exc

text \<open>What reading it raises, as text, and what no \<^verbatim>\<open>except Exception\<close> catches.\<close>

fun body_error :: "body_read \<Rightarrow> string" where
  "body_error (BodyOSError e) = e"
| "body_error (BodyUndecodable e) = e"
| "body_error (BodyRaises exc) = exc_text exc"
| "body_error (BodyText t) = []"

definition body_interrupt :: "body_read \<Rightarrow> py_exc option" where
  "body_interrupt body = (case body of BodyRaises exc \<Rightarrow> if is_interrupt exc then Some exc else None | _ \<Rightarrow> None)"


section \<open>How often and how long\<close>

text \<open>The same request, with the outcomes of its attempts and its pauses recorded beside the world.\<close>

definition recorded_send :: "('w \<Rightarrow> ('r, 'b) http_attempt \<times> 'w) \<Rightarrow> 'w \<times> ('r, 'b) http_attempt list \<times> rat list
    \<Rightarrow> ('r, 'b) http_attempt \<times> 'w \<times> ('r, 'b) http_attempt list \<times> rat list" where
  "recorded_send send = (\<lambda>(w, as, ps). let (a, w1) = send w in (a, w1, as @ [a], ps))"

definition recorded_pause :: "(rat \<Rightarrow> 'w \<Rightarrow> 'w) \<Rightarrow> rat \<Rightarrow> 'w \<times> 'a list \<times> rat list \<Rightarrow> 'w \<times> 'a list \<times> rat list" where
  "recorded_pause pause d = (\<lambda>(w, as, ps). (pause d w, as, ps @ [d]))"

text \<open>The failure of an attempt after which the request may be sent again.\<close>

definition passing :: "'b retry_policy \<Rightarrow> ('r, 'b) http_attempt \<Rightarrow> bool" where
  "passing p a = (case a of
      StatusError status body \<Rightarrow> status = 503 \<and> rt_on_503 p \<and> predicate_allows p body
    | UrlError reason t \<Rightarrow> rt_on_transient p \<and> is_transient_url_error reason
    | _ \<Rightarrow> False)"

lemma retry_loop_recorded:
  assumes "retry_loop p url (recorded_send send) (recorded_pause pause) n k e (w, as, ps) = (res, w', as', ps')"
    and "0 < n" and "k + int n = rt_max_retries p + 1"
  shows "\<exists>bs b. as' = as @ bs @ [b] \<and> length bs < n \<and> list_all (passing p) bs
    \<and> ps' = ps @ map (\<lambda>i. rt_backoff p * of_int (k + int i + 1)) [0..<length bs]
    \<and> (\<forall>r. res = Inr (Ok r) \<longleftrightarrow> b = Response r)"
  using assms
proof (induction n arbitrary: k e w as ps)
  case (Suc n)
  obtain a w1 where "send w = (a, w1)" by fastforce
  then have s: "recorded_send send (w, as, ps) = (a, w1, as @ [a], ps)" by (simp add: recorded_send_def)
  show ?case
  proof (cases "after_attempt p url k e a")
    case (Inl exc)
    then have "as' = as @ [a]" "ps' = ps" "res = Inl exc" using Suc.prems(1) s by simp_all
    moreover have "\<forall>r. a \<noteq> Response r" using Inl by (auto simp: after_attempt_def)
    ultimately show ?thesis by (intro exI [of _ "[]"] exI [of _ a]) simp
  next
    case (Inr oe)
    obtain out e1 where oe: "oe = (out, e1)" by fastforce
    show ?thesis
    proof (cases out)
      case (Some r)
      then have "as' = as @ [a]" "ps' = ps" "res = Inr r" using Suc.prems(1) s Inr oe by simp_all
      moreover have "r = Ok q \<longleftrightarrow> a = Response q" for q
        using Inr oe Some by (auto simp: after_attempt_def Let_def split: http_attempt.splits if_splits)
      ultimately show ?thesis by (intro exI [of _ "[]"] exI [of _ a]) simp
    next
      case None
      have paused: "recorded_pause pause d (w1, x, y) = (pause d w1, x, y @ [d])" for d x y
        by (simp add: recorded_pause_def)
      from None have more: "retry_loop p url (recorded_send send) (recorded_pause pause) n (k + 1) e1
          (pause (rt_backoff p * of_int (k + 1)) w1, as @ [a], ps @ [rt_backoff p * of_int (k + 1)]) = (res, w', as', ps')"
        using Suc.prems(1) s Inr oe by (simp add: paused)
      have pa: "passing p a \<and> k \<noteq> rt_max_retries p"
        using Inr oe None by (auto simp: after_attempt_def passing_def retries_503_def Let_def split: http_attempt.splits if_splits)
      then have "0 < n" using Suc.prems(3) by (cases n) auto
      from Suc.IH [OF more this] Suc.prems(3) obtain bs b where
        ih: "as' = (as @ [a]) @ bs @ [b]" "length bs < n" "list_all (passing p) bs"
          "ps' = (ps @ [rt_backoff p * of_int (k + 1)]) @ map (\<lambda>i. rt_backoff p * of_int (k + 1 + int i + 1)) [0..<length bs]"
          "\<forall>r. res = Inr (Ok r) \<longleftrightarrow> b = Response r" by auto
      have "[0..<length (a # bs)] = 0 # map Suc [0..<length bs]"
        by (simp add: upt_conv_Cons map_Suc_upt del: upt_Suc)
      then have "map (\<lambda>i. rt_backoff p * of_int (k + int i + 1)) [0..<length (a # bs)] =
          rt_backoff p * of_int (k + 1) # map (\<lambda>i. rt_backoff p * of_int (k + 1 + int i + 1)) [0..<length bs]"
        by (simp add: algebra_simps del: upt_Suc)
      then show ?thesis using ih pa by (intro exI [of _ "a # bs"] exI [of _ b]) (simp del: upt_Suc)
    qed
  qed
qed simp


section \<open>Property\<close>

text \<open>C40: A request is made at most once more often than retries are allowed; every attempt but the last failed in a
  way that passes, the pauses grow by the base interval, and it succeeds exactly with its last answer.\<close>

theorem retries_are_bounded:
  assumes "retry_http_request p url (recorded_send send) (recorded_pause pause) (w, [], []) = (res, w', as, ps)"
    and "0 \<le> rt_max_retries p"
  shows "\<exists>bs b. as = bs @ [b] \<and> int (length bs) \<le> rt_max_retries p \<and> list_all (passing p) bs
    \<and> ps = map (\<lambda>i. rt_backoff p * of_nat (i + 1)) [0..<length bs] \<and> (\<forall>r. res = Inr (Ok r) \<longleftrightarrow> b = Response r)"
proof -
  from retry_loop_recorded [OF assms(1) [unfolded retry_http_request_def]] assms(2) obtain bs b where
    *: "as = bs @ [b]" "length bs < nat (rt_max_retries p + 1)" "list_all (passing p) bs"
      "ps = map (\<lambda>i. rt_backoff p * of_int (0 + int i + 1)) [0..<length bs]" "\<forall>r. res = Inr (Ok r) \<longleftrightarrow> b = Response r"
    by auto
  have "ps = map (\<lambda>i. rt_backoff p * of_nat (i + 1)) [0..<length bs]" using *(4) by simp
  then show ?thesis using * by (intro exI [of _ bs] exI [of _ b]) auto
qed

text \<open>A server that refuses the first connection and then answers.\<close>

definition second_time :: "nat \<Rightarrow> (string, unit) http_attempt \<times> nat" where
  "second_time n = (if n = 0 then UrlError (ReasonOS ConnectionRefused ECONNREFUSED) ''refused'' else Response ''up'', n + 1)"

definition sample_policy :: "unit retry_policy" where
  "sample_policy = \<lparr>rt_max_retries = 3, rt_backoff = 1 / 2, rt_on_503 = True, rt_on_transient = True,
     rt_is_503_retryable = None\<rparr>"

lemma retries_are_bounded_witness:
  "\<exists>bs b. fst (snd (snd (retry_http_request sample_policy ''u'' (recorded_send second_time)
      (recorded_pause (\<lambda>_ w. w)) (0, [], [])))) = bs @ [b] \<and> int (length bs) \<le> 3"
proof -
  have "0 \<le> rt_max_retries sample_policy" by (simp add: sample_policy_def)
  from retries_are_bounded [OF _ this, of "''u''" second_time "\<lambda>_ w. w" 0] show ?thesis
    by (metis prod.collapse retry_policy.select_convs(1) sample_policy_def)
qed

end
