(* ===== verification/Bridge_Http.thy ===== *)
theory Bridge_Http
  imports Bridge_Transport Startup_Coordination Classification Http_Client
begin

text \<open>
  The HTTP side of the bridge: one phase-aware exchange with \<^verbatim>\<open>POST /mcp\<close>
  (\<^verbatim>\<open>commands/bridge_http.py\<close>), its string-valued facade, the wait for a ready gateway and the
  discovery of a new one (\<^verbatim>\<open>commands/connect_bridge.py\<close>). The record \<open>bridge_env\<close> is the outside
  of the process; every operation takes and returns the world. What an exchange does to the request in
  each phase is the record \<open>http_exchange\<close>. An exception is its text, and whether it is a timeout.
\<close>


section \<open>One exchange\<close>

record http_exchange =
  hx_connect_error :: "string option"
  hx_headers_error :: "string option"
  hx_send_error :: "string option"
  hx_response_error :: "(string \<times> bool) option"
  hx_read_error :: "(string \<times> bool) option"
  hx_status :: int
  hx_reason :: string
  hx_content_type :: string
  hx_session :: "string option"
  hx_body :: string

datatype http_phase = AtConnect | AtWrite | AtHeaders | AtBody | AtStatus

record bridge_http_error =
  he_phase :: http_phase
  he_message :: string
  he_request_sent :: "bool option"
  he_mcp_admitted :: "bool option"
  he_status_code :: "int option"
  he_retryable_warming :: bool

record bridge_http_response =
  hr_content_type :: string
  hr_body :: string
  hr_session_id :: "string option"

definition failed_at :: "http_phase \<Rightarrow> string \<Rightarrow> bool option \<Rightarrow> bridge_http_error" where
  "failed_at phase msg sent =
     \<lparr>he_phase = phase, he_message = msg, he_request_sent = sent, he_mcp_admitted = None, he_status_code = None,
      he_retryable_warming = False\<rparr>"

definition is_mcp_transient_warming_body :: "string loads \<Rightarrow> string \<Rightarrow> bool" where
  "is_mcp_transient_warming_body loads body =
     (case decoded_object loads body of
        None \<Rightarrow> False
      | Some payload \<Rightarrow>
          (case dget payload ''retry'' of
             Some (JDict retry) \<Rightarrow>
               dget payload ''code'' = Some (JStr ''ADMISSION_REJECTED_WARMING'')
               \<and> dget payload ''transient'' = Some (JBool True)
               \<and> dget retry ''authorized'' = Some (JBool True)
               \<and> dget retry ''basis'' = Some (JStr ''gateway_signal'')
               \<and> dget retry ''expectation'' = Some (JStr ''bounded'')
               \<and> dget payload ''gateway_state'' = Some (JStr ''warming'')
           | _ \<Rightarrow> False))"

definition io_message :: "pyfloat option \<Rightarrow> string \<times> bool \<Rightarrow> string" where
  "io_message response_timeout exc =
     (if response_timeout \<noteq> None \<and> snd exc then ''MCP_REQUEST_TIMEOUT: response deadline expired'' else fst exc)"

definition status_error :: "(string \<Rightarrow> bool) \<Rightarrow> string option \<Rightarrow> http_exchange \<Rightarrow> bridge_http_error" where
  "status_error is_503_retryable session_id hx =
     (let retryable_warming = (hx_status hx = 503 \<and> is_503_retryable (hx_body hx));
          session_not_found = (hx_status hx = 404 \<and> session_id \<noteq> None \<and> session_id \<noteq> Some [])
      in \<lparr>he_phase = AtStatus,
          he_message = (if retryable_warming then ''HTTP_'' @ show_int (hx_status hx) @ '': gateway warming''
            else ''MCP_FORWARD_FAILED: http '' @ show_int (hx_status hx)
              @ (if hx_reason hx = [] then [] else '' '' @ hx_reason hx)),
          he_request_sent = Some True,
          he_mcp_admitted = (if retryable_warming \<or> session_not_found then Some False else None),
          he_status_code = Some (hx_status hx), he_retryable_warming = retryable_warming\<rparr>)"

text \<open>The phases after the connection was made and the headers were composed.\<close>

definition http_outcome ::
    "(string \<Rightarrow> bool) \<Rightarrow> pyfloat option \<Rightarrow> string option \<Rightarrow> string \<Rightarrow> http_exchange
       \<Rightarrow> (bridge_http_response, bridge_http_error) result" where
  "http_outcome is_503_retryable response_timeout session_id payload hx =
     (case hx_headers_error hx of
        Some e \<Rightarrow> Err (failed_at AtWrite e (Some False))
      | None \<Rightarrow>
     (case (if payload = [] then None else hx_send_error hx) of
        Some e \<Rightarrow> Err (failed_at AtWrite e None)
      | None \<Rightarrow>
     (case hx_response_error hx of
        Some e \<Rightarrow> Err (failed_at AtHeaders (io_message response_timeout e) (Some True))
      | None \<Rightarrow>
     (case hx_read_error hx of
        Some e \<Rightarrow> Err (failed_at AtBody (io_message response_timeout e) (Some True))
      | None \<Rightarrow>
          if 200 \<le> hx_status hx \<and> hx_status hx \<le> 299 then
            Ok \<lparr>hr_content_type = hx_content_type hx, hr_body = hx_body hx, hr_session_id = hx_session hx\<rparr>
          else Err (status_error is_503_retryable session_id hx)))))"


section \<open>The environment of the bridge\<close>

text \<open>What \<^verbatim>\<open>urlsplit\<close> makes of a URL: reading the port of the result raises when it is not a port number.\<close>

record split_url =
  su_scheme :: string
  su_host :: "string option"
  su_bad_port :: "string option"

text \<open>A lifecycle request: method, address, token, body and timeout of one \<^verbatim>\<open>urlopen\<close>.\<close>

record lifecycle_request =
  lr_method :: string
  lr_url :: string
  lr_token :: string
  lr_data :: "string option"
  lr_timeout :: rat

text \<open>
  A signal raises \<^verbatim>\<open>KeyboardInterrupt\<close> wherever the main thread is; here it arrives at a lifecycle request or
  where the stop event is checked. \<open>be_validate\<close> gives the two fields that the bridge reads of a
  validated \<^verbatim>\<open>StatusResponse\<close>: state and reason for degradation.
\<close>

record 'w bridge_env =
  be_exchange :: "string \<Rightarrow> string \<Rightarrow> string \<Rightarrow> string option \<Rightarrow> 'w \<Rightarrow> http_exchange \<times> 'w"
  be_split :: "string \<Rightarrow> split_url"
  be_request :: "lifecycle_request \<Rightarrow> 'w \<Rightarrow> (body_read, unit) http_attempt \<times> 'w"
  be_sleep :: "rat \<Rightarrow> 'w \<Rightarrow> 'w"
  be_json :: "string \<Rightarrow> (json, string) result"
  be_validate :: "jobject \<Rightarrow> (string option \<times> string option, string) result"
  be_discover :: "(string \<Rightarrow> string option \<Rightarrow> 'w \<Rightarrow> (lockfile_data, string) result \<times> 'w) option"
  be_stop :: "'w \<Rightarrow> (py_exc + bool) \<times> 'w"
  be_clock :: "'w \<Rightarrow> rat \<times> 'w"
  be_now :: "'w \<Rightarrow> string \<times> 'w"
  be_pipe :: "'w \<Rightarrow> pipe \<times> 'w"
  be_loads :: "string loads"
  be_decode :: "string \<Rightarrow> string"
  be_encode :: "string \<Rightarrow> string"

definition invalid_timeout_message :: string where
  "invalid_timeout_message =
     ''INVALID_TIMEOUT: connect_timeout_seconds and write_timeout_seconds must be finite > 0; ''
     @ ''response_timeout_seconds must be None or finite > 0''"

definition post_mcp_http ::
    "'w bridge_env \<Rightarrow> string \<Rightarrow> string \<Rightarrow> string \<Rightarrow> string option \<Rightarrow> pyfloat \<Rightarrow> pyfloat \<Rightarrow> pyfloat option
       \<Rightarrow> 'w \<Rightarrow> (py_exc + (bridge_http_response, bridge_http_error) result) \<times> 'w" where
  "post_mcp_http env mcp_url bearer_token payload session_id connect_t write_t response_t w =
     (if \<not> bridge_http_timeouts_valid connect_t write_t response_t then
        (Inr (Err (failed_at AtConnect invalid_timeout_message (Some False))), w)
      else if su_scheme (be_split env mcp_url) \<notin> {''http'', ''https''} \<or> su_host (be_split env mcp_url) \<in> {None, Some []} then
        (Inr (Err (failed_at AtConnect (''INVALID_MCP_URL: unsupported or missing host: '' @ mcp_url) (Some False))), w)
      else (case su_bad_port (be_split env mcp_url) of
        Some e \<Rightarrow> (Inl (ValueError e), w)
      | None \<Rightarrow>
        (let (hx, w1) = be_exchange env mcp_url bearer_token payload session_id w in
         (case hx_connect_error hx of
            Some e \<Rightarrow> Inr (Err (failed_at AtConnect e (Some False)))
          | None \<Rightarrow> map_right (\<lambda>_. http_outcome (is_mcp_transient_warming_body (be_loads env)) response_t session_id payload hx)
              (bridge_http_headers bearer_token (int (length payload)) session_id), w1))))"

definition http_timeout_seconds :: rat where
  "http_timeout_seconds = 10"

definition post_mcp_for_forwarding ::
    "'w bridge_env \<Rightarrow> string \<Rightarrow> string \<Rightarrow> string \<Rightarrow> string option
       \<Rightarrow> 'w \<Rightarrow> (py_exc + (bridge_http_response, bridge_http_error) result) \<times> 'w" where
  "post_mcp_for_forwarding env mcp_url bearer_token payload session_id =
     post_mcp_http env mcp_url bearer_token payload session_id (Finite http_timeout_seconds)
       (Finite http_timeout_seconds) None"

text \<open>The facade that returns a string for every failure.\<close>

definition facade_error :: "string \<Rightarrow> string" where
  "facade_error msg =
     (if startswith msg ''HTTP_'' then
        ''MCP_FORWARD_FAILED: http '' @ removeprefix (takeWhile (\<lambda>c. c \<noteq> CHR '':'') msg) ''HTTP_''
      else if startswith msg ''MCP_'' \<or> startswith msg ''INVALID_TIMEOUT:'' then msg
      else ''MCP_FORWARD_FAILED: '' @ msg)"

definition post_mcp_message ::
    "'w bridge_env \<Rightarrow> string \<Rightarrow> string \<Rightarrow> string \<Rightarrow> string option
       \<Rightarrow> 'w \<Rightarrow> (py_exc + (string \<times> string \<times> string option, string) result) \<times> 'w" where
  "post_mcp_message env mcp_url bearer_token payload session_id w =
     (let (res, w1) = post_mcp_http env mcp_url bearer_token payload session_id (Finite http_timeout_seconds)
        (Finite http_timeout_seconds) None w
      in (map_right (\<lambda>r. case r of
              Err e \<Rightarrow> Err (facade_error (he_message e))
            | Ok resp \<Rightarrow> Ok (hr_content_type resp, hr_body resp, hr_session_id resp)) res, w1))"


section \<open>Lifecycle requests\<close>

text \<open>Up to three repetitions, after a 503 and after failures of the connection that pass.\<close>

definition lifecycle_policy :: "unit retry_policy" where
  "lifecycle_policy = \<lparr>rt_max_retries = 3, rt_backoff = 1 / 2, rt_on_503 = True, rt_on_transient = True,
     rt_is_503_retryable = None\<rparr>"

definition send_lifecycle ::
    "'w bridge_env \<Rightarrow> unit retry_policy \<Rightarrow> lifecycle_request \<Rightarrow> 'w \<Rightarrow> (py_exc + (body_read, string) result) \<times> 'w" where
  "send_lifecycle env p r w = retry_http_request p (lr_url r) (be_request env r) (be_sleep env) w"

definition json_body :: "(string, string) dict \<Rightarrow> string" where
  "json_body payload = json_dumps False '', '' '': '' (JDict (map (\<lambda>(k, v). (k, JStr v)) payload))"

definition post_json ::
    "'w bridge_env \<Rightarrow> string \<Rightarrow> string \<Rightarrow> (string, string) dict \<Rightarrow> 'w \<Rightarrow> (py_exc + (unit, string) result) \<times> 'w" where
  "post_json env url token payload w =
     (let (res, w1) = send_lifecycle env lifecycle_policy \<lparr>lr_method = ''POST'', lr_url = url, lr_token = token,
        lr_data = Some (json_body payload), lr_timeout = http_timeout_seconds\<rparr> w
      in (map_right (map_result (\<lambda>_. ())) res, w1))"

definition post_json_once ::
    "'w bridge_env \<Rightarrow> string \<Rightarrow> string \<Rightarrow> (string, string) dict \<Rightarrow> rat \<Rightarrow> 'w
       \<Rightarrow> (py_exc + (unit, string) result) \<times> 'w" where
  "post_json_once env url token payload timeout w =
     (let (res, w1) = send_lifecycle env single_attempt \<lparr>lr_method = ''POST'', lr_url = url, lr_token = token,
        lr_data = Some (json_body payload), lr_timeout = timeout\<rparr> w
      in (map_right (map_result (\<lambda>_. ())) res, w1))"

definition invalid_status :: "string \<Rightarrow> string" where
  "invalid_status e = ''INVALID_STATUS_PAYLOAD: '' @ e"

definition parse_status ::
    "'w bridge_env \<Rightarrow> string \<Rightarrow> (string option \<times> string option, string) result" where
  "parse_status env decoded =
     (case be_json env decoded of
        Err e \<Rightarrow> Err (invalid_status e)
      | Ok (JDict d) \<Rightarrow>
          (case be_validate env d of Err e \<Rightarrow> Err (invalid_status e) | Ok status \<Rightarrow> Ok status)
      | Ok _ \<Rightarrow> Err (invalid_status ''expected object''))"

definition get_gateway_status ::
    "'w bridge_env \<Rightarrow> string \<Rightarrow> string \<Rightarrow> 'w
       \<Rightarrow> (py_exc + (string option \<times> string option, string) result) \<times> 'w" where
  "get_gateway_status env url token w =
     (case send_lifecycle env lifecycle_policy \<lparr>lr_method = ''GET'', lr_url = url, lr_token = token, lr_data = None,
             lr_timeout = http_timeout_seconds\<rparr> w of
        (Inl exc, w1) \<Rightarrow> (Inl exc, w1)
      | (Inr (Err e), w1) \<Rightarrow> (Inr (Err e), w1)
      | (Inr (Ok (BodyText decoded)), w1) \<Rightarrow> (Inr (parse_status env decoded), w1)
      | (Inr (Ok body), w1) \<Rightarrow>
          ((case body_interrupt body of Some exc \<Rightarrow> Inl exc | None \<Rightarrow> Inr (Err (invalid_status (body_error body)))), w1))"

text \<open>The same decision on a whole answer, which the retry loop can be given as its predicate.\<close>

definition is_mcp_transient_warming_error :: "string loads \<Rightarrow> int \<Rightarrow> string \<Rightarrow> bool" where
  "is_mcp_transient_warming_error loads status body \<longleftrightarrow> status = 503 \<and> is_mcp_transient_warming_body loads body"


section \<open>Readiness and discovery\<close>

definition bridge_readiness_max_polls :: nat where
  "bridge_readiness_max_polls = 20"

definition exhausted_text :: "nat \<Rightarrow> string option \<times> string option \<Rightarrow> string" where
  "exhausted_text max_polls status =
     ''BRIDGE_NOT_READY: bounded readiness wait exhausted state=''
     @ (case fst status of None \<Rightarrow> ''unknown'' | Some s \<Rightarrow> or_text s ''unknown'') @ '' polls='' @ show_nat max_polls
     @ (case snd status of None \<Rightarrow> [] | Some r \<Rightarrow> '' degraded_reason='' @ r)"

fun readiness_polls ::
    "'w bridge_env \<Rightarrow> string \<Rightarrow> string \<Rightarrow> nat \<Rightarrow> nat list \<Rightarrow> 'w \<Rightarrow> (py_exc + (unit, string) result) \<times> 'w" where
  "readiness_polls env url token max_polls [] w =
     (Inr (Err ''BRIDGE_NOT_READY: bounded readiness wait exhausted''), w)"
| "readiness_polls env url token max_polls (poll_index # rest) w =
     (case get_gateway_status env url token w of
        (Inl exc, w1) \<Rightarrow> (Inl exc, w1)
      | (Inr (Err e), w1) \<Rightarrow> (Inr (Err (''BRIDGE_READINESS_QUERY_FAILED: '' @ e)), w1)
      | (Inr (Ok status), w1) \<Rightarrow>
          if fst status = Some ''ready'' then (Inr (Ok ()), w1)
          else if fst status = Some ''degraded'' then (Inr (Ok ()), w1)
          else if Suc poll_index = max_polls then (Inr (Err (exhausted_text max_polls status)), w1)
          else readiness_polls env url token max_polls rest (be_sleep env (of_nat (Suc poll_index) / 2) w1))"

definition wait_for_gateway_readiness ::
    "'w bridge_env \<Rightarrow> string \<Rightarrow> string \<Rightarrow> nat \<Rightarrow> 'w \<Rightarrow> (py_exc + (unit, string) result) \<times> 'w" where
  "wait_for_gateway_readiness env url token max_polls = readiness_polls env url token max_polls [0..<max_polls]"

definition url_of :: "string \<Rightarrow> int \<Rightarrow> string" where
  "url_of host port = ''http://'' @ host @ '':'' @ show_int port"

definition rediscover ::
    "'w bridge_env \<Rightarrow> string \<times> int \<times> string \<Rightarrow> string option \<Rightarrow> string option \<Rightarrow> 'w
       \<Rightarrow> (string \<times> int \<times> string) \<times> string \<times> 'w" where
  "rediscover env endpoint config_path default_profile w =
     (case (config_path, be_discover env) of
        (Some path, Some discover) \<Rightarrow>
          (case discover path default_profile w of
             (Ok l, w1) \<Rightarrow> ((lk_host l, lk_port l, lk_token l),
               ''DISCOVERY_SUCCEEDED: host='' @ lk_host l @ '' port='' @ show_int (lk_port l), w1)
           | (Err e, w1) \<Rightarrow> (endpoint, or_text e ''DISCOVERY_FAILED'', w1))
      | _ \<Rightarrow> (endpoint, ''DISCOVERY_DISABLED: explicit server mode disables autostart recovery'', w))"

definition recover_gateway ::
    "'w bridge_env \<Rightarrow> string \<times> int \<times> string \<Rightarrow> string option \<Rightarrow> string option \<Rightarrow> 'w
       \<Rightarrow> (py_exc + (string \<times> int \<times> string, string) result) \<times> 'w" where
  "recover_gateway env endpoint config_path default_profile w =
     (case rediscover env endpoint config_path default_profile w of
        ((host, port, token), discovery_error, w1) \<Rightarrow>
          (case wait_for_gateway_readiness env (url_of host port @ ''/status'') token bridge_readiness_max_polls w1 of
             (Inl exc, w2) \<Rightarrow> (Inl exc, w2)
           | (Inr (Ok _), w2) \<Rightarrow> (Inr (Ok (host, port, token)), w2)
           | (Inr (Err e), w2) \<Rightarrow>
               (Inr (Err (''GATEWAY_RECOVERY_FAILED: discovery='' @ discovery_error @ ''; readiness='' @ e)), w2)))"

text \<open>Which errors of a cycle are worth a recovery of the whole bridge, and which of a request are
  reported to the client as the error of that request.\<close>

definition recoverable_markers :: "string list" where
  "recoverable_markers = [''http_connect_error'', ''connection refused'', ''connection reset'', ''connection aborted'',
     ''broken pipe'', ''timed out'', ''http_503'', ''http 503'', ''bridge_readiness_query_failed'',
     ''bridge_not_ready: bounded readiness wait exhausted'']"

definition is_recoverable_error :: "string \<Rightarrow> bool" where
  "is_recoverable_error e = list_ex (\<lambda>marker. contains marker (py_lower e)) recoverable_markers"

definition recovery_error_code :: "string \<Rightarrow> string option" where
  "recovery_error_code e =
     (if startswith e ''MCP_REQUEST_TIMEOUT'' then Some ''MCP_REQUEST_TIMEOUT''
      else if startswith e ''MCP_RESPONSE_INTERRUPTED'' then Some ''MCP_RESPONSE_INTERRUPTED''
      else if startswith e ''MCP_FORWARD_FAILED'' then Some ''MCP_FORWARD_FAILED''
      else if startswith e ''BRIDGE_RECOVERY_EXHAUSTED'' then Some ''BRIDGE_RECOVERY_EXHAUSTED''
      else if startswith e ''ATTACH_INTERRUPTED'' then Some ''ATTACH_INTERRUPTED''
      else if contains ''RECOVERY'' e \<or> startswith e ''GATEWAY_RECOVERY_FAILED'' then Some ''RECOVERY_FAILED_FOR_REQUEST''
      else None)"

definition jsonrpc_error_response :: "request_id option \<Rightarrow> string \<Rightarrow> string \<Rightarrow> string" where
  "jsonrpc_error_response rid code' msg =
     json_dumps False '','' '':'' (JDict
       [(''jsonrpc'', JStr ''2.0''),
        (''id'', case rid of None \<Rightarrow> JNull | Some (IdInt i) \<Rightarrow> JInt i | Some (IdStr s) \<Rightarrow> JStr s),
        (''error'', JDict [(''code'', JInt (- 32000)), (''message'', JStr (code' @ '': '' @ msg)),
           (''data'', JDict [(''code'', JStr code')])])])"

end
