(* ===== verification/Bridge_Forwarding.thy ===== *)
theory Bridge_Forwarding
  imports Bridge_Http
begin

text \<open>
  The runtime of \<^verbatim>\<open>tela connect\<close> (\<^verbatim>\<open>commands/connect_bridge.py\<close>): requests are read from
  standard input, forwarded to the gateway, recovered and replayed where that is safe, and answered on
  standard output, in cycles until the input ends. The state \<open>bridge\<close> is the one Python keeps for a run;
  \<open>br_stdin\<close> is all the input still to come, \<open>br_events\<close> and \<open>br_attachments\<close> are what was appended to
  the event log and to the attachment registry, and \<open>br_posts\<close> records the forwarded requests with
  their outcomes. Diagnostics on standard error are not modelled.
\<close>

record bridge_config =
  bc_client_id :: string
  bc_client_kind :: string
  bc_connection_id :: string
  bc_connected_at :: string
  bc_max_recovery_attempts :: nat
  bc_config_path :: "string option"
  bc_default_profile :: "string option"

type_synonym post_outcome = "(bridge_http_response, bridge_http_error) result"

record 'w bridge =
  br_base_url :: string
  br_host :: string
  br_port :: int
  br_token :: string
  br_attempts :: nat
  br_world :: 'w
  br_stdin :: string
  br_stdout :: string
  br_events :: "runtime_event list"
  br_attachments :: "client_attachment list"
  br_posts :: "(string \<times> post_outcome) list"

definition in_world :: "('w \<Rightarrow> 'a \<times> 'w) \<Rightarrow> 'w bridge \<Rightarrow> 'a \<times> 'w bridge" where
  "in_world f b = (let (x, w) = f (br_world b) in (x, b\<lparr>br_world := w\<rparr>))"

definition record_event ::
    "'w bridge_env \<Rightarrow> bridge_config \<Rightarrow> runtime_event_kind \<Rightarrow> jobject \<Rightarrow> 'w bridge \<Rightarrow> 'w bridge" where
  "record_event env cfg kind details b =
     (let (now, b1) = in_world (be_now env) b in
      b1\<lparr>br_events := br_events b1 @ [\<lparr>ev_kind = kind, ev_client_id = bc_client_id cfg,
        ev_client_kind = bc_client_kind cfg, ev_timestamp = now, ev_details = details\<rparr>]\<rparr>)"

definition heartbeat_attachment ::
    "'w bridge_env \<Rightarrow> bridge_config \<Rightarrow> runtime_state \<Rightarrow> recoverability \<Rightarrow> display_state
       \<Rightarrow> 'w bridge \<Rightarrow> 'w bridge" where
  "heartbeat_attachment env cfg rs rec ds b =
     (let (now, b1) = in_world (be_now env) b;
          a = \<lparr>ca_client_id = bc_client_id cfg, ca_client_kind = bc_client_kind cfg, ca_display_state = ds,
               ca_runtime_state = rs, ca_recoverability = rec, ca_connected_at = bc_connected_at cfg,
               ca_last_heartbeat = now, ca_stale_candidate = False, ca_unknown_state = False\<rparr>
      in record_event env cfg Heartbeat [(''lease_seconds'', JFloat ''90.0'')]
           (b1\<lparr>br_attachments := br_attachments b1 @ [a]\<rparr>))"


section \<open>Recovery of the transport\<close>

definition register_bridge ::
    "'w bridge_env \<Rightarrow> bridge_config \<Rightarrow> 'w bridge \<Rightarrow> (py_exc + (unit, string) result) \<times> 'w bridge" where
  "register_bridge env cfg b =
     in_world (post_json env (br_base_url b @ ''/connect'') (br_token b) [(''server_name'', bc_connection_id cfg)]) b"

definition attempt_detail :: "'w bridge \<Rightarrow> string \<times> json" where
  "attempt_detail b = (''attempt'', JInt (int (br_attempts b)))"

definition set_endpoint :: "string \<times> int \<times> string \<Rightarrow> 'w bridge \<Rightarrow> 'w bridge" where
  "set_endpoint ep b = (case ep of (host, port, token) \<Rightarrow>
     b\<lparr>br_host := host, br_port := port, br_token := token, br_base_url := url_of host port\<rparr>)"

definition recover_inflight_transport ::
    "'w bridge_env \<Rightarrow> bridge_config \<Rightarrow> 'w bridge \<Rightarrow> (py_exc + (string \<times> string, string) result) \<times> 'w bridge" where
  "recover_inflight_transport env cfg b =
     (if bc_max_recovery_attempts cfg \<le> br_attempts b then
        (Inr (Err ''BRIDGE_RECOVERY_EXHAUSTED: in-flight MCP request could not be replayed''),
         record_event env cfg RecoveryFailed
           [(''reason'', JStr ''recovery_exhausted''), (''attempts'', JInt (int (br_attempts b)))] b)
      else
        (let b0 = b\<lparr>br_attempts := Suc (br_attempts b)\<rparr>;
             b1 = record_event env cfg RecoveryProbe [attempt_detail b0] b0
         in case in_world (recover_gateway env (br_host b1, br_port b1, br_token b1) (bc_config_path cfg)
                   (bc_default_profile cfg)) b1 of
              (Inl exc, b2) \<Rightarrow> (Inl exc, b2)
            | (Inr (Err e), b2) \<Rightarrow>
                (Inr (Err (''BRIDGE_RECOVERY_FAILED: '' @ e)),
                 record_event env cfg RecoveryFailed [(''reason'', JStr (or_text e ''unknown''))] b2)
            | (Inr (Ok endpoint), b2) \<Rightarrow>
                (case register_bridge env cfg (set_endpoint endpoint b2) of
                   (Inl exc, b3) \<Rightarrow> (Inl exc, b3)
                 | (Inr (Err e), b3) \<Rightarrow>
                     (Inr (Err (''BRIDGE_RECOVERY_REGISTER_FAILED: '' @ e)),
                      record_event env cfg RecoveryFailed [(''reason'', JStr (or_text e ''register_failed''))] b3)
                 | (Inr (Ok _), b3) \<Rightarrow>
                     (Inr (Ok (br_base_url b3 @ ''/mcp'', br_token b3)),
                      record_event env cfg RecoverySucceeded
                        [attempt_detail b3, (''host'', JStr (br_host b3)), (''port'', JInt (br_port b3))] b3))))"

definition recover_bridge_transport_state ::
    "'w bridge_env \<Rightarrow> bridge_config \<Rightarrow> string option \<Rightarrow> string option \<Rightarrow> 'w bridge
       \<Rightarrow> (py_exc + (string \<times> string \<times> string option, string) result) \<times> 'w bridge" where
  "recover_bridge_transport_state env cfg message_method initialize_payload b =
     (case recover_inflight_transport env cfg b of
        (Inl exc, b1) \<Rightarrow> (Inl exc, b1)
      | (Inr (Err e), b1) \<Rightarrow> (Inr (Err e), b1)
      | (Inr (Ok (url, token)), b1) \<Rightarrow>
          (case initialize_payload of
             Some payload \<Rightarrow>
               if message_method \<noteq> Some ''initialize'' then
                 (let (res, b2) = in_world (post_mcp_message env url token payload None) b1
                  in (map_right (map_result (\<lambda>(_, _, session). (url, token, session))) res, b2))
               else (Inr (Ok (url, token, None)), b1)
           | None \<Rightarrow> (Inr (Ok (url, token, None)), b1)))"


section \<open>One request\<close>

definition post_forward ::
    "'w bridge_env \<Rightarrow> string \<Rightarrow> string \<Rightarrow> string \<Rightarrow> string option \<Rightarrow> 'w bridge \<Rightarrow> (py_exc + post_outcome) \<times> 'w bridge" where
  "post_forward env url token message session b =
     (let (res, b1) = in_world (post_mcp_for_forwarding env url token message session) b
      in (res, case res of Inl _ \<Rightarrow> b1 | Inr out \<Rightarrow> b1\<lparr>br_posts := br_posts b1 @ [(message, out)]\<rparr>))"

datatype error_action = GiveUp string | AssumeDelivered | RecoverAndReplay

definition on_http_error :: "replay_policy \<Rightarrow> bool \<Rightarrow> bridge_http_error \<Rightarrow> error_action" where
  "on_http_error policy is_notification e =
     (let text = or_text (he_message e) ''MCP_FORWARD_FAILED: unknown MCP HTTP failure'' in
      if startswith text ''MCP_REQUEST_TIMEOUT'' then GiveUp text
      else if he_phase e = AtStatus \<and> he_mcp_admitted e \<noteq> Some False then GiveUp text
      else if he_request_sent e = Some False \<or> he_mcp_admitted e = Some False \<or> policy = Safe then RecoverAndReplay
      else if is_notification \<and> he_mcp_admitted e = None then AssumeDelivered
      else GiveUp (''MCP_RESPONSE_INTERRUPTED: MCP response interrupted after ''
             @ ''request send; unsafe JSON-RPC payload was not replayed''))"

record forwarded =
  fw_url :: string
  fw_token :: string
  fw_session :: "string option"
  fw_messages :: "string list"

definition response_messages :: "'w bridge_env \<Rightarrow> bridge_http_response \<Rightarrow> string list" where
  "response_messages env resp =
     extract_response_messages (be_decode env) (be_encode env) (hr_content_type resp) (hr_body resp)"

text \<open>What one post calls for: an answer, or a recovery and the same post again.\<close>

datatype post_verdict = Settled "(forwarded, string) result" | Again

definition judge_post ::
    "'w bridge_env \<Rightarrow> replay_policy \<Rightarrow> bool \<Rightarrow> string \<Rightarrow> string \<Rightarrow> string option \<Rightarrow> post_outcome \<Rightarrow> post_verdict" where
  "judge_post env policy is_notification url token session out =
     (case out of
        Err e \<Rightarrow>
          (case on_http_error policy is_notification e of
             GiveUp text \<Rightarrow> Settled (Err text)
           | AssumeDelivered \<Rightarrow> Settled (Ok \<lparr>fw_url = url, fw_token = token, fw_session = session, fw_messages = []\<rparr>)
           | RecoverAndReplay \<Rightarrow> Again)
      | Ok resp \<Rightarrow>
          (let messages = response_messages env resp in
           if messages = [] \<and> \<not> is_notification then Settled (Err ''MCP_FORWARD_FAILED: empty MCP HTTP response'')
           else if response_requires_bridge_recovery (be_loads env) messages then Again
           else Settled (Ok \<lparr>fw_url = url, fw_token = token,
             fw_session = (case hr_session_id resp of Some s \<Rightarrow> Some s | None \<Rightarrow> session), fw_messages = messages\<rparr>)))"

lemma record_event_fields [simp]:
  "br_attempts (record_event env cfg k d b) = br_attempts b" "br_stdin (record_event env cfg k d b) = br_stdin b"
  "br_stdout (record_event env cfg k d b) = br_stdout b" "br_posts (record_event env cfg k d b) = br_posts b"
  "br_attachments (record_event env cfg k d b) = br_attachments b"
  "br_base_url (record_event env cfg k d b) = br_base_url b" "br_token (record_event env cfg k d b) = br_token b"
  by (simp_all add: record_event_def in_world_def split_beta Let_def)

lemma in_world_fields [simp]:
  "br_attempts (snd (in_world f b)) = br_attempts b" "br_stdin (snd (in_world f b)) = br_stdin b"
  "br_stdout (snd (in_world f b)) = br_stdout b" "br_posts (snd (in_world f b)) = br_posts b"
  "br_attachments (snd (in_world f b)) = br_attachments b" "br_events (snd (in_world f b)) = br_events b"
  by (simp_all add: in_world_def split_beta Let_def)

lemma in_world_eq: "in_world f b = (x, b1) \<Longrightarrow> br_attempts b1 = br_attempts b \<and> br_stdin b1 = br_stdin b
    \<and> br_stdout b1 = br_stdout b \<and> br_posts b1 = br_posts b \<and> br_attachments b1 = br_attachments b"
  using in_world_fields [of f b] by simp

lemma set_endpoint_fields [simp]:
  "br_attempts (set_endpoint ep b) = br_attempts b" "br_stdin (set_endpoint ep b) = br_stdin b"
  "br_stdout (set_endpoint ep b) = br_stdout b" "br_posts (set_endpoint ep b) = br_posts b"
  "br_attachments (set_endpoint ep b) = br_attachments b"
  by (simp_all add: set_endpoint_def split: prod.split)

text \<open>A recovery of the transport counts, and touches neither the streams nor the forwarded requests.\<close>

lemma recover_inflight_keeps:
  assumes "recover_inflight_transport env cfg b = (res, b1)"
  shows "br_stdin b1 = br_stdin b \<and> br_stdout b1 = br_stdout b \<and> br_posts b1 = br_posts b
    \<and> br_attachments b1 = br_attachments b
    \<and> ((\<exists>x. res = Inr (Ok x)) \<longrightarrow> br_attempts b < bc_max_recovery_attempts cfg)
    \<and> br_attempts b1 = (if br_attempts b < bc_max_recovery_attempts cfg then Suc (br_attempts b) else br_attempts b)"
  using assms
  by (auto simp: recover_inflight_transport_def register_bridge_def Let_def
      split: if_splits prod.splits sum.splits result.splits dest!: in_world_eq)

lemma recover_state_keeps:
  assumes "recover_bridge_transport_state env cfg m ini b = (res, b1)"
  shows "br_stdin b1 = br_stdin b \<and> br_stdout b1 = br_stdout b \<and> br_posts b1 = br_posts b
    \<and> br_attachments b1 = br_attachments b
    \<and> ((\<exists>x. res = Inr (Ok x)) \<longrightarrow> br_attempts b < bc_max_recovery_attempts cfg)
    \<and> br_attempts b1 = (if br_attempts b < bc_max_recovery_attempts cfg then Suc (br_attempts b) else br_attempts b)"
proof -
  obtain r b0 where rec: "recover_inflight_transport env cfg b = (r, b0)" by fastforce
  show ?thesis
    using assms recover_inflight_keeps [OF rec]
    by (auto simp: recover_bridge_transport_state_def rec split: sum.splits result.splits prod.splits option.splits if_splits
        dest!: in_world_eq)
qed

lemma post_forward_keeps:
  assumes "post_forward env url token message session b = (res, b1)"
  shows "br_attempts b1 = br_attempts b \<and> br_stdin b1 = br_stdin b \<and> br_stdout b1 = br_stdout b
    \<and> br_attachments b1 = br_attachments b
    \<and> br_posts b1 = br_posts b @ (case res of Inl _ \<Rightarrow> [] | Inr out \<Rightarrow> [(message, out)])"
  using assms by (auto simp: post_forward_def split: prod.splits sum.splits dest!: in_world_eq)

function forward_loop ::
    "'w bridge_env \<Rightarrow> bridge_config \<Rightarrow> replay_policy \<Rightarrow> bool \<Rightarrow> string option \<Rightarrow> string option \<Rightarrow> string
       \<Rightarrow> string \<times> string \<times> string option \<Rightarrow> 'w bridge \<Rightarrow> (py_exc + (forwarded, string) result) \<times> 'w bridge" where
  "forward_loop env cfg policy is_notification message_method initialize_payload message target b =
     (let (posted, b1) = post_forward env (fst target) (fst (snd target)) message (snd (snd target)) b in
      case posted of
        Inl e \<Rightarrow> (Inl e, b1)
      | Inr out \<Rightarrow>
          (case judge_post env policy is_notification (fst target) (fst (snd target)) (snd (snd target)) out of
             Settled res \<Rightarrow> (Inr res, b1)
           | Again \<Rightarrow>
               (let (recovered, b2) = recover_bridge_transport_state env cfg message_method initialize_payload b1 in
                case recovered of
                  Inl e \<Rightarrow> (Inl e, b2)
                | Inr (Err e) \<Rightarrow> (Inr (Err e), b2)
                | Inr (Ok target') \<Rightarrow>
                    forward_loop env cfg policy is_notification message_method initialize_payload message target' b2)))"
  by auto
termination
proof (relation "measure (\<lambda>(env, cfg, _, _, _, _, _, _, b). bc_max_recovery_attempts cfg - br_attempts b)", goal_cases)
  case (2 env cfg policy is_notification message_method initialize_payload message target b posted b1)
  then show ?case
    by (auto dest!: post_forward_keeps [OF sym] recover_state_keeps [OF sym])
qed simp

declare forward_loop.simps [simp del]

definition forward_request_with_recovery ::
    "'w bridge_env \<Rightarrow> bridge_config \<Rightarrow> string option \<Rightarrow> string option \<Rightarrow> string
       \<Rightarrow> string \<times> string \<times> string option \<Rightarrow> 'w bridge \<Rightarrow> (py_exc + (forwarded, string) result) \<times> 'w bridge" where
  "forward_request_with_recovery env cfg message_method initialize_payload message target b =
     (case bridge_replay_policy (be_loads env) message of
        Inl e \<Rightarrow> (Inl e, b)
      | Inr policy \<Rightarrow>
          forward_loop env cfg policy (jsonrpc_is_notification (be_loads env) message) message_method
            initialize_payload message target b)"


section \<open>What is sent, and how often\<close>

text \<open>A post that cannot have reached the downstream server: the request was not sent, the gateway refused
  it, or the gateway answered with the envelope that asks the bridge to reconnect.\<close>

definition not_admitted :: "'w bridge_env \<Rightarrow> post_outcome \<Rightarrow> bool" where
  "not_admitted env out =
     (case out of
        Err e \<Rightarrow> he_request_sent e = Some False \<or> he_mcp_admitted e = Some False
      | Ok resp \<Rightarrow> response_requires_bridge_recovery (be_loads env) (response_messages env resp))"

lemma judge_post_Again:
  "judge_post env policy n url token session out = Again \<Longrightarrow> policy = Safe \<or> not_admitted env out"
  by (auto simp: judge_post_def not_admitted_def on_http_error_def Let_def
      split: result.splits if_splits error_action.splits)

text \<open>One turn of the loop, by its outcome.\<close>

lemma forward_loop_cases:
  assumes "forward_loop env cfg policy n m ini message target b = (res, b')"
  obtains (raised) e where "post_forward env (fst target) (fst (snd target)) message (snd (snd target)) b = (Inl e, b')"
      "res = Inl e"
    | (settled) out r where
      "post_forward env (fst target) (fst (snd target)) message (snd (snd target)) b = (Inr out, b')"
      "judge_post env policy n (fst target) (fst (snd target)) (snd (snd target)) out = Settled r" "res = Inr r"
    | (stuck) out b1 recovered where
      "post_forward env (fst target) (fst (snd target)) message (snd (snd target)) b = (Inr out, b1)"
      "judge_post env policy n (fst target) (fst (snd target)) (snd (snd target)) out = Again"
      "recover_bridge_transport_state env cfg m ini b1 = (recovered, b')" "\<nexists>t. recovered = Inr (Ok t)"
      "\<And>e. res = Inr (Err e) \<Longrightarrow> recovered = Inr (Err e)"
    | (replayed) out b1 t b2 where
      "post_forward env (fst target) (fst (snd target)) message (snd (snd target)) b = (Inr out, b1)"
      "judge_post env policy n (fst target) (fst (snd target)) (snd (snd target)) out = Again"
      "recover_bridge_transport_state env cfg m ini b1 = (Inr (Ok t), b2)"
      "forward_loop env cfg policy n m ini message t b2 = (res, b')"
proof -
  obtain posted b1 where post: "post_forward env (fst target) (fst (snd target)) message (snd (snd target)) b = (posted, b1)"
    by fastforce
  obtain recovered b2 where rec: "recover_bridge_transport_state env cfg m ini b1 = (recovered, b2)" by fastforce
  note step = assms [unfolded forward_loop.simps [of env cfg policy n m ini message target b] post Let_def prod.case]
  show thesis
  proof (cases posted)
    case (Inl e)
    with step post raised show thesis by simp
  next
    case (Inr out)
    show thesis
    proof (cases "judge_post env policy n (fst target) (fst (snd target)) (snd (snd target)) out")
      case (Settled r)
      with step post Inr settled show thesis by simp
    next
      case Again
      consider "\<nexists>t. recovered = Inr (Ok t)" "b' = b2" "\<And>e. res = Inr (Err e) \<Longrightarrow> recovered = Inr (Err e)"
        | t where "recovered = Inr (Ok t)" "forward_loop env cfg policy n m ini message t b2 = (res, b')"
        using step Inr Again rec
        by (cases recovered) (auto split: result.splits simp del: split_paired_All split_paired_Ex)
      then show thesis
      proof cases
        case 1
        with post Inr Again rec stuck show thesis by blast
      next
        case 2
        with post Inr Again rec replayed show thesis by blast
      qed
    qed
  qed
qed

lemma forward_loop_posts:
  assumes "forward_loop env cfg policy n m ini message target b = (res, b')"
  shows "\<exists>outs. br_posts b' = br_posts b @ map (Pair message) outs
    \<and> length outs \<le> Suc (bc_max_recovery_attempts cfg - br_attempts b)
    \<and> (policy = Safe \<or> (\<forall>out \<in> set (butlast outs). not_admitted env out))"
  using assms
proof (induction env cfg policy n m ini message target b arbitrary: res b' rule: forward_loop.induct)
  case (1 env cfg policy n m ini message target b)
  from 1(2) show ?case
  proof (cases rule: forward_loop_cases)
    case raised
    with post_forward_keeps [OF raised(1)] show ?thesis by (intro exI [of _ "[]"]) simp
  next
    case (settled out r)
    with post_forward_keeps [OF settled(1)] show ?thesis by (intro exI [of _ "[out]"]) simp
  next
    case (stuck out b1 recovered)
    with post_forward_keeps [OF stuck(1)] recover_state_keeps [OF stuck(3)] show ?thesis
      by (intro exI [of _ "[out]"]) simp
  next
    case (replayed out b1 t b2)
    note kept = post_forward_keeps [OF replayed(1)] recover_state_keeps [OF replayed(3)]
    from 1(1) [OF replayed(1) [symmetric] _ refl replayed(2) replayed(3) [symmetric] _ refl _ replayed(4)]
    obtain outs where outs: "br_posts b' = br_posts b2 @ map (Pair message) outs"
      "length outs \<le> Suc (bc_max_recovery_attempts cfg - br_attempts b2)"
      "policy = Safe \<or> (\<forall>out \<in> set (butlast outs). not_admitted env out)" by auto
    have below: "br_attempts b1 < bc_max_recovery_attempts cfg" using kept(2) by blast
    have attempts2: "br_attempts b2 = Suc (br_attempts b1)" using kept(2) below by (simp only: if_True)
    have "length outs \<le> bc_max_recovery_attempts cfg - br_attempts b"
      using outs(2) below attempts2 kept(1) by simp
    then show ?thesis
      using outs(1,3) kept judge_post_Again [OF replayed(2)]
      by (intro exI [of _ "out # outs"]) auto
  qed
qed

lemma status_error_text:
  "he_mcp_admitted (status_error p s hx) \<noteq> Some False \<Longrightarrow> startswith (he_message (status_error p s hx)) ''MCP_FORWARD_FAILED''"
  by (simp add: status_error_def Let_def startswith_def split: if_splits)

lemma http_outcome_status:
  "http_outcome p t s payload hx = Err e \<Longrightarrow> he_phase e = AtStatus \<Longrightarrow> e = status_error p s hx"
  by (simp add: http_outcome_def failed_at_def split: option.splits if_splits) (auto split: if_splits)

lemma post_http_status:
  assumes "post_mcp_http env url token payload session ct wt rt w = (Inr (Err e), w1)" "he_phase e = AtStatus"
    "he_mcp_admitted e \<noteq> Some False"
  shows "startswith (he_message e) ''MCP_FORWARD_FAILED''"
proof -
  obtain p hx where "e = status_error p session hx"
    using assms(1,2)
    by (auto simp: post_mcp_http_def failed_at_def Let_def map_right_def
        dest: http_outcome_status split: prod.splits if_splits option.splits sum.splits)
  with assms(3) status_error_text show ?thesis by blast
qed

end
