(* ===== verification/Bridge_Runtime.thy ===== *)
theory Bridge_Runtime
  imports Bridge_Forwarding
begin

text \<open>
  The loops of the bridge (\<^verbatim>\<open>commands/connect_bridge.py\<close>): requests from standard input are
  handled one by one (\<open>forward_stdio_http\<close>), in cycles of readiness, forwarding and recovery
  (\<open>run_bridge_cycle\<close>, \<open>run_bridge_attach_loop\<close>), between the registration and the teardown of the
  connection (\<open>run_bridge\<close>). Each loop is a total function: forwarding consumes input, and a cycle
  that consumes none counts a recovery.
\<close>


section \<open>Requests\<close>

text \<open>The local variables of the forwarding loop.\<close>

record stdio_locals =
  sl_url :: string
  sl_token :: string
  sl_session :: "string option"
  sl_initialize :: "string option"

definition write_reply :: "'w bridge_env \<Rightarrow> bool \<Rightarrow> string \<Rightarrow> 'w bridge \<Rightarrow> (unit, string) result \<times> 'w bridge" where
  "write_reply env framed payload b =
     (let (pipe, b1) = in_world (be_pipe env) b;
          (res, out) = write_framed_message pipe framed payload (br_stdout b1)
      in (res, b1\<lparr>br_stdout := out\<rparr>))"

fun write_bridge_response_messages ::
    "'w bridge_env \<Rightarrow> bool \<Rightarrow> string list \<Rightarrow> 'w bridge \<Rightarrow> (unit, string) result \<times> 'w bridge" where
  "write_bridge_response_messages env framed [] b = (Ok (), b)"
| "write_bridge_response_messages env framed (m # ms) b =
     (case write_reply env framed m b of
        (Err e, b1) \<Rightarrow> (Err e, b1)
      | (Ok _, b1) \<Rightarrow> write_bridge_response_messages env framed ms b1)"

definition answer_failure ::
    "'w bridge_env \<Rightarrow> bridge_message \<Rightarrow> string \<Rightarrow> stdio_locals \<Rightarrow> 'w bridge \<Rightarrow> (stdio_locals, string) result \<times> 'w bridge" where
  "answer_failure env m error_text l b =
     (case recovery_error_code error_text of
        None \<Rightarrow> (Err error_text, b)
      | Some code' \<Rightarrow>
          (case write_reply env (bm_framed m)
                  (jsonrpc_error_response (jsonrpc_request_id (be_loads env) (bm_payload m)) code' error_text) b of
             (Err e, b1) \<Rightarrow> (Err e, b1)
           | (Ok _, b1) \<Rightarrow> (Ok l, b1\<lparr>br_attempts := 0\<rparr>)))"

definition handle_request ::
    "'w bridge_env \<Rightarrow> bridge_config \<Rightarrow> stdio_locals \<Rightarrow> bridge_message \<Rightarrow> 'w bridge
       \<Rightarrow> (py_exc + (stdio_locals, string) result) \<times> 'w bridge" where
  "handle_request env cfg l m b =
     (let message = inject_bridge_connection_id (be_loads env) (Some (bc_connection_id cfg)) (bm_payload m);
          message_method = extract_jsonrpc_method (be_loads env) message;
          l1 = (if message_method = Some ''initialize'' then l\<lparr>sl_initialize := Some message\<rparr> else l)
      in case forward_request_with_recovery env cfg message_method (sl_initialize l1) message
                (sl_url l1, sl_token l1, sl_session l1) b of
           (Inl exc, b1) \<Rightarrow> (Inl exc, b1)
         | (Inr (Err error_text), b1) \<Rightarrow>
             (let (res, b2) = answer_failure env m error_text l1 b1 in (Inr res, b2))
         | (Inr (Ok fw), b1) \<Rightarrow>
             (case write_bridge_response_messages env (bm_framed m) (fw_messages fw) b1 of
                (Err e, b2) \<Rightarrow> (Inr (Err e), b2)
              | (Ok _, b2) \<Rightarrow>
                  (Inr (Ok (l1\<lparr>sl_url := fw_url fw, sl_token := fw_token fw, sl_session := fw_session fw\<rparr>)),
                   b2\<lparr>br_attempts := 0\<rparr>)))"

lemma write_reply_keeps:
  "write_reply env framed p b = (res, b1) \<Longrightarrow> br_stdin b1 = br_stdin b \<and> br_posts b1 = br_posts b
     \<and> br_attachments b1 = br_attachments b \<and> br_attempts b1 = br_attempts b"
  by (auto simp: write_reply_def Let_def split: prod.splits dest!: in_world_eq)

lemma write_messages_keeps:
  "write_bridge_response_messages env framed ms b = (res, b1) \<Longrightarrow> br_stdin b1 = br_stdin b
     \<and> br_posts b1 = br_posts b \<and> br_attachments b1 = br_attachments b"
  by (induction env framed ms b arbitrary: res b1 rule: write_bridge_response_messages.induct)
    (auto split: prod.splits result.splits dest!: write_reply_keeps)

lemma answer_failure_keeps:
  "answer_failure env m e l b = (res, b1) \<Longrightarrow> br_stdin b1 = br_stdin b \<and> br_posts b1 = br_posts b
     \<and> br_attachments b1 = br_attachments b"
  by (auto simp: answer_failure_def split: option.splits prod.splits result.splits dest!: write_reply_keeps)

lemma forward_loop_keeps:
  assumes "forward_loop env cfg policy n m ini message target b = (res, b')"
  shows "br_stdin b' = br_stdin b \<and> br_stdout b' = br_stdout b \<and> br_attachments b' = br_attachments b"
  using assms
proof (induction env cfg policy n m ini message target b arbitrary: res b' rule: forward_loop.induct)
  case (1 env cfg policy n m ini message target b)
  from 1(2) show ?case
  proof (cases rule: forward_loop_cases)
    case (replayed out b1 t b2)
    from 1(1) [OF replayed(1) [symmetric] _ refl replayed(2) replayed(3) [symmetric] _ refl _ replayed(4)]
    show ?thesis using post_forward_keeps [OF replayed(1)] recover_state_keeps [OF replayed(3)] by simp
  qed (auto simp del: split_paired_Ex split_paired_All dest!: post_forward_keeps recover_state_keeps)
qed

lemma forward_request_keeps:
  "forward_request_with_recovery env cfg m ini message target b = (res, b')
     \<Longrightarrow> br_stdin b' = br_stdin b \<and> br_stdout b' = br_stdout b \<and> br_attachments b' = br_attachments b"
  by (auto simp: forward_request_with_recovery_def split: sum.splits dest!: forward_loop_keeps)

lemma handle_request_keeps:
  "handle_request env cfg l m b = (res, b') \<Longrightarrow> br_stdin b' = br_stdin b \<and> br_attachments b' = br_attachments b"
  by (auto simp: handle_request_def Let_def split: prod.splits sum.splits result.splits
      dest!: forward_request_keeps answer_failure_keeps write_messages_keeps)


section \<open>The forwarding loop\<close>

lemma skip_headers_shorter: "skip_headers s = Some rest \<Longrightarrow> length rest < length s"
proof (induction s rule: skip_headers.induct)
  case (1 s)
  obtain line r where line: "read_line s = (line, r)" by fastforce
  have "line \<noteq> [] \<Longrightarrow> length r < length s" using read_line_shorter [OF line] .
  with 1 line show ?case
    by (simp add: skip_headers.simps [of s] split: if_splits) fastforce
qed

lemma read_frame_body_shorter: "read_frame_body n body = Inr (r, rest) \<Longrightarrow> length rest \<le> length body"
  by (auto simp: read_frame_body_def read_bytes_def split: if_splits)

lemma read_framed_shorter: "read_framed line s = Inr (r, rest) \<Longrightarrow> length rest \<le> length s"
  by (auto simp: read_framed_def split: option.splits dest!: skip_headers_shorter read_frame_body_shorter)

lemma read_message_shorter:
  assumes "read_framed_message s = Inr (r, rest)" "r \<noteq> Ok None"
  shows "length rest < length s"
  using assms
proof (induction s rule: read_framed_message.induct)
  case (1 s)
  obtain line tail where line: "read_line s = (line, tail)" by fastforce
  have "line \<noteq> [] \<Longrightarrow> length tail < length s" using read_line_shorter [OF line] .
  with 1 line show ?case
    by (simp add: read_framed_message.simps [of s] split: if_splits) (fastforce dest: read_framed_shorter)+
qed

function forward_stdio_http ::
    "'w bridge_env \<Rightarrow> bridge_config \<Rightarrow> stdio_locals \<Rightarrow> 'w bridge \<Rightarrow> (py_exc + (unit, string) result) \<times> 'w bridge" where
  "forward_stdio_http env cfg l b =
     (let (stop, b1) = in_world (be_stop env) b in
      case stop of
        Inl exc \<Rightarrow> (Inl exc, b1)
      | Inr True \<Rightarrow> (Inr (Ok ()), b1)
      | Inr False \<Rightarrow>
          (case read_framed_message (br_stdin b1) of
             Inl e \<Rightarrow> (Inl e, b1)
           | Inr (Err e, rest) \<Rightarrow> (Inr (Err e), b1\<lparr>br_stdin := rest\<rparr>)
           | Inr (Ok None, rest) \<Rightarrow> (Inr (Ok ()), b1\<lparr>br_stdin := rest\<rparr>)
           | Inr (Ok (Some m), rest) \<Rightarrow>
               (let (handled, b2) = handle_request env cfg l m (b1\<lparr>br_stdin := rest\<rparr>) in
                case handled of
                  Inl e \<Rightarrow> (Inl e, b2)
                | Inr (Err e) \<Rightarrow> (Inr (Err e), b2)
                | Inr (Ok l') \<Rightarrow> forward_stdio_http env cfg l' b2)))"
  by auto
termination
proof (relation "measure (\<lambda>(env, cfg, l, b). length (br_stdin b))", goal_cases)
  case (2 env cfg l b stop b1)
  then show ?case
    by (auto dest!: in_world_eq [OF sym] handle_request_keeps [OF sym] dest: read_message_shorter)
qed simp

declare forward_stdio_http.simps [simp del]

lemma forward_stdio_err_consumes:
  assumes "forward_stdio_http env cfg l b = (Inr (Err e), b')"
  shows "length (br_stdin b') < length (br_stdin b) \<and> br_attachments b' = br_attachments b"
  using assms
proof (induction env cfg l b arbitrary: b' rule: forward_stdio_http.induct)
  case (1 env cfg l b)
  obtain stop b1 where stop: "in_world (be_stop env) b = (stop, b1)" by fastforce
  note kept = in_world_eq [OF stop]
  consider (read) rest where "read_framed_message (br_stdin b1) = Inr (Err e, rest)" "b' = b1\<lparr>br_stdin := rest\<rparr>"
    | (failed) m rest where "stop = Inr False" "read_framed_message (br_stdin b1) = Inr (Ok (Some m), rest)"
        "handle_request env cfg l m (b1\<lparr>br_stdin := rest\<rparr>) = (Inr (Err e), b')"
    | (next_request) m rest b2 l' where "stop = Inr False" "read_framed_message (br_stdin b1) = Inr (Ok (Some m), rest)"
        "handle_request env cfg l m (b1\<lparr>br_stdin := rest\<rparr>) = (Inr (Ok l'), b2)"
        "forward_stdio_http env cfg l' b2 = (Inr (Err e), b')"
    using 1(2) stop
    by (auto simp: forward_stdio_http.simps [of env cfg l b] split: sum.splits bool.splits prod.splits result.splits option.splits)
  then show ?case
  proof cases
    case read
    with read_message_shorter [OF read(1)] kept show ?thesis by simp
  next
    case failed
    with read_message_shorter [OF failed(2)] handle_request_keeps [OF failed(3)] kept show ?thesis by simp
  next
    case next_request
    have "length (br_stdin b') < length (br_stdin b2) \<and> br_attachments b' = br_attachments b2"
      using next_request stop by (intro "1.IH") auto
    with read_message_shorter [OF next_request(2)] handle_request_keeps [OF next_request(3)] kept show ?thesis by simp
  qed
qed


section \<open>Cycles\<close>

datatype loop_action = ContinueLoop | DoneLoop

definition locals_of :: "'w bridge \<Rightarrow> stdio_locals" where
  "locals_of b = \<lparr>sl_url = br_base_url b @ ''/mcp'', sl_token = br_token b, sl_session = None, sl_initialize = None\<rparr>"

text \<open>A cycle up to the error that stops it: the readiness wait, then the forwarding.\<close>

definition cycle_attempt ::
    "'w bridge_env \<Rightarrow> bridge_config \<Rightarrow> 'w bridge \<Rightarrow> (py_exc + (unit, string) result) \<times> 'w bridge" where
  "cycle_attempt env cfg b =
     (case in_world (wait_for_gateway_readiness env (br_base_url b @ ''/status'') (br_token b)
             bridge_readiness_max_polls) b of
        (Inl exc, b1) \<Rightarrow> (Inl exc, b1)
      | (Inr (Err e), b1) \<Rightarrow> (Inr (Err (or_text e ''BRIDGE_READINESS_QUERY_FAILED'')), b1)
      | (Inr (Ok _), b1) \<Rightarrow>
          (case forward_stdio_http env cfg (locals_of b1) b1 of
             (Inr (Err e), b2) \<Rightarrow> (Inr (Err (or_text e ''BRIDGE_RUNTIME_ERROR: unknown bridge failure'')), b2)
           | (r, b2) \<Rightarrow> (r, b2)))"

definition run_bridge_cycle ::
    "'w bridge_env \<Rightarrow> bridge_config \<Rightarrow> 'w bridge \<Rightarrow> (py_exc + (loop_action, string) result) \<times> 'w bridge" where
  "run_bridge_cycle env cfg b =
     (case cycle_attempt env cfg b of
        (Inl e, b1) \<Rightarrow> (Inl e, b1)
      | (Inr (Ok _), b1) \<Rightarrow> (Inr (Ok DoneLoop), b1)
      | (Inr (Err cycle_error), b1) \<Rightarrow>
          if \<not> is_recoverable_error cycle_error then (Inr (Err cycle_error), b1)
          else if bc_max_recovery_attempts cfg \<le> br_attempts b1 then
            (Inr (Err (''BRIDGE_RECOVERY_EXHAUSTED: '' @ cycle_error)),
             record_event env cfg RecoveryFailed
               [(''reason'', JStr cycle_error), (''attempts'', JInt (int (br_attempts b1)))] b1)
          else
            (case recover_inflight_transport env cfg b1 of
               (Inl exc, b2) \<Rightarrow> (Inl exc, b2)
             | (Inr (Err e), b2) \<Rightarrow> (Inr (Err e), b2)
             | (Inr (Ok _), b2) \<Rightarrow> (Inr (Ok ContinueLoop), b2)))"

text \<open>A cycle that asks for another has consumed input, or has counted a recovery.\<close>

lemma cycle_continues:
  assumes "run_bridge_cycle env cfg b = (Inr (Ok ContinueLoop), b')"
  shows "length (br_stdin b') < length (br_stdin b)
    \<or> br_stdin b' = br_stdin b \<and> br_attempts b < br_attempts b' \<and> br_attempts b' \<le> bc_max_recovery_attempts cfg"
proof -
  obtain e b1 where attempt: "cycle_attempt env cfg b = (Inr (Err e), b1)"
    and recover: "\<exists>x. recover_inflight_transport env cfg b1 = (Inr (Ok x), b')"
    using assms by (auto simp: run_bridge_cycle_def split: prod.splits sum.splits result.splits if_splits)
  then obtain x where rec: "recover_inflight_transport env cfg b1 = (Inr (Ok x), b')" by blast
  note kept = recover_inflight_keeps [OF rec]
  consider "br_stdin b1 = br_stdin b" "br_attempts b1 = br_attempts b" | "length (br_stdin b1) < length (br_stdin b)"
    using attempt
    by (auto simp: cycle_attempt_def split: prod.splits result.splits sum.splits
        dest!: in_world_eq forward_stdio_err_consumes)
  then show ?thesis using kept by cases auto
qed

definition heartbeat_interval_seconds :: rat where
  "heartbeat_interval_seconds = 30"

lemma heartbeat_fields [simp]:
  "br_attempts (heartbeat_attachment env cfg rs rec ds b) = br_attempts b"
  "br_stdin (heartbeat_attachment env cfg rs rec ds b) = br_stdin b"
  by (simp_all add: heartbeat_attachment_def Let_def split_beta)

text \<open>The loop inside the \<^verbatim>\<open>try\<close> of \<^verbatim>\<open>_run_bridge_attach_loop\<close>.\<close>

function attach_cycles ::
    "'w bridge_env \<Rightarrow> bridge_config \<Rightarrow> rat \<Rightarrow> 'w bridge \<Rightarrow> (py_exc + (unit, string) result) \<times> 'w bridge" where
  "attach_cycles env cfg last_heartbeat b =
     (let (stop, b1) = in_world (be_stop env) b in
      case stop of
        Inl exc \<Rightarrow> (Inl exc, b1)
      | Inr True \<Rightarrow> (Inr (Ok ()), b1)
      | Inr False \<Rightarrow>
          (let (now, b2) = in_world (be_clock env) b1;
               due = heartbeat_interval_seconds \<le> now - last_heartbeat;
               b3 = (if due then heartbeat_attachment env cfg RActive VRecoverable DHealthy b2 else b2);
               (cycled, b4) = run_bridge_cycle env cfg b3
           in case cycled of
                Inl e \<Rightarrow> (Inl e, b4)
              | Inr (Err e) \<Rightarrow> (Inr (Err e), b4)
              | Inr (Ok DoneLoop) \<Rightarrow>
                  (Inr (Ok ()), record_event env cfg HostTransportClosed
                     [(''connection_id'', JStr (bc_connection_id cfg)), (''reason'', JStr ''stdin_eof'')] b4)
              | Inr (Ok ContinueLoop) \<Rightarrow> attach_cycles env cfg (if due then now else last_heartbeat) b4))"
  by auto

termination
proof (relation "(\<lambda>(env, cfg, last, b). length (br_stdin b)) <*mlex*>
    measure (\<lambda>(env, cfg, last, b). bc_max_recovery_attempts cfg - br_attempts b)", goal_cases)
  case 1
  show ?case by (simp add: wf_mlex)
next
  case (2 env cfg last b stop b1 go x now b2 due b3 y cycled b4 z)
  then show ?case
    by (auto simp: mlex_iff dest!: in_world_eq [OF sym] cycle_continues [OF sym] split: if_splits)
qed

declare attach_cycles.simps [simp del]

definition run_bridge_attach_loop ::
    "'w bridge_env \<Rightarrow> bridge_config \<Rightarrow> rat \<Rightarrow> 'w bridge \<Rightarrow> (py_exc + (unit, string) result) \<times> 'w bridge" where
  "run_bridge_attach_loop env cfg last_heartbeat b =
     (case attach_cycles env cfg last_heartbeat b of
        (Inl exc, b1) \<Rightarrow>
          (if is_interrupt exc then Inr (Err ''ATTACH_INTERRUPTED: bridge attach loop interrupted'') else Inl exc, b1)
      | (Inr res, b1) \<Rightarrow> (Inr res, b1))"


section \<open>The life of a bridge\<close>

text \<open>The value tells whether the teardown was interrupted. The handlers ignore signals while it is resumed.\<close>

definition teardown_timeout_seconds :: rat where
  "teardown_timeout_seconds = 1"

definition teardown_bridge_connection ::
    "'w bridge_env \<Rightarrow> bridge_config \<Rightarrow> 'w bridge \<Rightarrow> (py_exc + bool) \<times> 'w bridge" where
  "teardown_bridge_connection env cfg b =
     (let url = br_base_url b @ ''/disconnect''; payload = [(''connection_id'', bc_connection_id cfg)] in
      case in_world (post_json env url (br_token b) payload) b of
        (Inl exc, b1) \<Rightarrow>
          if is_interrupt exc then
            (let (resumed, b2) = in_world (post_json_once env url (br_token b) payload teardown_timeout_seconds) b1
             in (map_right (\<lambda>_. True) resumed, b2))
          else (Inl exc, b1)
      | (Inr _, b1) \<Rightarrow> (Inr False, b1))"

definition attach_started :: "'w bridge_env \<Rightarrow> bridge_config \<Rightarrow> 'w bridge \<Rightarrow> 'w bridge" where
  "attach_started env cfg b =
     heartbeat_attachment env cfg RInitializing VRecoverable DStarted
       (record_event env cfg ClientAttachmentStarted
         [(''connection_id'', JStr (bc_connection_id cfg)), (''host'', JStr (br_host b)), (''port'', JInt (br_port b))] b)"

text \<open>The \<^verbatim>\<open>finally\<close> block: what it raises replaces the result of the loop, and ends it early.\<close>

definition attach_finished ::
    "'w bridge_env \<Rightarrow> bridge_config \<Rightarrow> py_exc + (unit, string) result \<Rightarrow> 'w bridge
       \<Rightarrow> (py_exc + (unit, string) result) \<times> 'w bridge" where
  "attach_finished env cfg res b =
     (case teardown_bridge_connection env cfg b of
        (Inl exc, b1) \<Rightarrow> (Inl exc, b1)
      | (Inr _, b1) \<Rightarrow>
          (res, record_event env cfg ClientProviderExit [(''connection_id'', JStr (bc_connection_id cfg))]
            (heartbeat_attachment env cfg RExited VNotRecoverable DExited b1)))"

text \<open>\<open>input\<close> is all the standard input there will be.\<close>

definition bridge_start :: "string \<Rightarrow> int \<Rightarrow> string \<Rightarrow> string \<Rightarrow> 'w \<Rightarrow> 'w bridge" where
  "bridge_start host port bearer_token input w =
     \<lparr>br_base_url = url_of host port, br_host = host, br_port = port, br_token = bearer_token, br_attempts = 0,
      br_world = w, br_stdin = input, br_stdout = [], br_events = [], br_attachments = [], br_posts = []\<rparr>"

definition run_bridge ::
    "'w bridge_env \<Rightarrow> bridge_config \<Rightarrow> string \<Rightarrow> int \<Rightarrow> string \<Rightarrow> string \<Rightarrow> 'w
       \<Rightarrow> (py_exc + (unit, string) result) \<times> 'w bridge" where
  "run_bridge env cfg host port bearer_token input w =
     (case register_bridge env cfg (attach_started env cfg (bridge_start host port bearer_token input w)) of
        (Inl exc, b1) \<Rightarrow>
          (if is_interrupt exc then Inr (Err ''INTERRUPT: bridge registration interrupted'') else Inl exc, b1)
      | (Inr (Err e), b1) \<Rightarrow> (Inr (Err e), b1)
      | (Inr (Ok _), b1) \<Rightarrow>
          (let (res, b2) = run_bridge_attach_loop env cfg 0 b1 in attach_finished env cfg res b2))"


section \<open>What a bridge leaves behind\<close>

lemma attach_started_attachments:
  "map ca_runtime_state (br_attachments (attach_started env cfg b)) = map ca_runtime_state (br_attachments b) @ [RInitializing]"
  by (simp add: attach_started_def heartbeat_attachment_def in_world_def Let_def split_beta)

lemma heartbeat_attachments:
  "map ca_runtime_state (br_attachments (heartbeat_attachment env cfg rs rec ds b))
     = map ca_runtime_state (br_attachments b) @ [rs]"
  by (simp add: heartbeat_attachment_def Let_def split_beta)

lemma teardown_keeps:
  "teardown_bridge_connection env cfg b = (res, b') \<Longrightarrow> br_attachments b' = br_attachments b"
  by (auto simp: teardown_bridge_connection_def Let_def split: prod.splits sum.splits if_splits dest!: in_world_eq)

lemma finished_leaves:
  assumes "attach_finished env cfg res b = (res', b')"
  shows "case fst (teardown_bridge_connection env cfg b) of
      Inl exc \<Rightarrow> res' = Inl exc \<and> br_attachments b' = br_attachments b
    | Inr _ \<Rightarrow> res' = res \<and> map ca_runtime_state (br_attachments b') = map ca_runtime_state (br_attachments b) @ [RExited]
        \<and> ev_kind (last (br_events b')) = ClientProviderExit"
proof -
  obtain t b1 where t: "teardown_bridge_connection env cfg b = (t, b1)" by fastforce
  note kept = teardown_keeps [OF t]
  show ?thesis
  proof (cases t)
    case (Inl exc)
    then show ?thesis using assms t kept by (simp add: attach_finished_def)
  next
    case (Inr interrupted)
    then have "res' = res" and b': "b' = record_event env cfg ClientProviderExit [(''connection_id'', JStr (bc_connection_id cfg))]
        (heartbeat_attachment env cfg RExited VNotRecoverable DExited b1)"
      using assms t by (simp_all add: attach_finished_def)
    then show ?thesis
      using t Inr kept heartbeat_attachments [of env cfg RExited VNotRecoverable DExited b1]
      by (simp add: record_event_def in_world_def Let_def split_beta)
  qed
qed

text \<open>Between the registration and the teardown only heartbeats are written.\<close>

definition beats :: "'w bridge \<Rightarrow> 'w bridge \<Rightarrow> bool" where
  "beats b b' \<longleftrightarrow> (\<exists>n. map ca_runtime_state (br_attachments b') = map ca_runtime_state (br_attachments b) @ replicate n RActive)"

lemma beats_refl: "br_attachments b' = br_attachments b \<Longrightarrow> beats b b'"
  by (simp add: beats_def)

lemma beats_trans: "beats a b \<Longrightarrow> beats b c \<Longrightarrow> beats a c"
  by (auto simp: beats_def simp flip: replicate_add)

lemma beats_heartbeat: "beats b (heartbeat_attachment env cfg RActive VRecoverable DHealthy b)"
  unfolding beats_def heartbeat_attachments by (intro exI [of _ 1]) simp

lemma forward_stdio_keeps:
  assumes "forward_stdio_http env cfg l b = (res, b')"
  shows "br_attachments b' = br_attachments b"
  using assms
proof (induction env cfg l b arbitrary: res b' rule: forward_stdio_http.induct)
  case (1 env cfg l b)
  obtain stop b1 where stop: "in_world (be_stop env) b = (stop, b1)" by fastforce
  note kept = in_world_eq [OF stop]
  from 1(2) stop kept consider "br_attachments b' = br_attachments b"
    | (failed) m rest r where "handle_request env cfg l m (b1\<lparr>br_stdin := rest\<rparr>) = (r, b')"
    | (next_request) m rest b2 l' where "stop = Inr False" "read_framed_message (br_stdin b1) = Inr (Ok (Some m), rest)"
        "handle_request env cfg l m (b1\<lparr>br_stdin := rest\<rparr>) = (Inr (Ok l'), b2)"
        "forward_stdio_http env cfg l' b2 = (res, b')"
    by (auto simp: forward_stdio_http.simps [of env cfg l b]
        split: sum.splits bool.splits prod.splits result.splits option.splits)
  then show ?case
  proof cases
    case failed
    with handle_request_keeps [OF failed] kept show ?thesis by simp
  next
    case next_request
    have "br_attachments b' = br_attachments b2" using next_request stop by (intro "1.IH") auto
    with handle_request_keeps [OF next_request(3)] kept show ?thesis by simp
  qed simp
qed

lemma cycle_keeps:
  assumes "run_bridge_cycle env cfg b = (res, b')"
  shows "br_attachments b' = br_attachments b"
proof -
  obtain r b1 where a: "cycle_attempt env cfg b = (r, b1)" by fastforce
  have kept: "br_attachments b1 = br_attachments b"
    using a by (auto simp: cycle_attempt_def split: prod.splits result.splits sum.splits
        dest!: in_world_eq forward_stdio_keeps)
  show ?thesis
    using assms a kept
    by (auto simp: run_bridge_cycle_def split: prod.splits sum.splits result.splits if_splits
        dest!: recover_inflight_keeps)
qed

lemma attach_cycles_beat:
  assumes "attach_cycles env cfg last_heartbeat b = (res, b')"
  shows "beats b b'"
  using assms
proof (induction env cfg last_heartbeat b arbitrary: res b' rule: attach_cycles.induct)
  case (1 env cfg last_heartbeat b)
  obtain stop b1 where stop: "in_world (be_stop env) b = (stop, b1)" by fastforce
  obtain now b2 where clock: "in_world (be_clock env) b1 = (now, b2)" by fastforce
  define due where "due = (heartbeat_interval_seconds \<le> now - last_heartbeat)"
  define b3 where "b3 = (if due then heartbeat_attachment env cfg RActive VRecoverable DHealthy b2 else b2)"
  obtain cycled b4 where cyc: "run_bridge_cycle env cfg b3 = (cycled, b4)" by fastforce
  have "beats b2 b3" by (simp add: b3_def beats_heartbeat beats_refl)
  then have b4: "beats b b4"
    using beats_trans [OF beats_refl [of b2 b]] beats_trans [OF _ beats_refl [OF cycle_keeps [OF cyc]]]
      in_world_eq [OF stop] in_world_eq [OF clock] by simp
  note step = 1(2) [unfolded attach_cycles.simps [of env cfg last_heartbeat b] stop Let_def prod.case]
  show ?case
  proof (cases "stop = Inr False \<and> cycled = Inr (Ok ContinueLoop)")
    case True
    then have "attach_cycles env cfg (if due then now else last_heartbeat) b4 = (res, b')"
      using step clock cyc by (simp add: due_def b3_def)
    moreover have "attach_cycles env cfg (if due then now else last_heartbeat) b4 = (res, b') \<Longrightarrow> beats b4 b'"
      using True stop clock cyc by (intro "1.IH" [of "(stop, b1)" stop b1 False "(now, b2)" now b2 due b3 "(cycled, b4)" cycled b4])
        (auto simp: due_def b3_def)
    ultimately show ?thesis using beats_trans [OF b4] by blast
  next
    case False
    then have "b' = b1 \<or> br_attachments b' = br_attachments b4"
      using step clock cyc
      by (auto simp: due_def [symmetric] b3_def [symmetric] split: sum.splits bool.splits result.splits loop_action.splits)
    then show ?thesis
      using b4 beats_refl [of b1 b] in_world_eq [OF stop] beats_trans [OF b4 beats_refl] by auto
  qed
qed

lemma attach_loop_beats:
  "run_bridge_attach_loop env cfg last_heartbeat b = (res, b') \<Longrightarrow> beats b b'"
  by (auto simp: run_bridge_attach_loop_def split: prod.splits sum.splits dest: attach_cycles_beat)

end
