(* ===== verification/Bridge_Outcomes.thy ===== *)
theory Bridge_Outcomes
  imports Bridge_Runtime
begin

text \<open>
  What a client of the bridge sees of a request: every failed request is answered, and what a
  notification gets.
\<close>

section \<open>Failed requests are answered\<close>

text \<open>The text of no exception of an exchange reads like one of the bridge's own errors.\<close>

definition plain_text :: "string \<Rightarrow> bool" where
  "plain_text t \<longleftrightarrow> \<not> startswith t ''MCP_'' \<and> \<not> startswith t ''INVALID_TIMEOUT:''"

definition plain_exchange :: "http_exchange \<Rightarrow> bool" where
  "plain_exchange hx = list_all plain_text (concat (map (case_option [] (\<lambda>t. [t]))
     [hx_connect_error hx, hx_headers_error hx, hx_send_error hx, map_option fst (hx_response_error hx),
        map_option fst (hx_read_error hx)]))"

lemma coded_prefix:
  "startswith e ''MCP_REQUEST_TIMEOUT'' \<Longrightarrow> recovery_error_code e \<noteq> None"
  "startswith e ''MCP_FORWARD_FAILED'' \<Longrightarrow> recovery_error_code e \<noteq> None"
  "contains ''RECOVERY'' e \<Longrightarrow> recovery_error_code e \<noteq> None"
  by (auto simp: recovery_error_code_def)

lemma recovery_texts [simp]:
  "contains ''RECOVERY'' (''BRIDGE_RECOVERY_FAILED: '' @ e)"
  "contains ''RECOVERY'' (''BRIDGE_RECOVERY_REGISTER_FAILED: '' @ e)"
  "contains ''RECOVERY'' ''BRIDGE_RECOVERY_EXHAUSTED: in-flight MCP request could not be replayed''"
  using contains_infix [of "''RECOVERY''" "''BRIDGE_''" "''_FAILED: '' @ e"]
    contains_infix [of "''RECOVERY''" "''BRIDGE_''" "''_REGISTER_FAILED: '' @ e"]
    contains_infix [of "''RECOVERY''" "''BRIDGE_''" "''_EXHAUSTED: in-flight MCP request could not be replayed''"]
  by simp_all

lemma recover_inflight_coded:
  assumes "recover_inflight_transport env cfg b = (Inr (Err e), b1)"
  shows "recovery_error_code e \<noteq> None"
proof (rule coded_prefix(3))
  show "contains ''RECOVERY'' e"
    using assms
    by (auto simp: recover_inflight_transport_def Let_def simp del: contains.simps append_Cons append_Nil
        split: if_splits prod.splits sum.splits result.splits)
qed

lemma http_timeout_ok: "bridge_http_timeouts_valid (Finite http_timeout_seconds) (Finite http_timeout_seconds) None"
  by (simp add: timeouts_valid_iff http_timeout_seconds_def finite_positive_def)

definition faced_text :: "string \<Rightarrow> bool" where
  "faced_text t \<longleftrightarrow> startswith t ''HTTP_'' \<or> startswith t ''MCP_FORWARD_FAILED'' \<or> plain_text t"

lemma status_error_faced: "faced_text (he_message (status_error p s hx))"
  by (simp add: faced_text_def status_error_def Let_def startswith_def)

lemma failed_at_message [simp]: "he_message (failed_at phase m sent) = m"
  by (simp add: failed_at_def)

lemma outcome_text:
  assumes out: "http_outcome p None s payload hx = Err e" and plain: "plain_exchange hx"
  shows "faced_text (he_message e)"
proof -
  let ?send = "if payload = [] then None else hx_send_error hx"
  note texts = plain [unfolded plain_exchange_def]
  consider (headers) m where "hx_headers_error hx = Some m"
    | (send) m where "hx_headers_error hx = None" "?send = Some m"
    | (response) x where "hx_headers_error hx = None" "?send = None" "hx_response_error hx = Some x"
    | (body) x where "hx_headers_error hx = None" "?send = None" "hx_response_error hx = None" "hx_read_error hx = Some x"
    | (answer) "hx_headers_error hx = None" "?send = None" "hx_response_error hx = None" "hx_read_error hx = None"
    by (meson option.exhaust)
  then show ?thesis
  proof cases
    case headers
    then have "e = failed_at AtWrite m (Some False)" "plain_text m" using out texts by (simp_all add: http_outcome_def)
    then show ?thesis by (simp add: faced_text_def)
  next
    case send
    then have "hx_send_error hx = Some m" by (auto split: if_splits)
    with send have "e = failed_at AtWrite m None" "plain_text m" using out texts by (simp_all add: http_outcome_def)
    then show ?thesis by (simp add: faced_text_def)
  next
    case response
    then have "e = failed_at AtHeaders (fst x) (Some True)" "plain_text (fst x)"
      using out texts by (simp_all add: http_outcome_def io_message_def)
    then show ?thesis by (simp add: faced_text_def)
  next
    case body
    then have "e = failed_at AtBody (fst x) (Some True)" "plain_text (fst x)"
      using out texts by (simp_all add: http_outcome_def io_message_def)
    then show ?thesis by (simp add: faced_text_def)
  next
    case answer
    then have "e = status_error p s hx" using out by (simp add: http_outcome_def split: if_splits)
    with status_error_faced show ?thesis by blast
  qed
qed

lemma forward_failed_is_mcp: "startswith t ''MCP_FORWARD_FAILED'' \<Longrightarrow> startswith t ''MCP_'' \<and> \<not> startswith t ''HTTP_''"
  by (auto simp: startswith_iff)

lemma facade_coded:
  assumes "faced_text t"
  shows "recovery_error_code (facade_error t) \<noteq> None"
proof (rule coded_prefix(2))
  from assms show "startswith (facade_error t) ''MCP_FORWARD_FAILED''"
    unfolding faced_text_def plain_text_def
    by (elim disjE) (simp_all add: facade_error_def forward_failed_is_mcp startswith_append)
qed

lemma post_http_errors:
  assumes "fst (post_mcp_http env url token payload session (Finite http_timeout_seconds) (Finite http_timeout_seconds) None w)
      = Inr (Err err)"
  obtains (url) "err = failed_at AtConnect (''INVALID_MCP_URL: unsupported or missing host: '' @ url) (Some False)"
    | (connect) m where "hx_connect_error (fst (be_exchange env url token payload session w)) = Some m"
        "err = failed_at AtConnect m (Some False)"
    | (outcome) "http_outcome (is_mcp_transient_warming_body (be_loads env)) None session payload
        (fst (be_exchange env url token payload session w)) = Err err"
  using assms unfolding post_mcp_http_def Let_def split_beta
  by (simp add: http_timeout_ok map_right_def split: if_splits option.splits sum.splits)

lemma post_http_faced:
  assumes post: "fst (post_mcp_http env url token payload session (Finite http_timeout_seconds) (Finite http_timeout_seconds) None w)
      = Inr (Err err)"
    and plain: "plain_exchange (fst (be_exchange env url token payload session w))"
  shows "faced_text (he_message err)"
  using post
proof (cases rule: post_http_errors)
  case url
  then show ?thesis by (simp add: faced_text_def plain_text_def startswith_def)
next
  case (connect m)
  with plain show ?thesis by (simp add: plain_exchange_def faced_text_def)
next
  case outcome
  from outcome_text [OF this plain] show ?thesis .
qed

lemma post_message_coded:
  assumes "post_mcp_message env url token payload session w = (Inr (Err e), w1)"
    and "plain_exchange (fst (be_exchange env url token payload session w))"
  shows "recovery_error_code e \<noteq> None"
proof -
  let ?t = "Finite http_timeout_seconds"
  obtain err where err: "fst (post_mcp_http env url token payload session ?t ?t None w) = Inr (Err err)"
    and e: "e = facade_error (he_message err)"
    using assms(1) by (auto simp: post_mcp_message_def map_right_def split: prod.splits sum.splits result.splits)
  from facade_coded [OF post_http_faced [OF err assms(2)]] e show ?thesis by simp
qed

lemma judge_post_coded:
  assumes "post_forward env url token message session b = (Inr out, b1)"
    and "judge_post env policy n url token session out = Settled (Err e)"
  shows "recovery_error_code e \<noteq> None"
proof (cases out)
  case (Ok resp)
  with assms(2) have "e = ''MCP_FORWARD_FAILED: empty MCP HTTP response''"
    by (simp add: judge_post_def Let_def split: if_splits)
  then show ?thesis by (simp add: coded_prefix(2) startswith_def)
next
  case (Err err)
  with assms(1) have post: "post_mcp_http env url token message session (Finite http_timeout_seconds)
      (Finite http_timeout_seconds) None (br_world b) = (Inr (Err err), br_world b1)"
    by (auto simp: post_forward_def in_world_def post_mcp_for_forwarding_def split: prod.splits sum.splits)
  let ?text = "or_text (he_message err) ''MCP_FORWARD_FAILED: unknown MCP HTTP failure''"
  from assms(2) Err have act: "on_http_error policy n err = GiveUp e"
    by (simp add: judge_post_def split: error_action.splits)
  then consider "startswith e ''MCP_REQUEST_TIMEOUT''"
    | "e = ?text" "he_phase err = AtStatus" "he_mcp_admitted err \<noteq> Some False"
    | "e = ''MCP_RESPONSE_INTERRUPTED: MCP response interrupted after request send; unsafe JSON-RPC payload was not replayed''"
    by (auto simp: on_http_error_def Let_def split: if_splits)
  then show ?thesis
  proof cases
    case 2
    then have "startswith (he_message err) ''MCP_FORWARD_FAILED''" using post_http_status [OF post] by blast
    with 2 have "startswith e ''MCP_FORWARD_FAILED''" by (auto simp: or_text_def startswith_def)
    then show ?thesis by (rule coded_prefix(2))
  qed (simp_all add: coded_prefix recovery_error_code_def startswith_def)
qed

definition plain_env :: "'w bridge_env \<Rightarrow> bool" where
  "plain_env env \<longleftrightarrow> (\<forall>url token payload session w. plain_exchange (fst (be_exchange env url token payload session w)))"

lemma map_result_Err: "map_result f r = Err e \<longleftrightarrow> r = Err e"
  by (cases r) auto

lemma recover_state_coded:
  assumes "recover_bridge_transport_state env cfg m ini b = (Inr (Err e), b1)" "plain_env env"
  shows "recovery_error_code e \<noteq> None"
proof -
  obtain r b0 where rec: "recover_inflight_transport env cfg b = (r, b0)" by fastforce
  consider (raised) exc where "r = Inl exc" | (failed) e' where "r = Inr (Err e')" | (ok) x where "r = Inr (Ok x)"
    by (cases r) (metis result.exhaust)+
  then show ?thesis
  proof cases
    case raised
    with assms(1) rec show ?thesis by (simp add: recover_bridge_transport_state_def)
  next
    case failed
    with assms(1) rec have "e = e'" by (simp add: recover_bridge_transport_state_def)
    with failed rec recover_inflight_coded show ?thesis by blast
  next
    case ok
    obtain url token where x: "x = (url, token)" by fastforce
    obtain payload r1 where "in_world (post_mcp_message env url token payload None) b0 = (r1, b1)"
      "map_right (map_result (\<lambda>(_, _, session). (url, token, session))) r1 = Inr (Err e)"
      using assms(1) rec ok x
      by (auto simp: recover_bridge_transport_state_def split: option.splits if_splits prod.splits)
    then have "fst (post_mcp_message env url token payload None (br_world b0)) = Inr (Err e)"
      by (auto simp: in_world_def Let_def split_beta map_right_def map_result_Err split: sum.splits result.splits)
    then show ?thesis
      using post_message_coded [of env url token payload None "br_world b0" e] assms(2)
      by (simp add: plain_env_def prod_eq_iff)
  qed
qed

lemma forward_loop_coded:
  assumes "forward_loop env cfg policy n m ini message target b = (Inr (Err e), b')" and "plain_env env"
  shows "recovery_error_code e \<noteq> None"
  using assms
proof (induction env cfg policy n m ini message target b arbitrary: b' rule: forward_loop.induct)
  case (1 env cfg policy n m ini message target b)
  from 1(2) show ?case
  proof (cases rule: forward_loop_cases)
    case (settled out r)
    with judge_post_coded [OF settled(1)] show ?thesis by simp
  next
    case (stuck out b1 recovered)
    with recover_state_coded 1(3) show ?thesis by blast
  next
    case (replayed out b1 t b2)
    from 1(1) [OF replayed(1) [symmetric] _ refl replayed(2) replayed(3) [symmetric] _ refl _ replayed(4) 1(3)]
    show ?thesis by simp
  qed simp
qed

lemma write_reply_error: "write_reply env framed p b = (Err e, b1) \<Longrightarrow> startswith e ''BRIDGE_WRITE_FAILED: ''"
  by (auto simp: write_reply_def write_framed_message_def startswith_def split: prod.splits pipe.splits)

lemma write_messages_error:
  "write_bridge_response_messages env framed ms b = (Err e, b1) \<Longrightarrow> startswith e ''BRIDGE_WRITE_FAILED: ''"
  by (induction env framed ms b rule: write_bridge_response_messages.induct)
    (auto dest: write_reply_error split: prod.splits result.splits)

lemma answer_failure_error:
  "answer_failure env m t l b = (Err e, b1) \<Longrightarrow> recovery_error_code t \<noteq> None \<Longrightarrow> startswith e ''BRIDGE_WRITE_FAILED: ''"
  by (auto simp: answer_failure_def dest: write_reply_error split: option.splits prod.splits result.splits)

lemma forward_request_coded:
  "forward_request_with_recovery env cfg m ini p target b = (Inr (Err t), b1) \<Longrightarrow> plain_env env
     \<Longrightarrow> recovery_error_code t \<noteq> None"
  unfolding forward_request_with_recovery_def by (auto split: sum.splits dest!: forward_loop_coded)

lemma handle_request_cases:
  assumes "handle_request env cfg l m b = (Inr (Err e), b')"
  obtains (answer) mm ini p target t b1 l1 where
      "forward_request_with_recovery env cfg mm ini p target b = (Inr (Err t), b1)"
      "answer_failure env m t l1 b1 = (Err e, b')"
    | (reply) ms b1 where "write_bridge_response_messages env (bm_framed m) ms b1 = (Err e, b')"
  using assms
  by (auto simp: handle_request_def Let_def split: prod.splits sum.splits result.splits)


text \<open>An outside in which every exchange goes the same way, for the examples.\<close>

definition steady_env :: "string loads \<Rightarrow> http_exchange \<Rightarrow> pipe \<Rightarrow> bool \<Rightarrow> unit bridge_env" where
  "steady_env loads hx p registers =
     \<lparr>be_exchange = (\<lambda>_ _ _ _ w. (hx, w)), be_split = (\<lambda>_. \<lparr>su_scheme = ''http'', su_host = Some ''h'', su_bad_port = None\<rparr>),
      be_request = (\<lambda>_ w. (if registers then Response (BodyText ''s'') else UrlError ReasonObject ''refused'', w)),
      be_sleep = (\<lambda>_ w. w), be_json = (\<lambda>_. Ok (JDict [])), be_validate = (\<lambda>_. Ok (Some ''ready'', None)),
      be_discover = None, be_stop = (\<lambda>w. (Inr False, w)), be_clock = (\<lambda>w. (0, w)), be_now = (\<lambda>w. (''t'', w)), be_pipe = (\<lambda>w. (p, w)),
      be_loads = loads, be_decode = id, be_encode = id\<rparr>"

definition refused_exchange :: http_exchange where
  "refused_exchange = \<lparr>hx_connect_error = Some ''refused'', hx_headers_error = None, hx_send_error = None,
     hx_response_error = None, hx_read_error = None, hx_status = 0, hx_reason = [], hx_content_type = [],
     hx_session = None, hx_body = []\<rparr>"

definition sample_config :: bridge_config where
  "sample_config = \<lparr>bc_client_id = ''c'', bc_client_kind = ''k'', bc_connection_id = ''bridge_1'', bc_connected_at = ''t'',
     bc_max_recovery_attempts = 0, bc_config_path = None, bc_default_profile = None\<rparr>"

definition sample_locals :: stdio_locals where
  "sample_locals = \<lparr>sl_url = ''u'', sl_token = ''k'', sl_session = None, sl_initialize = None\<rparr>"

definition sample_bridge :: "unit bridge" where
  "sample_bridge = bridge_start ''h'' 1 ''k'' [] ()"


text \<open>C3: a request whose method is not known to be repeatable is sent again only when the last attempt
  cannot have been executed: at most one of its posts is neither unsent, nor refused by the gateway, nor
  answered with a reconnect envelope, and this is the last one. The posts are of this request only, and
  at most one more than the recoveries left.\<close>

theorem unsafe_requests_sent_once:
  assumes "bridge_replay_policy (be_loads env) message = Inr Unsafe"
    and "forward_request_with_recovery env cfg m ini message target b = (res, b')"
  shows "\<exists>outs. br_posts b' = br_posts b @ map (Pair message) outs
    \<and> (\<forall>out \<in> set (butlast outs). not_admitted env out)
    \<and> length outs \<le> Suc (bc_max_recovery_attempts cfg - br_attempts b)"
proof -
  have "forward_loop env cfg Unsafe (jsonrpc_is_notification (be_loads env) message) m ini message target b = (res, b')"
    using assms by (simp add: forward_request_with_recovery_def)
  from forward_loop_posts [OF this] show ?thesis by auto
qed

lemma unsafe_requests_sent_once_witness:
  "\<exists>outs. br_posts (snd (forward_request_with_recovery (steady_env (\<lambda>_. None) refused_exchange PipeOpen True)
      sample_config None None ''hi'' (''u'', ''k'', None) sample_bridge)) = map (Pair ''hi'') outs \<and> length outs \<le> 1"
proof -
  let ?env = "steady_env (\<lambda>_. None) refused_exchange PipeOpen True"
  have "bridge_replay_policy (be_loads ?env) ''hi'' = Inr Unsafe" by code_simp
  from unsafe_requests_sent_once [OF this prod.collapse [symmetric]]
  show ?thesis
    by (metis (no_types, lifting) append_Nil bridge_start_def diff_0_eq_0 sample_bridge_def bridge.select_convs(5,11)
        sample_config_def bridge_config.select_convs(5) One_nat_def)
qed


section \<open>Notifications\<close>

lemma inject_only_initialize:
  "extract_jsonrpc_method loads payload \<noteq> Some ''initialize'' \<Longrightarrow> inject_bridge_connection_id loads cid payload = payload"
  by (auto simp: inject_bridge_connection_id_def extract_jsonrpc_method_def split: option.splits)

text \<open>A notification that cannot be forwarded is answered nevertheless, with an error response whose
  identifier is null: the client gets a response to a message that has none.\<close>

theorem failed_notifications_get_a_response:
  assumes "jsonrpc_is_notification (be_loads env) (bm_payload m)"
    and "extract_jsonrpc_method (be_loads env) (bm_payload m) = Some method" "method \<noteq> ''initialize''"
    and "forward_request_with_recovery env cfg (Some method) (sl_initialize l) (bm_payload m)
      (sl_url l, sl_token l, sl_session l) b = (Inr (Err t), b1)"
    and "recovery_error_code t = Some c" "fst (be_pipe env (br_world b1)) = PipeOpen"
  shows "\<exists>b'. handle_request env cfg l m b = (Inr (Ok l), b')
    \<and> br_stdout b' = br_stdout b @ framed_text (bm_framed m) (jsonrpc_error_response None c t)"
proof -
  have "jsonrpc_request_id (be_loads env) (bm_payload m) = None" using assms(1) by (rule notification_has_no_id)
  moreover have "br_stdout b1 = br_stdout b" using forward_request_keeps [OF assms(4)] by blast
  ultimately show ?thesis
    using assms(2-6)
    by (simp add: handle_request_def inject_only_initialize answer_failure_def write_reply_def in_world_def split_beta
        write_framed_message_def Let_def)
qed

definition progress_loads :: "string loads" where
  "progress_loads p = (if p = ''note'' then Some (JDict [(''method'', JStr ''notifications/progress'')]) else None)"

lemma failed_notifications_get_a_response_witness:
  "\<exists>b'. handle_request (steady_env progress_loads refused_exchange PipeOpen True) sample_config sample_locals
       \<lparr>bm_payload = ''note'', bm_framed = False\<rparr> sample_bridge = (Inr (Ok sample_locals), b')
     \<and> contains (CHR 0x22 # ''id'' @ CHR 0x22 # '':null'') (br_stdout b')"
proof -
  let ?env = "steady_env progress_loads refused_exchange PipeOpen True"
  let ?m = "\<lparr>bm_payload = ''note'', bm_framed = False\<rparr>"
  let ?t = "''BRIDGE_RECOVERY_EXHAUSTED: in-flight MCP request could not be replayed''"
  let ?req = "forward_request_with_recovery ?env sample_config (Some ''notifications/progress'') (sl_initialize sample_locals)
      (bm_payload ?m) (sl_url sample_locals, sl_token sample_locals, sl_session sample_locals) sample_bridge"
  have notif: "jsonrpc_is_notification (be_loads ?env) (bm_payload ?m)" by code_simp
  have meth: "extract_jsonrpc_method (be_loads ?env) (bm_payload ?m) = Some ''notifications/progress''" by code_simp
  have other: "''notifications/progress'' \<noteq> ''initialize''" by simp
  have res: "fst ?req = Inr (Err ?t)" by code_simp
  then have req: "?req = (Inr (Err ?t), snd ?req)" by (metis prod.collapse)
  have coded: "recovery_error_code ?t = Some ''BRIDGE_RECOVERY_EXHAUSTED''" by code_simp
  have pipe: "fst (be_pipe ?env (br_world (snd ?req))) = PipeOpen" by (simp add: steady_env_def)
  have out: "br_stdout sample_bridge = []" by code_simp
  have "contains (CHR 0x22 # ''id'' @ CHR 0x22 # '':null'')
      (framed_text False (jsonrpc_error_response None ''BRIDGE_RECOVERY_EXHAUSTED'' ?t))" by code_simp
  with failed_notifications_get_a_response [OF notif meth other req coded pipe] out show ?thesis by auto
qed


section \<open>The end of a bridge\<close>


text \<open>A bridge whose gateway does not answer its last request: the timeout of that request ends it.\<close>

definition silent_env :: "nat bridge_env" where
  "silent_env =
     \<lparr>be_exchange = (\<lambda>_ _ _ _ w. (refused_exchange, w)),
      be_split = (\<lambda>_. \<lparr>su_scheme = ''http'', su_host = Some ''h'', su_bad_port = None\<rparr>),
      be_request = (\<lambda>_ w. (if w = 2 then AttemptRaises (OSError ''timed out'') else Response (BodyText ''s''), Suc w)),
      be_sleep = (\<lambda>_ w. w), be_json = (\<lambda>_. Ok (JDict [])), be_validate = (\<lambda>_. Ok (Some ''ready'', None)),
      be_discover = None, be_stop = (\<lambda>w. (Inr False, w)), be_clock = (\<lambda>w. (0, w)), be_now = (\<lambda>w. (''t'', w)),
      be_pipe = (\<lambda>w. (PipeOpen, w)), be_loads = (\<lambda>_. None), be_decode = id, be_encode = id\<rparr>"


end
