(* ===== verification/Attachment_Store.thy ===== *)
theory Attachment_Store
  imports Classification
begin

text \<open>
  \<^verbatim>\<open>shell/adr008_registry_events.py\<close>: the registry of client attachments and the log of runtime
  events in \<^verbatim>\<open>~/.tela\<close>. The state \<open>store_files\<close> is the content of the files in bytes. The
  exclusive lock makes each mutation one step. Which operating-system calls raise \<^verbatim>\<open>OSError\<close>, and with
  which text, is the argument \<open>fault\<close>; file modes are left out. The UTF-8 decoder and the Pydantic
  codecs are the record \<open>store_codec\<close>.
\<close>


section \<open>Files and faults\<close>

record store_files =
  sf_registry :: "string option"
  sf_lock :: bool
  sf_events :: "string option"

datatype store_call = CallDirectory | CallLock | CallLockMode | CallRead | CallTemp | CallCleanup | CallReplace
  | CallFinalMode | CallOpenEvents

type_synonym faults = "store_call \<Rightarrow> string option"

definition no_faults :: faults where
  "no_faults = (\<lambda>_. None)"

record store_codec =
  cd_text :: "string \<Rightarrow> string option"
  cd_registry :: "string \<Rightarrow> (client_attachment list, string) result"
  cd_dump :: "client_attachment list \<Rightarrow> string"
  cd_event :: "string \<Rightarrow> runtime_event option"

definition attachment_terminal_ttl :: int where
  "attachment_terminal_ttl = 14 * us_per_day"

definition attachment_terminal_limit :: nat where
  "attachment_terminal_limit = 500"

definition max_runtime_event_bytes :: nat where
  "max_runtime_event_bytes = 16 * 1024"

definition undecodable :: py_exc where
  "undecodable = UnicodeDecodeError (squote ''utf-8'' @ '' codec cannot decode'')"


section \<open>The registry\<close>

text \<open>The content of the file; \<open>Inl\<close> for bytes that are not UTF-8.\<close>

definition decode_attachment_registry ::
    "store_codec \<Rightarrow> string \<Rightarrow> py_exc + (client_attachment list, string) result" where
  "decode_attachment_registry cd raw =
     (case cd_text cd raw of
        None \<Rightarrow> Inl undecodable
      | Some text \<Rightarrow>
          Inr (case cd_registry cd text of Ok atts \<Rightarrow> Ok atts
               | Err e \<Rightarrow> Err (''ATTACHMENT_REGISTRY_PARSE_ERROR: '' @ e)))"

definition read_attachment_registry_path ::
    "store_codec \<Rightarrow> faults \<Rightarrow> store_files \<Rightarrow> py_exc + (client_attachment list, string) result" where
  "read_attachment_registry_path cd fault st =
     (case fault CallRead of
        Some e \<Rightarrow> Inr (Err (''ATTACHMENT_REGISTRY_READ_ERROR: '' @ e))
      | None \<Rightarrow>
          (case sf_registry st of None \<Rightarrow> Inr (Ok []) | Some raw \<Rightarrow> decode_attachment_registry cd raw))"

definition read_attachment_registry ::
    "store_codec \<Rightarrow> faults \<Rightarrow> store_files \<Rightarrow> py_exc + (client_attachment list, string) result" where
  "read_attachment_registry cd fault st =
     (if sf_registry st = None then Inr (Ok [])
      else if \<not> sf_lock st then read_attachment_registry_path cd fault st
      else (case (fault CallLock, fault CallLockMode) of
          (Some e, _) \<Rightarrow> Inr (Err (''ATTACHMENT_REGISTRY_READ_ERROR: '' @ e))
        | (None, Some e) \<Rightarrow> Inr (Err (''ATTACHMENT_REGISTRY_READ_ERROR: '' @ e))
        | (None, None) \<Rightarrow> read_attachment_registry_path cd fault st))"

definition write_error :: "string \<Rightarrow> string" where
  "write_error e = ''ATTACHMENT_REGISTRY_WRITE_ERROR: '' @ e"

text \<open>A failure of the temporary file or of the replacement; removing the temporary file may fail too.\<close>

definition replacement_failed :: "faults \<Rightarrow> string \<Rightarrow> string" where
  "replacement_failed fault e =
     (case fault CallCleanup of
        Some e2 \<Rightarrow> write_error (''failed to remove temporary registry file: '' @ e2)
      | None \<Rightarrow> write_error e)"

definition replace_attachment_registry_under_lock ::
    "store_codec \<Rightarrow> faults \<Rightarrow> client_attachment list \<Rightarrow> store_files \<Rightarrow> (unit, string) result \<times> store_files" where
  "replace_attachment_registry_under_lock cd fault atts st =
     (case (fault CallTemp, fault CallReplace, fault CallFinalMode) of
        (Some e, _, _) \<Rightarrow> (Err (replacement_failed fault e), st)
      | (None, Some e, _) \<Rightarrow> (Err (replacement_failed fault e), st)
      | (None, None, Some e) \<Rightarrow> (Err (replacement_failed fault e), st\<lparr>sf_registry := Some (cd_dump cd atts)\<rparr>)
      | (None, None, None) \<Rightarrow> (Ok (), st\<lparr>sf_registry := Some (cd_dump cd atts)\<rparr>))"

text \<open>\<^verbatim>\<open>_ensure_tela_directory\<close> and \<^verbatim>\<open>_attachment_registry_lock\<close>: the operation under the lock, or an error.\<close>

definition locked_mutation ::
    "faults \<Rightarrow> (store_files \<Rightarrow> (py_exc + ('a, string) result) \<times> store_files) \<Rightarrow> store_files
       \<Rightarrow> (py_exc + ('a, string) result) \<times> store_files" where
  "locked_mutation fault body st =
     (case (fault CallDirectory, fault CallLock, fault CallLockMode) of
        (Some e, _, _) \<Rightarrow> (Inr (Err (write_error e)), st)
      | (None, Some e, _) \<Rightarrow> (Inr (Err (write_error e)), st)
      | (None, None, Some e) \<Rightarrow> (Inr (Err (write_error e)), st\<lparr>sf_lock := True\<rparr>)
      | (None, None, None) \<Rightarrow> body (st\<lparr>sf_lock := True\<rparr>))"

definition write_attachment_registry ::
    "store_codec \<Rightarrow> faults \<Rightarrow> datetime \<Rightarrow> client_attachment list \<Rightarrow> store_files
       \<Rightarrow> (py_exc + (unit, string) result) \<times> store_files" where
  "write_attachment_registry cd fault now atts =
     locked_mutation fault (\<lambda>st.
       case compact_attachment_registry atts now attachment_terminal_ttl attachment_terminal_limit of
         Inl e \<Rightarrow> (Inl e, st)
       | Inr compacted \<Rightarrow>
           (let (res, st1) = replace_attachment_registry_under_lock cd fault compacted st in (Inr res, st1)))"

definition with_attachment :: "client_attachment \<Rightarrow> client_attachment list \<Rightarrow> client_attachment list" where
  "with_attachment a atts = filter (\<lambda>x. ca_client_id x \<noteq> ca_client_id a) atts @ [a]"

definition current_registry ::
    "store_codec \<Rightarrow> faults \<Rightarrow> store_files \<Rightarrow> py_exc + (client_attachment list, string) result" where
  "current_registry cd fault st =
     (case fault CallRead of
        Some e \<Rightarrow> Inr (Err (write_error e))
      | None \<Rightarrow>
          (case sf_registry st of None \<Rightarrow> Inr (Ok []) | Some raw \<Rightarrow> decode_attachment_registry cd raw))"

definition upsert_attachment_registry ::
    "store_codec \<Rightarrow> faults \<Rightarrow> datetime \<Rightarrow> client_attachment \<Rightarrow> store_files
       \<Rightarrow> (py_exc + (client_attachment list, string) result) \<times> store_files" where
  "upsert_attachment_registry cd fault now a =
     locked_mutation fault (\<lambda>st.
       case current_registry cd fault st of
         Inl e \<Rightarrow> (Inl e, st)
       | Inr (Err e) \<Rightarrow> (Inr (Err e), st)
       | Inr (Ok atts) \<Rightarrow>
           (case compact_attachment_registry (with_attachment a atts) now attachment_terminal_ttl attachment_terminal_limit of
              Inl e \<Rightarrow> (Inl e, st)
            | Inr compacted \<Rightarrow>
                (case replace_attachment_registry_under_lock cd fault compacted st of
                   (Err e, st1) \<Rightarrow> (Inr (Err e), st1)
                 | (Ok _, st1) \<Rightarrow> (Inr (Ok compacted), st1))))"

text \<open>Whether the mutation warns that non-terminal records alone exceed the limit.\<close>

definition reports_overflow :: "client_attachment list \<Rightarrow> bool" where
  "reports_overflow atts \<longleftrightarrow> attachment_terminal_limit < length (filter (\<lambda>a. ca_runtime_state a \<noteq> RExited) atts)"


section \<open>The event log\<close>

definition runtime_event_jsonl :: "runtime_event \<Rightarrow> string" where
  "runtime_event_jsonl e = json_dumps True '','' '':'' (event_object e) @ [CHR 0x0A]"

definition runtime_event_payload :: "runtime_event \<Rightarrow> (string, string) result" where
  "runtime_event_payload e =
     (if max_runtime_event_bytes < length (runtime_event_jsonl e) then
        Err ''RUNTIME_EVENT_TOO_LARGE: event exceeds 16 KiB''
      else Ok (runtime_event_jsonl e))"

text \<open>\<open>broken\<close> is a write that fails after some of its bytes.\<close>

definition append_runtime_event ::
    "faults \<Rightarrow> (nat \<times> string) option \<Rightarrow> runtime_event \<Rightarrow> store_files \<Rightarrow> (unit, string) result \<times> store_files" where
  "append_runtime_event fault broken e st =
     (case runtime_event_payload e of
        Err x \<Rightarrow> (Err x, st)
      | Ok payload \<Rightarrow>
          (case (fault CallDirectory, fault CallOpenEvents) of
             (Some x, _) \<Rightarrow> (Err (''RUNTIME_EVENT_WRITE_ERROR: '' @ x), st)
           | (None, Some x) \<Rightarrow> (Err (''RUNTIME_EVENT_WRITE_ERROR: '' @ x), st)
           | (None, None) \<Rightarrow>
               (let before = (case sf_events st of None \<Rightarrow> [] | Some t \<Rightarrow> t) in
                case broken of
                  Some (n, x) \<Rightarrow> (Err (''RUNTIME_EVENT_WRITE_ERROR: '' @ x), st\<lparr>sf_events := Some (before @ take n payload)\<rparr>)
                | None \<Rightarrow> (Ok (), st\<lparr>sf_events := Some (before @ payload)\<rparr>))))"

text \<open>Lines end at a line feed, a carriage return, or both; the empty line between the two is skipped anyway.\<close>

fun text_lines_from :: "string \<Rightarrow> string \<Rightarrow> string list" where
  "text_lines_from acc [] = (if acc = [] then [] else [rev acc])"
| "text_lines_from acc (c # cs) =
     (if c = CHR 0x0A \<or> c = CHR 0x0D then rev acc # text_lines_from [] cs else text_lines_from (c # acc) cs)"

definition jsonl_lines :: "string \<Rightarrow> string list" where
  "jsonl_lines text = filter (\<lambda>l. l \<noteq> []) (map py_strip (text_lines_from [] text))"

definition events_of :: "store_codec \<Rightarrow> string \<Rightarrow> runtime_event list \<times> nat" where
  "events_of cd text =
     (List.map_filter (cd_event cd) (jsonl_lines text), length (filter (\<lambda>l. cd_event cd l = None) (jsonl_lines text)))"

definition read_runtime_events ::
    "store_codec \<Rightarrow> faults \<Rightarrow> store_files \<Rightarrow> py_exc + (runtime_event list \<times> nat, string) result" where
  "read_runtime_events cd fault st =
     (case fault CallOpenEvents of
        Some e \<Rightarrow> Inr (Err (''RUNTIME_EVENTS_READ_ERROR: '' @ e))
      | None \<Rightarrow>
          (case sf_events st of
             None \<Rightarrow> Inr (Ok ([], 0))
           | Some raw \<Rightarrow>
               (case cd_text cd raw of
                  None \<Rightarrow> Inl undecodable
                | Some text \<Rightarrow> Inr (Ok (events_of cd text)))))"


section \<open>Laws\<close>

lemma locked_mutation_body:
  "locked_mutation fault body st = (res, st') \<Longrightarrow>
     (\<exists>e. res = Inr (Err e)) \<and> sf_registry st' = sf_registry st \<or> body (st\<lparr>sf_lock := True\<rparr>) = (res, st')"
  by (auto simp: locked_mutation_def split: option.splits)

lemma replace_registry_outcome:
  assumes "replace_attachment_registry_under_lock cd fault atts st = (res, st')"
  shows "sf_lock st' = sf_lock st
    \<and> (is_ok res \<longrightarrow> sf_registry st' = Some (cd_dump cd atts))
    \<and> (\<not> is_ok res \<longrightarrow> fault CallFinalMode = None \<longrightarrow> st' = st)"
  using assms by (auto simp: replace_attachment_registry_under_lock_def split: option.splits)

lemma current_registry_lock [simp]: "current_registry cd fault (st\<lparr>sf_lock := b\<rparr>) = current_registry cd fault st"
  by (simp add: current_registry_def split: option.split)

lemma upsert_success:
  assumes "upsert_attachment_registry cd fault now a st = (Inr (Ok atts), st')"
  obtains old where "current_registry cd fault st = Inr (Ok old)"
    "compact_attachment_registry (with_attachment a old) now attachment_terminal_ttl attachment_terminal_limit = Inr atts"
    "sf_registry st' = Some (cd_dump cd atts)" "sf_lock st'"
proof -
  have "(case current_registry cd fault st of
       Inl e \<Rightarrow> (Inl e, st\<lparr>sf_lock := True\<rparr>)
     | Inr (Err e) \<Rightarrow> (Inr (Err e), st\<lparr>sf_lock := True\<rparr>)
     | Inr (Ok old) \<Rightarrow>
         (case compact_attachment_registry (with_attachment a old) now attachment_terminal_ttl attachment_terminal_limit of
            Inl e \<Rightarrow> (Inl e, st\<lparr>sf_lock := True\<rparr>)
          | Inr compacted \<Rightarrow>
              (case replace_attachment_registry_under_lock cd fault compacted (st\<lparr>sf_lock := True\<rparr>) of
                 (Err e, st1) \<Rightarrow> (Inr (Err e), st1)
               | (Ok _, st1) \<Rightarrow> (Inr (Ok compacted), st1)))) = (Inr (Ok atts), st')"
    using locked_mutation_body [OF assms [unfolded upsert_attachment_registry_def]] by simp
  then show thesis
    using that replace_registry_outcome
    by (fastforce split: sum.splits result.splits prod.splits)
qed

lemma with_attachment_ids:
  "distinct (map ca_client_id atts) \<Longrightarrow> distinct (map ca_client_id (with_attachment a atts))"
  by (auto simp: with_attachment_def distinct_map_filter)

lemma with_attachment_same: "filter (\<lambda>x. ca_client_id x = ca_client_id a) (with_attachment a atts) = [a]"
  by (simp add: with_attachment_def filter_empty_conv)

lemma subseq_distinct: "subseq xs ys \<Longrightarrow> distinct ys \<Longrightarrow> distinct xs"
  by (induction rule: list_emb.induct) (auto elim: list_emb_set)

lemma subseq_filter: "subseq xs ys \<Longrightarrow> subseq (filter P xs) (filter P ys)"
  by (induction rule: list_emb.induct) auto

text \<open>What an upsert keeps: the new record alone under its identifier, every other live record, in order.\<close>

lemma upsert_keeps:
  assumes "compact_attachment_registry (with_attachment a old) now ttl limit = Inr atts"
  shows "filter (\<lambda>x. ca_client_id x = ca_client_id a) atts \<in> {[], [a]}"
    and "\<not> is_terminal a \<Longrightarrow> a \<in> set atts"
    and "\<And>x. x \<in> set old \<Longrightarrow> \<not> is_terminal x \<Longrightarrow> ca_client_id x \<noteq> ca_client_id a \<Longrightarrow> x \<in> set atts"
    and "distinct (map ca_client_id old) \<Longrightarrow> distinct (map ca_client_id atts)"
proof -
  have sub: "subseq atts (with_attachment a old)" using assms by (rule compact_subseq)
  have "subseq (filter (\<lambda>x. ca_client_id x = ca_client_id a) atts) [a]"
    using subseq_filter [OF sub] with_attachment_same by metis
  then show "filter (\<lambda>x. ca_client_id x = ca_client_id a) atts \<in> {[], [a]}"
    by (auto elim: list_emb.cases)
  have live: "filter (\<lambda>x. \<not> is_terminal x) atts = filter (\<lambda>x. \<not> is_terminal x) (with_attachment a old)"
    using assms by (rule compact_live)
  have kept: "x \<in> set atts" if "x \<in> set (with_attachment a old)" "\<not> is_terminal x" for x
  proof -
    from that have "x \<in> set (filter (\<lambda>x. \<not> is_terminal x) (with_attachment a old))" by simp
    then show ?thesis unfolding live [symmetric] by simp
  qed
  show "\<not> is_terminal a \<Longrightarrow> a \<in> set atts" using kept by (simp add: with_attachment_def)
  show "x \<in> set old \<Longrightarrow> \<not> is_terminal x \<Longrightarrow> ca_client_id x \<noteq> ca_client_id a \<Longrightarrow> x \<in> set atts" for x
    using kept by (simp add: with_attachment_def)
  show "distinct (map ca_client_id old) \<Longrightarrow> distinct (map ca_client_id atts)"
    using with_attachment_ids subseq_map [OF sub] subseq_distinct by blast
qed

lemma read_written:
  assumes "sf_registry st = Some (cd_dump cd atts)" "cd_text cd (cd_dump cd atts) = Some t" "cd_registry cd t = Ok atts"
  shows "read_attachment_registry cd no_faults st = Inr (Ok atts)"
  using assms
  by (simp add: read_attachment_registry_def read_attachment_registry_path_def decode_attachment_registry_def no_faults_def)


section \<open>One line for every event\<close>

definition printable :: "char \<Rightarrow> bool" where
  "printable c \<longleftrightarrow> 32 \<le> code c \<and> code c \<le> 126"

fun plain_floats :: "json \<Rightarrow> bool" where
  "plain_floats (JFloat r) = list_all printable r"
| "plain_floats (JList xs) = list_all plain_floats xs"
| "plain_floats (JDict kvs) = list_all (\<lambda>kv. plain_floats (snd kv)) kvs"
| "plain_floats _ = True"

lemma printable_brackets:
  "printable (CHR ''['')" "printable (CHR '']'')" "printable (CHR ''{'')" "printable (CHR ''}'')"
  by (simp_all add: printable_def)

lemma printable_hex: "n < 16 \<Longrightarrow> printable (hex_char n)"
  by (auto simp: hex_char_def printable_def)

lemma printable_esc: "list_all printable (esc_char c)"
proof (cases "short_escape c")
  case None
  have "code c < 256" by simp
  then have "code c div 16 < 16" by (intro less_mult_imp_div_less) simp
  then have "printable (hex_char (code c div 16))" "printable (hex_char (code c mod 16))" by (simp_all add: printable_hex)
  then show ?thesis using None by (auto simp: esc_char_def) (auto simp: printable_def)
next
  case (Some e)
  then have "e \<in> {CHR 0x22, CHR 0x5C, CHR ''n'', CHR ''r'', CHR ''t'', CHR ''f'', CHR ''b''}"
    by (auto simp: short_escape_def escape_table_def split: if_splits)
  then show ?thesis using Some by (auto simp: esc_char_def printable_def)
qed

lemma printable_quote: "list_all printable (quote s)"
  using printable_esc by (auto simp: quote_def list_all_iff printable_def)

lemma printable_join:
  "list_all printable sep \<Longrightarrow> \<forall>x \<in> set xs. list_all printable x \<Longrightarrow> list_all printable (join sep xs)"
  by (induction sep xs rule: join.induct) auto


lemma printable_dumps:
  assumes "list_all printable isep" "list_all printable ksep"
  shows "plain_floats v \<Longrightarrow> list_all printable (json_dumps srt isep ksep v)"
  using assms
proof (induction srt isep ksep v rule: json_dumps.induct)
  case (3 srt isep ksep i)
  have "is_digit c \<Longrightarrow> printable c" for c by (simp add: is_digit_def printable_def)
  then have "list_all printable (show_nat n)" for n using show_nat_digits [of n] by (simp add: list_all_iff)
  moreover have "printable (CHR ''-'')" by (simp add: printable_def)
  ultimately show ?case by (simp add: show_int_def)
next
  case (6 srt isep ksep xs)
  then have "\<forall>x \<in> set (map (json_dumps srt isep ksep) xs). list_all printable x" by (auto simp: list_all_iff)
  with 6 have "list_all printable (join isep (map (json_dumps srt isep ksep) xs))" by (intro printable_join)
  then show ?case by (simp add: printable_brackets)
next
  case (7 srt isep ksep kvs)
  let ?items = "map (\<lambda>kv. (fst kv, quote (fst kv) @ ksep @ json_dumps srt isep ksep (snd kv))) kvs"
  have "\<forall>x \<in> set (map snd ?items). list_all printable x"
    using 7 printable_quote by (auto simp: list_all_iff)
  then have "\<forall>x \<in> set (map snd (if srt then sort_key fst ?items else ?items)). list_all printable x" by auto
  with 7 have "list_all printable (join isep (map snd (if srt then sort_key fst ?items else ?items)))"
    by (intro printable_join)
  then show ?case by (simp add: printable_brackets Let_def)
qed (auto simp: printable_def printable_quote)


lemma text_lines_append:
  "text_lines_from acc (x @ CHR 0x0A # y) = text_lines_from acc (x @ [CHR 0x0A]) @ text_lines_from [] y"
  by (induction x arbitrary: acc) auto

lemma text_lines_one:
  "list_all printable x \<Longrightarrow> text_lines_from acc (x @ [CHR 0x0A]) = [rev acc @ x]"
  by (induction x arbitrary: acc) (auto simp: printable_def)

text \<open>The text of an object begins and ends with a brace, so stripping the line leaves it.\<close>

lemma strip_braces: "py_strip (CHR ''{'' # x @ ''}'') = CHR ''{'' # x @ ''}''"
  by (simp add: py_strip_def lstrip_def is_space_def)

definition event_text :: "runtime_event \<Rightarrow> string" where
  "event_text e = json_dumps True '','' '':'' (event_object e)"

lemma event_text_braces: "\<exists>x. event_text e = CHR ''{'' # x @ ''}''"
  by (simp add: event_text_def event_object_def Let_def)

lemma jsonl_lines_event:
  assumes "list_all plain_floats (map snd (ev_details e))"
  shows "text_lines_from [] (runtime_event_jsonl e) = [event_text e]" "py_strip (event_text e) = event_text e"
    "event_text e \<noteq> []"
proof -
  have "plain_floats (event_object e)" using assms by (simp add: event_object_def list_all_iff)
  then have "list_all printable (event_text e)"
    unfolding event_text_def by (intro printable_dumps) (simp_all add: printable_def)
  then show "text_lines_from [] (runtime_event_jsonl e) = [event_text e]"
    using text_lines_one [of "event_text e" "[]"] by (simp add: runtime_event_jsonl_def event_text_def)
  show "py_strip (event_text e) = event_text e" "event_text e \<noteq> []"
    using event_text_braces [of e] strip_braces by auto
qed

definition ends_line :: "string \<Rightarrow> bool" where
  "ends_line t \<longleftrightarrow> t = [] \<or> last t = CHR 0x0A"

lemma jsonl_lines_append:
  assumes "ends_line t" "list_all plain_floats (map snd (ev_details e))"
  shows "jsonl_lines (t @ runtime_event_jsonl e) = jsonl_lines t @ [event_text e]"
proof (cases "t = []")
  case True
  with jsonl_lines_event [OF assms(2)] show ?thesis by (simp add: jsonl_lines_def)
next
  case False
  with assms(1) obtain u where t: "t = u @ [CHR 0x0A]" by (metis append_butlast_last_id ends_line_def)
  show ?thesis
    using text_lines_append [of "[]" u "runtime_event_jsonl e"] jsonl_lines_event [OF assms(2)]
    by (simp add: jsonl_lines_def t)
qed


text \<open>UTF-8 decoding passes ASCII through.\<close>

definition ascii_transparent :: "store_codec \<Rightarrow> bool" where
  "ascii_transparent cd \<longleftrightarrow> cd_text cd [] = Some []
     \<and> (\<forall>x y. list_all (\<lambda>c. code c < 128) y \<longrightarrow> cd_text cd (x @ y) = map_option (\<lambda>t. t @ y) (cd_text cd x))"

definition events_text :: "store_codec \<Rightarrow> store_files \<Rightarrow> string option" where
  "events_text cd st = (case sf_events st of None \<Rightarrow> Some [] | Some raw \<Rightarrow> cd_text cd raw)"

lemma jsonl_ascii:
  assumes "list_all plain_floats (map snd (ev_details e))"
  shows "list_all (\<lambda>c. code c < 128) (runtime_event_jsonl e)"
proof -
  have "plain_floats (event_object e)" using assms by (simp add: event_object_def list_all_iff)
  then have "list_all printable (event_text e)"
    unfolding event_text_def by (intro printable_dumps) (simp_all add: printable_def)
  then show ?thesis by (auto simp: runtime_event_jsonl_def event_text_def list_all_iff printable_def)
qed

lemma read_events_text:
  "read_runtime_events cd no_faults st = (case events_text cd st of None \<Rightarrow> Inl undecodable | Some t \<Rightarrow> Inr (Ok (events_of cd t)))"
  if "cd_text cd [] = Some []"
  using that
  by (auto simp: read_runtime_events_def events_text_def no_faults_def events_of_def jsonl_lines_def
      List.map_filter_def split: option.split)

lemma append_events_text:
  assumes "append_runtime_event fault None e st = (Ok (), st')" "ascii_transparent cd"
    and "list_all plain_floats (map snd (ev_details e))"
  shows "events_text cd st' = map_option (\<lambda>t. t @ runtime_event_jsonl e) (events_text cd st)"
proof -
  have "sf_events st' = Some ((case sf_events st of None \<Rightarrow> [] | Some t \<Rightarrow> t) @ runtime_event_jsonl e)"
    using assms(1)
    by (auto simp: append_runtime_event_def runtime_event_payload_def split: if_splits option.splits)
  then show ?thesis
    using assms(2) jsonl_ascii [OF assms(3)] by (auto simp: events_text_def ascii_transparent_def split: option.splits)
qed


lemma replace_keeps_unless_done:
  "replace_attachment_registry_under_lock cd fault atts st = (res, st1) \<Longrightarrow> fault CallFinalMode = None
     \<Longrightarrow> res = Ok () \<or> st1 = st"
  using replace_registry_outcome [of cd fault atts st res st1] by (cases res) auto

lemma upsert_failure:
  assumes "fault CallFinalMode = None"
  shows "(\<exists>atts. fst (upsert_attachment_registry cd fault now a st) = Inr (Ok atts))
    \<or> sf_registry (snd (upsert_attachment_registry cd fault now a st)) = sf_registry st"
  unfolding upsert_attachment_registry_def locked_mutation_def
  using assms by (auto split: option.splits sum.splits result.splits prod.splits dest!: replace_keeps_unless_done)

lemma write_failure:
  assumes "fault CallFinalMode = None"
  shows "fst (write_attachment_registry cd fault now new st) = Inr (Ok ())
    \<or> sf_registry (snd (write_attachment_registry cd fault now new st)) = sf_registry st"
  unfolding write_attachment_registry_def locked_mutation_def
  using assms by (auto simp: Let_def split: option.splits sum.splits prod.splits dest!: replace_keeps_unless_done)

text \<open>A codec for the examples: one registry text, one event text, and bytes above 127 do not decode.\<close>

definition example_codec :: "client_attachment list \<Rightarrow> runtime_event \<Rightarrow> store_codec" where
  "example_codec atts e =
     \<lparr>cd_text = (\<lambda>raw. if list_all (\<lambda>c. code c < 128) raw then Some raw else None),
      cd_registry = (\<lambda>t. if t = ''R'' then Ok atts else Err ''malformed''), cd_dump = (\<lambda>_. ''R''),
      cd_event = (\<lambda>t. if t = event_text e then Some e else None)\<rparr>"

definition example_event :: runtime_event where
  "example_event = \<lparr>ev_kind = Heartbeat, ev_client_id = ''c'', ev_client_kind = ''k'', ev_timestamp = ''t'',
     ev_details = [(''lease_seconds'', JFloat ''90.0'')]\<rparr>"

definition example_attachment :: client_attachment where
  "example_attachment = \<lparr>ca_client_id = ''c'', ca_client_kind = ''k'', ca_display_state = DHealthy, ca_runtime_state = RActive,
     ca_recoverability = VRecoverable, ca_connected_at = ''2026-01-01T00:00:00Z'',
     ca_last_heartbeat = ''2026-01-01T00:00:00Z'', ca_stale_candidate = False, ca_unknown_state = False\<rparr>"

definition no_files :: store_files where
  "no_files = \<lparr>sf_registry = None, sf_lock = False, sf_events = None\<rparr>"

definition example_now :: datetime where
  "example_now = Datetime 63908006400000000 (Some 0)"


section \<open>Properties\<close>

text \<open>C32: After an upsert that succeeds, the registry reads back as the result of the upsert; the new record
  is the only one under its identifier, every live record of another client is still there, and
  identifiers that were distinct stay so.\<close>

theorem upserts_are_read_back:
  assumes "upsert_attachment_registry cd fault now a st = (Inr (Ok atts), st')"
    and "cd_text cd (cd_dump cd atts) = Some t" and "cd_registry cd t = Ok atts"
  shows "\<exists>old. current_registry cd fault st = Inr (Ok old)
    \<and> read_attachment_registry cd no_faults st' = Inr (Ok atts)
    \<and> filter (\<lambda>x. ca_client_id x = ca_client_id a) atts \<in> {[], [a]}
    \<and> (is_terminal a \<or> a \<in> set atts)
    \<and> (\<forall>x \<in> set old. is_terminal x \<or> ca_client_id x = ca_client_id a \<or> x \<in> set atts)
    \<and> (distinct (map ca_client_id old) \<longrightarrow> distinct (map ca_client_id atts))"
proof -
  obtain old where old: "current_registry cd fault st = Inr (Ok old)"
    and comp: "compact_attachment_registry (with_attachment a old) now attachment_terminal_ttl attachment_terminal_limit
      = Inr atts"
    and stored: "sf_registry st' = Some (cd_dump cd atts)"
    using assms(1) by (rule upsert_success)
  from old read_written [OF stored assms(2,3)] upsert_keeps [OF comp] show ?thesis by blast
qed

lemma upserts_are_read_back_witness:
  "read_attachment_registry (example_codec [example_attachment] example_event) no_faults
     (snd (upsert_attachment_registry (example_codec [example_attachment] example_event) no_faults example_now
       example_attachment no_files)) = Inr (Ok [example_attachment])"
proof -
  let ?cd = "example_codec [example_attachment] example_event"
  let ?up = "upsert_attachment_registry ?cd no_faults example_now example_attachment no_files"
  have "fst ?up = Inr (Ok [example_attachment])" by code_simp
  then have up: "?up = (Inr (Ok [example_attachment]), snd ?up)" by (metis prod.collapse)
  have "cd_text ?cd (cd_dump ?cd [example_attachment]) = Some ''R''" "cd_registry ?cd ''R'' = Ok [example_attachment]"
    by (code_simp, code_simp)
  from upserts_are_read_back [OF up this] show ?thesis by blast
qed

text \<open>An upsert or a write that does not succeed leaves the registry as it was, unless the failure is the
  one after the replacement of the file, of its mode.\<close>

theorem failed_mutations_change_nothing:
  assumes "fault CallFinalMode = None"
  shows "((\<exists>atts. fst (upsert_attachment_registry cd fault now a st) = Inr (Ok atts))
        \<or> sf_registry (snd (upsert_attachment_registry cd fault now a st)) = sf_registry st)
    \<and> (fst (write_attachment_registry cd fault now new st) = Inr (Ok ())
        \<or> sf_registry (snd (write_attachment_registry cd fault now new st)) = sf_registry st)"
  using upsert_failure [of fault, OF assms] write_failure [of fault, OF assms] by blast

lemma failed_mutations_witness:
  "sf_registry (snd (upsert_attachment_registry (example_codec [] example_event)
     (no_faults(CallReplace := Some ''disk full'')) example_now example_attachment (no_files\<lparr>sf_registry := Some ''R''\<rparr>))) = Some ''R''"
proof -
  let ?fault = "no_faults(CallReplace := Some ''disk full'')"
  let ?st = "no_files\<lparr>sf_registry := Some ''R''\<rparr>"
  let ?up = "upsert_attachment_registry (example_codec [] example_event) ?fault example_now example_attachment ?st"
  have "?fault CallFinalMode = None" by (simp add: no_faults_def)
  from failed_mutations_change_nothing [of ?fault, OF this]
  have "(\<exists>atts. fst ?up = Inr (Ok atts)) \<or> sf_registry (snd ?up) = sf_registry ?st" by blast
  moreover have "fst ?up = Inr (Err ''ATTACHMENT_REGISTRY_WRITE_ERROR: disk full'')" by code_simp
  ultimately show ?thesis by simp
qed

text \<open>A registry or an event log that is not UTF-8 makes every read raise, and every upsert, although the
  documentation of these functions says that no exception is raised and failures are in the result.\<close>

theorem undecodable_files_raise:
  assumes "cd_text cd raw = None"
  shows "read_attachment_registry cd no_faults (st\<lparr>sf_registry := Some raw\<rparr>) = Inl undecodable
    \<and> fst (upsert_attachment_registry cd no_faults now a (st\<lparr>sf_registry := Some raw\<rparr>)) = Inl undecodable
    \<and> read_runtime_events cd no_faults (st\<lparr>sf_events := Some raw\<rparr>) = Inl undecodable"
  using assms
  by (simp_all add: read_attachment_registry_def read_attachment_registry_path_def decode_attachment_registry_def
      read_runtime_events_def upsert_attachment_registry_def locked_mutation_def current_registry_def no_faults_def)

lemma undecodable_files_witness:
  "read_runtime_events (example_codec [] example_event) no_faults (no_files\<lparr>sf_events := Some [CHR 0xFF]\<rparr>) = Inl undecodable"
proof -
  have "cd_text (example_codec [] example_event) [CHR 0xFF] = None" by code_simp
  from undecodable_files_raise [OF this] show ?thesis by blast
qed

text \<open>An event that was appended is read back after all the events before it, as long as the log ended
  with a complete line; the number of malformed lines stays, and the log again ends with a complete line.\<close>

theorem appended_events_are_read:
  assumes "append_runtime_event fault None e st = (Ok (), st')"
    and "ascii_transparent cd" and "list_all plain_floats (map snd (ev_details e))"
    and "cd_event cd (event_text e) = Some e"
    and "events_text cd st = Some t" and "ends_line t"
    and "read_runtime_events cd no_faults st = Inr (Ok (es, malformed))"
  shows "read_runtime_events cd no_faults st' = Inr (Ok (es @ [e], malformed))
    \<and> (\<exists>t'. events_text cd st' = Some t' \<and> ends_line t')"
proof -
  have t': "events_text cd st' = Some (t @ runtime_event_jsonl e)"
    using append_events_text [OF assms(1,2,3)] assms(5) by simp
  have es: "events_of cd t = (es, malformed)"
    using assms(2,5,7) by (simp add: read_events_text ascii_transparent_def)
  have "events_of cd (t @ runtime_event_jsonl e) = (es @ [e], malformed)"
    using es assms(4) jsonl_lines_append [OF assms(6,3)] by (auto simp: events_of_def List.map_filter_def)
  with t' assms(2) show ?thesis
    by (simp add: read_events_text ascii_transparent_def ends_line_def runtime_event_jsonl_def)
qed

lemma appended_events_witness:
  "read_runtime_events (example_codec [] example_event) no_faults
     (snd (append_runtime_event no_faults None example_event no_files)) = Inr (Ok ([example_event], 0))"
proof -
  let ?cd = "example_codec [] example_event"
  let ?ap = "append_runtime_event no_faults None example_event no_files"
  have "fst ?ap = Ok ()" by code_simp
  then have ap: "?ap = (Ok (), snd ?ap)" by (metis prod.collapse)
  have ascii: "ascii_transparent ?cd" by (auto simp: ascii_transparent_def example_codec_def)
  have floats: "list_all plain_floats (map snd (ev_details example_event))" by code_simp
  have codec: "cd_event ?cd (event_text example_event) = Some example_event" by (simp add: example_codec_def)
  have empty: "events_text ?cd no_files = Some []" by (simp add: events_text_def no_files_def)
  have ends: "ends_line []" by (simp add: ends_line_def)
  have before: "read_runtime_events ?cd no_faults no_files = Inr (Ok ([], 0))" by code_simp
  from appended_events_are_read [OF ap ascii floats codec empty ends before] show ?thesis by simp
qed

end
