(* ===== verification/Serve_Runtime.thy ===== *)
theory Serve_Runtime
  imports Gateway_Steps Startup_Coordination
begin

text \<open>
  The process of \<^verbatim>\<open>tela serve\<close>: \<^verbatim>\<open>commands/serve_cmd.py\<close>, \<^verbatim>\<open>shell/serve_runtime.py\<close> and the reading of
  the configuration (\<^verbatim>\<open>shell/config_loader.py\<close>). The straight-line parts (arguments, startup, the end of
  the process) are functions; what happens between them, while requests are served, is the step
  relation \<open>serve_step\<close> on the gateway and the tasks beside it. The HTTP server is library code: the
  world \<open>'w\<close> of \<open>serve_env\<close> answers what its task and its sockets look like when they are asked.
\<close>


section \<open>Reading the configuration\<close>

definition load_config ::
    "(jobject \<Rightarrow> validation_error list + tela_config) \<Rightarrow> (string \<Rightarrow> (json, string) result) \<Rightarrow> string
       \<Rightarrow> py_exc + file_read \<Rightarrow> (string, string) dict \<Rightarrow> string option \<Rightarrow> py_exc + (tela_config, string) result" where
  "load_config model_validate yaml_load config_path file_text env default_profile =
     (case file_text of
        Inl exc \<Rightarrow> Inl exc
      | Inr Missing \<Rightarrow> Inr (Err (''CONFIG_FILE_MISSING: configuration file not found at '' @ config_path))
      | Inr (Unreadable e) \<Rightarrow> Inr (Err (''CONFIG_FILE_READ_ERROR: '' @ e))
      | Inr (Content raw) \<Rightarrow>
          (case yaml_load raw of
             Err e \<Rightarrow> Inr (Err (''CONFIG_PARSE_ERROR: invalid YAML: '' @ e))
           | Ok loaded \<Rightarrow>
               (case (if loaded = JNull then JDict [] else loaded) of
                  JDict d \<Rightarrow>
                    (case parse_config model_validate d env of
                       Inl (config_exc.Raised exc) \<Rightarrow> Inl exc
                     | Inl (Contract e) \<Rightarrow> Inr (Err (ce_code e @ '': '' @ ce_message e))
                     | Inr config \<Rightarrow>
                         (case validate_config config default_profile of
                            Inl exc \<Rightarrow> Inl exc
                          | Inr errors \<Rightarrow>
                              if 0 < length errors then Inr (Err (join ''; '' errors))
                              else if requires_open_mode_default_resolution (ac_mode (tc_auth config)) then
                                (case resolve_open_mode_default_profile (tc_profiles config) default_profile of
                                   Inl (config_exc.Raised exc) \<Rightarrow> Inl exc
                                 | Inl (Contract e) \<Rightarrow> Inr (Err (ce_code e @ '': '' @ ce_message e))
                                 | Inr profile \<Rightarrow> Inr (Ok (config\<lparr>tc_resolved_default_profile := Some profile\<rparr>)))
                              else Inr (Ok config)))
                | _ \<Rightarrow> Inr (Err ''CONFIG_PARSE_ERROR: top-level YAML document must be a mapping''))))"


section \<open>The HTTP server\<close>

definition bind_timeout_seconds :: rat where
  "bind_timeout_seconds = 5"

definition bind_poll_seconds :: rat where
  "bind_poll_seconds = 1 / 100"

text \<open>How the task of the server ended, and what a wait for it, once it was asked to exit, gives.\<close>

datatype server_end = ServerReturned | ServerRaised py_exc | ServerCancelled

datatype stop_outcome = StopEnded server_end | StopTimedOut

datatype sockname = SockAddr string int | SockPath string

record 'w serve_env =
  sn_lock :: "'w lock_env"
  sn_pid :: int
  sn_clock :: "'w \<Rightarrow> rat \<times> 'w"
  sn_task :: "'w \<Rightarrow> server_end option \<times> 'w"
  sn_listeners :: "'w \<Rightarrow> sockname list list \<times> 'w"
  sn_sleep :: "rat \<Rightarrow> 'w \<Rightarrow> 'w"
  sn_stop :: "'w \<Rightarrow> stop_outcome \<times> 'w"

fun port_of :: "sockname \<Rightarrow> int option" where
  "port_of (SockAddr host port) = (if port > 0 then Some port else None)"
| "port_of (SockPath path) = None"

fun extract_bound_port :: "sockname list list \<Rightarrow> int option" where
  "extract_bound_port [] = None"
| "extract_bound_port (sockets # listeners) =
     (case find (\<lambda>s. port_of s \<noteq> None) sockets of
        Some s \<Rightarrow> port_of s
      | None \<Rightarrow> extract_bound_port listeners)"

text \<open>\<^verbatim>\<open>await task\<close> for a task that is done.\<close>

fun await_end :: "server_end \<Rightarrow> py_exc + unit" where
  "await_end ServerReturned = Inr ()"
| "await_end (ServerRaised exc) = Inl exc"
| "await_end ServerCancelled = Inl (CancelledError [])"

definition stop_http_server :: "'w serve_env \<Rightarrow> server_end option \<Rightarrow> 'w \<Rightarrow> (py_exc + unit) \<times> 'w" where
  "stop_http_server env task w =
     (case task of
        Some e \<Rightarrow> (await_end e, w)
      | None \<Rightarrow>
          (case sn_stop env w of
             (StopEnded e, w1) \<Rightarrow> (await_end e, w1)
           | (StopTimedOut, w1) \<Rightarrow> (Inr (), w1)))"

definition stop_running_server :: "'w serve_env \<Rightarrow> 'w \<Rightarrow> (py_exc + unit) \<times> 'w" where
  "stop_running_server env w = (let (task, w1) = sn_task env w in stop_http_server env task w1)"

fun early_exit :: "server_end \<Rightarrow> string" where
  "early_exit ServerReturned = ''HTTP_RUN_FAILED: streamable HTTP server exited early''"
| "early_exit (ServerRaised exc) = ''HTTP_RUN_FAILED: '' @ exc_text exc"
| "early_exit ServerCancelled = ''HTTP_RUN_CANCELLED: streamable HTTP server cancelled''"

definition give_up_binding :: "'w serve_env \<Rightarrow> 'w \<Rightarrow> (py_exc + (int, string) result) \<times> 'w" where
  "give_up_binding env w =
     (let (stopped, w1) = stop_running_server env w
      in (case stopped of
            Inl exc \<Rightarrow> Inl exc
          | Inr _ \<Rightarrow> Inr (Err ''HTTP_BIND_TIMEOUT: timed out waiting for streamable HTTP server to bind''), w1))"

text \<open>One turn of the wait for a port: \<open>None\<close> is another turn.\<close>

definition poll_bound :: "'w serve_env \<Rightarrow> 'w \<Rightarrow> (int, string) result option \<times> 'w" where
  "poll_bound env w =
     (case sn_task env w of
        (Some e, w1) \<Rightarrow> (Some (Err (early_exit e)), w1)
      | (None, w1) \<Rightarrow>
          (let (listeners, w2) = sn_listeners env w1 in
           case extract_bound_port listeners of
             Some port \<Rightarrow> (Some (Ok port), w2)
           | None \<Rightarrow> (None, sn_sleep env bind_poll_seconds w2)))"

partial_function (option) wait_bound ::
    "'w serve_env \<Rightarrow> rat \<Rightarrow> 'w \<Rightarrow> ((py_exc + (int, string) result) \<times> 'w) option" where
  "wait_bound env deadline w =
     (let (now, w1) = sn_clock env w in
      if \<not> now < deadline then Some (give_up_binding env w1)
      else (case poll_bound env w1 of
          (Some res, w2) \<Rightarrow> Some (Inr res, w2)
        | (None, w2) \<Rightarrow> wait_bound env deadline w2))"

definition launch_streamable_http_server ::
    "'w serve_env \<Rightarrow> 'w \<Rightarrow> ((py_exc + (int, string) result) \<times> 'w) option" where
  "launch_streamable_http_server env w =
     (let (now, w1) = sn_clock env w in wait_bound env (now + bind_timeout_seconds) w1)"


section \<open>The upstream server of the runtime\<close>

definition is_upstream_server_initialized :: "runtime \<Rightarrow> bool" where
  "is_upstream_server_initialized r = gr_upstream_ready r"

text \<open>The application is a library object: its presence is what the code looks at.\<close>

definition get_upstream_http_app :: "runtime \<Rightarrow> (unit, string) result" where
  "get_upstream_http_app r =
     (if gr_upstream_ready r then Ok () else Err ''UPSTREAM_NOT_INITIALIZED: upstream MCP server not initialized'')"


section \<open>Startup\<close>

record serve_info =
  si_config_path :: string
  si_resolved_path :: string
  si_token :: string
  si_started_at :: string
  si_version :: "string option"
  si_idle_timeout :: int

definition package_version :: "string option \<Rightarrow> string" where
  "package_version installed = (case installed of Some v \<Rightarrow> v | None \<Rightarrow> ''0.1.2'')"

definition serve_lockfile :: "'w serve_env \<Rightarrow> serve_info \<Rightarrow> startup_config \<Rightarrow> int \<Rightarrow> lockfile_data" where
  "serve_lockfile env info startup port =
     \<lparr>lk_pid = sn_pid env, lk_host = st_host startup, lk_port = port, lk_token = si_token info,
      lk_started_at = si_started_at info, lk_config_path = si_resolved_path info,
      lk_version = package_version (si_version info)\<rparr>"

type_synonym serve_result = "py_exc + (unit, string) result"

text \<open>The process has ended with a result, or its server listens and is advertised.\<close>

datatype startup_phase = Finished serve_result | Listening

definition publish_endpoint ::
    "'w serve_env \<Rightarrow> serve_info \<Rightarrow> startup_config \<Rightarrow> int \<Rightarrow> gateway \<times> 'w \<Rightarrow> startup_phase \<times> gateway \<times> 'w" where
  "publish_endpoint env info startup port = (\<lambda>(g, w).
     case write_lockfile (sn_lock env) (serve_lockfile env info startup port) w of
       (Ok _, w1) \<Rightarrow> (Listening, g, w1)
     | (Err e, w1) \<Rightarrow>
         (case stop_running_server env w1 of
            (Inl exc, w2) \<Rightarrow> (Finished (Inl exc), g, w2)
          | (Inr _, w2) \<Rightarrow> (Finished (Inr (Err e)), snd (gateway_shutdown g), w2)))"

definition serve_prepare ::
    "'w serve_env \<Rightarrow> serve_info \<Rightarrow> rat \<Rightarrow> startup_config \<Rightarrow> tela_config \<Rightarrow> gateway \<times> 'w
       \<Rightarrow> (startup_phase \<times> gateway \<times> 'w) option" where
  "serve_prepare env info clock startup cfg = (\<lambda>(g, w).
     case gateway_prepare_startup clock startup (Some cfg) (Some (si_token info)) g of
       (Err e, g1) \<Rightarrow> Some (Finished (Inr (Err e)), g1, w)
     | (Ok _, g1) \<Rightarrow>
         if \<not> is_upstream_server_initialized (gs_runtime g1) then
           Some (Finished (Inr (Err ''STARTUP_FAILED: upstream MCP server not initialized'')),
                 snd (gateway_shutdown g1), snd (delete_lockfile (sn_lock env) w))
         else (case get_upstream_http_app (gs_runtime g1) of
             Err e \<Rightarrow> Some (Finished (Inr (Err e)), snd (gateway_shutdown g1), snd (delete_lockfile (sn_lock env) w))
           | Ok _ \<Rightarrow>
               map_option (\<lambda>(launched, w1).
                   case launched of
                     Inl exc \<Rightarrow> (Finished (Inl exc), g1, w1)
                   | Inr (Err e) \<Rightarrow> (Finished (Inr (Err e)), snd (gateway_shutdown g1), w1)
                   | Inr (Ok port) \<Rightarrow> publish_endpoint env info startup port (g1, w1))
                 (launch_streamable_http_server env w)))"

definition rollback_after_post_bind_convergence_failure ::
    "'w serve_env \<Rightarrow> string \<Rightarrow> gateway \<times> 'w \<Rightarrow> serve_result \<times> gateway \<times> 'w" where
  "rollback_after_post_bind_convergence_failure env convergence_error = (\<lambda>(g, w).
     let (_, w1) = delete_lockfile (sn_lock env) w;
         (stopped, w2) = stop_running_server env w1
     in case stopped of
          Inl exc \<Rightarrow> (Inl exc, g, w2)
        | Inr _ \<Rightarrow> (Inr (Err (or_text convergence_error ''STARTUP_CONVERGENCE_FAILED'')), snd (gateway_shutdown g), w2))"

definition serve_converge ::
    "'w serve_env \<Rightarrow> converge_env \<Rightarrow> gateway \<times> 'w \<Rightarrow> serve_result option \<times> gateway \<times> 'w" where
  "serve_converge env conv = (\<lambda>(g, w).
     case gateway_converge_startup conv g of
       (Inl exc, g1) \<Rightarrow> (Some (Inl exc), g1, w)
     | (Inr (Err e), g1) \<Rightarrow>
         (case rollback_after_post_bind_convergence_failure env e (g1, w) of (res, g2, w1) \<Rightarrow> (Some res, g2, w1))
     | (Inr (Ok _), g1) \<Rightarrow> (None, g1, w))"

definition serve_start ::
    "'w serve_env \<Rightarrow> serve_info \<Rightarrow> rat \<Rightarrow> startup_config \<Rightarrow> tela_config \<Rightarrow> converge_env \<Rightarrow> gateway \<times> 'w
       \<Rightarrow> (serve_result option \<times> gateway \<times> 'w) option" where
  "serve_start env info clock startup cfg conv gw =
     map_option (\<lambda>(phase, gw1). case phase of Finished res \<Rightarrow> (Some res, gw1) | Listening \<Rightarrow> serve_converge env conv gw1)
       (serve_prepare env info clock startup cfg gw)"


section \<open>Serving\<close>

datatype watch_task = Watching "int option" | WatchDone | WatchRaised py_exc

text \<open>The gateway, the lockfile's world, the stop event, the task that watches the configuration file, and
  whether the idle task holds the idle manager.\<close>

record 'w serving =
  sv_gateway :: gateway
  sv_world :: 'w
  sv_stop :: bool
  sv_watch :: watch_task
  sv_idle :: bool

definition prime_idle_manager :: "int \<Rightarrow> idle_manager \<Rightarrow> idle_manager" where
  "prime_idle_manager timeout m = (if timeout > 0 then snd (decrement (increment m)) else m)"

definition idle_watch_start :: "int \<Rightarrow> gateway \<Rightarrow> bool \<times> gateway" where
  "idle_watch_start timeout g =
     (case init_idle_manager (gs_idle g) (of_int timeout) of
        (Err _, _) \<Rightarrow> (False, g)
      | (Ok _, slot) \<Rightarrow> (True, g\<lparr>gs_idle := map_option (prime_idle_manager timeout) slot\<rparr>))"

definition idle_watch_stop :: "'w serving \<Rightarrow> 'w serving" where
  "idle_watch_stop s =
     (if sv_idle s then s\<lparr>sv_gateway := (sv_gateway s)\<lparr>gs_idle := snd (shutdown_idle_manager (gs_idle (sv_gateway s)))\<rparr>,
        sv_idle := False\<rparr> else s)"

text \<open>The tasks that are created after the convergence, each run to its first wait.\<close>

definition start_tasks :: "int \<Rightarrow> int option \<Rightarrow> gateway \<times> 'w \<Rightarrow> 'w serving" where
  "start_tasks timeout mtime = (\<lambda>(g, w).
     let (holds, g1) = idle_watch_start timeout g
     in \<lparr>sv_gateway = g1, sv_world = w, sv_stop = False, sv_watch = Watching mtime, sv_idle = holds\<rparr>)"

record reload_env =
  rl_loaded :: "(tela_config, string) result"
  rl_sweep_interval :: "rat option"
  rl_native_ttl :: "rat option"
  rl_bridge_ttl :: "rat option"
  rl_start :: "string \<Rightarrow> server_config \<Rightarrow> py_exc + (connected_server, string) result"

definition reload_now :: "reload_env \<Rightarrow> gateway \<Rightarrow> (py_exc + (unit, string) result) \<times> gateway" where
  "reload_now env g = gateway_reload_config_from_disk (rl_loaded env) (rl_sweep_interval env) (rl_native_ttl env)
     (rl_bridge_ttl env) (rl_start env) g"

text \<open>One turn of \<^verbatim>\<open>watch_config_changes\<close>, with the modification time it reads.\<close>

definition watch_poll :: "reload_env \<Rightarrow> int option \<Rightarrow> 'w serving \<Rightarrow> 'w serving" where
  "watch_poll env mtime s =
     (case (sv_watch s, mtime) of
        (Watching prev, Some current) \<Rightarrow>
          if (case prev of Some l \<Rightarrow> current \<le> l | None \<Rightarrow> False) then s
          else (case reload_now env (sv_gateway s) of
              (Inl exc, g) \<Rightarrow> s\<lparr>sv_gateway := g, sv_watch := WatchRaised exc\<rparr>
            | (Inr _, g) \<Rightarrow> s\<lparr>sv_gateway := g, sv_watch := Watching (Some current)\<rparr>)
      | _ \<Rightarrow> s)"

definition timer_pending :: "gateway \<Rightarrow> bool" where
  "timer_pending g \<longleftrightarrow> (case gs_idle g of Some m \<Rightarrow> im_timer m = Pending | None \<Rightarrow> False)"

text \<open>The idle timer runs out: its callback sets the stop event.\<close>

definition idle_expiry :: "'w serving \<Rightarrow> 'w serving" where
  "idle_expiry s = s\<lparr>sv_gateway := (sv_gateway s)\<lparr>gs_idle := map_option (\<lambda>m. m\<lparr>im_timer := Fired\<rparr>)
     (gs_idle (sv_gateway s))\<rparr>, sv_stop := True\<rparr>"

inductive serve_step :: "bool \<Rightarrow> 'w serving \<Rightarrow> 'w serving \<Rightarrow> bool" for lossy where
  Handled: "gateway_step lossy (sv_gateway s) g \<Longrightarrow> serve_step lossy s (s\<lparr>sv_gateway := g\<rparr>)"
| Polled: "serve_step lossy s (watch_poll env mtime s)"
| Expired: "sv_idle s \<Longrightarrow> timer_pending (sv_gateway s) \<Longrightarrow> serve_step lossy s (idle_expiry s)"
| Signalled: "serve_step lossy s (s\<lparr>sv_stop := True\<rparr>)"
| Elapsed: "serve_step lossy s (s\<lparr>sv_world := w\<rparr>)"


section \<open>The end of the process\<close>

text \<open>\<^verbatim>\<open>await_task\<close>: a task that raised raises again, one that waits is cancelled.\<close>

fun await_watch :: "watch_task \<Rightarrow> py_exc + unit" where
  "await_watch (WatchRaised exc) = Inl exc"
| "await_watch (Watching prev) = Inr ()"
| "await_watch WatchDone = Inr ()"

fun run_error :: "server_end option \<Rightarrow> string option" where
  "run_error (Some ServerCancelled) = Some ''HTTP_RUN_CANCELLED: streamable HTTP server cancelled''"
| "run_error (Some (ServerRaised exc)) = Some (''HTTP_RUN_FAILED: '' @ exc_text exc)"
| "run_error _ = None"

text \<open>\<open>ended\<close> is the end of the server's task if that ended the wait, else \<open>None\<close>: the stop event did.\<close>

definition serve_finish :: "'w serve_env \<Rightarrow> server_end option \<Rightarrow> 'w serving \<Rightarrow> serve_result \<times> 'w serving" where
  "serve_finish env ended s =
     (let error = run_error ended; s1 = s\<lparr>sv_stop := True\<rparr> in
      case await_watch (sv_watch s1) of
        Inl exc \<Rightarrow> (Inl exc, s1)
      | Inr _ \<Rightarrow>
          (let s2 = idle_watch_stop (s1\<lparr>sv_watch := WatchDone\<rparr>);
               (stopped, w1) = (case ended of
                   Some e \<Rightarrow> stop_http_server env (Some e) (sv_world s2)
                 | None \<Rightarrow> stop_running_server env (sv_world s2));
               s3 = s2\<lparr>sv_world := w1\<rparr>
           in case stopped of
                Inl exc \<Rightarrow> (Inl exc, s3)
              | Inr _ \<Rightarrow>
                  (Inr (case error of Some e \<Rightarrow> Err e | None \<Rightarrow> Ok ()),
                   s3\<lparr>sv_gateway := snd (gateway_shutdown (sv_gateway s3)),
                      sv_world := snd (delete_lockfile (sn_lock env) (sv_world s3))\<rparr>)))"


section \<open>The command\<close>

record serve_arguments =
  sa_port :: int
  sa_host :: string
  sa_default_profile :: "string option"
  sa_idle_timeout :: int
  sa_sweep_interval :: "rat option"
  sa_native_ttl :: "rat option"
  sa_bridge_ttl :: "rat option"
  sa_token :: "string option"

definition negative_override :: "rat option \<Rightarrow> bool" where
  "negative_override ov = (case ov of Some x \<Rightarrow> x < 0 | None \<Rightarrow> False)"

definition check_serve_arguments :: "serve_arguments \<Rightarrow> string option" where
  "check_serve_arguments a =
     (if sa_idle_timeout a < 0 then Some ''INVALID_IDLE_TIMEOUT: --idle-timeout must be >= 0''
      else if negative_override (sa_sweep_interval a) then
        Some ''INVALID_REAPER_SWEEP_INTERVAL: --reaper-sweep-interval must be >= 0''
      else if negative_override (sa_native_ttl a) then Some ''INVALID_REAPER_NATIVE_TTL: --reaper-native-ttl must be >= 0''
      else if negative_override (sa_bridge_ttl a) then Some ''INVALID_REAPER_BRIDGE_TTL: --reaper-bridge-ttl must be >= 0''
      else if sa_port a < 0 \<or> sa_port a > 65535 then Some ''INVALID_PORT: --port must be in range 0..65535''
      else None)"

definition resolve_bearer_token_cli_or_env :: "string option \<Rightarrow> string option \<Rightarrow> (string, string) result" where
  "resolve_bearer_token_cli_or_env cli_token env_token =
     (case cli_token of
        Some t \<Rightarrow> Ok t
      | None \<Rightarrow>
          (case env_token of
             Some t \<Rightarrow> Ok t
           | None \<Rightarrow> Err ''MISSING_TOKEN: --token or TELA_BEARER_TOKEN is required''))"

text \<open>\<open>fresh\<close> is what \<^verbatim>\<open>secrets.token_urlsafe(32)\<close> returns; the contract of its caller is checked.\<close>

definition generate_bearer_token :: "string \<Rightarrow> py_exc + (string, string) result" where
  "generate_bearer_token fresh =
     (if 43 \<le> length fresh then Inr (Ok fresh)
      else Inl (AssertionError ''Postcondition failed for generate_bearer_token''))"

definition resolve_bearer_token :: "string option \<Rightarrow> string option \<Rightarrow> string \<Rightarrow> py_exc + (string, string) result" where
  "resolve_bearer_token cli_token env_token fresh =
     (case resolve_bearer_token_cli_or_env cli_token env_token of
        Ok t \<Rightarrow> Inr (Ok t)
      | Err _ \<Rightarrow> generate_bearer_token fresh)"

definition serve_startup_config :: "serve_arguments \<Rightarrow> tela_config \<Rightarrow> startup_config" where
  "serve_startup_config a cfg =
     \<lparr>st_transport = THttp, st_port = Some (sa_port a), st_auth_mode = ac_mode (tc_auth cfg),
      st_default_profile = (if sa_default_profile a = None \<or> sa_default_profile a = Some []
        then tc_resolved_default_profile cfg else sa_default_profile a),
      st_host = sa_host a\<rparr>"

text \<open>\<open>run\<close> stands for the process from its startup to its end.\<close>

definition serve_command ::
    "serve_arguments \<Rightarrow> py_exc + (tela_config, string) result \<Rightarrow> string option \<Rightarrow> string
       \<Rightarrow> (startup_config \<Rightarrow> tela_config \<Rightarrow> string \<Rightarrow> serve_result) \<Rightarrow> py_exc + (int, string) result" where
  "serve_command a loaded env_token fresh run =
     (case check_serve_arguments a of
        Some e \<Rightarrow> Inr (Err e)
      | None \<Rightarrow>
          (case loaded of
             Inl exc \<Rightarrow> Inl exc
           | Inr (Err e) \<Rightarrow> Inr (Err e)
           | Inr (Ok config) \<Rightarrow>
               (let cfg = apply_reaper_overrides config (sa_sweep_interval a) (sa_native_ttl a) (sa_bridge_ttl a) in
                case resolve_bearer_token (sa_token a) env_token fresh of
                  Inl exc \<Rightarrow> Inl exc
                | Inr (Err e) \<Rightarrow> Inr (Err e)
                | Inr (Ok token) \<Rightarrow>
                    (case run (serve_startup_config a cfg) cfg token of
                       Inl exc \<Rightarrow> Inl exc
                     | Inr (Err e) \<Rightarrow> Inr (Err e)
                     | Inr (Ok _) \<Rightarrow> Inr (Ok 0)))))"

end
