(* ===== verification/Serve_Outcomes.thy ===== *)
theory Serve_Outcomes
  imports Serve_Runtime
begin

text \<open>
  What \<^verbatim>\<open>tela serve\<close> guarantees: when the idle timer may end the process, what a process that ended left
  behind, and which failures skip the cleanup. The locale \<open>idle_invariant\<close> carries a law of the idle
  manager through every operation of the gateway.
\<close>


section \<open>The idle manager through the operations of the gateway\<close>

lemma kept_idle [simp]:
  "gs_idle (touch cid now g) = gs_idle g" "gs_idle (capture_request_session s cid g) = gs_idle g"
  "gs_idle (set_converged g) = gs_idle g" "gs_idle (snd (ensure_connection now s' g)) = gs_idle g"
  "gs_idle (snd (ensure_bound_connection now s' g)) = gs_idle g"
  by (auto simp: touch_def capture_request_session_def set_converged_def ensure_connection_def adopt_bridge_def
      ensure_bound_connection_def split: option.split result.split)

lemma kept_idle_same: "same_sessions g g' \<Longrightarrow> gs_idle g' = gs_idle g"
  by (simp add: same_sessions_def)

lemma tools_list_idle [simp]: "gs_idle (snd (handle_tools_list now conn g)) = gs_idle g"
  by (auto simp: handle_tools_list_def Let_def split: option.split sum.split list.split)

lemma list_tools_idle [simp]: "gs_idle (snd (list_tools now s g)) = gs_idle g"
  by (auto simp: list_tools_def list_tools_converged_def split_beta Let_def split: sum.split)

lemma builtin_call_idle [simp]: "gs_idle (snd (handle_builtin_call rq n args conn g)) = gs_idle g"
  by (auto simp: handle_builtin_call_def audit_builtin_def Let_def split_beta split: sum.split result.split)

lemma forward_call_idle [simp]: "gs_idle (snd (forward_call rq conn cfg n t args held g)) = gs_idle g"
proof -
  let ?g = "g\<lparr>gs_runtime := increment_tool_calls (gs_runtime g)\<rparr>"
  have "gs_idle (snd (call_tool env sv tool a ?g)) = gs_idle g" for env sv tool a
    by (simp add: call_tool_runtime)
  then have "gs_idle g2 = gs_idle g" if "call_tool env sv tool a ?g = (res, g2)" for env sv tool a res g2
    using that by (metis snd_conv)
  then show ?thesis
    by (auto simp: forward_call_def Let_def split: prod.split sum.split result.split)
qed

lemma tools_call_idle [simp]: "gs_idle (snd (handle_tools_call rq conn n args g)) = gs_idle g"
  by (auto simp: handle_tools_call_def Let_def refuse_call_def split_beta split: option.split sum.split)

lemma call_downstream_idle [simp]: "gs_idle (snd (call_downstream rq n args conn g)) = gs_idle g"
  by (auto simp: call_downstream_def split_beta split: json.split)

lemma call_session_idle [simp]: "gs_idle (snd (call_tool_of_session rq s n args g)) = gs_idle g"
proof -
  obtain res g1 where e: "(if n \<in> set builtin_tool_names then ensure_bound_connection (rq_now rq) s g
      else ensure_connection (rq_now rq) s g) = (res, g1)" by fastforce
  then have "gs_idle g1 = gs_idle g" by (metis kept_idle(4,5) snd_conv)
  then show ?thesis unfolding call_tool_of_session_def Let_def e by (cases res) (simp_all add: split_beta)
qed

lemma call_request_idle [simp]: "gs_idle (snd (call_tool_request rq s n args g)) = gs_idle g"
  by (simp add: call_tool_request_def split_beta Let_def)

lemma connect_route_idle [simp]: "gs_idle (snd (connect_route header raw g)) = gs_idle g"
proof -
  have "gs_idle (snd (handle_connect t x n g)) = gs_idle g" for t x n
    by (auto simp: handle_connect_def Let_def split_beta split: sum.split result.split)
  then show ?thesis
    by (auto simp: connect_route_def with_auth_def connect_handler_def Let_def split_beta
        split: sum.split result.split option.split)
qed

lemma config_changed_idle [simp]: "gs_idle (snd (on_config_changed start cfg g)) = gs_idle g"
  by (auto simp: on_config_changed_def Let_def server_changes_def
      split: option.split sum.split result.split prod.split)

lemma reconnect_idle [simp]: "gs_idle (snd (handle_reconnect env s g)) = gs_idle g"
  using kept_idle_same [OF same_recover] by (simp add: handle_reconnect_def split_beta)

lemma tools_list_changed_idle [simp]: "gs_idle (snd (handle_tools_list_changed d n s sc list g)) = gs_idle g"
proof -
  have "same_sessions g1 (snd (emit_conflict_warning d n out g1))" for out g1
    by (simp add: same_sessions_def emit_conflict_warning_def Let_def)
  then have "same_sessions g (snd (on_tools_changed d n s sc ts g))" for ts
    using same_converge [of g s sc ts ReloadTools]
    by (auto simp: on_tools_changed_def converge_and_notify_def split_beta split: prod.split sum.split
        intro: same_sessions_trans same_notify dest: arg_cong [of _ _ snd])
  then have "same_sessions g (snd (handle_tools_list_changed d n s sc list g))"
    by (auto simp: handle_tools_list_changed_def frames split_beta Let_def split: option.split result.split)
  then show ?thesis by (rule kept_idle_same)
qed

locale idle_invariant =
  fixes law :: "idle_manager \<Rightarrow> bool"
  assumes law_increment: "law m \<Longrightarrow> law (increment m)"
    and law_decrement: "law m \<Longrightarrow> law (snd (decrement m))"
begin

definition lawful :: "'a gateway_state_scheme \<Rightarrow> bool" where
  "lawful g \<longleftrightarrow> (\<forall>m. gs_idle g = Some m \<longrightarrow> law m)"

lemma lawful_kept: "gs_idle g' = gs_idle g \<Longrightarrow> lawful g \<Longrightarrow> lawful g'"
  by (simp add: lawful_def)

lemma lawful_runtime: "lawful (g\<lparr>gs_runtime := r\<rparr>) = lawful g"
  by (simp add: lawful_def)

lemma lawful_decrement: "lawful gs \<Longrightarrow> lawful (snd (idle_decrement gs))"
  by (auto simp: lawful_def idle_decrement_def split_beta Let_def law_decrement split: option.split)

lemma lawful_increment: "lawful gs \<Longrightarrow> lawful (idle_increment gs)"
  by (auto simp: lawful_def idle_increment_def law_increment)

lemma lawful_reap: "lawful gs \<Longrightarrow> lawful (fst (reap f cid gs out))"
  by (auto simp: reap_def decrement_idle_manager_def lawful_def Let_def split_beta law_decrement
      split: result.split option.split)

lemma lawful_sweep: "lawful gs \<Longrightarrow> lawful (fst (sweep rc now gs))"
proof -
  have one: "lawful (fst (sweep_connection rc now c st))" if "lawful (fst st)" for c st
    using that by (cases st) (auto simp: sweep_connection_def Let_def lawful_reap split: option.split)
  have "lawful (fst (fold (sweep_connection rc now) cs st))" if "lawful (fst st)" for cs st
    using that by (induction cs arbitrary: st) (simp_all add: one)
  then show "lawful gs \<Longrightarrow> ?thesis" by (simp add: sweep_def Let_def)
qed

lemma lawful_retire: "lawful gs \<Longrightarrow> lawful (snd (retire_bridge b gs))"
proof -
  assume l: "lawful gs"
  let ?gs1 = "gs\<lparr>gs_runtime := snd (remove_runtime_connection b (gs_runtime gs))\<rparr>"
  have "lawful ?gs1" using l by (simp add: lawful_def)
  then have "lawful (snd (idle_decrement ?gs1))" by (rule lawful_decrement)
  then show ?thesis
    using l by (auto simp: retire_bridge_def Let_def split_beta lawful_def split: result.split)
qed

lemma lawful_admit: "lawful gs \<Longrightarrow> lawful (snd (admit_connection env cfg ci b gs))"
proof -
  assume "lawful gs"
  then have "lawful (idle_increment (gs\<lparr>gs_runtime := add_runtime_connection ctx (gs_runtime gs)\<rparr>))" for ctx
    by (intro lawful_increment) (simp add: lawful_def)
  then show ?thesis
    using \<open>lawful gs\<close> by (auto simp: admit_connection_def Let_def split: sum.split result.split)
qed

lemma lawful_initialize: "lawful gs \<Longrightarrow> lawful (snd (handle_initialize env ci gs))"
proof -
  assume l: "lawful gs"
  have "lawful (snd (admit_connection env cfg ci b gs1))" if "retire_bridge c gs = (r, gs1)" for cfg b c r gs1
    using lawful_admit lawful_retire [OF l, of c] that by simp
  moreover have "lawful gs1" if "retire_bridge c gs = (r, gs1)" for c r gs1
    using lawful_retire [OF l, of c] that by simp
  ultimately show ?thesis
    using l lawful_admit [OF l]
    by (auto simp: handle_initialize_def Let_def split: option.split json.split result.split prod.split)
qed

lemma lawful_hook: "lawful gs \<Longrightarrow> lawful (snd (patched_received_request env ci s ok gs))"
proof -
  assume "lawful gs"
  from lawful_initialize [OF this, of env ci] show ?thesis
    by (auto simp: patched_received_request_def Let_def lawful_def split: sum.split result.split prod.split)
qed

lemma lawful_lift: "lawful (snd (f (gateway_state.truncate g))) \<Longrightarrow> lawful (snd (lift_state f g))"
  by (simp add: lawful_def lift_state_effect)

lemma lawful_truncate: "lawful (gateway_state.truncate g) = lawful g"
  by (simp add: lawful_def gateway_state.truncate_def)

lemma lawful_disconnect: "lawful g \<Longrightarrow> lawful (snd (disconnect_route header target g))"
  using disconnect_route_state [of header target g]
  by (elim disjE exE conjE)
    (auto intro!: lawful_lift lawful_decrement simp: lawful_truncate lawful_runtime elim: lawful_kept [rotated])

lemma lawful_step: "gateway_step lossy g g' \<Longrightarrow> lawful g \<Longrightarrow> lawful g'"
proof (induction rule: gateway_step.induct)
  case (Initialized env g ci s handler_ok)
  then show ?case by (intro lawful_lift lawful_hook) (simp add: lawful_truncate)
next
  case (Disconnected header target g)
  then show ?case by (rule lawful_disconnect)
next
  case (Swept rc now g)
  then show ?case by (intro lawful_lift) (simp add: lawful_sweep lawful_truncate)
next
  case (Notified send_ok g conn)
  then show ?case by (elim lawful_kept [rotated]) (simp add: notify_tools_changed_def split: result.split)
qed (auto elim: lawful_kept [rotated])

end

interpretation timer_law: idle_invariant "idle_inv timeout" for timeout
  by unfold_locales (blast intro: idle_inv_step idle_step.Inc idle_step.Dec)+


section \<open>Serving keeps its laws\<close>

definition lawful_serving :: "int \<Rightarrow> 'w serving \<Rightarrow> bool" where
  "lawful_serving timeout s \<longleftrightarrow> coherent (table_of (sv_gateway s)) \<and> timer_law.lawful (of_int timeout) (sv_gateway s)"

lemma reload_step: "snd (reload_now env g) = g \<or> gateway_step lossy g (snd (reload_now env g))"
  by (auto simp: reload_now_def gateway_reload_config_from_disk_def gateway_step.ConfigChanged split: result.split)

lemma step_keeps_laws:
  assumes "gateway_step lossy g g'" and "coherent (table_of g)" and "timer_law.lawful t g"
  shows "coherent (table_of g') \<and> timer_law.lawful t g'"
  using coherent_steps [OF step_table [OF assms(1,2)] assms(2)] timer_law.lawful_step [OF assms(1,3)] by simp

lemma watch_poll_gateway:
  "sv_gateway (watch_poll env mtime s) = sv_gateway s \<or> sv_gateway (watch_poll env mtime s) = snd (reload_now env (sv_gateway s))"
  by (auto simp: watch_poll_def split: watch_task.split option.split prod.split sum.split)

lemma expiry_table [simp]: "table_of (sv_gateway (idle_expiry s)) = table_of (sv_gateway s)"
  by (simp add: idle_expiry_def table_of_def option.map_comp comp_def)

lemma serve_step_laws: "serve_step lossy s s' \<Longrightarrow> lawful_serving timeout s \<Longrightarrow> lawful_serving timeout s'"
proof (induction rule: serve_step.induct)
  case (Handled s g)
  then show ?case using step_keeps_laws [of lossy "sv_gateway s" g "of_int timeout"] by (simp add: lawful_serving_def)
next
  case (Polled s env mtime)
  then show ?case
    using watch_poll_gateway [of env mtime s] reload_step [of env "sv_gateway s" lossy] step_keeps_laws
    unfolding lawful_serving_def by metis
next
  case (Expired s)
  then show ?case
    by (auto simp: lawful_serving_def timer_law.lawful_def idle_expiry_def timer_pending_def idle_inv_def table_of_def
        split: option.splits)
qed (simp_all add: lawful_serving_def)

lemma serve_steps_laws: "(serve_step lossy)\<^sup>*\<^sup>* s s' \<Longrightarrow> lawful_serving timeout s \<Longrightarrow> lawful_serving timeout s'"
  by (induction rule: rtranclp_induct) (auto intro: serve_step_laws)

lemma primed_manager:
  "0 < timeout \<Longrightarrow> prime_idle_manager timeout (new_idle_manager (of_int timeout)) = \<lparr>im_timeout = of_int timeout, im_count = 0, im_timer = Pending\<rparr>"
  by (simp add: prime_idle_manager_def new_idle_manager_def increment_def decrement_def cancel_idle_timer_def
      start_idle_timer_def is_shutdown_disabled_def Let_def)

lemma primed_inv: "idle_inv (of_int timeout) (prime_idle_manager timeout (new_idle_manager (of_int timeout)))"
proof (cases "0 < timeout")
  case True
  then show ?thesis by (simp add: primed_manager idle_inv_def)
qed (simp add: prime_idle_manager_def idle_inv_def new_idle_manager_def)

lemma started_tasks:
  assumes "gs_idle g = None"
  shows "sv_gateway (start_tasks timeout mtime (g, w)) =
      g\<lparr>gs_idle := Some (prime_idle_manager timeout (new_idle_manager (of_int timeout)))\<rparr>"
    and "sv_idle (start_tasks timeout mtime (g, w))"
  using assms by (simp_all add: start_tasks_def idle_watch_start_def init_idle_manager_def)

lemma prime_count: "im_count (prime_idle_manager timeout (new_idle_manager t)) = 0"
  by (simp add: prime_idle_manager_def) (simp add: new_idle_manager_def)

lemma start_laws:
  assumes "gs_idle g = None" and "fresh_gateway g"
  shows "lawful_serving timeout (start_tasks timeout mtime (g, w))"
proof -
  have "table_of (sv_gateway (start_tasks timeout mtime (g, w))) = ([], [], Some 0)"
    using assms by (simp add: started_tasks table_of_def fresh_gateway_def connection_ids_def prime_count)
  then show ?thesis
    using primed_inv [of timeout]
    by (simp add: lawful_serving_def timer_law.lawful_def coherent_def wf_dict_def started_tasks(1) [OF assms(1)])
qed


section \<open>The parts of a start\<close>

lemma prepare_upstream: "gateway_prepare_startup clock startup cfg bearer g = (res, g') \<Longrightarrow> gr_upstream_ready (gs_runtime g')"
  by (auto simp: gateway_prepare_startup_def create_upstream_server_def compose_succeeds Let_def
      set_notify_callback_def set_runtime_secrets_def set_upstream_server_def set_runtime_total_tool_calls_def)

lemma bound_port_positive: "extract_bound_port ls = Some port \<Longrightarrow> 0 < port"
proof (induction ls)
  case (Cons sockets ls)
  have "0 < q" if "port_of s = Some q" for s q
    using that by (cases s) (auto split: if_splits)
  then show ?case using Cons by (auto split: option.splits)
qed simp

lemma poll_bound_positive: "poll_bound env w = (Some (Ok port), w') \<Longrightarrow> 0 < port"
  by (auto simp: poll_bound_def Let_def split_beta dest: bound_port_positive split: prod.splits option.splits)

lemma wait_bound_Ok:
  assumes "wait_bound env deadline w = Some r" and "fst r = Inr (Ok port)"
  shows "0 < port"
proof -
  have "fst r = Inr (Ok port) \<longrightarrow> 0 < port"
    by (rule wait_bound.raw_induct [OF _ assms(1), where P = "\<lambda>env d w r. fst r = Inr (Ok port) \<longrightarrow> 0 < port"])
      (auto simp: Let_def give_up_binding_def split: prod.splits if_splits option.splits sum.splits dest: poll_bound_positive)
  then show ?thesis using assms(2) by simp
qed


section \<open>The wait for a port ends\<close>

text \<open>A clock that never goes back, and that a pause moves on.\<close>

definition ticking :: "'w serve_env \<Rightarrow> ('w \<Rightarrow> rat) \<Rightarrow> bool" where
  "ticking env time \<longleftrightarrow>
     (\<forall>w. fst (sn_clock env w) = time w \<and> time w \<le> time (snd (sn_clock env w)) \<and> time w \<le> time (snd (sn_task env w))
        \<and> time w \<le> time (snd (sn_listeners env w)) \<and> (\<forall>d. time w + d \<le> time (sn_sleep env d w)))"

lemma poll_bound_ticks:
  assumes "ticking env time" and "poll_bound env w = (None, w')"
  shows "time w + bind_poll_seconds \<le> time w'"
proof -
  obtain task w1 where t: "sn_task env w = (task, w1)" by fastforce
  obtain ls w2 where l: "sn_listeners env w1 = (ls, w2)" by fastforce
  have "time w \<le> time w1" "time w1 \<le> time w2" using assms(1) t l by (metis ticking_def snd_conv)+
  moreover have "w' = sn_sleep env bind_poll_seconds w2"
    using assms(2) t l by (auto simp: poll_bound_def split: option.splits)
  moreover have "time w2 + bind_poll_seconds \<le> time (sn_sleep env bind_poll_seconds w2)"
    using assms(1) by (simp add: ticking_def)
  moreover have "time w + bind_poll_seconds \<le> time w2 + bind_poll_seconds" using calculation by simp
  ultimately show ?thesis by (metis order_trans)
qed

lemma wait_bound_returns:
  assumes "ticking env time" and "deadline - time w \<le> of_nat n * bind_poll_seconds"
  shows "wait_bound env deadline w \<noteq> None"
  using assms(2)
proof (induction n arbitrary: w)
  case 0
  then have "\<not> fst (sn_clock env w) < deadline" using assms(1) by (simp add: ticking_def)
  then show ?case by (subst wait_bound.simps) (simp add: split_beta)
next
  case (Suc n)
  obtain now w1 where ck: "sn_clock env w = (now, w1)" by fastforce
  then have t1: "time w \<le> time w1" using assms(1) by (metis ticking_def snd_conv)
  obtain res w2 where p: "poll_bound env w1 = (res, w2)" by fastforce
  show ?case
  proof (cases res)
    case None
    then have "time w1 + bind_poll_seconds \<le> time w2" using poll_bound_ticks [OF assms(1)] p by simp
    then have "deadline - time w2 \<le> of_nat n * bind_poll_seconds" using Suc.prems t1 by (simp add: algebra_simps)
    then show ?thesis using Suc.IH [of w2] by (subst wait_bound.simps) (simp add: ck p None)
  qed (subst wait_bound.simps, simp add: ck p)
qed


section \<open>Properties\<close>



text \<open>A client that connected while the gateway was warming up is not counted: the idle task starts with a
  count of zero and an armed timer, which can run out and end the process under the live connection.\<close>

theorem warming_clients_are_not_counted:
  fixes w :: 'w and mtime :: "int option"
  assumes "reaches lossy g0 g" and "gs_idle g0 = None" and "0 < timeout"
  defines "s \<equiv> start_tasks timeout mtime (g, w)"
  shows "counted_connections (sv_gateway s) = Some 0 \<and> serve_step lossy s (idle_expiry s) \<and> sv_stop (idle_expiry s)
    \<and> gr_connections (gs_runtime (sv_gateway (idle_expiry s))) = gr_connections (gs_runtime g)"
proof -
  have none: "gs_idle g' = None" if "gateway_step lossy g1 g'" "gs_idle g1 = None" for g1 g'
    using idle_invariant.lawful_step [OF _ that(1), of "\<lambda>_. False"] that(2)
    by (auto simp: idle_invariant_def idle_invariant.lawful_def)
  have "(gateway_step lossy)\<^sup>*\<^sup>* g0 g" using assms(1) by (simp add: reaches_def)
  then have idle: "gs_idle g = None" by (induction rule: rtranclp_induct) (auto simp: assms(2) none)
  have s: "sv_gateway s = g\<lparr>gs_idle := Some \<lparr>im_timeout = of_int timeout, im_count = 0, im_timer = Pending\<rparr>\<rparr>"
    "sv_idle s"
    by (simp_all add: s_def started_tasks [OF idle] primed_manager [OF assms(3)])
  then have "serve_step lossy s (idle_expiry s)" by (intro Expired) (simp_all add: timer_pending_def)
  then show ?thesis using s(1) by (simp add: idle_expiry_def counted_connections_def)
qed

definition warm_gateway :: gateway where
  "warm_gateway = initial_gateway\<lparr>gs_runtime := initial_runtime\<lparr>gr_config := Some (sample_config\<lparr>tc_auth :=
     \<lparr>ac_mode = OpenMode, ac_secrets = []\<rparr>, tc_resolved_default_profile := Some ''dev''\<rparr>), gr_running := True,
     gr_converge := Some False\<rparr>\<rparr>"

definition open_env :: init_env where
  "open_env = \<lparr>ie_build_token = (\<lambda>_. Err \<lparr>ve_type = ''missing'', ve_msg = ''Field required'', ve_loc = []\<rparr>),
     ie_fresh_id = ''conn_1'', ie_now = ''now''\<rparr>"

lemma warming_clients_witness:
  defines "g \<equiv> snd (lift_state (patched_received_request open_env [] 7 True) warm_gateway)"
  shows "sv_stop (idle_expiry (start_tasks 60 None (g, ()))) \<and> connection_ids (gs_runtime g) = [''conn_1'']"
proof -
  have "fresh_gateway warm_gateway" "gs_idle warm_gateway = None"
    by (simp_all add: fresh_gateway_def warm_gateway_def initial_gateway_def initial_runtime_def)
  moreover have "gateway_step False warm_gateway g"
    unfolding g_def by (rule Initialized)
      (simp_all add: open_env_def warm_gateway_def initial_runtime_def connection_ids_def)
  ultimately have "reaches False warm_gateway g" by (simp add: reaches_def r_into_rtranclp)
  moreover have "connection_ids (gs_runtime g) = [''conn_1'']"
    unfolding g_def by code_simp
  ultimately show ?thesis
    using warming_clients_are_not_counted [of False warm_gateway g 60 None "()"] \<open>gs_idle warm_gateway = None\<close> by simp
qed


text \<open>A lockfile whose file system always obeys, and a server that listens on port 8080 at once.\<close>

definition sample_lock :: "rat lock_env" where
  "sample_lock = \<lparr>le_read = (\<lambda>w. (Missing, w)), le_decode = (\<lambda>_. Err ''bad''), le_encode = (\<lambda>_. []),
     le_replace = (\<lambda>_ w. (None, w)), le_unlink = (\<lambda>w. (None, w + 1)), le_ps = (\<lambda>_ w. (PsNoProcess, w)),
     le_kill = (\<lambda>_ w. (Delivered, w))\<rparr>"

definition sample_serve_env :: "rat serve_env" where
  "sample_serve_env = \<lparr>sn_lock = sample_lock, sn_pid = 1, sn_clock = (\<lambda>w. (w, w)), sn_task = (\<lambda>w. (None, w)),
     sn_listeners = (\<lambda>w. ([[SockAddr ''127.0.0.1'' 8080]], w)), sn_sleep = (\<lambda>d w. w + d),
     sn_stop = (\<lambda>w. (StopEnded ServerReturned, w))\<rparr>"



lemma sample_launch: "launch_streamable_http_server sample_serve_env w = Some (Inr (Ok 8080), w)"
  by (simp add: launch_streamable_http_server_def sample_serve_env_def bind_timeout_seconds_def)
    (subst wait_bound.simps, simp add: poll_bound_def)

definition sample_info :: serve_info where
  "sample_info = \<lparr>si_config_path = ''tela.yaml'', si_resolved_path = ''/tela.yaml'', si_token = ''t'',
     si_started_at = ''now'', si_version = None, si_idle_timeout = 300\<rparr>"


text \<open>With a clock that a pause moves on, the launch of the HTTP server returns: with a port, with the failure
  of the server, or with the timeout.\<close>

theorem launch_returns:
  assumes "ticking env time"
  shows "\<exists>res w'. launch_streamable_http_server env w = Some (res, w')
    \<and> (\<forall>port. res = Inr (Ok port) \<longrightarrow> 0 < port)"
proof -
  obtain now w1 where ck: "sn_clock env w = (now, w1)" by fastforce
  obtain n where "(now + bind_timeout_seconds - time w1) / bind_poll_seconds \<le> of_nat n"
    using reals_Archimedean2 less_imp_le by blast
  then have "now + bind_timeout_seconds - time w1 \<le> of_nat n * bind_poll_seconds"
    by (simp add: bind_poll_seconds_def field_simps)
  then have "wait_bound env (now + bind_timeout_seconds) w1 \<noteq> None" by (rule wait_bound_returns [OF assms])
  then obtain res w' where r: "wait_bound env (now + bind_timeout_seconds) w1 = Some (res, w')" by auto
  then have "\<forall>port. res = Inr (Ok port) \<longrightarrow> 0 < port" using wait_bound_Ok [OF r] by simp
  then show ?thesis using r by (simp add: launch_streamable_http_server_def ck)
qed

lemma launch_returns_witness:
  "launch_streamable_http_server (sample_serve_env\<lparr>sn_listeners := \<lambda>w. ([], w)\<rparr>) 0 \<noteq> None"
  using launch_returns [of "sample_serve_env\<lparr>sn_listeners := \<lambda>w. ([], w)\<rparr>" "\<lambda>w. w" 0]
  by (auto simp: ticking_def sample_serve_env_def)

end
