(* ===== verification/Operator_Status.thy ===== *)
theory Operator_Status
  imports Http_Client Gateway Startup_Coordination Attachment_Store Bridge_Transport
begin

text \<open>
  The read-only operator commands: \<^verbatim>\<open>core/adr008_status.py\<close>, \<^verbatim>\<open>commands/remote_state.py\<close> and
  \<^verbatim>\<open>commands/status_cmd.py\<close>. What a command reads outside the process, and what the mutating commands
  change there, are the operations of \<open>operator_env\<close> on a world \<open>'w\<close>. A command's value is what it would
  print; printing itself is not modelled. The validators of Pydantic are parameters.
\<close>


section \<open>Classification\<close>

definition runtime_states :: "string set" where
  "runtime_states = {''absent'', ''degraded'', ''ready'', ''stale'', ''starting'', ''unknown''}"

definition recoverability_states :: "string set" where
  "recoverability_states = {''not_recoverable'', ''recoverable'', ''unknown''}"

definition classify_shared_runtime_state :: "bool \<Rightarrow> bool \<Rightarrow> string option \<Rightarrow> bool \<Rightarrow> string" where
  "classify_shared_runtime_state lockfile_present lockfile_stale probed_state startup_in_progress =
     (if startup_in_progress then ''starting''
      else if \<not> lockfile_present then ''absent''
      else if lockfile_stale then ''stale''
      else if probed_state = Some ''ready'' then ''ready''
      else if probed_state = Some ''degraded'' then ''degraded''
      else if probed_state \<in> {Some ''warming'', Some ''starting'', Some ''discoverable'', Some ''concurrent_startup_follower''}
        then ''starting''
      else if probed_state = Some ''config_mismatch'' then ''degraded''
      else ''unknown'')"

definition classify_status_recoverability :: "string \<Rightarrow> string option \<Rightarrow> bool \<Rightarrow> py_exc + string" where
  "classify_status_recoverability runtime_state last_error recovery_command_available =
     (if runtime_state \<notin> runtime_states then Inl (AssertionError ''Precondition failed for classify_status_recoverability'')
      else Inr (if runtime_state = ''ready'' then ''not_recoverable''
        else if runtime_state = ''starting'' then ''unknown''
        else if runtime_state \<in> {''degraded'', ''stale'', ''absent''} then
          (if recovery_command_available then ''recoverable'' else ''not_recoverable'')
        else ''unknown''))"

definition make_status_recommendation :: "string \<Rightarrow> string \<Rightarrow> py_exc + string" where
  "make_status_recommendation runtime_state recoverability_state =
     (if runtime_state \<notin> runtime_states \<or> recoverability_state \<notin> recoverability_states
      then Inl (AssertionError ''Precondition failed for make_status_recommendation'')
      else Inr (if runtime_state = ''ready'' then ''Runtime is ready; no recovery action is needed.''
        else if runtime_state = ''starting'' then ''Runtime is starting; wait or run tela status --probe again.''
        else if runtime_state = ''absent'' \<and> recoverability_state = ''recoverable'' then
          ''Run tela doctor --recover to attempt explicit recovery.''
        else if runtime_state = ''stale'' \<and> recoverability_state = ''recoverable'' then
          ''Run tela doctor --recover to clean stale discovery and recover.''
        else if runtime_state = ''degraded'' \<and> recoverability_state = ''recoverable'' then
          ''Run tela doctor --recover to retry recovery; '' @ ''inspect degraded_reason if it persists.''
        else if recoverability_state = ''not_recoverable'' then ''No automatic recovery is available for this state.''
        else if runtime_state = ''unknown'' then
          ''State is ambiguous; inspect runtime-events and run '' @ ''tela status --probe to determine state.''
        else ''Run tela status --probe to verify reachability.''))"


section \<open>What the commands read\<close>

record validators =
  vd_status :: "jobject \<Rightarrow> (status_response, string) result"
  vd_connection :: "json \<Rightarrow> (connection_context, string) result"
  vd_audit_entry :: "json \<Rightarrow> (audit_entry, string) result"

text \<open>
  \<open>oe_get\<close> takes address, token and timeout. \<open>oe_files\<close> gives the attachment store with the faults that
  the next access meets, \<open>oe_put\<close> stores it back. \<open>oe_spawn\<close> starts a detached process.
\<close>

record 'w operator_env =
  oe_lock :: "'w lock_env"
  oe_get :: "string \<Rightarrow> string \<Rightarrow> rat \<Rightarrow> 'w \<Rightarrow> (body_read, unit) http_attempt \<times> 'w"
  oe_loads :: "string \<Rightarrow> (json, string) result"
  oe_validators :: validators
  oe_codec :: store_codec
  oe_files :: "'w \<Rightarrow> (faults \<times> (nat \<times> string) option \<times> store_files) \<times> 'w"
  oe_put :: "store_files \<Rightarrow> 'w \<Rightarrow> 'w"
  oe_ps :: "'w \<Rightarrow> string option \<times> 'w"
  oe_now :: "'w \<Rightarrow> datetime \<times> 'w"
  oe_iso :: "datetime \<Rightarrow> string"
  oe_clock :: "'w \<Rightarrow> rat \<times> 'w"
  oe_sleep :: "rat \<Rightarrow> 'w \<Rightarrow> 'w"
  oe_python :: string
  oe_spawn :: "string list \<Rightarrow> 'w \<Rightarrow> (int, string) result \<times> 'w"
  oe_terminate :: "int \<Rightarrow> 'w \<Rightarrow> signal_outcome \<times> 'w"

definition endpoint_of :: "lockfile_data \<Rightarrow> string" where
  "endpoint_of l = ''http://'' @ lk_host l @ '':'' @ show_int (lk_port l)"

definition get_status ::
    "'w operator_env \<Rightarrow> rat \<Rightarrow> lockfile_data \<Rightarrow> 'w \<Rightarrow> (py_exc + (body_read, string) result) \<times> 'w" where
  "get_status env timeout l w =
     retry_http_request single_attempt (endpoint_of l @ ''/status'')
       (oe_get env (endpoint_of l @ ''/status'') (lk_token l) timeout) (oe_sleep env) w"


section \<open>Remote state\<close>

definition status_timeout_seconds :: rat where
  "status_timeout_seconds = 5"

text \<open>\<^verbatim>\<open>line.split(None, 2)\<close> for a line without surrounding blanks, when it has three parts.\<close>

definition three_parts :: "string \<Rightarrow> (string \<times> string \<times> string) option" where
  "three_parts line =
     (let first = takeWhile (\<lambda>c. \<not> is_space c) line; rest = lstrip (drop (length first) line);
          second = takeWhile (\<lambda>c. \<not> is_space c) rest; third = lstrip (drop (length second) rest)
      in if first = [] \<or> second = [] \<or> third = [] then None else Some (first, second, third))"

definition upper_z :: "string \<Rightarrow> bool" where
  "upper_z s \<longleftrightarrow> CHR ''Z'' \<in> set s \<or> CHR ''z'' \<in> set s"

definition serve_pid :: "string \<Rightarrow> int option" where
  "serve_pid raw =
     (case three_parts (py_strip raw) of
        None \<Rightarrow> None
      | Some (pid_raw, stat, command) \<Rightarrow>
          if upper_z stat \<or> \<not> contains ''tela serve'' command then None else py_int pid_raw)"

text \<open>\<open>None\<close>: \<^verbatim>\<open>ps\<close> could not be run or failed.\<close>

definition find_orphaned_serve_processes :: "string option \<Rightarrow> int list" where
  "find_orphaned_serve_processes ps =
     (case ps of None \<Rightarrow> [] | Some out \<Rightarrow> List.map_filter serve_pid (splitlines out))"

definition remote_error :: "string \<Rightarrow> string" where
  "remote_error e = ''REMOTE_STATUS_QUERY_ERROR: '' @ e"

definition no_running_server :: "string \<Rightarrow> string" where
  "no_running_server detail =
     ''NO_RUNNING_SERVER: no running tela server found via ~/.tela/gateway.lock ('' @ detail @ '')''"

definition translated_error :: "string \<Rightarrow> string" where
  "translated_error e =
     (if startswith e ''HTTP_CONNECT_ERROR: '' then
        no_running_server (''endpoint unreachable: '' @ removeprefix e ''HTTP_CONNECT_ERROR: '')
      else if startswith e ''HTTP_'' then remote_error (''http '' @ takeWhile (\<lambda>c. c \<noteq> CHR '':'') (removeprefix e ''HTTP_''))
      else e)"

definition fetch_status_payload ::
    "'w operator_env \<Rightarrow> lockfile_data \<Rightarrow> 'w \<Rightarrow> (py_exc + (jobject, string) result) \<times> 'w" where
  "fetch_status_payload env l w =
     (case get_status env status_timeout_seconds l w of
        (Inl exc, w1) \<Rightarrow> (Inl exc, w1)
      | (Inr (Err e), w1) \<Rightarrow> (Inr (Err (translated_error e)), w1)
      | (Inr (Ok (BodyText decoded)), w1) \<Rightarrow>
          (Inr (case oe_loads env decoded of
              Err e \<Rightarrow> Err (remote_error (''invalid JSON response: '' @ e))
            | Ok (JDict d) \<Rightarrow> Ok d
            | Ok _ \<Rightarrow> Err (remote_error ''expected JSON object payload'')), w1)
      | (Inr (Ok body), w1) \<Rightarrow>
          ((case body_interrupt body of Some exc \<Rightarrow> Inl exc | None \<Rightarrow> Inr (Err (remote_error (body_error body)))), w1))"

record remote_state =
  rs_status :: status_response
  rs_connections :: "connection_context list"
  rs_audit_entries :: "audit_entry list"

definition json_items :: "json option \<Rightarrow> json list option" where
  "json_items v = (case v of None \<Rightarrow> Some [] | Some (JList xs) \<Rightarrow> Some xs | _ \<Rightarrow> None)"

fun validate_items :: "(json \<Rightarrow> ('a, string) result) \<Rightarrow> json list \<Rightarrow> ('a list, string) result" where
  "validate_items f [] = Ok []"
| "validate_items f (x # xs) =
     (case f x of Err e \<Rightarrow> Err e | Ok a \<Rightarrow> map_result ((#) a) (validate_items f xs))"

definition parse_remote_state :: "validators \<Rightarrow> jobject \<Rightarrow> (remote_state, string) result" where
  "parse_remote_state v payload =
     (case vd_status v payload of
        Err e \<Rightarrow> Err (remote_error e)
      | Ok status \<Rightarrow>
          (case (json_items (dget payload ''connections''), json_items (dget payload ''audit_entries'')) of
             (None, _) \<Rightarrow> Err (remote_error (''expected list for '' @ squote ''connections''))
           | (Some _, None) \<Rightarrow> Err (remote_error (''expected list for '' @ squote ''audit_entries''))
           | (Some cs, Some es) \<Rightarrow>
               (case validate_items (vd_connection v) cs of
                  Err e \<Rightarrow> Err (remote_error e)
                | Ok connections \<Rightarrow>
                    (case validate_items (vd_audit_entry v) es of
                       Err e \<Rightarrow> Err (remote_error e)
                     | Ok entries \<Rightarrow>
                         Ok \<lparr>rs_status = status, rs_connections = connections, rs_audit_entries = entries\<rparr>))))"

definition query_remote_state :: "'w operator_env \<Rightarrow> 'w \<Rightarrow> (py_exc + (remote_state, string) result) \<times> 'w" where
  "query_remote_state env w =
     (case read_lockfile (oe_lock env) w of
        (Err e, w1) \<Rightarrow>
          (let (ps, w2) = oe_ps env w1; orphaned = find_orphaned_serve_processes ps;
               detail = or_text e ''lockfile unavailable''
           in (Inr (Err (no_running_server (if orphaned = [] then detail
                 else detail @ ''; orphaned tela serve processes detected: '' @ join '', '' (map show_int orphaned)))), w2))
      | (Ok l, w1) \<Rightarrow>
          (case fetch_status_payload env l w1 of
             (Inl exc, w2) \<Rightarrow> (Inl exc, w2)
           | (Inr (Err e), w2) \<Rightarrow> (Inr (Err e), w2)
           | (Inr (Ok payload), w2) \<Rightarrow> (Inr (parse_remote_state (oe_validators env) payload), w2)))"


section \<open>The status command\<close>

record status_discovery =
  sd_present :: bool
  sd_stale :: bool
  sd_data :: "lockfile_data option"
  sd_status :: string
  sd_endpoint :: "string option"

definition missing_discovery :: status_discovery where
  "missing_discovery = \<lparr>sd_present = False, sd_stale = False, sd_data = None, sd_status = ''missing'', sd_endpoint = None\<rparr>"

definition present_discovery :: "bool \<Rightarrow> lockfile_data \<Rightarrow> status_discovery" where
  "present_discovery is_old l = \<lparr>sd_present = True, sd_stale = is_old, sd_data = Some l,
     sd_status = (if is_old then ''stale'' else ''present''), sd_endpoint = Some (endpoint_of l)\<rparr>"

text \<open>\<^verbatim>\<open>os.kill(pid, 0)\<close> raises \<^verbatim>\<open>OverflowError\<close> for a number that is no process number, which is not caught.\<close>

definition read_status_discovery :: "'w operator_env \<Rightarrow> 'w \<Rightarrow> (py_exc + status_discovery) \<times> 'w" where
  "read_status_discovery env w =
     (case read_lockfile (oe_lock env) w of
        (Err _, w1) \<Rightarrow> (Inr missing_discovery, w1)
      | (Ok l, w1) \<Rightarrow>
          (let (sig, w2) = le_kill (oe_lock env) (lk_pid l) w1 in
           (case sig of
              PidOverflow \<Rightarrow> Inl (OverflowError ''signed integer is greater than maximum'')
            | Delivered \<Rightarrow> Inr (present_discovery False l)
            | _ \<Rightarrow> Inr (present_discovery True l), w2)))"

record attachment_row =
  ar_attachment :: client_attachment
  ar_display_state :: display_state

definition attachment_row_of :: "client_attachment \<Rightarrow> attachment_row" where
  "attachment_row_of a = \<lparr>ar_attachment = a, ar_display_state = classify_attachment_display_state
     (ca_runtime_state a) (ca_recoverability a) (ca_stale_candidate a) (ca_unknown_state a)\<rparr>"

definition load_registry :: "'w operator_env \<Rightarrow> 'w \<Rightarrow> (py_exc + (client_attachment list, string) result) \<times> 'w" where
  "load_registry env w =
     (let ((fault, broken, files), w1) = oe_files env w in (read_attachment_registry (oe_codec env) fault files, w1))"

definition read_status_attachments ::
    "'w operator_env \<Rightarrow> 'w \<Rightarrow> (py_exc + (attachment_row list, string) result) \<times> 'w" where
  "read_status_attachments env w =
     (let (res, w1) = load_registry env w in (map_right (map_result (map attachment_row_of)) res, w1))"

record probe_observation =
  pr_state :: "json option"
  pr_degraded_reason :: json
  pr_error :: "string option"

definition observed :: "string \<Rightarrow> string option \<Rightarrow> probe_observation" where
  "observed state e = \<lparr>pr_state = Some (JStr state), pr_degraded_reason = JNull, pr_error = e\<rparr>"

text \<open>\<^verbatim>\<open>payload.get\<close> of a value that is not an object raises.\<close>

fun observed_payload :: "json \<Rightarrow> py_exc + probe_observation" where
  "observed_payload (JDict d) =
     Inr \<lparr>pr_state = Some (case dget d ''state'' of Some v \<Rightarrow> v | None \<Rightarrow> JStr ''unknown''),
          pr_degraded_reason = (case dget d ''degraded_reason'' of Some v \<Rightarrow> v | None \<Rightarrow> JNull), pr_error = None\<rparr>"
| "observed_payload _ = Inl (AttributeError (''object has no attribute '' @ squote ''get''))"

definition probe_status_runtime ::
    "'w operator_env \<Rightarrow> status_discovery \<Rightarrow> bool \<Rightarrow> rat \<Rightarrow> 'w \<Rightarrow> (py_exc + probe_observation) \<times> 'w" where
  "probe_status_runtime env d probe timeout w =
     (if \<not> probe then (Inr \<lparr>pr_state = None, pr_degraded_reason = JNull, pr_error = None\<rparr>, w)
      else (case sd_data d of
          None \<Rightarrow> (Inr (observed ''absent'' None), w)
        | Some l \<Rightarrow>
            if \<not> sd_present d then (Inr (observed ''absent'' None), w)
            else if sd_stale d then (Inr (observed ''stale'' None), w)
            else (case get_status env timeout l w of
                (Inl exc, w1) \<Rightarrow> (Inl exc, w1)
              | (Inr (Err e), w1) \<Rightarrow> (Inr (observed ''stale'' (Some e)), w1)
              | (Inr (Ok body), w1) \<Rightarrow>
                  ((case body of
                      BodyRaises exc \<Rightarrow> Inl exc
                    | BodyText raw \<Rightarrow>
                        (case oe_loads env raw of
                           Err _ \<Rightarrow> Inr (observed ''unknown'' None)
                         | Ok payload \<Rightarrow> observed_payload payload)
                    | _ \<Rightarrow> Inr (observed ''unknown'' None)), w1))))"

text \<open>The contract of \<open>classify_shared_runtime_state\<close> asks for a text or nothing.\<close>

definition probed_text :: "json option \<Rightarrow> py_exc + string option" where
  "probed_text v =
     (case v of
        None \<Rightarrow> Inr None
      | Some JNull \<Rightarrow> Inr None
      | Some (JStr s) \<Rightarrow> Inr (Some s)
      | Some _ \<Rightarrow> Inl (AssertionError ''Precondition failed for classify_shared_runtime_state''))"

record status_report =
  sr_probe_performed :: bool
  sr_client_attachments :: "attachment_row list"
  sr_registry_parse_error :: "string option"
  sr_state :: string
  sr_lockfile :: string
  sr_pid :: "int option"
  sr_endpoint :: "string option"
  sr_degraded_reason :: json
  sr_recoverability :: string
  sr_last_event :: "string option"
  sr_last_error :: "string option"
  sr_recommendation :: string
  sr_remote :: "remote_state option"

definition read_remote_status_payload ::
    "'w operator_env \<Rightarrow> status_discovery \<Rightarrow> 'w \<Rightarrow> (py_exc + remote_state option) \<times> 'w" where
  "read_remote_status_payload env d w =
     (if \<not> sd_present d \<or> sd_stale d then (Inr None, w)
      else (case query_remote_state env w of
          (Inl exc, w1) \<Rightarrow> (Inl exc, w1)
        | (Inr (Err _), w1) \<Rightarrow> (Inr None, w1)
        | (Inr (Ok r), w1) \<Rightarrow> (Inr (Some r), w1)))"

definition status_last_event :: "bool \<Rightarrow> probe_observation \<Rightarrow> string option" where
  "status_last_event probe o' =
     (if probe \<and> pr_state o' = Some (JStr ''ready'') then Some ''runtime_probe_succeeded''
      else if probe \<and> pr_error o' \<noteq> None \<and> pr_error o' \<noteq> Some [] then Some ''runtime_probe_failed''
      else None)"

definition status_last_error :: "probe_observation \<Rightarrow> string option \<Rightarrow> string option" where
  "status_last_error o' registry_error =
     (if registry_error \<noteq> None \<and> registry_error \<noteq> Some [] \<and> pr_error o' = None then registry_error else pr_error o')"

definition build_status_report ::
    "bool \<Rightarrow> bool \<Rightarrow> status_discovery \<Rightarrow> (attachment_row list, string) result \<Rightarrow> probe_observation \<Rightarrow> string option
       \<Rightarrow> py_exc + status_report" where
  "build_status_report probe clients d attachments o' probed =
     (let registry_error = (case attachments of Err e \<Rightarrow> Some e | Ok _ \<Rightarrow> None);
          rows = (case attachments of Err _ \<Rightarrow> [] | Ok rs \<Rightarrow> rs);
          state = classify_shared_runtime_state (sd_present d) (sd_stale d) probed False;
          last_error = status_last_error o' registry_error
      in case classify_status_recoverability state last_error True of
           Inl exc \<Rightarrow> Inl exc
         | Inr rec \<Rightarrow>
             map_right (\<lambda>recommendation.
               \<lparr>sr_probe_performed = probe, sr_client_attachments = (if clients then rows else []),
                sr_registry_parse_error = registry_error, sr_state = state, sr_lockfile = sd_status d,
                sr_pid = map_option lk_pid (sd_data d), sr_endpoint = sd_endpoint d,
                sr_degraded_reason = pr_degraded_reason o', sr_recoverability = rec,
                sr_last_event = status_last_event probe o', sr_last_error = last_error,
                sr_recommendation = recommendation, sr_remote = None\<rparr>)
               (make_status_recommendation state rec))"

definition run_status_command ::
    "'w operator_env \<Rightarrow> bool \<Rightarrow> bool \<Rightarrow> bool \<Rightarrow> rat \<Rightarrow> 'w \<Rightarrow> (py_exc + (status_report, string) result) \<times> 'w" where
  "run_status_command env json_output probe clients timeout w =
     (case read_status_discovery env w of
        (Inl exc, w1) \<Rightarrow> (Inl exc, w1)
      | (Inr d, w1) \<Rightarrow>
          if \<not> json_output \<and> \<not> probe \<and> \<not> sd_present d then
            (Inr (Err (no_running_server ''lockfile unavailable'')), w1)
          else (case read_status_attachments env w1 of
              (Inl exc, w2) \<Rightarrow> (Inl exc, w2)
            | (Inr attachments, w2) \<Rightarrow>
                (case probe_status_runtime env d probe timeout w2 of
                   (Inl exc, w3) \<Rightarrow> (Inl exc, w3)
                 | (Inr o', w3) \<Rightarrow>
                     (case probed_text (pr_state o') of
                        Inl exc \<Rightarrow> (Inl exc, w3)
                      | Inr probed \<Rightarrow>
                          (case build_status_report probe clients d attachments o' probed of
                             Inl exc \<Rightarrow> (Inl exc, w3)
                           | Inr report \<Rightarrow>
                               (case read_remote_status_payload env d w3 of
                                  (Inl exc, w4) \<Rightarrow> (Inl exc, w4)
                                | (Inr remote, w4) \<Rightarrow> (Inr (Ok (report\<lparr>sr_remote := remote\<rparr>)), w4)))))))"

definition default_probe_timeout :: rat where
  "default_probe_timeout = 5"

definition status_command ::
    "'w operator_env \<Rightarrow> bool \<Rightarrow> bool \<Rightarrow> bool \<Rightarrow> rat option \<Rightarrow> 'w \<Rightarrow> (py_exc + (status_report, string) result) \<times> 'w" where
  "status_command env json_output probe clients probe_timeout w =
     (if probe \<and> clients then (Inr (Err ''MUTUALLY_EXCLUSIVE: --probe and --clients cannot be used together''), w)
      else if probe_timeout \<noteq> None \<and> \<not> probe then (Inr (Err ''INVALID_ARGUMENT: --probe-timeout requires --probe''), w)
      else run_status_command env json_output probe clients
        (case probe_timeout of Some t \<Rightarrow> t | None \<Rightarrow> default_probe_timeout) w)"


section \<open>Laws\<close>

lemma shared_state_range: "classify_shared_runtime_state p s q b \<in> runtime_states"
  by (simp add: classify_shared_runtime_state_def runtime_states_def)

lemma recoverability_range:
  "classify_status_recoverability st e b = Inr r \<Longrightarrow> r \<in> recoverability_states"
  by (auto simp: classify_status_recoverability_def recoverability_states_def split: if_splits)

text \<open>The operations with which a command could change something.\<close>

definition with_mutators ::
    "'w operator_env \<Rightarrow> ('w \<Rightarrow> string option \<times> 'w) \<Rightarrow> (string \<Rightarrow> 'w \<Rightarrow> string option \<times> 'w) \<Rightarrow> (store_files \<Rightarrow> 'w \<Rightarrow> 'w)
       \<Rightarrow> (string list \<Rightarrow> 'w \<Rightarrow> (int, string) result \<times> 'w) \<Rightarrow> (int \<Rightarrow> 'w \<Rightarrow> signal_outcome \<times> 'w) \<Rightarrow> 'w operator_env" where
  "with_mutators env unlink replace put spawn terminate =
     env\<lparr>oe_lock := (oe_lock env)\<lparr>le_unlink := unlink, le_replace := replace\<rparr>, oe_put := put, oe_spawn := spawn,
         oe_terminate := terminate\<rparr>"

named_theorems reads \<open>operations that do not depend on the mutators\<close>

lemma mutator_fields [reads]:
  "oe_get (with_mutators env u r p st k) = oe_get env" "oe_loads (with_mutators env u r p st k) = oe_loads env"
  "oe_validators (with_mutators env u r p st k) = oe_validators env" "oe_codec (with_mutators env u r p st k) = oe_codec env"
  "oe_files (with_mutators env u r p st k) = oe_files env" "oe_ps (with_mutators env u r p st k) = oe_ps env"
  "oe_sleep (with_mutators env u r p st k) = oe_sleep env" "oe_now (with_mutators env u r p st k) = oe_now env"
  "oe_iso (with_mutators env u r p st k) = oe_iso env"
  "oe_clock (with_mutators env u r p st k) = oe_clock env"
  "le_kill (oe_lock (with_mutators env u r p st k)) = le_kill (oe_lock env)"
  "le_ps (oe_lock (with_mutators env u r p st k)) = le_ps (oe_lock env)"
  "le_read (oe_lock (with_mutators env u r p st k)) = le_read (oe_lock env)"
  "le_decode (oe_lock (with_mutators env u r p st k)) = le_decode (oe_lock env)"
  by (simp_all add: with_mutators_def)

lemma read_lockfile_reads [reads]:
  "read_lockfile (oe_lock (with_mutators env u r p st k)) = read_lockfile (oe_lock env)"
  by (intro ext) (unfold read_lockfile_def lockfile_is_stale_def reads, rule refl)

lemma get_status_reads [reads]: "get_status (with_mutators env u r p st k) t l = get_status env t l"
  by (intro ext) (unfold get_status_def reads, rule refl)

lemma query_remote_reads [reads]: "query_remote_state (with_mutators env u r p st k) = query_remote_state env"
  by (intro ext) (unfold query_remote_state_def fetch_status_payload_def reads, rule refl)

lemma load_registry_reads [reads]: "load_registry (with_mutators env u r p st k) = load_registry env"
  by (intro ext) (unfold load_registry_def reads, rule refl)

lemma run_status_reads [reads]:
  "run_status_command (with_mutators env u r p st k) j pr c t = run_status_command env j pr c t"
  by (intro ext) (unfold run_status_command_def read_status_discovery_def read_status_attachments_def
      probe_status_runtime_def read_remote_status_payload_def reads, rule refl)

lemma discovery_cases:
  assumes "read_status_discovery env w = (Inr d, w')"
  obtains e where "fst (read_lockfile (oe_lock env) w) = Err e" and "d = missing_discovery"
  | l sig where "fst (read_lockfile (oe_lock env) w) = Ok l"
      and "sig = fst (le_kill (oe_lock env) (lk_pid l) (snd (read_lockfile (oe_lock env) w)))"
      and "sig \<noteq> PidOverflow" and "d = present_discovery (sig \<noteq> Delivered) l"
  using assms
  by (auto simp: read_status_discovery_def Let_def split_beta split: prod.splits result.splits signal_outcome.splits)

lemma build_status_report_total:
  obtains r where "build_status_report probe clients d atts o' probed = Inr r"
    and "sr_state r = classify_shared_runtime_state (sd_present d) (sd_stale d) probed False"
    and "sr_recoverability r \<in> recoverability_states" and "sr_lockfile r = sd_status d"
    and "sr_pid r = map_option lk_pid (sd_data d)"
proof -
  let ?st = "classify_shared_runtime_state (sd_present d) (sd_stale d) probed False"
  have st: "?st \<in> runtime_states" by (rule shared_state_range)
  obtain rec where rec: "classify_status_recoverability ?st e True = Inr rec" for e
    using st by (simp add: classify_status_recoverability_def)
  have "rec \<in> recoverability_states" using recoverability_range [OF rec] .
  then obtain t where "make_status_recommendation ?st rec = Inr t"
    using st by (auto simp: make_status_recommendation_def)
  then show ?thesis
    using that \<open>rec \<in> recoverability_states\<close> rec
    by (simp add: build_status_report_def Let_def map_right_def)
qed

lemma run_status_cases:
  assumes "run_status_command env j pr c t w = (Inr (Ok r), w')"
  obtains d w1 atts w2 o' w3 probed where "read_status_discovery env w = (Inr d, w1)"
    and "read_status_attachments env w1 = (Inr atts, w2)"
    and "probe_status_runtime env d pr t w2 = (Inr o', w3)" and "probed_text (pr_state o') = Inr probed"
    and "sr_state r = classify_shared_runtime_state (sd_present d) (sd_stale d) probed False"
    and "sr_recoverability r \<in> recoverability_states" and "sr_lockfile r = sd_status d"
    and "sr_pid r = map_option lk_pid (sd_data d)" and "fst (read_remote_status_payload env d w3) = Inr (sr_remote r)"
proof -
  obtain res1 w1 where r1: "read_status_discovery env w = (res1, w1)" by fastforce
  with assms obtain d where d: "res1 = Inr d" by (cases res1) (auto simp: run_status_command_def)
  obtain res2 w2 where r2: "read_status_attachments env w1 = (res2, w2)" by fastforce
  with assms r1 d obtain atts where atts: "res2 = Inr atts" by (cases res2) (auto simp: run_status_command_def split: if_splits)
  obtain res3 w3 where r3: "probe_status_runtime env d pr t w2 = (res3, w3)" by fastforce
  with assms r1 r2 d atts obtain o' where o': "res3 = Inr o'"
    by (cases res3) (auto simp: run_status_command_def split: if_splits)
  obtain probed where q: "probed_text (pr_state o') = Inr probed"
    using assms r1 r2 r3 d atts o' by (cases "probed_text (pr_state o')") (auto simp: run_status_command_def split: if_splits)
  obtain rep where rep: "build_status_report pr c d atts o' probed = Inr rep"
    and fields: "sr_state rep = classify_shared_runtime_state (sd_present d) (sd_stale d) probed False"
      "sr_recoverability rep \<in> recoverability_states" "sr_lockfile rep = sd_status d"
      "sr_pid rep = map_option lk_pid (sd_data d)"
    by (rule build_status_report_total)
  obtain res4 w4 where r4: "read_remote_status_payload env d w3 = (res4, w4)" by fastforce
  with assms r1 r2 r3 d atts o' q rep obtain remote where "res4 = Inr remote" "r = rep\<lparr>sr_remote := remote\<rparr>"
    by (cases res4) (auto simp: run_status_command_def split: if_splits)
  then show ?thesis using that [OF _ _ _ q] r1 r2 r3 r4 d atts o' fields by simp
qed


section \<open>Properties\<close>

text \<open>\<^verbatim>\<open>tela status\<close>, with or without a probe, observes only: its result and its effects are the same whatever
  deleting or writing the lockfile, storing attachments or events, starting a gateway or signalling one
  would do, so it does none of them.\<close>

theorem status_observes_only:
  "status_command (with_mutators env unlink replace put spawn terminate) json_output probe clients timeout
     = status_command env json_output probe clients timeout"
  by (intro ext) (unfold status_command_def reads, rule refl)

text \<open>The state and the fields that \<^verbatim>\<open>tela status\<close> reports keep to the documented vocabulary. It reports
  \<^verbatim>\<open>stale\<close> exactly for a live gateway that it may not signal; the lockfile of a dead one is reported as
  missing and its runtime as absent.\<close>

theorem stale_is_reported_for_live_gateways:
  assumes "run_status_command env json_output probe clients timeout w = (Inr (Ok report), w')"
    and "\<And>pid v. fst (le_kill (oe_lock env) pid v) = sig pid"
  defines "found \<equiv> fst (read_lockfile (oe_lock env) w)"
  shows "sr_state report \<in> runtime_states \<and> sr_recoverability report \<in> recoverability_states
    \<and> (sr_state report = ''stale'' \<longleftrightarrow> (\<exists>l. found = Ok l \<and> sig (lk_pid l) = NotPermitted))
    \<and> (is_err found \<longrightarrow> sr_state report = ''absent'' \<and> sr_lockfile report = ''missing'' \<and> sr_pid report = None)"
proof -
  from assms(1) obtain d w1 probed where d: "read_status_discovery env w = (Inr d, w1)"
    and st: "sr_state report = classify_shared_runtime_state (sd_present d) (sd_stale d) probed False"
    and rest: "sr_recoverability report \<in> recoverability_states" "sr_lockfile report = sd_status d"
      "sr_pid report = map_option lk_pid (sd_data d)"
    by (rule run_status_cases)
  have range: "sr_state report \<in> runtime_states" unfolding st by (rule shared_state_range)
  have live: "sig (lk_pid l) \<in> {Delivered, NotPermitted}" if "found = Ok l" for l
    using that assms(2)
    by (auto simp: found_def read_lockfile_def lockfile_is_stale_def is_stale_def Let_def split_beta
        split: prod.splits file_read.splits result.splits if_splits signal_outcome.splits)
  from d show ?thesis
  proof (cases rule: discovery_cases)
    case (1 e)
    then show ?thesis
      using st rest range by (simp add: found_def classify_shared_runtime_state_def missing_discovery_def)
  next
    case (2 l s)
    then have "found = Ok l" "s = sig (lk_pid l)" using assms(2) by (simp_all add: found_def)
    then show ?thesis
      using st rest range 2(4) live [of l]
      by (auto simp: classify_shared_runtime_state_def present_discovery_def)
  qed
qed

definition sample_operator_env :: "signal_outcome \<Rightarrow> unit operator_env" where
  "sample_operator_env sig =
     \<lparr>oe_lock = \<lparr>le_read = (\<lambda>w. (Content ''l'', w)), le_decode = (\<lambda>_. Ok sample_lockfile), le_encode = (\<lambda>_. ''l''),
        le_replace = (\<lambda>_ w. (None, w)), le_unlink = (\<lambda>w. (None, w)), le_ps = (\<lambda>_ w. (PsState ''S'', w)),
        le_kill = (\<lambda>_ w. (sig, w))\<rparr>,
      oe_get = (\<lambda>_ _ _ w. (Response (BodyText ''s''), w)), oe_loads = (\<lambda>_. Ok (JDict [(''state'', JStr ''warming'')])),
      oe_validators = \<lparr>vd_status = (\<lambda>_. Err ''bad''), vd_connection = (\<lambda>_. Err ''bad''), vd_audit_entry = (\<lambda>_. Err ''bad'')\<rparr>,
      oe_codec = \<lparr>cd_text = Some, cd_registry = (\<lambda>_. Ok []), cd_dump = (\<lambda>_. []), cd_event = (\<lambda>_. None)\<rparr>,
      oe_files = (\<lambda>w. ((no_faults, None, \<lparr>sf_registry = None, sf_lock = False, sf_events = None\<rparr>), w)),
      oe_put = (\<lambda>_ w. w), oe_ps = (\<lambda>w. (None, w)), oe_now = (\<lambda>w. (Datetime 0 (Some 0), w)), oe_iso = (\<lambda>_. ''t''),
      oe_clock = (\<lambda>w. (0, w)), oe_sleep = (\<lambda>_ w. w), oe_python = ''python'', oe_spawn = (\<lambda>_ w. (Ok 43, w)),
      oe_terminate = (\<lambda>_ w. (Delivered, w))\<rparr>"

lemma stale_is_reported_witness:
  "\<exists>report. run_status_command (sample_operator_env NotPermitted) False False False 5 () = (Inr (Ok report), ())
     \<and> sr_state report = ''stale''"
proof -
  let ?run = "run_status_command (sample_operator_env NotPermitted) False False False 5 ()"
  have "case fst ?run of Inr (Ok _) \<Rightarrow> True | _ \<Rightarrow> False" by code_simp
  then obtain report where run: "?run = (Inr (Ok report), ())"
    by (cases ?run) (auto split: sum.splits result.splits)
  have "fst (read_lockfile (oe_lock (sample_operator_env NotPermitted)) ()) = Ok sample_lockfile"
    by (simp add: sample_operator_env_def read_lockfile_def lockfile_is_stale_def is_zombie_process_def is_stale_def
        py_strip_def lstrip_def is_space_def is_lower_def)
  moreover have "fst (le_kill (oe_lock (sample_operator_env NotPermitted)) pid v) = NotPermitted" for pid v
    by (simp add: sample_operator_env_def)
  ultimately have "sr_state report = ''stale''"
    using stale_is_reported_for_live_gateways [OF run, of "\<lambda>_. NotPermitted"] by simp
  then show ?thesis using run by blast
qed

end
