(* ===== verification/Connect_Command.thy ===== *)
theory Connect_Command
  imports Operator_Status
begin

text \<open>
  \<^verbatim>\<open>commands/connect_cmd.py\<close>: the endpoint and the token of \<^verbatim>\<open>tela connect\<close>, the wait for a live lockfile
  and the start of a detached gateway, which \<^verbatim>\<open>tela doctor\<close> shares. The arbitration between starters is
  \<open>discover_or_autostart\<close> (Startup_Coordination), the bridge itself a parameter (Bridge_Runtime models it).
\<close>


section \<open>Arguments\<close>

text \<open>\<^verbatim>\<open>raw.rpartition(":")\<close>; \<open>None\<close> when there is no colon.\<close>

definition rpartition_colon :: "string \<Rightarrow> (string \<times> string) option" where
  "rpartition_colon raw =
     (let tail = takeWhile (\<lambda>c. c \<noteq> CHR '':'') (rev raw) in
      if length tail = length raw then None
      else Some (take (length raw - length tail - 1) raw, rev tail))"

definition parse_server :: "string \<Rightarrow> (string \<times> int, string) result" where
  "parse_server raw =
     (case rpartition_colon raw of
        None \<Rightarrow> Err ''INVALID_SERVER: expected --server host:port''
      | Some (host, port_text) \<Rightarrow>
          if host = [] \<or> port_text = [] then Err ''INVALID_SERVER: expected --server host:port''
          else (case py_int port_text of
              None \<Rightarrow> Err ''INVALID_SERVER: expected --server host:port''
            | Some port \<Rightarrow>
                if port < 1 \<or> port > 65535 then Err ''INVALID_SERVER: port must be in range 1..65535''
                else Ok (host, port)))"

definition resolve_connect_token :: "string option \<Rightarrow> string option \<Rightarrow> string option \<Rightarrow> (string, string) result" where
  "resolve_connect_token cli_token env_token lockfile_token =
     (case (cli_token, env_token, lockfile_token) of
        (Some t, _, _) \<Rightarrow> Ok t
      | (None, Some t, _) \<Rightarrow> Ok t
      | (None, None, Some t) \<Rightarrow> Ok t
      | (None, None, None) \<Rightarrow> Err (''MISSING_TOKEN: --server requires --token or TELA_BEARER_TOKEN ''
          @ ''because lockfile discovery is disabled''))"

definition resolve_client_kind :: "string option \<Rightarrow> string option \<Rightarrow> string" where
  "resolve_client_kind cli env =
     (case cli of
        Some k \<Rightarrow> if py_strip k \<noteq> [] then k else
          (case env of Some e \<Rightarrow> if py_strip e \<noteq> [] then e else ''unknown'' | None \<Rightarrow> ''unknown'')
      | None \<Rightarrow> (case env of Some e \<Rightarrow> if py_strip e \<noteq> [] then e else ''unknown'' | None \<Rightarrow> ''unknown''))"


section \<open>Waiting and starting\<close>

definition lockfile_poll_seconds :: rat where
  "lockfile_poll_seconds = 1 / 10"

definition lockfile_wait_timeout_seconds :: rat where
  "lockfile_wait_timeout_seconds = 5"

definition poll_live_lockfile :: "'w operator_env \<Rightarrow> int option \<Rightarrow> 'w \<Rightarrow> lockfile_data option \<times> 'w" where
  "poll_live_lockfile env expected_pid w =
     (case read_lockfile (oe_lock env) w of
        (Ok l, w1) \<Rightarrow>
          if (case expected_pid of Some p \<Rightarrow> lk_pid l \<noteq> p | None \<Rightarrow> False)
          then (None, oe_sleep env lockfile_poll_seconds w1) else (Some l, w1)
      | (Err e, w1) \<Rightarrow>
          (None, oe_sleep env lockfile_poll_seconds
             (if startswith e ''LOCKFILE_STALE'' then snd (delete_lockfile_if_stale (oe_lock env) w1) else w1)))"

partial_function (option) wait_live ::
    "'w operator_env \<Rightarrow> rat \<Rightarrow> int option \<Rightarrow> 'w \<Rightarrow> ((lockfile_data, string) result \<times> 'w) option" where
  "wait_live env deadline expected_pid w =
     (let (now, w1) = oe_clock env w in
      if \<not> now < deadline then Some (Err ''LOCKFILE_WAIT_TIMEOUT: timed out waiting for gateway.lock'', w1)
      else (case poll_live_lockfile env expected_pid w1 of
          (Some l, w2) \<Rightarrow> Some (Ok l, w2)
        | (None, w2) \<Rightarrow> wait_live env deadline expected_pid w2))"

definition wait_for_live_lockfile ::
    "'w operator_env \<Rightarrow> rat \<Rightarrow> int option \<Rightarrow> 'w \<Rightarrow> ((lockfile_data, string) result \<times> 'w) option" where
  "wait_for_live_lockfile env timeout expected_pid w =
     (let (now, w1) = oe_clock env w in wait_live env (now + timeout) expected_pid w1)"

definition autostart_command :: "string \<Rightarrow> string \<Rightarrow> string option \<Rightarrow> string list" where
  "autostart_command python config_path default_profile =
     [python, ''-m'', ''tela'', ''serve'', ''--config'', config_path, ''--idle-timeout'', ''300'']
     @ (case default_profile of None \<Rightarrow> [] | Some p \<Rightarrow> [''--default-profile'', p])"

definition autostart_serve ::
    "'w operator_env \<Rightarrow> string \<Rightarrow> string option \<Rightarrow> 'w \<Rightarrow> (int, string) result \<times> 'w" where
  "autostart_serve env config_path default_profile w =
     (case oe_spawn env (autostart_command (oe_python env) config_path default_profile) w of
        (Ok pid, w1) \<Rightarrow> (Ok pid, w1)
      | (Err e, w1) \<Rightarrow> (Err (''AUTOSTART_FAILED: '' @ e), w1))"

text \<open>The operations the coordinator is given by the command.\<close>

definition coordinates :: "'w operator_env \<Rightarrow> 'w start_env \<Rightarrow> bool" where
  "coordinates env st \<longleftrightarrow> se_read st = read_lockfile (oe_lock env) \<and> se_autostart st = autostart_serve env
     \<and> (\<forall>timeout pid w. wait_for_live_lockfile env timeout pid w = Some (se_wait st timeout pid w))"

definition connect_discover ::
    "'w start_env \<Rightarrow> string \<Rightarrow> string option \<Rightarrow> 'w \<Rightarrow> ((lockfile_data, string) result \<times> 'w) option" where
  "connect_discover st config_path default_profile w =
     (case discover_or_autostart st config_path default_profile lockfile_wait_timeout_seconds w of
        None \<Rightarrow> None
      | Some (Ok l, w1) \<Rightarrow> Some (Ok l, w1)
      | Some (Err e, w1) \<Rightarrow>
          if \<not> startswith e ''DISCOVERY_FAILED'' then Some (Err e, w1)
          else discover_or_autostart st config_path default_profile lockfile_wait_timeout_seconds w1)"


section \<open>The command\<close>

record connect_endpoint =
  en_host :: string
  en_port :: int
  en_lockfile_token :: "string option"

definition resolve_endpoint ::
    "'w start_env \<Rightarrow> string \<Rightarrow> string option \<Rightarrow> string option \<Rightarrow> 'w \<Rightarrow> ((connect_endpoint, string) result \<times> 'w) option" where
  "resolve_endpoint st config_path default_profile server w =
     (case server of
        Some raw \<Rightarrow>
          Some (map_result (\<lambda>(host, port). \<lparr>en_host = host, en_port = port, en_lockfile_token = None\<rparr>) (parse_server raw), w)
      | None \<Rightarrow>
          map_option (\<lambda>(res, w1). (map_result (\<lambda>l. \<lparr>en_host = lk_host l, en_port = lk_port l,
              en_lockfile_token = Some (lk_token l)\<rparr>) res, w1))
            (connect_discover st config_path default_profile w))"

record connect_arguments =
  ca_config_path :: string
  ca_default_profile :: "string option"
  ca_server :: "string option"
  ca_token :: "string option"
  ca_max_recovery :: int
  ca_kind :: "string option"

text \<open>What the bridge is run with.\<close>

record bridge_launch =
  bl_host :: string
  bl_port :: int
  bl_token :: string
  bl_max_recovery :: int
  bl_client_kind :: string
  bl_recovery_config :: "string option"
  bl_recovery_profile :: "string option"

definition connect_launch ::
    "'w start_env \<Rightarrow> connect_arguments \<Rightarrow> string option \<Rightarrow> string option \<Rightarrow> 'w \<Rightarrow> ((bridge_launch, string) result \<times> 'w) option" where
  "connect_launch st a env_token env_kind w =
     (if ca_max_recovery a < 0 then Some (Err ''INVALID_MAX_RECOVERY_ATTEMPTS: must be >= 0'', w)
      else map_option (\<lambda>(res, w1). (case res of
            Err e \<Rightarrow> Err e
          | Ok en \<Rightarrow>
              map_result (\<lambda>token. \<lparr>bl_host = en_host en, bl_port = en_port en, bl_token = token,
                  bl_max_recovery = ca_max_recovery a, bl_client_kind = resolve_client_kind (ca_kind a) env_kind,
                  bl_recovery_config = (if ca_server a = None then Some (ca_config_path a) else None),
                  bl_recovery_profile = (if ca_server a = None then ca_default_profile a else None)\<rparr>)
                (resolve_connect_token (ca_token a) env_token (en_lockfile_token en)), w1))
        (resolve_endpoint st (ca_config_path a) (ca_default_profile a) (ca_server a) w))"

definition connect_command ::
    "'w start_env \<Rightarrow> connect_arguments \<Rightarrow> string option \<Rightarrow> string option
       \<Rightarrow> (bridge_launch \<Rightarrow> 'w \<Rightarrow> (py_exc + (unit, string) result) \<times> 'w)
       \<Rightarrow> 'w \<Rightarrow> ((py_exc + (int, string) result) \<times> 'w) option" where
  "connect_command st a env_token env_kind bridge w =
     map_option (\<lambda>(launch, w1). case launch of
         Err e \<Rightarrow> (Inr (Err e), w1)
       | Ok l \<Rightarrow> (let (res, w2) = bridge l w1 in (map_right (map_result (\<lambda>_. 0)) res, w2)))
       (connect_launch st a env_token env_kind w)"


section \<open>Laws\<close>

lemma rpartition_colon_join:
  "rpartition_colon raw = Some (host, port) \<Longrightarrow> raw = host @ '':'' @ port \<and> CHR '':'' \<notin> set port"
proof -
  define tail where "tail = takeWhile (\<lambda>c. c \<noteq> CHR '':'') (rev raw)"
  assume r: "rpartition_colon raw = Some (host, port)"
  then have ne: "length tail \<noteq> length raw" and hp: "host = take (length raw - length tail - 1) raw" "port = rev tail"
    by (auto simp: rpartition_colon_def tail_def Let_def split: if_splits)
  have split: "rev raw = tail @ dropWhile (\<lambda>c. c \<noteq> CHR '':'') (rev raw)" by (simp add: tail_def)
  obtain y rest where d: "dropWhile (\<lambda>c. c \<noteq> CHR '':'') (rev raw) = y # rest"
    using ne split by (metis append_Nil2 length_rev neq_Nil_conv)
  then have y: "y = CHR '':''" by (simp add: dropWhile_eq_Cons_conv)
  have "raw = rev (tail @ y # rest)" using split d by (metis rev_rev_ident)
  then have raw: "raw = rev rest @ [CHR '':''] @ rev tail" using y by simp
  then have "host = rev rest" using hp(1) by simp
  moreover have "CHR '':'' \<notin> set tail" by (auto simp: tail_def dest: set_takeWhileD)
  ultimately show ?thesis using raw hp(2) by simp
qed

lemma map_result_Ok: "map_result f r = Ok y \<longleftrightarrow> (\<exists>x. r = Ok x \<and> y = f x)"
  by (cases r) auto

lemma parse_server_ok:
  "parse_server raw = Ok (host, port) \<Longrightarrow> \<exists>t. raw = host @ '':'' @ t \<and> host \<noteq> [] \<and> py_int t = Some port \<and> 1 \<le> port \<and> port \<le> 65535"
  by (auto simp: parse_server_def split: option.splits if_splits dest!: rpartition_colon_join)

lemma discover_owned:
  "discover_or_autostart st cfg prof timeout w = Some (Ok l, w') \<Longrightarrow> lockfile_owned_by_config st l cfg = Ok True"
  by (auto simp: discover_or_autostart_def Let_def split: prod.splits option.splits
      dest: accept_owned_Ok discovery_rounds_Ok)

lemma connect_discover_owned:
  "connect_discover st cfg prof w = Some (Ok l, w') \<Longrightarrow> lockfile_owned_by_config st l cfg = Ok True"
  by (auto simp: connect_discover_def split: option.splits prod.splits result.splits if_splits dest: discover_owned)


section \<open>Property\<close>

text \<open>C38: The bridge is started on the endpoint that \<^verbatim>\<open>--server\<close> names, with a token given by the user, or on the
  endpoint of a lockfile that the configuration owns. The token of a lockfile is only ever sent to the
  endpoint of that lockfile, and only when the user gave none.\<close>

theorem lockfile_token_stays_home:
  assumes "connect_launch st a env_token env_kind w = Some (Ok launch, w')"
  shows "case ca_server a of
      Some raw \<Rightarrow> parse_server raw = Ok (bl_host launch, bl_port launch) \<and> w' = w
        \<and> (ca_token a = Some (bl_token launch) \<or> ca_token a = None \<and> env_token = Some (bl_token launch))
    | None \<Rightarrow> (\<exists>l. lockfile_owned_by_config st l (ca_config_path a) = Ok True
        \<and> bl_host launch = lk_host l \<and> bl_port launch = lk_port l
        \<and> resolve_connect_token (ca_token a) env_token (Some (lk_token l)) = Ok (bl_token launch))"
proof (cases "ca_server a")
  case (Some raw)
  then show ?thesis
    using assms
    by (cases "parse_server raw")
      (auto simp: connect_launch_def resolve_endpoint_def resolve_connect_token_def split: if_splits option.splits)
next
  case None
  obtain res w1 where disc: "connect_discover st (ca_config_path a) (ca_default_profile a) w = Some (res, w1)"
    using assms None by (auto simp: connect_launch_def resolve_endpoint_def split: if_splits)
  obtain l where l: "res = Ok l"
    using assms None disc by (cases res) (auto simp: connect_launch_def resolve_endpoint_def split: if_splits)
  have "bl_host launch = lk_host l \<and> bl_port launch = lk_port l
      \<and> resolve_connect_token (ca_token a) env_token (Some (lk_token l)) = Ok (bl_token launch)"
    using assms None disc l by (auto simp: connect_launch_def resolve_endpoint_def map_result_Ok split: if_splits)
  then show ?thesis using None connect_discover_owned [OF disc [unfolded l]] by auto
qed

definition sample_arguments :: connect_arguments where
  "sample_arguments = \<lparr>ca_config_path = ''/tela.yaml'', ca_default_profile = None, ca_server = Some ''h:80'',
     ca_token = None, ca_max_recovery = 3, ca_kind = None\<rparr>"

lemma lockfile_token_witness:
  "\<exists>launch. connect_launch (sample_start_env (Ok sample_lockfile) True) sample_arguments (Some ''mine'') None 0
      = Some (Ok launch, 0) \<and> bl_token launch = ''mine'' \<and> bl_port launch = 80"
proof -
  let ?run = "connect_launch (sample_start_env (Ok sample_lockfile) True) sample_arguments (Some ''mine'') None 0"
  have server: "parse_server ''h:80'' = Ok (''h'', 80)" by code_simp
  then obtain launch where run: "?run = Some (Ok launch, 0)"
    by (simp add: connect_launch_def resolve_endpoint_def sample_arguments_def resolve_connect_token_def)
  from lockfile_token_stays_home [OF this] have "bl_token launch = ''mine''" "bl_port launch = 80"
    using server by (simp_all add: sample_arguments_def)
  then show ?thesis using run by blast
qed

end
