(* ===== verification/Operator_Doctor.thy ===== *)
theory Operator_Doctor
  imports Connect_Command
begin

text \<open>
  The operator commands that may change something: \<^verbatim>\<open>commands/doctor_cmd.py\<close>, whose \<^verbatim>\<open>--recover\<close> probes,
  cleans a stale lockfile and starts a gateway, and \<^verbatim>\<open>commands/stop_cmd.py\<close>. Both use the world of
  \<open>operator_env\<close>; waiting for a lockfile or for a process may not return, which is \<open>None\<close>.
\<close>


section \<open>What the doctor reads\<close>

record doctor_discovery =
  dd_present :: bool
  dd_stale :: bool
  dd_data :: "lockfile_data option"
  dd_status :: string
  dd_error :: "string option"

definition discovered :: "lockfile_data \<Rightarrow> doctor_discovery" where
  "discovered l = \<lparr>dd_present = True, dd_stale = False, dd_data = Some l, dd_status = ''present'', dd_error = None\<rparr>"

definition read_doctor_discovery :: "'w operator_env \<Rightarrow> 'w \<Rightarrow> doctor_discovery \<times> 'w" where
  "read_doctor_discovery env w =
     (case read_lockfile (oe_lock env) w of
        (Ok l, w1) \<Rightarrow> (discovered l, w1)
      | (Err e, w1) \<Rightarrow>
          (let error = or_text e ''LOCKFILE_READ_ERROR'' in
           (if startswith error ''LOCKFILE_STALE''
            then \<lparr>dd_present = True, dd_stale = True, dd_data = None, dd_status = ''stale'', dd_error = Some error\<rparr>
            else \<lparr>dd_present = False, dd_stale = False, dd_data = None, dd_status = ''missing'', dd_error = Some error\<rparr>, w1)))"

record events_summary =
  es_last_exit :: "runtime_event option"
  es_last_startup :: "runtime_event option"
  es_last_probe :: "runtime_event option"
  es_last_recovery :: "runtime_event option"
  es_malformed :: nat
  es_read_error :: "string option"

definition provider_startup_kinds :: "runtime_event_kind set" where
  "provider_startup_kinds = {ProviderStarting, ProviderInitialized, ProviderToolsListStarted, ProviderToolsListCompleted,
     ProviderFailed, ProviderTimeout}"

definition note_event :: "runtime_event \<Rightarrow> events_summary \<Rightarrow> events_summary" where
  "note_event ev s =
     (if ev_kind ev = ClientProviderExit then s\<lparr>es_last_exit := Some ev\<rparr>
      else if ev_kind ev \<in> provider_startup_kinds then s\<lparr>es_last_startup := Some ev\<rparr>
      else if ev_kind ev = RecoveryProbe then s\<lparr>es_last_probe := Some ev\<rparr>
      else if ev_kind ev \<in> {RecoveryFailed, RecoverySucceeded} then s\<lparr>es_last_recovery := Some ev\<rparr>
      else s)"

definition no_events :: "nat \<Rightarrow> string option \<Rightarrow> events_summary" where
  "no_events malformed e = \<lparr>es_last_exit = None, es_last_startup = None, es_last_probe = None, es_last_recovery = None,
     es_malformed = malformed, es_read_error = e\<rparr>"

definition summarize_events :: "(runtime_event list \<times> nat, string) result \<Rightarrow> events_summary" where
  "summarize_events res =
     (case res of Err e \<Rightarrow> no_events 0 (Some e) | Ok (events, malformed) \<Rightarrow> fold note_event events (no_events malformed None))"

definition read_doctor_runtime_events :: "'w operator_env \<Rightarrow> 'w \<Rightarrow> (py_exc + events_summary) \<times> 'w" where
  "read_doctor_runtime_events env w =
     (let ((fault, broken, files), w1) = oe_files env w
      in (map_right summarize_events (read_runtime_events (oe_codec env) fault files), w1))"

text \<open>Whether a heartbeat is at most 90 seconds old; one out of the range of the calendar raises.\<close>

definition attachment_heartbeat_is_fresh :: "string \<Rightarrow> datetime \<Rightarrow> py_exc + bool" where
  "attachment_heartbeat_is_fresh last_heartbeat now =
     (case read_iso last_heartbeat of
        None \<Rightarrow> Inr False
      | Some t \<Rightarrow>
          map_right (\<lambda>u. 0 \<le> instant now - instant u \<and> instant now - instant u \<le> 90 * 1000000)
            (astimezone_utc (if is_aware t then t else with_utc t)))"

definition live_states :: "runtime_state set" where
  "live_states = {RActive, RInitializing, RRecovering}"

definition attachment_alive :: "datetime \<Rightarrow> client_attachment \<Rightarrow> py_exc + bool" where
  "attachment_alive now a =
     (if ca_runtime_state a \<in> live_states then attachment_heartbeat_is_fresh (ca_last_heartbeat a) now else Inr False)"

record attachment_summary =
  at_alive :: bool
  at_reason :: string
  at_count :: nat
  at_alive_ids :: "string list"
  at_parse_error :: "string option"

definition summarize_attachments ::
    "events_summary \<Rightarrow> (client_attachment list, string) result \<Rightarrow> datetime \<Rightarrow> py_exc + attachment_summary" where
  "summarize_attachments es registry now =
     (case registry of
        Err e \<Rightarrow> Inr \<lparr>at_alive = False, at_reason = ''registry_parse_error'', at_count = 0, at_alive_ids = [],
                    at_parse_error = Some e\<rparr>
      | Ok atts \<Rightarrow>
          map_right (\<lambda>flags.
            let ids = map (ca_client_id \<circ> fst) (filter snd (zip atts flags)) in
            \<lparr>at_alive = (ids \<noteq> []), at_reason = (if ids \<noteq> [] then ''client_attachments_alive''
                else if es_last_exit es \<noteq> None then ''last_provider_exit'' else ''no_live_client_attachments''),
             at_count = length atts, at_alive_ids = ids, at_parse_error = None\<rparr>)
            (mapE (attachment_alive now) atts))"

definition read_doctor_attachment_summary ::
    "'w operator_env \<Rightarrow> events_summary \<Rightarrow> 'w \<Rightarrow> (py_exc + attachment_summary) \<times> 'w" where
  "read_doctor_attachment_summary env es w =
     (case load_registry env w of
        (Inl exc, w1) \<Rightarrow> (Inl exc, w1)
      | (Inr registry, w1) \<Rightarrow>
          (let (now, w2) = oe_now env w1 in (summarize_attachments es registry now, w2)))"


section \<open>Probing\<close>

record doctor_observation =
  do_state :: string
  do_degraded_reason :: "string option"
  do_error :: "string option"

fun text_member :: "json option \<Rightarrow> string option" where
  "text_member (Some (JStr s)) = Some s"
| "text_member _ = None"

fun doctor_payload :: "json \<Rightarrow> py_exc + doctor_observation" where
  "doctor_payload (JDict d) =
     Inr \<lparr>do_state = (case text_member (dget d ''state'') of Some s \<Rightarrow> s | None \<Rightarrow> ''unknown''),
          do_degraded_reason = text_member (dget d ''degraded_reason''), do_error = None\<rparr>"
| "doctor_payload _ = Inl (AttributeError (''object has no attribute '' @ squote ''get''))"

definition doctor_observed :: "string \<Rightarrow> string option \<Rightarrow> doctor_observation" where
  "doctor_observed state e = \<lparr>do_state = state, do_degraded_reason = None, do_error = e\<rparr>"

definition probe_doctor_runtime ::
    "'w operator_env \<Rightarrow> doctor_discovery \<Rightarrow> rat \<Rightarrow> 'w \<Rightarrow> (py_exc + doctor_observation) \<times> 'w" where
  "probe_doctor_runtime env d timeout w =
     (if \<not> dd_present d then (Inr (doctor_observed ''absent'' (dd_error d)), w)
      else (case dd_data d of
          None \<Rightarrow> (Inr (doctor_observed ''absent'' (dd_error d)), w)
        | Some l \<Rightarrow>
            if dd_stale d then (Inr (doctor_observed ''stale'' (dd_error d)), w)
            else (case get_status env timeout l w of
                (Inl exc, w1) \<Rightarrow> (Inl exc, w1)
              | (Inr (Err e), w1) \<Rightarrow> (Inr (doctor_observed ''unknown'' (Some e)), w1)
              | (Inr (Ok body), w1) \<Rightarrow>
                  ((case body of
                      BodyRaises exc \<Rightarrow> Inl exc
                    | BodyText raw \<Rightarrow>
                        (case oe_loads env raw of
                           Err e \<Rightarrow> Inr (doctor_observed ''unknown'' (Some (''PROBE_PARSE_ERROR: '' @ e)))
                         | Ok payload \<Rightarrow> doctor_payload payload)
                    | _ \<Rightarrow> Inr (doctor_observed ''unknown'' (Some (''PROBE_PARSE_ERROR: '' @ body_error body)))), w1))))"

text \<open>Append one event; its kind is recorded when that succeeded.\<close>

definition append_doctor_event ::
    "'w operator_env \<Rightarrow> runtime_event_kind \<Rightarrow> jobject \<Rightarrow> string list \<times> 'w \<Rightarrow> string list \<times> 'w" where
  "append_doctor_event env kind details = (\<lambda>(events, w).
     let (now, w1) = oe_now env w;
         ev = \<lparr>ev_kind = kind, ev_client_id = ''doctor'', ev_client_kind = ''tela_cli'', ev_timestamp = oe_iso env now,
               ev_details = details\<rparr>;
         ((fault, broken, files), w2) = oe_files env w1;
         (res, files') = append_runtime_event fault broken ev files
     in (if is_ok res then events @ [event_kind_value kind] else events, oe_put env files' w2))"

definition optional_text :: "string option \<Rightarrow> json" where
  "optional_text t = (case t of Some s \<Rightarrow> JStr s | None \<Rightarrow> JNull)"

definition probe_details :: "doctor_observation \<Rightarrow> jobject" where
  "probe_details ob = [(''state'', JStr (do_state ob)), (''degraded_reason'', optional_text (do_degraded_reason ob)),
     (''error'', optional_text (do_error ob))]"

definition recorded_probe ::
    "'w operator_env \<Rightarrow> doctor_discovery \<Rightarrow> rat \<Rightarrow> string list \<times> 'w \<Rightarrow> (py_exc + doctor_observation) \<times> string list \<times> 'w" where
  "recorded_probe env d timeout = (\<lambda>(events, w).
     case probe_doctor_runtime env d timeout w of
       (Inl exc, w1) \<Rightarrow> (Inl exc, events, w1)
     | (Inr ob, w1) \<Rightarrow> (Inr ob, append_doctor_event env RecoveryProbe (probe_details ob) (events, w1)))"


section \<open>Recovery\<close>

record recovery_summary =
  ry_attempted :: bool
  ry_succeeded :: bool
  ry_already_ready :: bool
  ry_stale_cleanup :: "bool option"
  ry_cold_start :: bool
  ry_actions :: "string list"
  ry_events :: "string list"
  ry_error :: "string option"

type_synonym 'w recovered = "(py_exc + recovery_summary) \<times> 'w"

definition recovery_failed ::
    "'w operator_env \<Rightarrow> string \<Rightarrow> bool option \<Rightarrow> bool \<Rightarrow> string list \<Rightarrow> string list \<times> 'w \<Rightarrow> 'w recovered" where
  "recovery_failed env error cleanup cold actions ew =
     (let (events, w) = append_doctor_event env RecoveryFailed [(''error'', JStr error)] ew
      in (Inr \<lparr>ry_attempted = True, ry_succeeded = False, ry_already_ready = False, ry_stale_cleanup = cleanup,
                ry_cold_start = cold, ry_actions = actions, ry_events = events, ry_error = Some error\<rparr>, w))"

definition recovery_ready :: "bool option \<Rightarrow> string list \<Rightarrow> string list \<times> 'w \<Rightarrow> 'w recovered" where
  "recovery_ready cleanup actions = (\<lambda>(events, w).
     (Inr \<lparr>ry_attempted = True, ry_succeeded = False, ry_already_ready = True, ry_stale_cleanup = cleanup,
           ry_cold_start = False, ry_actions = actions, ry_events = events, ry_error = None\<rparr>, w))"

text \<open>The probe of the gateway that was started, and the verdict.\<close>

definition conclude_recovery ::
    "'w operator_env \<Rightarrow> rat \<Rightarrow> bool option \<Rightarrow> string list \<Rightarrow> lockfile_data \<Rightarrow> string list \<times> 'w \<Rightarrow> 'w recovered" where
  "conclude_recovery env probe_timeout cleanup actions l ew =
     (case recorded_probe env (discovered l) probe_timeout ew of
        (Inl exc, events, w1) \<Rightarrow> (Inl exc, w1)
      | (Inr ob, events, w1) \<Rightarrow>
          (let actions' = actions @ [''probe_after_cold_start''] in
           if do_state ob = ''ready'' then
             (let (events', w2) = append_doctor_event env RecoverySucceeded [(''state'', JStr ''ready'')] (events, w1)
              in (Inr \<lparr>ry_attempted = True, ry_succeeded = True, ry_already_ready = False, ry_stale_cleanup = cleanup,
                        ry_cold_start = True, ry_actions = actions', ry_events = events', ry_error = None\<rparr>, w2))
           else recovery_failed env
             (case do_error ob of
                Some e \<Rightarrow> if e \<noteq> [] then e else ''RECOVERY_NOT_READY: '' @ or_text (do_state ob) ''unknown''
              | None \<Rightarrow> ''RECOVERY_NOT_READY: '' @ or_text (do_state ob) ''unknown'')
             cleanup True actions' (events, w1)))"

definition cold_start ::
    "'w operator_env \<Rightarrow> rat \<Rightarrow> rat \<Rightarrow> bool option \<Rightarrow> string list \<Rightarrow> string list \<times> 'w \<Rightarrow> 'w recovered option" where
  "cold_start env probe_timeout recover_timeout cleanup actions = (\<lambda>(events, w).
     let actions' = actions @ [''cold_start''] in
     case autostart_serve env ''tela.yaml'' None w of
       (Err e, w1) \<Rightarrow> Some (recovery_failed env (or_text e ''COLD_START_FAILED'') cleanup True actions' (events, w1))
     | (Ok pid, w1) \<Rightarrow>
         map_option (\<lambda>(live, w2). case live of
             Err e \<Rightarrow> recovery_failed env (or_text e ''COLD_START_FAILED'') cleanup True actions' (events, w2)
           | Ok l \<Rightarrow> conclude_recovery env probe_timeout cleanup actions' l (events, w2))
           (wait_for_live_lockfile env recover_timeout (Some pid) w1))"

definition clean_and_start ::
    "'w operator_env \<Rightarrow> rat \<Rightarrow> rat \<Rightarrow> string list \<Rightarrow> string list \<times> 'w \<Rightarrow> 'w recovered option" where
  "clean_and_start env probe_timeout recover_timeout actions = (\<lambda>(events, w).
     let actions' = actions @ [''stale_cleanup''] in
     case delete_lockfile_if_stale (oe_lock env) w of
       (Err e, w1) \<Rightarrow>
         Some (recovery_failed env (or_text e ''LOCKFILE_STALE_CLEANUP_ERROR'') None False actions' (events, w1))
     | (Ok True, w1) \<Rightarrow> cold_start env probe_timeout recover_timeout (Some True) actions' (events, w1)
     | (Ok False, w1) \<Rightarrow>
         (let (d, w2) = read_doctor_discovery env w1 in
          case recorded_probe env d probe_timeout (events, w2) of
            (Inl exc, _, w3) \<Rightarrow> Some (Inl exc, w3)
          | (Inr ob, ew) \<Rightarrow>
              (let actions2 = actions' @ [''probe_after_stale_cleanup_false''] in
               if do_state ob = ''ready'' then Some (recovery_ready (Some False) actions2 ew)
               else cold_start env probe_timeout recover_timeout (Some False) actions2 ew)))"

definition recover_doctor_runtime ::
    "'w operator_env \<Rightarrow> doctor_discovery \<Rightarrow> rat \<Rightarrow> rat \<Rightarrow> 'w \<Rightarrow> 'w recovered option" where
  "recover_doctor_runtime env d probe_timeout recover_timeout w =
     (case recorded_probe env d probe_timeout ([], w) of
        (Inl exc, _, w1) \<Rightarrow> Some (Inl exc, w1)
      | (Inr ob, ew) \<Rightarrow>
          if do_state ob = ''ready'' then Some (recovery_ready None [''probe''] ew)
          else if dd_stale d then clean_and_start env probe_timeout recover_timeout [''probe''] ew
          else cold_start env probe_timeout recover_timeout None [''probe''] ew)"


section \<open>The doctor command\<close>

record doctor_report =
  dr_recover :: bool
  dr_state :: string
  dr_discovery :: doctor_discovery
  dr_recommendation :: string
  dr_events :: events_summary
  dr_attachments :: attachment_summary
  dr_recovery :: recovery_summary

definition no_recovery :: recovery_summary where
  "no_recovery = \<lparr>ry_attempted = False, ry_succeeded = False, ry_already_ready = False, ry_stale_cleanup = None,
     ry_cold_start = False, ry_actions = [], ry_events = [], ry_error = None\<rparr>"

definition runtime_state_from_discovery :: "doctor_discovery \<Rightarrow> string" where
  "runtime_state_from_discovery d =
     (if dd_stale d then ''stale'' else if \<not> dd_present d then ''absent'' else ''unknown'')"

definition doctor_recommendation :: "string \<Rightarrow> bool \<Rightarrow> recovery_summary \<Rightarrow> attachment_summary \<Rightarrow> string" where
  "doctor_recommendation state recover ry at' =
     (if \<not> recover then ''Doctor is passive; run tela doctor --recover to probe and attempt recovery.''
      else if ry_already_ready ry then ''Runtime is already ready; no recovery mutation was needed.''
      else if ry_succeeded ry then ''Recovery succeeded; reconnect clients if their transports were closed.''
      else if at_alive at' then ''Client attachments are still alive; do not revive closed client transports.''
      else if state = ''stale'' then ''Stale cleanup did not restore readiness; inspect runtime-events.''
      else if state = ''absent'' then ''Cold-start recovery did not produce a ready runtime; inspect serve logs.''
      else ''Recovery did not establish readiness; inspect runtime-events and status output.'')"

definition doctor_report_of ::
    "bool \<Rightarrow> doctor_discovery \<Rightarrow> events_summary \<Rightarrow> attachment_summary \<Rightarrow> recovery_summary \<Rightarrow> doctor_report" where
  "doctor_report_of recover d es at' ry =
     (let state = runtime_state_from_discovery d
      in \<lparr>dr_recover = recover, dr_state = state, dr_discovery = d,
          dr_recommendation = doctor_recommendation state recover ry at', dr_events = es, dr_attachments = at',
          dr_recovery = ry\<rparr>)"

definition run_doctor_command ::
    "'w operator_env \<Rightarrow> bool \<Rightarrow> rat \<Rightarrow> rat \<Rightarrow> 'w \<Rightarrow> ((py_exc + doctor_report) \<times> 'w) option" where
  "run_doctor_command env recover probe_timeout recover_timeout w =
     (let (d, w1) = read_doctor_discovery env w in
      case read_doctor_runtime_events env w1 of
        (Inl exc, w2) \<Rightarrow> Some (Inl exc, w2)
      | (Inr es, w2) \<Rightarrow>
          (case read_doctor_attachment_summary env es w2 of
             (Inl exc, w3) \<Rightarrow> Some (Inl exc, w3)
           | (Inr at', w3) \<Rightarrow>
               if \<not> recover then Some (Inr (doctor_report_of False d es at' no_recovery), w3)
               else map_option (\<lambda>(res, w4). case res of
                   Inl exc \<Rightarrow> (Inl exc, w4)
                 | Inr ry \<Rightarrow> (let (d', w5) = read_doctor_discovery env w4
                     in (Inr (doctor_report_of True d' es at' ry), w5)))
                 (recover_doctor_runtime env d probe_timeout recover_timeout w3)))"

definition doctor_command ::
    "'w operator_env \<Rightarrow> bool \<Rightarrow> rat option \<Rightarrow> rat option \<Rightarrow> 'w \<Rightarrow> ((py_exc + (doctor_report, string) result) \<times> 'w) option" where
  "doctor_command env recover probe_timeout recover_timeout w =
     (if probe_timeout \<noteq> None \<and> \<not> recover then Some (Inr (Err ''INVALID_ARGUMENT: --probe-timeout requires --recover''), w)
      else map_option (\<lambda>(res, w1). (map_right Ok res, w1))
        (run_doctor_command env recover (case probe_timeout of Some t \<Rightarrow> t | None \<Rightarrow> default_probe_timeout)
          (case recover_timeout of Some t \<Rightarrow> t | None \<Rightarrow> 5) w))"


section \<open>The stop command\<close>

definition stop_poll_seconds :: rat where
  "stop_poll_seconds = 1 / 20"

definition stop_timeout_seconds :: rat where
  "stop_timeout_seconds = 5"

fun zombie_state :: "ps_report \<Rightarrow> bool" where
  "zombie_state (PsState stat) = upper_z (py_strip stat)"
| "zombie_state _ = False"

text \<open>One turn of the wait: \<open>Inr None\<close> is another one. A number that is no process number raises.\<close>

definition poll_exit :: "'w operator_env \<Rightarrow> int \<Rightarrow> 'w \<Rightarrow> (py_exc + (unit, string) result option) \<times> 'w" where
  "poll_exit env pid w =
     (let (ps, w1) = le_ps (oe_lock env) pid w in
      if zombie_state ps then (Inr (Some (Ok ())), w1)
      else (let (sig, w2) = le_kill (oe_lock env) pid w1 in
        case sig of
          NoSuchProcess \<Rightarrow> (Inr (Some (Ok ())), w2)
        | OtherOSError \<Rightarrow> (Inr (Some (Err ''STOP_WAIT_ERROR'')), w2)
        | PidOverflow \<Rightarrow> (Inl (OverflowError ''signed integer is greater than maximum''), w2)
        | _ \<Rightarrow> (Inr None, oe_sleep env stop_poll_seconds w2)))"

partial_function (option) wait_exit ::
    "'w operator_env \<Rightarrow> rat \<Rightarrow> int \<Rightarrow> 'w \<Rightarrow> ((py_exc + (unit, string) result) \<times> 'w) option" where
  "wait_exit env deadline pid w =
     (let (now, w1) = oe_clock env w in
      if \<not> now < deadline then Some (Inr (Err (''STOP_TIMEOUT: tela server pid '' @ show_int pid @ '' did not exit within 5.0s'')), w1)
      else (case poll_exit env pid w1 of
          (Inl exc, w2) \<Rightarrow> Some (Inl exc, w2)
        | (Inr (Some res), w2) \<Rightarrow> Some (Inr res, w2)
        | (Inr None, w2) \<Rightarrow> wait_exit env deadline pid w2))"

definition wait_for_process_exit ::
    "'w operator_env \<Rightarrow> int \<Rightarrow> 'w \<Rightarrow> ((py_exc + (unit, string) result) \<times> 'w) option" where
  "wait_for_process_exit env pid w =
     (let (now, w1) = oe_clock env w in wait_exit env (now + stop_timeout_seconds) pid w1)"

definition run_stop_command :: "'w operator_env \<Rightarrow> 'w \<Rightarrow> ((py_exc + (unit, string) result) \<times> 'w) option" where
  "run_stop_command env w =
     (case read_lockfile (oe_lock env) w of
        (Err e, w1) \<Rightarrow> Some (Inr (Err (no_running_server (or_text e ''lockfile unavailable''))), w1)
      | (Ok l, w1) \<Rightarrow>
          (let (sig, w2) = oe_terminate env (lk_pid l) w1 in
           case sig of
             NoSuchProcess \<Rightarrow> Some (map_prod Inr id (delete_lockfile (oe_lock env) w2))
           | NotPermitted \<Rightarrow> Some (Inr (Err (''STOP_PERMISSION_DENIED: cannot signal tela server pid '' @ show_int (lk_pid l))), w2)
           | OtherOSError \<Rightarrow> Some (Inr (Err ''STOP_SIGNAL_ERROR''), w2)
           | PidOverflow \<Rightarrow> Some (Inl (OverflowError ''signed integer is greater than maximum''), w2)
           | Delivered \<Rightarrow>
               map_option (\<lambda>(res, w3). case res of
                   Inr (Ok _) \<Rightarrow> map_prod Inr id (delete_lockfile (oe_lock env) w3)
                 | _ \<Rightarrow> (res, w3))
                 (wait_for_process_exit env (lk_pid l) w2)))"

definition stop_command :: "'w operator_env \<Rightarrow> 'w \<Rightarrow> ((py_exc + (int, string) result) \<times> 'w) option" where
  "stop_command env w = map_option (\<lambda>(res, w1). (map_right (map_result (\<lambda>_. 0)) res, w1)) (run_stop_command env w)"

end
