(* ===== verification/Operator_Outcomes.thy ===== *)
theory Operator_Outcomes
  imports Operator_Doctor
begin

text \<open>
  What the operator commands guarantee: a doctor without \<^verbatim>\<open>--recover\<close> changes nothing, a recovery starts at
  most one gateway, and \<^verbatim>\<open>tela stop\<close> removes the lockfile only once the process is gone. The processes that
  a recovery starts are recorded beside the world (\<open>counting\<close>).
\<close>


section \<open>The passive doctor\<close>

lemma probing_fields [reads]:
  "oe_lock (env\<lparr>oe_get := f\<rparr>) = oe_lock env" "oe_codec (env\<lparr>oe_get := f\<rparr>) = oe_codec env"
  "oe_files (env\<lparr>oe_get := f\<rparr>) = oe_files env" "oe_now (env\<lparr>oe_get := f\<rparr>) = oe_now env"
  by simp_all

lemma doctor_reads [reads]:
  "read_doctor_discovery (with_mutators env u r p st k) = read_doctor_discovery env"
  "read_doctor_runtime_events (with_mutators env u r p st k) = read_doctor_runtime_events env"
  "read_doctor_attachment_summary (with_mutators env u r p st k) es = read_doctor_attachment_summary env es"
  by (intro ext, (unfold read_doctor_discovery_def read_doctor_runtime_events_def read_doctor_attachment_summary_def
      load_registry_def reads)?, rule refl)+

lemma doctor_reads_without_probe [reads]:
  "read_doctor_discovery (env\<lparr>oe_get := f\<rparr>) = read_doctor_discovery env"
  "read_doctor_runtime_events (env\<lparr>oe_get := f\<rparr>) = read_doctor_runtime_events env"
  "read_doctor_attachment_summary (env\<lparr>oe_get := f\<rparr>) es = read_doctor_attachment_summary env es"
  by (intro ext, (unfold read_doctor_discovery_def read_doctor_runtime_events_def read_doctor_attachment_summary_def
      load_registry_def reads)?, rule refl)+

lemma passive_reads [reads]:
  "run_doctor_command (with_mutators (env\<lparr>oe_get := f\<rparr>) u r p st k) False pt rt = run_doctor_command env False pt rt"
  by (intro ext) (unfold run_doctor_command_def reads not_False_eq_True if_True, rule refl)


section \<open>Counting the started processes\<close>

definition beside :: "('w \<Rightarrow> 'a \<times> 'w) \<Rightarrow> 'w \<times> 't \<Rightarrow> 'a \<times> 'w \<times> 't" where
  "beside f = (\<lambda>(w, t). let (a, w1) = f w in (a, w1, t))"

definition counting_lock :: "'w lock_env \<Rightarrow> ('w \<times> 't) lock_env" where
  "counting_lock lock = \<lparr>le_read = beside (le_read lock), le_decode = le_decode lock, le_encode = le_encode lock,
     le_replace = (\<lambda>t. beside (le_replace lock t)), le_unlink = beside (le_unlink lock),
     le_ps = (\<lambda>p. beside (le_ps lock p)), le_kill = (\<lambda>p. beside (le_kill lock p))\<rparr>"

definition counting :: "'w operator_env \<Rightarrow> ('w \<times> string list list) operator_env" where
  "counting env = \<lparr>oe_lock = counting_lock (oe_lock env), oe_get = (\<lambda>u k t. beside (oe_get env u k t)),
     oe_loads = oe_loads env, oe_validators = oe_validators env, oe_codec = oe_codec env,
     oe_files = beside (oe_files env), oe_put = (\<lambda>f (w, t). (oe_put env f w, t)), oe_ps = beside (oe_ps env),
     oe_now = beside (oe_now env), oe_iso = oe_iso env, oe_clock = beside (oe_clock env),
     oe_sleep = (\<lambda>d (w, t). (oe_sleep env d w, t)), oe_python = oe_python env,
     oe_spawn = (\<lambda>c (w, t). let (r, w1) = oe_spawn env c w in (r, w1, t @ [c])),
     oe_terminate = (\<lambda>p. beside (oe_terminate env p))\<rparr>"

named_theorems counted \<open>operations that start no process\<close>

lemma beside_keeps [counted]: "snd (snd (beside f wt)) = snd wt"
  by (cases wt) (simp add: beside_def split_beta)

lemma counting_fields [simp]:
  "oe_lock (counting env) = counting_lock (oe_lock env)" "oe_get (counting env) u k t = beside (oe_get env u k t)"
  "oe_files (counting env) = beside (oe_files env)" "oe_now (counting env) = beside (oe_now env)"
  "oe_clock (counting env) = beside (oe_clock env)" "oe_python (counting env) = oe_python env"
  "snd (oe_put (counting env) f wt) = snd wt" "snd (oe_sleep (counting env) d wt) = snd wt"
  by (simp_all add: counting_def split_beta)

lemma counting_lock_fields [simp]:
  "le_read (counting_lock lock) = beside (le_read lock)" "le_unlink (counting_lock lock) = beside (le_unlink lock)"
  "le_ps (counting_lock lock) p = beside (le_ps lock p)" "le_kill (counting_lock lock) p = beside (le_kill lock p)"
  by (simp_all add: counting_lock_def)

lemma stale_counted [counted]: "snd (snd (lockfile_is_stale (counting_lock lock) pid wt)) = snd wt"
  by (simp add: lockfile_is_stale_def split_beta Let_def counted)

lemma read_lockfile_counted [counted]: "snd (snd (read_lockfile (counting_lock lock) wt)) = snd wt"
  by (auto simp: read_lockfile_def Let_def counted split_beta split: prod.split file_read.split result.split
      dest!: arg_cong [where f = "\<lambda>x. snd (snd x)"])

lemma delete_lockfile_counted [counted]: "snd (snd (delete_lockfile (counting_lock lock) wt)) = snd wt"
  by (auto simp: delete_lockfile_def counted split_beta split: option.split)

lemma get_status_counted [counted]: "snd (snd (get_status (counting env) t l wt)) = snd wt"
  by (auto simp: get_status_def single_attempt_once counted split_beta split: prod.split http_attempt.split
      dest!: arg_cong [where f = "\<lambda>x. snd (snd x)"])

lemma delete_stale_counted [counted]: "snd (snd (delete_lockfile_if_stale (counting_lock lock) wt)) = snd wt"
  by (auto simp: delete_lockfile_if_stale_def Let_def counted split_beta split: prod.split file_read.split result.split
      dest!: arg_cong [where f = "\<lambda>x. snd (snd x)"])

lemma discovery_counted [counted]: "snd (snd (read_doctor_discovery (counting env) wt)) = snd wt"
  by (auto simp: read_doctor_discovery_def Let_def counted split_beta split: prod.split result.split
      dest!: arg_cong [where f = "\<lambda>x. snd (snd x)"])

lemma probe_counted [counted]: "snd (snd (probe_doctor_runtime (counting env) d t wt)) = snd wt"
  by (auto simp: probe_doctor_runtime_def counted split: option.split prod.split sum.split result.split
      dest!: arg_cong [where f = "\<lambda>x. snd (snd x)"])

lemma append_counted [counted]: "snd (snd (append_doctor_event (counting env) kind details ew)) = snd (snd ew)"
  by (cases ew) (simp add: append_doctor_event_def Let_def split_beta counted)

lemma recorded_probe_counted [counted]: "snd (snd (snd (recorded_probe (counting env) d t ew))) = snd (snd ew)"
proof -
  obtain events wt where ew: "ew = (events, wt)" by (metis prod.collapse)
  obtain res wt1 where p: "probe_doctor_runtime (counting env) d t wt = (res, wt1)" by (metis prod.collapse)
  then have "snd wt1 = snd wt" using probe_counted [of env d t wt] by simp
  then show ?thesis by (cases res) (simp_all add: recorded_probe_def ew p counted)
qed

lemma failed_counted [counted]: "snd (snd (recovery_failed (counting env) e c b as ew)) = snd (snd ew)"
  using append_counted [of env RecoveryFailed "[(''error'', JStr e)]" ew]
  by (simp add: recovery_failed_def split_beta)

lemma poll_counted: "snd (snd (poll_live_lockfile (counting env) pid wt)) = snd wt"
proof -
  obtain r wt1 where r: "read_lockfile (counting_lock (oe_lock env)) wt = (r, wt1)" by (metis prod.collapse)
  then have "snd wt1 = snd wt" using read_lockfile_counted [of "oe_lock env" wt] by simp
  then show ?thesis by (cases r) (auto simp: poll_live_lockfile_def r counted)
qed

lemma wait_counted:
  assumes "wait_for_live_lockfile (counting env) timeout pid wt = Some (res, wt')"
  shows "snd wt' = snd wt"
proof -
  have step: "e = counting env \<longrightarrow> snd (snd r) = snd w"
    if "wait_live e d p w = Some r" for e :: "('a \<times> string list list) operator_env" and d p w r
  proof (rule wait_live.raw_induct [OF _ that, where P = "\<lambda>e d p w r. e = counting env \<longrightarrow> snd (snd r) = snd w"], intro impI)
    fix wait e d p w and r :: "(lockfile_data, string) result \<times> 'a \<times> string list list"
    assume IH: "\<And>e d p w r. wait e d p w = Some r \<Longrightarrow> e = counting env \<longrightarrow> snd (snd r) = snd w"
      and body: "(let (now, w1) = oe_clock e w in if \<not> now < d
        then Some (Err ''LOCKFILE_WAIT_TIMEOUT: timed out waiting for gateway.lock'', w1)
        else case poll_live_lockfile e p w1 of (None, w2) \<Rightarrow> wait e d p w2 | (Some l, w2) \<Rightarrow> Some (Ok l, w2)) = Some r"
      and e: "e = counting env"
    obtain now w1 where ck: "beside (oe_clock env) w = (now, w1)" by (metis prod.collapse)
    obtain l w2 where pl: "poll_live_lockfile e p w1 = (l, w2)" by (metis prod.collapse)
    have "snd w1 = snd w" using ck beside_keeps [of "oe_clock env" w] by simp
    moreover have "snd w2 = snd w1" using poll_counted [of env p w1] pl e by simp
    ultimately show "snd (snd r) = snd w"
      using body IH [of e d p w2 r] e by (auto simp: ck pl [unfolded e] Let_def split: if_splits option.splits)
  qed
  obtain now w1 where ck: "beside (oe_clock env) wt = (now, w1)" by (metis prod.collapse)
  then have "snd w1 = snd wt" using beside_keeps [of "oe_clock env" wt] by simp
  moreover have "wait_live (counting env) (now + timeout) pid w1 = Some (res, wt')"
    using assms ck by (simp add: wait_for_live_lockfile_def)
  ultimately show ?thesis using step [of "counting env" "now + timeout" pid w1 "(res, wt')"] by simp
qed

section \<open>Shape of a recovery\<close>

definition sound_summary :: "recovery_summary \<Rightarrow> bool" where
  "sound_summary s \<longleftrightarrow> ry_attempted s \<and> (ry_error s = None \<longleftrightarrow> ry_already_ready s \<or> ry_succeeded s)
     \<and> \<not> (ry_already_ready s \<and> ry_succeeded s) \<and> (ry_succeeded s \<longrightarrow> ry_cold_start s) \<and> (ry_already_ready s \<longrightarrow> \<not> ry_cold_start s)"

definition restart_command :: "'w operator_env \<Rightarrow> string list" where
  "restart_command env = autostart_command (oe_python env) ''tela.yaml'' None"

lemma failed_shape:
  assumes "recovery_failed env e c cold as ew = (res, w')"
  shows "\<exists>s. res = Inr s \<and> sound_summary s \<and> ry_cold_start s = cold"
proof -
  have "case res of Inl _ \<Rightarrow> False | Inr s \<Rightarrow> sound_summary s \<and> ry_cold_start s = cold"
    using assms unfolding recovery_failed_def split_beta Let_def prod.inject
    by (elim conjE) (hypsubst, simp add: sound_summary_def)
  then show ?thesis by (cases res) auto
qed

lemma failed_effect: "recovery_failed (counting env) e c cold as ew = (res, wt') \<Longrightarrow> snd wt' = snd (snd ew)"
  using failed_counted [of env e c cold as ew] by simp

lemma conclude_counted:
  assumes "conclude_recovery (counting env) pt c as l ew = (res, wt')"
  shows "snd wt' = snd (snd ew)" and "res = Inr s \<Longrightarrow> sound_summary s \<and> ry_cold_start s"
proof -
  obtain ob events wt1 where p: "recorded_probe (counting env) (discovered l) pt ew = (ob, events, wt1)" by (metis prod.collapse)
  then have k: "snd wt1 = snd (snd ew)" using recorded_probe_counted [of env "discovered l" pt ew] by simp
  show "snd wt' = snd (snd ew)"
  proof (cases ob)
    case (Inr o')
    obtain f g where f: "append_doctor_event (counting env) RecoverySucceeded [(''state'', JStr ''ready'')] (events, wt1) = (f, g)"
      by (metis prod.collapse)
    then have "snd g = snd wt1" using append_counted [of env RecoverySucceeded "[(''state'', JStr ''ready'')]" "(events, wt1)"] by simp
    then show ?thesis
      using assms p Inr k f by (auto simp: conclude_recovery_def Let_def split: if_splits dest: failed_effect)
  qed (use assms p k in \<open>simp add: conclude_recovery_def\<close>)
  show "sound_summary s \<and> ry_cold_start s" if "res = Inr s"
    using assms that
    by (auto simp: conclude_recovery_def Let_def sound_summary_def split: prod.splits sum.splits if_splits
        dest: failed_shape)
qed

lemma cold_start_counted:
  assumes "cold_start (counting env) pt rt c as (events, wt) = Some (res, wt')"
  shows "snd wt' = snd wt @ [restart_command env]" and "res = Inr s \<Longrightarrow> sound_summary s \<and> ry_cold_start s"
proof -
  let ?cmd = "restart_command env"
  obtain started wt1 where st: "autostart_serve (counting env) ''tela.yaml'' None wt = (started, wt1)" by (metis prod.collapse)
  have "snd (snd (autostart_serve (counting env) ''tela.yaml'' None wt)) = snd wt @ [?cmd]"
    by (cases wt) (auto simp: autostart_serve_def restart_command_def counting_def split_beta split: result.split)
  then have t1: "snd wt1 = snd wt @ [?cmd]" using st by simp
  show "snd wt' = snd wt @ [?cmd]" and "res = Inr s \<Longrightarrow> sound_summary s \<and> ry_cold_start s"
  proof -
    have "snd wt' = snd wt1 \<and> (\<forall>s. res = Inr s \<longrightarrow> sound_summary s \<and> ry_cold_start s)"
    proof (cases started)
      case (Err e)
      then have run: "recovery_failed (counting env) (or_text e ''COLD_START_FAILED'') c True (as @ [''cold_start'']) (events, wt1) = (res, wt')"
        using assms st by (simp add: cold_start_def Let_def)
      then show ?thesis using failed_shape [OF run] failed_effect [OF run] by auto
    next
      case (Ok pid)
      then obtain live wt2 where wt: "wait_for_live_lockfile (counting env) rt (Some pid) wt1 = Some (live, wt2)"
        and run: "(case live of Err e \<Rightarrow> recovery_failed (counting env) (or_text e ''COLD_START_FAILED'') c True (as @ [''cold_start'']) (events, wt2)
          | Ok l \<Rightarrow> conclude_recovery (counting env) pt c (as @ [''cold_start'']) l (events, wt2)) = (res, wt')"
        using assms st by (auto simp: cold_start_def Let_def)
      have t2: "snd wt2 = snd wt1" using wait_counted [OF wt] .
      show ?thesis
      proof (cases live)
        case (Err e)
        then have f: "recovery_failed (counting env) (or_text e ''COLD_START_FAILED'') c True (as @ [''cold_start'']) (events, wt2) = (res, wt')"
          using run by simp
        show ?thesis using failed_shape [OF f] failed_effect [OF f] t2 by auto
      next
        case (Ok l)
        then have "conclude_recovery (counting env) pt c (as @ [''cold_start'']) l (events, wt2) = (res, wt')" using run by simp
        from conclude_counted [OF this] show ?thesis using t2 by auto
      qed
    qed
    then show "snd wt' = snd wt @ [?cmd]" and "res = Inr s \<Longrightarrow> sound_summary s \<and> ry_cold_start s" using t1 by auto
  qed
qed

lemma clean_counted:
  assumes "clean_and_start (counting env) pt rt as (events, wt) = Some (res, wt')"
  shows "snd wt' = snd wt @ [restart_command env] \<and> (\<forall>s. res = Inr s \<longrightarrow> sound_summary s \<and> ry_cold_start s)
    \<or> snd wt' = snd wt \<and> (\<forall>s. res = Inr s \<longrightarrow> sound_summary s \<and> \<not> ry_cold_start s)"
proof -
  obtain cleaned wt1 where cl: "delete_lockfile_if_stale (counting_lock (oe_lock env)) wt = (cleaned, wt1)" by (metis prod.collapse)
  then have t1: "snd wt1 = snd wt" using delete_stale_counted [of "oe_lock env" wt] by simp
  show ?thesis
  proof (cases cleaned)
    case (Err e)
    then have run: "recovery_failed (counting env) (or_text e ''LOCKFILE_STALE_CLEANUP_ERROR'') None False (as @ [''stale_cleanup'']) (events, wt1) = (res, wt')"
      using assms cl by (simp add: clean_and_start_def Let_def)
    then show ?thesis
      using failed_shape [OF run] failed_effect [OF run] t1 by auto
  next
    case (Ok done')
    show ?thesis
    proof (cases done')
      case True
      then have "cold_start (counting env) pt rt (Some True) (as @ [''stale_cleanup'']) (events, wt1) = Some (res, wt')"
        using assms cl Ok by (simp add: clean_and_start_def Let_def)
      from cold_start_counted [OF this] show ?thesis using t1 by auto
    next
      case False
      obtain d wt2 where d: "read_doctor_discovery (counting env) wt1 = (d, wt2)" by (metis prod.collapse)
      then have t2: "snd wt2 = snd wt1" using discovery_counted [of env wt1] by simp
      obtain ob ew where p: "recorded_probe (counting env) d pt (events, wt2) = (ob, ew)" by (metis prod.collapse)
      then have t3: "snd (snd ew) = snd wt2" using recorded_probe_counted [of env d pt "(events, wt2)"] by simp
      obtain events3 wt3 where ew: "ew = (events3, wt3)" by (metis prod.collapse)
      note run = assms [unfolded clean_and_start_def, simplified, unfolded cl Ok Let_def, simplified]
      show ?thesis
      proof (cases ob)
        case (Inl exc)
        then show ?thesis using run False d p ew t1 t2 t3 by auto
      next
        case (Inr o')
        show ?thesis
        proof (cases "do_state o' = ''ready''")
          case True
          then show ?thesis
            using run False d p ew t1 t2 t3 Inr by (auto simp: recovery_ready_def sound_summary_def)
        next
          case unready: False
          then have "cold_start (counting env) pt rt (Some False)
              ((as @ [''stale_cleanup'']) @ [''probe_after_stale_cleanup_false'']) (events3, wt3) = Some (res, wt')"
            using run False d p ew Inr by simp
          from cold_start_counted [OF this] show ?thesis using t1 t2 t3 ew by auto
        qed
      qed
    qed
  qed
qed


section \<open>Waiting for the end of a process\<close>

text \<open>Some observation of the process said that it is gone.\<close>

definition seen_gone :: "'w operator_env \<Rightarrow> int \<Rightarrow> bool" where
  "seen_gone env pid \<longleftrightarrow> (\<exists>v. fst (oe_terminate env pid v) = NoSuchProcess)
     \<or> (\<exists>v. zombie_state (fst (le_ps (oe_lock env) pid v))) \<or> (\<exists>v. fst (le_kill (oe_lock env) pid v) = NoSuchProcess)"

lemma poll_exit_gone: "poll_exit env pid w = (Inr (Some (Ok u)), w') \<Longrightarrow> seen_gone env pid"
  by (auto simp: poll_exit_def seen_gone_def Let_def split: prod.splits if_splits signal_outcome.splits) (metis fst_conv)+

lemma wait_exit_gone:
  assumes "wait_exit env deadline pid w = Some r" and "fst r = Inr (Ok u)"
  shows "seen_gone env pid"
proof -
  have "fst r = Inr (Ok u) \<longrightarrow> seen_gone env pid"
    by (rule wait_exit.raw_induct [OF _ assms(1), where P = "\<lambda>env d pid w r. fst r = Inr (Ok u) \<longrightarrow> seen_gone env pid"])
      (auto simp: Let_def split: prod.splits if_splits option.splits sum.splits dest: poll_exit_gone)
  then show ?thesis using assms(2) by simp
qed


section \<open>Properties\<close>

text \<open>\<^verbatim>\<open>tela doctor\<close> without \<^verbatim>\<open>--recover\<close> observes only: its result and its effects do not depend on what
  probing the gateway, deleting or writing the lockfile, storing events, starting or signalling a process
  would do, so it does none of them.\<close>

theorem passive_doctor_observes_only:
  "doctor_command (with_mutators (env\<lparr>oe_get := get\<rparr>) unlink replace put spawn terminate) False probe_timeout recover_timeout
     = doctor_command env False probe_timeout recover_timeout"
  by (intro ext) (unfold doctor_command_def reads, rule refl)


text \<open>The gateway of the lockfile answers that it is warming up: another one is started.\<close>

definition warming_env :: "unit operator_env" where
  "warming_env = (sample_operator_env Delivered)\<lparr>oe_spawn := \<lambda>_ w. (Err ''no python'', w)\<rparr>"


text \<open>\<^verbatim>\<open>tela stop\<close> succeeds only after the process that the lockfile named was seen to be gone, and then its
  last act was the removal of a lockfile, whoever's it is by then.\<close>

theorem stop_removes_after_exit:
  assumes "run_stop_command env w = Some (Inr (Ok u), w')"
  shows "\<exists>l w1. fst (read_lockfile (oe_lock env) w) = Ok l \<and> seen_gone env (lk_pid l)
    \<and> delete_lockfile (oe_lock env) w1 = (Ok (), w')"
proof -
  obtain found w1 where f: "read_lockfile (oe_lock env) w = (found, w1)" by fastforce
  then obtain l where l: "found = Ok l" using assms by (cases found) (auto simp: run_stop_command_def)
  obtain sig w2 where t: "oe_terminate env (lk_pid l) w1 = (sig, w2)" by fastforce
  have removed: "delete_lockfile (oe_lock env) v = (Ok (), w')" if "map_prod Inr id (delete_lockfile (oe_lock env) v) = (Inr (Ok ()) :: py_exc + (unit, string) result, w')" for v
    using that by (cases "delete_lockfile (oe_lock env) v") auto
  show ?thesis
  proof (cases sig)
    case NoSuchProcess
    then have "seen_gone env (lk_pid l)" using t by (auto simp: seen_gone_def) (metis fst_conv)
    then show ?thesis using assms f l t NoSuchProcess by (auto simp: run_stop_command_def dest!: removed)
  next
    case Delivered
    then obtain res w3 where wt: "wait_for_process_exit env (lk_pid l) w2 = Some (res, w3)"
      and run: "(case res of Inr (Ok _) \<Rightarrow> map_prod Inr id (delete_lockfile (oe_lock env) w3) | _ \<Rightarrow> (res, w3)) = (Inr (Ok u), w')"
      using assms f l t by (auto simp: run_stop_command_def)
    obtain v where v: "res = Inr (Ok v)" using run by (cases res rule: sum.exhaust; cases "projr res") auto
    have "seen_gone env (lk_pid l)"
      using wt v wait_exit_gone by (auto simp: wait_for_process_exit_def split: prod.splits)
    then show ?thesis using f l run v by (auto dest!: removed)
  qed (use assms f l t in \<open>auto simp: run_stop_command_def\<close>)
qed

definition stopping_env :: "unit operator_env" where
  "stopping_env = (sample_operator_env Delivered)\<lparr>oe_terminate := \<lambda>_ w. (NoSuchProcess, w)\<rparr>"

lemma stop_removes_witness: "seen_gone stopping_env 42"
proof -
  have "case run_stop_command stopping_env () of Some (Inr (Ok _), _) \<Rightarrow> True | _ \<Rightarrow> False" by code_simp
  then obtain u where "run_stop_command stopping_env () = Some (Inr (Ok u), ())"
    by (auto split: option.splits prod.splits sum.splits result.splits)
  from stop_removes_after_exit [OF this] obtain l
    where l: "fst (read_lockfile (oe_lock stopping_env) ()) = Ok l" "seen_gone stopping_env (lk_pid l)" by blast
  moreover have "fst (read_lockfile (oe_lock stopping_env) ()) = Ok sample_lockfile"
    by (simp add: stopping_env_def sample_operator_env_def read_lockfile_def lockfile_is_stale_def is_zombie_process_def
        is_stale_def py_strip_def lstrip_def is_space_def is_lower_def)
  ultimately have "l = sample_lockfile" by simp
  then show ?thesis using l(2) by (simp add: sample_lockfile_def)
qed

end
