(* ===== verification/Command_Line.thy ===== *)
theory Command_Line
  imports Operator_Doctor Serve_Runtime
begin

text \<open>
  The remaining commands and the entry point: \<^verbatim>\<open>commands/audit_cmd.py\<close>, \<^verbatim>\<open>commands/connections_cmd.py\<close>,
  \<^verbatim>\<open>commands/profiles_cmd.py\<close>, \<^verbatim>\<open>commands/start.py\<close> and the dispatch of \<^verbatim>\<open>cli.py\<close>. A command's value is
  its result with what it prints on standard output, as lines or as the objects it serializes. What
  \<^verbatim>\<open>argparse\<close> makes of the arguments is the argument \<open>parsed\<close> of \<open>main\<close>; the two commands that run until
  their process ends, \<open>serve_command\<close> and \<open>connect_command\<close>, enter through their results.
\<close>


section \<open>The audit log\<close>

text \<open>The entries at or after a time. Neither a malformed time of an entry nor a comparison of a time with
  an offset and one without is caught.\<close>

fun entries_from :: "datetime \<Rightarrow> audit_entry list \<Rightarrow> py_exc + audit_entry list" where
  "entries_from t [] = Inr []"
| "entries_from t (e # es) =
     (case read_iso (ae_timestamp e) of
        None \<Rightarrow> Inl (ValueError (''Invalid isoformat string: ''
          @ repr_str (replace_char (CHR ''Z'') ''+00:00'' (ae_timestamp e))))
      | Some u \<Rightarrow>
          (case dt_le t u of
             Inl exc \<Rightarrow> Inl exc
           | Inr b \<Rightarrow> map_right (\<lambda>rest. if b then e # rest else rest) (entries_from t es)))"

definition filter_entries ::
    "audit_entry list \<Rightarrow> string option \<Rightarrow> int \<Rightarrow> py_exc + (audit_entry list, string) result" where
  "filter_entries entries since limit =
     (case since of
        None \<Rightarrow> Inr (Ok (tail_slice limit entries))
      | Some str \<Rightarrow>
          (case read_iso str of
             None \<Rightarrow> Inr (since_error str)
           | Some t \<Rightarrow> map_right (\<lambda>es. Ok (tail_slice limit es)) (entries_from t entries)))"

fun verdict_upper :: "verdict \<Rightarrow> string" where
  "verdict_upper ALLOW = ''ALLOW''"
| "verdict_upper DENY = ''DENY''"

definition audit_line :: "audit_entry \<Rightarrow> string" where
  "audit_line e = ''['' @ ae_timestamp e @ ''] '' @ verdict_upper (ae_verdict e) @ '' '' @ ae_tool_name e
     @ '' ('' @ ae_server_name e @ '') profile='' @ ae_profile_id e"

datatype 'a printed = Lines "string list" | Objects "'a list"

definition run_audit_command ::
    "'w operator_env \<Rightarrow> string option \<Rightarrow> int \<Rightarrow> bool \<Rightarrow> 'w \<Rightarrow> (py_exc + (audit_entry printed, string) result) \<times> 'w" where
  "run_audit_command env since limit json_output w =
     (case query_remote_state env w of
        (Inl exc, w1) \<Rightarrow> (Inl exc, w1)
      | (Inr (Err e), w1) \<Rightarrow> (Inr (Err e), w1)
      | (Inr (Ok remote), w1) \<Rightarrow>
          (map_right (map_result (\<lambda>entries. if json_output then Objects entries else Lines (map audit_line entries)))
             (filter_entries (rs_audit_entries remote) since limit), w1))"

definition exit_zero :: "(py_exc + ('a, string) result) \<times> 'w \<Rightarrow> (py_exc + (int, string) result) \<times> 'w" where
  "exit_zero = (\<lambda>(res, w). (map_right (map_result (\<lambda>_. 0)) res, w))"

definition audit_command ::
    "'w operator_env \<Rightarrow> string option \<Rightarrow> int \<Rightarrow> bool \<Rightarrow> 'w \<Rightarrow> (py_exc + (int, string) result) \<times> 'w" where
  "audit_command env since limit json_output w = exit_zero (run_audit_command env since limit json_output w)"


section \<open>Connections and profiles\<close>

definition connection_line :: "connection_context \<Rightarrow> string" where
  "connection_line c = ''  '' @ cc_connection_id c @ '' profile='' @ cc_profile_id c @ '' since='' @ cc_connected_at c"

definition run_connections_command ::
    "'w operator_env \<Rightarrow> bool \<Rightarrow> 'w \<Rightarrow> (py_exc + (connection_context printed, string) result) \<times> 'w" where
  "run_connections_command env json_output w =
     (let (res, w1) = query_remote_state env w
      in (map_right (map_result (\<lambda>remote. let conns = rs_connections remote in
            if json_output then Objects conns
            else if conns = [] then Lines [''No active connections.''] else Lines (map connection_line conns))) res, w1))"

definition connections_command ::
    "'w operator_env \<Rightarrow> bool \<Rightarrow> 'w \<Rightarrow> (py_exc + (int, string) result) \<times> 'w" where
  "connections_command env json_output w = exit_zero (run_connections_command env json_output w)"

text \<open>The profiles are listed from the configuration file. A file that cannot be loaded is reported on standard
  error, and the exit code is a value: 1. The argument is what \<open>load_config\<close> returned.\<close>

definition profiles_command ::
    "py_exc + (tela_config, string) result \<Rightarrow> bool
       \<Rightarrow> py_exc + (int, string) result \<times> (string \<times> profile_config) printed" where
  "profiles_command loaded json_output =
     (case loaded of
        Inl exc \<Rightarrow> Inl exc
      | Inr (Err e) \<Rightarrow> Inr (Ok 1, Lines [])
      | Inr (Ok config) \<Rightarrow>
          Inr (Ok 0, if json_output then Objects (tc_profiles config)
            else if tc_profiles config = [] then Lines [''No profiles configured.'']
            else Lines (map (\<lambda>(name, p). ''  '' @ name @ (if pc_default p then '' (default)'' else [])) (tc_profiles config))))"


section \<open>The retained start command\<close>

record binding_contract =
  rb_config_path :: string
  rb_transport :: gateway_transport
  rb_port :: "int option"
  rb_cli_default_profile :: "string option"

definition transport_of :: "string \<Rightarrow> py_exc + gateway_transport" where
  "transport_of s =
     (if s = ''stdio'' then Inr TStdio else if s = ''sse'' then Inr TSse else if s = ''http'' then Inr THttp
      else Inl (ValueError (repr_str s @ '' is not a valid GatewayTransport'')))"

definition start_command ::
    "py_exc + (tela_config, string) result \<Rightarrow> string \<Rightarrow> int option \<Rightarrow> string option \<Rightarrow> string option
       \<Rightarrow> py_exc + (binding_contract, string) result" where
  "start_command loaded config_path port default_profile transport =
     (case loaded of
        Inl exc \<Rightarrow> Inl exc
      | Inr (Err e) \<Rightarrow> Inr (Err e)
      | Inr (Ok config) \<Rightarrow>
          map_right (\<lambda>t. Ok \<lparr>rb_config_path = config_path, rb_transport = t, rb_port = port,
              rb_cli_default_profile = (if default_profile = None \<or> default_profile = Some []
                then tc_resolved_default_profile config else default_profile)\<rparr>)
            (case transport of
               Some s \<Rightarrow> transport_of s
             | None \<Rightarrow> Inr (if port \<noteq> None then THttp else TStdio)))"


section \<open>The entry point\<close>

datatype cli_command =
    Serve string serve_arguments
  | Connect connect_arguments
  | Stop
  | Status bool bool bool "rat option"
  | Doctor bool bool "rat option" "rat option"
  | Profiles string bool
  | Connections bool
  | Audit bool "string option" int

text \<open>What \<^verbatim>\<open>parse_args\<close> comes to: the arguments of a command, none, or \<^verbatim>\<open>SystemExit\<close> with its code if that is a number.\<close>

datatype parse_outcome = Parsed cli_command | NoCommand | ParserExit "int option"

record 'w cli_env =
  cl_operator :: "'w operator_env"
  cl_load :: "string \<Rightarrow> py_exc + (tela_config, string) result"
  cl_serve :: "string \<Rightarrow> serve_arguments \<Rightarrow> 'w \<Rightarrow> ((py_exc + (int, string) result) \<times> 'w) option"
  cl_connect :: "connect_arguments \<Rightarrow> 'w \<Rightarrow> ((py_exc + (int, string) result) \<times> 'w) option"

fun run_cli_command :: "'w cli_env \<Rightarrow> cli_command \<Rightarrow> 'w \<Rightarrow> ((py_exc + (int, string) result) \<times> 'w) option" where
  "run_cli_command env (Serve config_path a) w = cl_serve env config_path a w"
| "run_cli_command env (Connect a) w = cl_connect env a w"
| "run_cli_command env Stop w = stop_command (cl_operator env) w"
| "run_cli_command env (Status json_output probe clients timeout) w =
     Some (exit_zero (status_command (cl_operator env) json_output probe clients timeout w))"
| "run_cli_command env (Doctor json_output recover probe_timeout recover_timeout) w =
     map_option exit_zero (doctor_command (cl_operator env) recover probe_timeout recover_timeout w)"
| "run_cli_command env (Profiles config_path json_output) w =
     Some (map_right fst (profiles_command (cl_load env config_path) json_output), w)"
| "run_cli_command env (Connections json_output) w = Some (connections_command (cl_operator env) json_output w)"
| "run_cli_command env (Audit json_output since limit) w = Some (audit_command (cl_operator env) since limit json_output w)"

fun exit_code :: "(int, string) result \<Rightarrow> int" where
  "exit_code (Ok n) = n"
| "exit_code (Err e) = 1"

text \<open>How the entry point is left: with an exit code, or by an exception; \<open>SystemExit\<close> leaves it only when the
  arguments were given explicitly.\<close>

datatype cli_end = ExitCode int | SystemExit "int option" | Uncaught py_exc

definition main :: "'w cli_env \<Rightarrow> bool \<Rightarrow> parse_outcome \<Rightarrow> 'w \<Rightarrow> (cli_end \<times> 'w) option" where
  "main env explicit_argv parsed w =
     (case parsed of
        ParserExit n \<Rightarrow>
          Some (if explicit_argv then SystemExit n else ExitCode (case n of Some k \<Rightarrow> k | None \<Rightarrow> 1), w)
      | NoCommand \<Rightarrow> Some (ExitCode 1, w)
      | Parsed cmd \<Rightarrow>
          map_option (\<lambda>(res, w1). (case res of Inl exc \<Rightarrow> Uncaught exc | Inr r \<Rightarrow> ExitCode (exit_code r), w1))
            (run_cli_command env cmd w))"


section \<open>What the commands do\<close>

text \<open>The filter of the audit log in the gateway catches what this one raises.\<close>

lemma entries_since_from: "entries_since t es = (case entries_from t es of Inl _ \<Rightarrow> None | Inr r \<Rightarrow> Some r)"
  by (induction es) (auto simp: map_right_def split: option.splits sum.splits)

definition aware_times :: "audit_entry list \<Rightarrow> bool" where
  "aware_times entries \<longleftrightarrow> (\<forall>e \<in> set entries. case read_iso (ae_timestamp e) of Some u \<Rightarrow> is_aware u | None \<Rightarrow> False)"

definition entry_instant :: "audit_entry \<Rightarrow> int" where
  "entry_instant e = (case read_iso (ae_timestamp e) of Some u \<Rightarrow> instant u | None \<Rightarrow> 0)"

lemma aware_times_Cons:
  assumes "aware_times (e # es)"
  obtains u where "read_iso (ae_timestamp e) = Some u" "is_aware u" "entry_instant e = instant u" "aware_times es"
  using assms by (auto simp: aware_times_def entry_instant_def split: option.splits)

lemma entries_from_aware:
  "aware_times es \<Longrightarrow> is_aware t \<Longrightarrow> entries_from t es = Inr (filter (\<lambda>e. instant t \<le> entry_instant e) es)"
proof (induction es)
  case (Cons e es)
  from Cons.prems(1) obtain u where "read_iso (ae_timestamp e) = Some u" "is_aware u" "entry_instant e = instant u"
    "aware_times es" by (rule aware_times_Cons)
  with Cons show ?case by (simp add: dt_le_aware map_right_def)
qed simp

lemma entries_from_naive:
  assumes "aware_times (e # es)" "\<not> is_aware t"
  shows "entries_from t (e # es) = Inl mixed_error"
  using assms(1) by (rule aware_times_Cons) (use assms(2) in \<open>simp add: dt_le_def\<close>)

text \<open>\<^verbatim>\<open>tela audit --since\<close> lists the last entries of those at or after the given time, when that has an offset.
  A time without one raises on the first entry, since the gateway writes its times with an offset.\<close>

theorem audit_since_outcomes:
  assumes "aware_times entries" and "read_iso since = Some t"
  shows "filter_entries entries (Some since) limit =
    (if is_aware t then Inr (Ok (tail_slice limit (filter (\<lambda>e. instant t \<le> entry_instant e) entries)))
     else if entries = [] then Inr (Ok []) else Inl mixed_error)"
proof (cases "is_aware t")
  case True
  then show ?thesis using entries_from_aware [OF assms(1)] assms(2) by (simp add: filter_entries_def)
next
  case False
  then show ?thesis
    using assms entries_from_naive [of "hd entries" "tl entries" t]
    by (cases entries) (simp_all add: filter_entries_def tail_slice_def keep_last_def)
qed

lemma audit_since_witness:
  "filter_entries [sample_entry ''a''] (Some ''2026-01-01T00:00:00'') 100 = Inl mixed_error"
proof -
  have "aware_times [sample_entry ''a'']" by code_simp
  moreover have "read_iso ''2026-01-01T00:00:00'' = Some (Datetime 63902822400000000 None)" by code_simp
  moreover have "\<not> is_aware (Datetime 63902822400000000 None)" by code_simp
  ultimately show ?thesis using audit_since_outcomes [of "[sample_entry ''a'']"] by simp
qed

text \<open>The exit code is 0 or 1 for every command, if that holds of the two that run a process: 0 exactly when the
  command succeeded, but \<^verbatim>\<open>tela profiles\<close> succeeds with the code 1 when the configuration cannot be loaded.\<close>

lemma exit_zero_Ok: "exit_zero r = (Inr (Ok n), w) \<Longrightarrow> n = 0"
  by (cases r) (auto simp: exit_zero_def map_right_def split: sum.splits elim!: map_result.elims)

lemma stop_code: "stop_command env w = Some (Inr (Ok n), w') \<Longrightarrow> n = 0"
proof -
  assume "stop_command env w = Some (Inr (Ok n), w')"
  then obtain res :: "py_exc + (unit, string) result" where "map_right (map_result (\<lambda>_. 0 :: int)) res = Inr (Ok n)" by (auto simp: stop_command_def)
  then show "n = 0" by (cases res) (auto simp: map_right_def elim!: map_result.elims)
qed

lemma command_codes:
  assumes "run_cli_command env cmd w = Some (Inr (Ok n), w')"
    and "\<And>p a. cl_serve env p a w = Some (Inr (Ok n), w') \<Longrightarrow> n = 0"
    and "\<And>a. cl_connect env a w = Some (Inr (Ok n), w') \<Longrightarrow> n = 0"
  shows "n = 0 \<or> n = 1 \<and> (\<exists>path json e. cmd = Profiles path json \<and> cl_load env path = Inr (Err e))"
  using assms
  by (cases cmd)
    (auto simp: connections_command_def audit_command_def profiles_command_def map_right_def
      split: sum.splits result.splits dest: exit_zero_Ok stop_code)

theorem exit_codes:
  assumes "main env explicit_argv (Parsed cmd) w = Some (ExitCode n, w')"
    and "\<And>p a k v. cl_serve env p a w = Some (Inr (Ok k), v) \<Longrightarrow> k = 0"
    and "\<And>a k v. cl_connect env a w = Some (Inr (Ok k), v) \<Longrightarrow> k = 0"
  shows "n \<in> {0, 1} \<and> (n = 0 \<longleftrightarrow> run_cli_command env cmd w = Some (Inr (Ok 0), w'))
    \<and> (n = 1 \<longleftrightarrow> (\<exists>e. run_cli_command env cmd w = Some (Inr (Err e), w'))
        \<or> (\<exists>path json e. cmd = Profiles path json \<and> cl_load env path = Inr (Err e)))"
proof -
  obtain res where run: "run_cli_command env cmd w = Some (res, w')"
    and res: "(case res of Inl exc \<Rightarrow> Uncaught exc | Inr r \<Rightarrow> ExitCode (exit_code r)) = ExitCode n"
    using assms(1) by (auto simp: main_def)
  then obtain r where r: "res = Inr r" "exit_code r = n" by (cases res) auto
  show ?thesis
  proof (cases r)
    case (Err e)
    moreover from this r run have "cmd \<noteq> Profiles path json" for path json
      by (auto simp: profiles_command_def map_right_def split: sum.splits result.splits)
    ultimately show ?thesis using r run by auto
  next
    case (Ok k)
    with r run command_codes [of env cmd w k w'] assms(2,3)
    have "k = 0 \<or> k = 1 \<and> (\<exists>path json e. cmd = Profiles path json \<and> cl_load env path = Inr (Err e))" by blast
    moreover have "k = 1" if "cmd = Profiles path json" "cl_load env path = Inr (Err e)" for path json e
      using that Ok r run by (simp add: profiles_command_def map_right_def)
    ultimately show ?thesis using Ok r run by auto
  qed
qed

end
