(* ===== verification/Client_Openers.thy ===== *)
theory Client_Openers
  imports Downstream_Startup
begin

text \<open>
  The three openers of \<^verbatim>\<open>shell/downstream_clients.py\<close>: a transport and a session are entered one after the
  other on an exit stack, the session is initialized, and whatever fails closes the stack. What the SDK does
  in each phase is an argument. The error text of an opener is cleaned of the configured header values
  (\<open>redact_header_values\<close>), which often are secrets; the lemmas say when that hides them.
\<close>

section \<open>Opening a client\<close>

datatype 'a phase = Entered 'a | PhaseRaises py_exc

datatype open_context = HttpContext | TransportContext | SessionContext

text \<open>How the phases go, and what closing the stack raises.\<close>

record open_phases =
  op_http :: "unit phase"
  op_transport :: "unit phase"
  op_session :: "unit phase"
  op_initialize :: "string option phase"
  op_close :: "py_exc option"

fun enter_contexts :: "(open_context \<times> unit phase) list \<Rightarrow> py_exc option \<times> open_context list" where
  "enter_contexts [] = (None, [])"
| "enter_contexts ((ctx, PhaseRaises exc) # rest) = (Some exc, [])"
| "enter_contexts ((ctx, Entered _) # rest) = (let (failed, entered) = enter_contexts rest in (failed, ctx # entered))"

text \<open>What an opener leaves: its result, the contexts on the stack, and whether the stack was closed.\<close>

record opened =
  on_result :: "py_exc + (string option, string) result"
  on_entered :: "open_context list"
  on_closed :: bool

definition finish_open :: "(string \<Rightarrow> string) \<Rightarrow> open_phases \<Rightarrow> py_exc + string option \<Rightarrow> open_context list \<Rightarrow> opened" where
  "finish_open error_text ph outcome entered =
     (case outcome of
        Inr instructions \<Rightarrow> \<lparr>on_result = Inr (Ok instructions), on_entered = entered, on_closed = False\<rparr>
      | Inl exc \<Rightarrow>
          (case exc of
             CancelledError _ \<Rightarrow> \<lparr>on_result = Inl exc, on_entered = entered, on_closed = True\<rparr>
           | KeyboardInterrupt _ \<Rightarrow> \<lparr>on_result = Inl exc, on_entered = entered, on_closed = False\<rparr>
           | _ \<Rightarrow> \<lparr>on_result = (case op_close ph of Some e \<Rightarrow> Inl e | None \<Rightarrow> Inr (Err (error_text (exc_text exc)))),
                 on_entered = entered, on_closed = True\<rparr>))"

definition open_session ::
    "(string \<Rightarrow> string) \<Rightarrow> (open_context \<times> unit phase) list \<Rightarrow> open_phases \<Rightarrow> opened" where
  "open_session error_text contexts ph =
     (case enter_contexts (contexts @ [(SessionContext, op_session ph)]) of
        (Some exc, entered) \<Rightarrow> finish_open error_text ph (Inl exc) entered
      | (None, entered) \<Rightarrow>
          (case op_initialize ph of
             PhaseRaises exc \<Rightarrow> finish_open error_text ph (Inl exc) entered
           | Entered instructions \<Rightarrow> finish_open error_text ph (Inr instructions) entered))"

definition open_failed :: "string \<Rightarrow> string \<Rightarrow> string \<Rightarrow> string" where
  "open_failed server kind detail =
     ''DOWNSTREAM_CONNECT_FAILED: server '' @ squote server @ '' '' @ kind @ '' connect failed: '' @ detail"

definition missing_field :: "string \<Rightarrow> string \<Rightarrow> opened" where
  "missing_field server field' =
     \<lparr>on_result = Inr (Err (''DOWNSTREAM_CONNECT_FAILED: server '' @ squote server @ '' is missing '' @ field')),
      on_entered = [], on_closed = False\<rparr>"

definition open_stdio_client :: "string \<Rightarrow> server_config \<Rightarrow> open_phases \<Rightarrow> opened" where
  "open_stdio_client server sc ph =
     (if sc_command sc = None then missing_field server ''command''
      else open_session (open_failed server ''stdio'') [(TransportContext, op_transport ph)] ph)"

definition open_sse_client :: "string \<Rightarrow> server_config \<Rightarrow> open_phases \<Rightarrow> opened" where
  "open_sse_client server sc ph =
     (if sc_url sc = None then missing_field server ''url''
      else open_session (\<lambda>t. open_failed server ''sse'' (redact_header_values t (sc_headers sc)))
        [(TransportContext, op_transport ph)] ph)"

definition open_streamable_http_client :: "string \<Rightarrow> server_config \<Rightarrow> open_phases \<Rightarrow> opened" where
  "open_streamable_http_client server sc ph =
     (if sc_url sc = None then missing_field server ''url''
      else open_session (\<lambda>t. open_failed server ''streamable http'' (redact_header_values t (sc_headers sc)))
        ((if sc_headers sc \<noteq> [] then [(HttpContext, op_http ph)] else []) @ [(TransportContext, op_transport ph)]) ph)"

fun run_opener :: "opener \<Rightarrow> string \<Rightarrow> server_config \<Rightarrow> open_phases \<Rightarrow> opened" where
  "run_opener OpenStdio = open_stdio_client"
| "run_opener OpenSse = open_sse_client"
| "run_opener OpenHttp = open_streamable_http_client"


section \<open>The stack is closed\<close>

lemma finish_open_closed:
  "on_closed (finish_open f ph out entered) \<or> (\<exists>i. on_result (finish_open f ph out entered) = Inr (Ok i))
     \<or> (\<exists>exc. on_result (finish_open f ph out entered) = Inl exc \<and> is_interrupt exc)"
  by (auto simp: finish_open_def split: sum.split py_exc.split)

lemma open_session_closed:
  "on_closed (open_session f cs ph) \<or> (\<exists>i. on_result (open_session f cs ph) = Inr (Ok i))
     \<or> (\<exists>exc. on_result (open_session f cs ph) = Inl exc \<and> is_interrupt exc)"
  using finish_open_closed
  by (auto simp: open_session_def split: prod.split option.split phase.split)

definition left_clean :: "opened \<Rightarrow> bool" where
  "left_clean out \<longleftrightarrow> on_closed out \<or> on_entered out = [] \<or> (\<exists>i. on_result out = Inr (Ok i))
     \<or> (\<exists>exc. on_result out = Inl exc \<and> is_interrupt exc)"

lemma left_clean_session: "left_clean (open_session f cs ph)"
  using open_session_closed [of f cs ph] by (auto simp: left_clean_def)

lemma left_clean_opener: "left_clean (run_opener o' server sc ph)"
proof -
  have "left_clean (missing_field server field')" for field' by (simp add: missing_field_def left_clean_def)
  then show ?thesis
    by (cases o') (simp_all add: open_stdio_client_def open_sse_client_def open_streamable_http_client_def
        left_clean_session)
qed

text \<open>An opener that does not return a client leaves nothing open, unless a signal interrupted it.\<close>

theorem openers_leave_nothing_open:
  assumes "\<nexists>i. on_result (run_opener o' server sc ph) = Inr (Ok i)"
    and "\<And>exc. on_result (run_opener o' server sc ph) = Inl exc \<Longrightarrow> \<not> is_interrupt exc"
  shows "on_closed (run_opener o' server sc ph) \<or> on_entered (run_opener o' server sc ph) = []"
  using left_clean_opener [of o' server sc ph] assms by (auto simp: left_clean_def)


section \<open>What redaction hides\<close>

definition redacted_mark :: string where
  "redacted_mark = ''[redacted]''"

lemma redact_header_values_Cons:
  "redact_header_values s ((k, w) # headers)
     = redact_header_values (if w = [] then s else py_replace w redacted_mark s) headers"
  by (simp add: redact_header_values_def redacted_mark_def)

lemma drop_occurrence: "w \<noteq> [] \<Longrightarrow> drop (length w - 1) cs = drop (length w) (c # cs)"
  by (cases w) simp_all

text \<open>A value that no mark can be part of: it has no bracket and is no piece of the word.\<close>

definition unmarked :: "string \<Rightarrow> bool" where
  "unmarked v \<longleftrightarrow> v \<noteq> [] \<and> CHR ''['' \<notin> set v \<and> CHR '']'' \<notin> set v \<and> \<not> contains v ''redacted''"

lemma contains_around:
  assumes "v \<noteq> []" "c \<notin> set v"
  shows "contains v (x @ c # y) \<longleftrightarrow> contains v x \<or> contains v y"
proof (induction x)
  case Nil
  have "\<not> startswith (c # y) v" using assms by (cases v) (auto simp: startswith_def)
  then show ?case using assms(1) by simp
next
  case (Cons d x)
  have "startswith ((d # x) @ c # y) v \<longleftrightarrow> startswith (d # x) v"
  proof
    assume s: "startswith ((d # x) @ c # y) v"
    then obtain t where t: "(d # x) @ c # y = v @ t" by (auto simp: startswith_iff)
    then consider us where "d # x = v @ us" | us where "v = (d # x) @ us" "c # y = us @ t"
      using append_eq_append_conv2 [of "d # x" "c # y" v t] by metis
    then show "startswith (d # x) v"
    proof cases
      case (2 us)
      then have "us = []" using assms(2) by (cases us) auto
      with 2 show ?thesis by (auto simp: startswith_iff)
    qed (auto simp: startswith_iff)
  next
    assume "startswith (d # x) v"
    then obtain us where "d # x = v @ us" by (auto simp: startswith_iff)
    then have "(d # x) @ c # y = v @ us @ c # y" by simp
    then show "startswith ((d # x) @ c # y) v" unfolding startswith_iff by blast
  qed
  with Cons show ?case by simp
qed

lemma contains_around_mark:
  assumes "unmarked v"
  shows "contains v (x @ redacted_mark @ y) \<longleftrightarrow> contains v x \<or> contains v y"
proof -
  have split: "x @ redacted_mark @ y = x @ CHR ''['' # (''redacted'' @ CHR '']'' # y)" by (simp add: redacted_mark_def)
  have v: "v \<noteq> []" "CHR ''['' \<notin> set v" "CHR '']'' \<notin> set v" "\<not> contains v ''redacted''"
    using assms unfolding unmarked_def by blast+
  show ?thesis
    unfolding split contains_around [OF v(1,2)] contains_around [OF v(1,3)] using v(4) by blast
qed

lemma contains_append_left: "contains v x \<Longrightarrow> contains v (x @ y)"
  unfolding contains_iff by (metis append_assoc)

lemma contains_append_right: "contains v y \<Longrightarrow> contains v (x @ y)"
  unfolding contains_iff by (metis append_assoc)

lemma replace_keeps_absent:
  assumes "unmarked v" and "w \<noteq> []" and "\<not> contains v (a @ s)"
  shows "\<not> contains v (a @ py_replace w redacted_mark s)"
  using assms(3)
proof (induction "length s" arbitrary: a s rule: less_induct)
  case less
  show ?case
  proof (cases s)
    case (Cons c cs)
    show ?thesis
    proof (cases "startswith s w")
      case True
      then obtain t where s: "s = w @ t" by (auto simp: startswith_iff)
      then have drop: "drop (length w - 1) cs = t" using Cons drop_occurrence [OF assms(2), of cs c] by simp
      have "length t < length s" using s assms(2) by (cases w) auto
      then have "\<not> contains v ([] @ py_replace w redacted_mark t)"
        using less.prems s by (intro less.hyps) (auto dest: contains_append_right [of v t "a @ w"])
      moreover have "\<not> contains v a" using less.prems contains_append_left by blast
      ultimately have "\<not> contains v (a @ redacted_mark @ py_replace w redacted_mark t)"
        by (simp only: contains_around_mark [OF assms(1)]) simp
      then show ?thesis using True Cons drop by simp
    next
      case False
      have "\<not> contains v ((a @ [c]) @ py_replace w redacted_mark cs)"
        using less.prems Cons by (intro less.hyps) simp_all
      then show ?thesis using False Cons by simp
    qed
  qed (use less.prems in simp)
qed

lemma replace_removes:
  assumes "unmarked w" and "\<And>i. i < length a \<Longrightarrow> \<not> startswith (drop i (a @ s)) w"
  shows "\<not> contains w (a @ py_replace w redacted_mark s)"
  using assms(2)
proof (induction "length s" arbitrary: a s rule: less_induct)
  case less
  have ne: "w \<noteq> []" using assms(1) by (simp add: unmarked_def)
  have a: "\<not> contains w a"
  proof
    assume "contains w a"
    then obtain x y where "a = x @ w @ y" by (auto simp: contains_iff)
    then have "length x < length a" "startswith (drop (length x) (a @ s)) w" using ne by (auto simp: startswith_iff)
    then show False using less.prems by blast
  qed
  show ?case
  proof (cases s)
    case (Cons c cs)
    show ?thesis
    proof (cases "startswith s w")
      case True
      let ?t = "drop (length w - 1) cs"
      have "length ?t < length s" using Cons by simp
      then have "\<not> contains w ([] @ py_replace w redacted_mark ?t)" by (intro less.hyps) simp_all
      then have "\<not> contains w (a @ redacted_mark @ py_replace w redacted_mark ?t)"
        using a by (simp only: contains_around_mark [OF assms(1)]) simp
      then show ?thesis using True Cons by simp
    next
      case False
      have "\<not> contains w ((a @ [c]) @ py_replace w redacted_mark cs)"
      proof (rule less.hyps)
        fix i assume "i < length (a @ [c])"
        then consider "i < length a" | "i = length a" by (auto simp: less_Suc_eq)
        then show "\<not> startswith (drop i ((a @ [c]) @ cs)) w"
          using less.prems [of i] False Cons by cases simp_all
      qed (simp add: Cons)
      then show ?thesis using False Cons by simp
    qed
  qed (use a in simp)
qed

lemma redact_keeps_absent:
  "unmarked v \<Longrightarrow> \<not> contains v s \<Longrightarrow> \<not> contains v (redact_header_values s headers)"
proof (induction headers arbitrary: s)
  case (Cons h headers)
  obtain k w where h: "h = (k, w)" by fastforce
  have "\<not> contains v (if w = [] then s else py_replace w redacted_mark s)"
    using Cons.prems replace_keeps_absent [of v w "[]" s] by simp
  from Cons.IH [OF Cons.prems(1) this] show ?case by (simp add: redact_header_values_Cons h)
qed (simp add: redact_header_values_def)

text \<open>The error text of an opener contains no header value of the configuration, as long as the value cannot
  be mistaken for a piece of the mark that replaces it. It says nothing about parts of a value: see
  \<open>redaction_order\<close>.\<close>

theorem redaction_hides_values:
  assumes "(name, v) \<in> set headers" and "unmarked v"
  shows "\<not> contains v (redact_header_values message headers)"
  using assms(1)
proof (induction headers arbitrary: message)
  case (Cons h headers)
  obtain k w where h: "h = (k, w)" by fastforce
  show ?case
  proof (cases "(name, v) \<in> set headers")
    case True
    from Cons.IH [OF this] show ?thesis by (simp add: redact_header_values_Cons h)
  next
    case False
    then have "w = v" using Cons.prems h by simp
    then have "\<not> contains v (if w = [] then message else py_replace w redacted_mark message)"
      using replace_removes [OF assms(2), of "[]" message] assms(2) by (simp add: unmarked_def)
    from redact_keeps_absent [OF assms(2) this] show ?thesis by (simp add: redact_header_values_Cons h)
  qed
qed simp

lemma redaction_hides_witness:
  "\<not> contains ''s3cret'' (redact_header_values ''401 for s3cret'' [(''Authorization'', ''s3cret'')])"
proof -
  have "unmarked ''s3cret''" by code_simp
  then show ?thesis by (intro redaction_hides_values [of "''Authorization''"]) simp_all
qed

end
