(* ===== verification/Admission.thy ===== *)
theory Admission
  imports Http_Routes Bridge_Outcomes
begin

text \<open>
  The refusal of MCP requests by a gateway that is still warming, from one end to the other: the contract of
  \<^verbatim>\<open>shell/mcp_admission_contract.py\<close>, the answers that the middleware of \<^verbatim>\<open>shell/http_auth.py\<close> sends, and what
  the bridge makes of them (Bridge_Http, Bridge_Forwarding). The server and the client library between the two
  are the relation \<open>delivers\<close>: what was sent arrives.
\<close>


section \<open>The contract\<close>

record retry_contract =
  ma_authorized :: bool
  ma_basis :: string
  ma_expectation :: string

record transient_503 =
  mt_error :: string
  mt_code :: string
  mt_transient :: bool
  mt_retry :: retry_contract
  mt_gateway_state :: string

text \<open>The \<^verbatim>\<open>Literal\<close> types of the fields.\<close>

definition wf_transient_503 :: "transient_503 \<Rightarrow> bool" where
  "wf_transient_503 p \<longleftrightarrow>
     mt_code p = ''ADMISSION_REJECTED_WARMING'' \<and> mt_transient p \<and> mt_gateway_state p = ''warming''
     \<and> ma_authorized (mt_retry p) \<and> ma_basis (mt_retry p) = ''gateway_signal''
     \<and> ma_expectation (mt_retry p) = ''bounded''"

definition json_of_503 :: "transient_503 \<Rightarrow> json" where
  "json_of_503 p = JDict
     [(''error'', JStr (mt_error p)), (''code'', JStr (mt_code p)), (''transient'', JBool (mt_transient p)),
      (''retry'', JDict [(''authorized'', JBool (ma_authorized (mt_retry p))), (''basis'', JStr (ma_basis (mt_retry p))),
        (''expectation'', JStr (ma_expectation (mt_retry p)))]),
      (''gateway_state'', JStr (mt_gateway_state p))]"


section \<open>The answers of the middleware\<close>

datatype asgi_message = ResponseStart int "(string \<times> string) list" | ResponseBody string

definition auth_error_body :: string where
  "auth_error_body =
     dumps_default (JDict [(''error'', JStr ''AUTH_INVALID_TOKEN: bearer token validation failed'')])"

definition mcp_warming_error_payload :: transient_503 where
  "mcp_warming_error_payload =
     \<lparr>mt_error = ''ADMISSION_REJECTED_WARMING: gateway not ready for MCP admission'',
      mt_code = ''ADMISSION_REJECTED_WARMING'', mt_transient = True,
      mt_retry = \<lparr>ma_authorized = True, ma_basis = ''gateway_signal'', ma_expectation = ''bounded''\<rparr>,
      mt_gateway_state = ''warming''\<rparr>"

definition mcp_warming_error_body :: string where
  "mcp_warming_error_body = dumps_default (json_of_503 mcp_warming_error_payload)"

definition json_headers :: "string \<Rightarrow> (string \<times> string) list" where
  "json_headers body = [(''content-type'', ''application/json''), (''content-length'', show_nat (length body))]"

definition send_401 :: "asgi_message list" where
  "send_401 = [ResponseStart 401 (json_headers auth_error_body), ResponseBody auth_error_body]"

definition send_503_mcp_warming :: "asgi_message list" where
  "send_503_mcp_warming =
     [ResponseStart 503 (json_headers mcp_warming_error_body), ResponseBody mcp_warming_error_body]"

text \<open>What the middleware sends itself; nothing if it hands the request to the application.\<close>

fun middleware_reply :: "middleware_action \<Rightarrow> asgi_message list option" where
  "middleware_reply Forward = None"
| "middleware_reply Send401 = Some send_401"
| "middleware_reply Send503Warming = Some send_503_mcp_warming"


section \<open>Recognition\<close>

text \<open>An exchange that ends with the sent status and body.\<close>

fun delivers :: "asgi_message list \<Rightarrow> http_exchange \<Rightarrow> bool" where
  "delivers [ResponseStart status headers, ResponseBody body] hx =
     (hx_connect_error hx = None \<and> hx_headers_error hx = None \<and> hx_send_error hx = None
      \<and> hx_response_error hx = None \<and> hx_read_error hx = None \<and> hx_status hx = status \<and> hx_body hx = body)"
| "delivers _ hx = False"

lemma payload_wf: "wf_transient_503 mcp_warming_error_payload"
  by (simp add: wf_transient_503_def mcp_warming_error_payload_def)

lemma contract_recognized:
  assumes "wf_transient_503 p" and "loads body = Some (json_of_503 p)"
  shows "is_mcp_transient_warming_body loads body"
  using assms
  by (simp add: is_mcp_transient_warming_body_def wf_transient_503_def json_of_503_def decoded_object_def)

text \<open>A 503 that carries an error text only, as the routes of the gateway send it, is not taken for one.\<close>

lemma plain_error_not_recognized:
  "loads body = Some (JDict [(''error'', e)]) \<Longrightarrow> \<not> is_mcp_transient_warming_body loads body"
  by (simp add: is_mcp_transient_warming_body_def decoded_object_def)

lemma delivered_outcome:
  "delivers [ResponseStart status headers, ResponseBody body] hx \<Longrightarrow> status < 200 \<or> 299 < status
   \<Longrightarrow> http_outcome is_retryable response_t session_id payload hx = Err (status_error is_retryable session_id hx)"
  by (auto simp: http_outcome_def)

lemma warming_exchange_again:
  assumes "is_retryable (hx_body hx)" and "hx_status hx = 503"
  shows "on_http_error policy is_notification (status_error is_retryable session_id hx) = RecoverAndReplay"
proof -
  have "he_message (status_error is_retryable session_id hx) = ''HTTP_'' @ show_int 503 @ '': gateway warming''"
    using assms by (simp add: status_error_def Let_def)
  moreover have "\<not> startswith (''HTTP_'' @ show_int 503 @ '': gateway warming'') ''MCP_REQUEST_TIMEOUT''" by simp
  moreover have "he_mcp_admitted (status_error is_retryable session_id hx) = Some False"
    using assms by (simp add: status_error_def Let_def)
  ultimately show ?thesis by (simp add: on_http_error_def or_text_def Let_def)
qed

lemma unauthorized_exchange_fails:
  assumes "hx_status hx = 401"
  shows "on_http_error policy is_notification (status_error is_retryable session_id hx) =
    GiveUp (''MCP_FORWARD_FAILED: http 401'' @ (if hx_reason hx = [] then [] else '' '' @ hx_reason hx))"
proof -
  have "show_int 401 = ''401''" by code_simp
  with assms show ?thesis by (simp add: status_error_def on_http_error_def or_text_def Let_def)
qed

lemma refusal_reasons:
  assumes "bearer_auth_middleware scope g = Inr action"
  shows "action = Forward
    \<or> action = Send503Warming \<and> sc_method scope = Some ''POST'' \<and> sc_path scope = Some ''/mcp''
      \<and> (\<exists>token expected. gr_bearer_token (gs_runtime g) = Some expected \<and> bearer_of_scope scope = Some token
           \<and> validate_bearer_token token expected = Inr (Ok ()))
    \<or> action = Send401 \<and> \<not> (\<exists>token expected. gr_bearer_token (gs_runtime g) = Some expected
           \<and> bearer_of_scope scope = Some token \<and> validate_bearer_token token expected = Inr (Ok ()))"
  using assms by (auto simp: bearer_auth_middleware_def split: if_splits option.splits sum.splits result.splits)

text \<open>C17: What the bridge does when the gateway refused to hand a request to its application: a request that came
  too early was not executed, and is sent again whatever it asks for; one whose token was refused is
  answered with an error.\<close>

theorem refused_requests_are_judged:
  assumes "bearer_auth_middleware scope g = Inr action"
    and "middleware_reply action = Some messages"
    and "delivers messages hx"
    and "be_loads env mcp_warming_error_body = Some (json_of_503 mcp_warming_error_payload)"
  shows "judge_post env policy is_notification url token session
      (http_outcome (is_mcp_transient_warming_body (be_loads env)) response_t session_id payload hx) =
    (if sc_method scope = Some ''POST'' \<and> sc_path scope = Some ''/mcp''
        \<and> (\<exists>token expected. gr_bearer_token (gs_runtime g) = Some expected \<and> bearer_of_scope scope = Some token
             \<and> validate_bearer_token token expected = Inr (Ok ()))
     then Again
     else Settled (Err (''MCP_FORWARD_FAILED: http 401''
            @ (if hx_reason hx = [] then [] else '' '' @ hx_reason hx))))"
proof -
  let ?valid = "sc_method scope = Some ''POST'' \<and> sc_path scope = Some ''/mcp''
    \<and> (\<exists>token expected. gr_bearer_token (gs_runtime g) = Some expected \<and> bearer_of_scope scope = Some token
         \<and> validate_bearer_token token expected = Inr (Ok ()))"
  have cases: "?valid \<and> action = Send503Warming \<or> \<not> ?valid \<and> action = Send401"
    using refusal_reasons [OF assms(1)] assms(2) by (cases action) auto
  then show ?thesis
  proof
    assume warming: "?valid \<and> action = Send503Warming"
    then have sent: "delivers send_503_mcp_warming hx" using assms(2,3) by simp
    then have body: "hx_body hx = mcp_warming_error_body" "hx_status hx = 503"
      by (simp_all add: send_503_mcp_warming_def)
    have "is_mcp_transient_warming_body (be_loads env) (hx_body hx)"
      unfolding body by (rule contract_recognized, rule payload_wf, rule assms(4))
    from warming_exchange_again [of "is_mcp_transient_warming_body (be_loads env)", OF this body(2)]
      delivered_outcome [OF sent [unfolded send_503_mcp_warming_def]] warming
    show ?thesis by (simp add: judge_post_def)
  next
    assume refused: "\<not> ?valid \<and> action = Send401"
    then have sent: "delivers send_401 hx" using assms(2,3) by simp
    then have "hx_status hx = 401" by (simp add: send_401_def)
    from unauthorized_exchange_fails [OF this] delivered_outcome [OF sent [unfolded send_401_def]] refused
    show ?thesis by (simp add: judge_post_def)
  qed
qed

definition warming_gateway :: gateway where
  "warming_gateway = initial_gateway\<lparr>gs_runtime := initial_runtime\<lparr>gr_config := Some (config_with two_servers),
     gr_running := True, gr_bearer_token := Some ''secret''\<rparr>\<rparr>"

definition early_call :: http_scope where
  "early_call = \<lparr>sc_type = ''http'', sc_method = Some ''POST'', sc_path = Some ''/mcp'',
     sc_headers = [(''authorization'', ''Bearer secret'')]\<rparr>"

definition refused_exchange_503 :: http_exchange where
  "refused_exchange_503 = \<lparr>hx_connect_error = None, hx_headers_error = None, hx_send_error = None,
     hx_response_error = None, hx_read_error = None, hx_status = 503, hx_reason = ''Service Unavailable'',
     hx_content_type = ''application/json'', hx_session = None, hx_body = mcp_warming_error_body\<rparr>"

definition admission_env :: "nat bridge_env" where
  "admission_env = silent_env\<lparr>be_loads :=
     (\<lambda>body. if body = mcp_warming_error_body then Some (json_of_503 mcp_warming_error_payload) else None)\<rparr>"

lemma refused_requests_witness:
  "judge_post admission_env Unsafe False ''u'' ''t'' None
     (http_outcome (is_mcp_transient_warming_body (be_loads admission_env)) None None ''call'' refused_exchange_503) = Again"
proof -
  have "bearer_auth_middleware early_call warming_gateway = Inr Send503Warming" by code_simp
  moreover have "delivers send_503_mcp_warming refused_exchange_503"
    by (simp add: send_503_mcp_warming_def refused_exchange_503_def)
  moreover have "be_loads admission_env mcp_warming_error_body = Some (json_of_503 mcp_warming_error_payload)"
    by (simp add: admission_env_def)
  moreover have "bearer_of_scope early_call = Some ''secret''" "validate_bearer_token ''secret'' ''secret'' = Inr (Ok ())"
    "gr_bearer_token (gs_runtime warming_gateway) = Some ''secret''" by code_simp+
  ultimately show ?thesis
    using refused_requests_are_judged [of early_call warming_gateway Send503Warming send_503_mcp_warming
        refused_exchange_503 admission_env Unsafe False "''u''" "''t''" None None None "''call''"]
    by (simp add: early_call_def)
qed

end
