(* ===== verification/Reaper_Task.thy ===== *)
theory Reaper_Task
  imports Connection_Lifecycle
begin

text \<open>
  The background task around the sweeps of \<^verbatim>\<open>shell/connection_reaper.py\<close>: \<^verbatim>\<open>start\<close>, \<^verbatim>\<open>stop\<close> and the loop. The
  object keeps a flag and a handle of its task; the tasks that are alive are kept beside it by number. A call
  of \<^verbatim>\<open>stop\<close> waits for the task that it cancelled, so it is two steps, and whatever runs between them is
  another step. The parameter \<open>exclusive\<close> says that nobody starts or stops the reaper while a \<^verbatim>\<open>stop\<close> waits,
  as in the gateway, which starts it in its startup and stops it in its shutdown.
\<close>

record reaper_task =
  rx_running :: bool
  rx_handle :: "nat option"
  rx_loops :: "nat list"
  rx_cancelled :: "nat set"
  rx_waiting :: "nat list"
  rx_next :: nat

definition new_reaper_task :: reaper_task where
  "new_reaper_task = \<lparr>rx_running = False, rx_handle = None, rx_loops = [], rx_cancelled = {}, rx_waiting = [], rx_next = 0\<rparr>"

definition reaper_start :: "reaper_task \<Rightarrow> reaper_task" where
  "reaper_start rx =
     (if rx_running rx then rx
      else rx\<lparr>rx_running := True, rx_handle := Some (rx_next rx), rx_loops := rx_loops rx @ [rx_next rx],
             rx_next := Suc (rx_next rx)\<rparr>)"

text \<open>The part of \<^verbatim>\<open>stop\<close> before it waits, and the part after the task that it waits for has ended.\<close>

definition reaper_stop :: "reaper_task \<Rightarrow> reaper_task" where
  "reaper_stop rx =
     (if \<not> rx_running rx then rx
      else (case rx_handle rx of
              None \<Rightarrow> rx\<lparr>rx_running := False\<rparr>
            | Some t \<Rightarrow> rx\<lparr>rx_running := False, rx_cancelled := insert t (rx_cancelled rx),
                         rx_waiting := rx_waiting rx @ [t]\<rparr>))"

definition reaper_stopped :: "nat \<Rightarrow> reaper_task \<Rightarrow> reaper_task" where
  "reaper_stopped t rx = rx\<lparr>rx_handle := None, rx_waiting := remove1 t (rx_waiting rx)\<rparr>"

text \<open>A loop wakes: it sweeps and sleeps again while the reaper runs; it ends when it was cancelled or the
  reaper was stopped.\<close>

definition loop_wakes :: "reaper \<Rightarrow> datetime \<Rightarrow> nat \<Rightarrow> reaper_task \<times> gateway_state \<Rightarrow> reaper_task \<times> gateway_state" where
  "loop_wakes rc now t = (\<lambda>(rx, gs).
     if t \<in> rx_cancelled rx \<or> \<not> rx_running rx then (rx\<lparr>rx_loops := remove1 t (rx_loops rx)\<rparr>, gs)
     else (rx, fst (sweep rc now gs)))"

inductive reaper_step :: "bool \<Rightarrow> reaper \<Rightarrow> reaper_task \<times> gateway_state \<Rightarrow> reaper_task \<times> gateway_state \<Rightarrow> bool"
  for exclusive :: bool and rc :: reaper where
  Started: "exclusive \<longrightarrow> rx_waiting rx = [] \<Longrightarrow> reaper_step exclusive rc (rx, gs) (reaper_start rx, gs)"
| StopBegins: "exclusive \<longrightarrow> rx_waiting rx = [] \<Longrightarrow> reaper_step exclusive rc (rx, gs) (reaper_stop rx, gs)"
| StopEnds: "t \<in> set (rx_waiting rx) \<Longrightarrow> t \<notin> set (rx_loops rx) \<Longrightarrow>
    reaper_step exclusive rc (rx, gs) (reaper_stopped t rx, gs)"
| Woken: "t \<in> set (rx_loops rx) \<Longrightarrow> reaper_step exclusive rc (rx, gs) (loop_wakes rc now t (rx, gs))"
| Served: "reaper_step exclusive rc (rx, gs) (rx, gs')"


section \<open>One loop at a time\<close>

text \<open>The invariant: the running reaper has exactly the loop of its handle, which nobody cancelled; a stopped
  one has at most the loop that a \<^verbatim>\<open>stop\<close> waits for.\<close>

definition wf_reaper :: "reaper_task \<Rightarrow> bool" where
  "wf_reaper rx \<longleftrightarrow>
     (\<forall>t \<in> rx_cancelled rx. t < rx_next rx)
     \<and> (if rx_running rx then rx_waiting rx = []
          \<and> (\<exists>t. rx_handle rx = Some t \<and> rx_loops rx = [t] \<and> t \<notin> rx_cancelled rx \<and> t < rx_next rx)
        else (rx_waiting rx = [] \<and> rx_loops rx = [])
          \<or> (\<exists>t. rx_waiting rx = [t] \<and> rx_loops rx \<in> {[], [t]} \<and> t < rx_next rx))"

lemma wf_new_reaper: "wf_reaper new_reaper_task"
  by (simp add: wf_reaper_def new_reaper_task_def)

lemma wf_start: "wf_reaper rx \<Longrightarrow> rx_waiting rx = [] \<Longrightarrow> wf_reaper (reaper_start rx)"
  by (auto simp: wf_reaper_def reaper_start_def less_SucI)

lemma wf_stop: "wf_reaper rx \<Longrightarrow> wf_reaper (reaper_stop rx)"
  by (auto simp: wf_reaper_def reaper_stop_def split: option.split)

lemma wf_stopped: "wf_reaper rx \<Longrightarrow> t \<in> set (rx_waiting rx) \<Longrightarrow> t \<notin> set (rx_loops rx) \<Longrightarrow> wf_reaper (reaper_stopped t rx)"
  by (auto simp: wf_reaper_def reaper_stopped_def split: if_splits)

lemma wf_wakes: "wf_reaper rx \<Longrightarrow> t \<in> set (rx_loops rx) \<Longrightarrow> wf_reaper (fst (loop_wakes rc now t (rx, gs)))"
  by (auto simp: wf_reaper_def loop_wakes_def split: if_splits)

lemma wf_step: "reaper_step True rc s s' \<Longrightarrow> wf_reaper (fst s) \<Longrightarrow> wf_reaper (fst s')"
  by (induction rule: reaper_step.induct) (simp_all add: wf_start wf_stop wf_stopped wf_wakes)

lemma wf_steps: "(reaper_step True rc)\<^sup>*\<^sup>* s s' \<Longrightarrow> wf_reaper (fst s) \<Longrightarrow> wf_reaper (fst s')"
  by (induction rule: rtranclp_induct) (auto dest: wf_step)

text \<open>A reaper that is started and stopped by one caller at a time has exactly one sweeping loop while it runs, so
  the next wake-up sweeps; after its last \<^verbatim>\<open>stop\<close> returned there is none, and until a new start no sweep
  removes a connection.\<close>

theorem reaper_has_one_loop:
  assumes "(reaper_step True rc)\<^sup>*\<^sup>* (new_reaper_task, gs) (rx, gs')"
  shows "if rx_running rx
     then \<exists>t. rx_loops rx = [t] \<and> rx_handle rx = Some t \<and> (\<forall>now. loop_wakes rc now t (rx, gs') = (rx, fst (sweep rc now gs')))
     else length (rx_loops rx) \<le> 1 \<and> (rx_waiting rx = [] \<longrightarrow> rx_loops rx = [])
       \<and> (\<forall>t now. snd (loop_wakes rc now t (rx, gs')) = gs')"
  using wf_steps [OF assms] wf_new_reaper
  by (auto simp: wf_reaper_def loop_wakes_def split: if_splits)

lemma reaper_has_one_loop_witness:
  "(let rx = reaper_start new_reaper_task in rx_loops rx = [0] \<and> rx_handle rx = Some 0)"
proof -
  let ?rc = "\<lparr>rc_policy = default_reaper_policy, rc_use_runtime_config = False\<rparr>"
  have "(reaper_step True ?rc)\<^sup>*\<^sup>* (new_reaper_task, gs) (reaper_start new_reaper_task, gs)" for gs
    by (rule r_into_rtranclp, rule Started) (simp add: new_reaper_task_def)
  from reaper_has_one_loop [OF this] show ?thesis by (simp add: reaper_start_def new_reaper_task_def)
qed

text \<open>When a start overlaps a waiting \<^verbatim>\<open>stop\<close>, the \<^verbatim>\<open>stop\<close> forgets the handle of the new loop; a further stop and
  start leave two loops that both sweep.\<close>

definition overlapping_starts :: reaper_task where
  "overlapping_starts =
     (let begun = reaper_start (reaper_stop (reaper_start new_reaper_task));
          ended = reaper_stopped 0 (begun\<lparr>rx_loops := remove1 0 (rx_loops begun)\<rparr>)
      in reaper_start (reaper_stop ended))"

lemma overlapping_starts_value:
  "overlapping_starts = \<lparr>rx_running = True, rx_handle = Some 2, rx_loops = [1, 2], rx_cancelled = {0}, rx_waiting = [],
     rx_next = 3\<rparr>"
  by (simp add: overlapping_starts_def new_reaper_task_def reaper_start_def reaper_stop_def reaper_stopped_def Let_def)

theorem overlapping_starts_leave_two_loops:
  "\<exists>rx. (reaper_step False rc)\<^sup>*\<^sup>* (new_reaper_task, gs) (rx, gs) \<and> rx_running rx \<and> rx_loops rx = [1, 2]
     \<and> (\<forall>t \<in> {1, 2}. \<forall>now. loop_wakes rc now t (rx, gs) = (rx, fst (sweep rc now gs)))"
proof -
  let ?a = "reaper_start new_reaper_task" let ?b = "reaper_stop ?a" let ?c = "reaper_start ?b"
  let ?d = "?c\<lparr>rx_loops := remove1 0 (rx_loops ?c)\<rparr>" let ?e = "reaper_stopped 0 ?d"
  note defs = new_reaper_task_def reaper_start_def reaper_stop_def reaper_stopped_def
  have wakes: "loop_wakes rc now 0 (?c, gs) = (?d, gs)" for now by (simp add: loop_wakes_def defs)
  have "reaper_step False rc (?c, gs) (loop_wakes rc now 0 (?c, gs))" for now by (rule Woken) (simp add: defs)
  then have "reaper_step False rc (?c, gs) (?d, gs)" unfolding wakes .
  moreover have "reaper_step False rc (?d, gs) (?e, gs)" by (rule StopEnds) (simp_all add: defs)
  moreover have "reaper_step False rc (rx, gs) (reaper_start rx, gs)" "reaper_step False rc (rx, gs) (reaper_stop rx, gs)" for rx
    by (rule Started, simp, rule StopBegins, simp)
  ultimately have "(reaper_step False rc)\<^sup>*\<^sup>* (new_reaper_task, gs) (overlapping_starts, gs)"
    unfolding overlapping_starts_def Let_def
    by (meson converse_rtranclp_into_rtranclp rtranclp.rtrancl_refl)
  then show ?thesis by (intro exI [of _ overlapping_starts]) (simp add: overlapping_starts_value loop_wakes_def)
qed

end
