(* ===== verification/Contracts.thy ===== *)
theory Contracts
  imports Token Enforcement Family Bridge_Protocol Operator_Status Gateway
begin

text \<open>
  The decorators of \<^verbatim>\<open>core/contracts.py\<close>. A precondition is checked on the arguments before the function is
  called, a postcondition on its result; a check that fails raises \<^verbatim>\<open>AssertionError\<close>. The checks that only
  concern types hold by the types of the model and are left out here as there.

  The models of decorated functions check their contracts themselves. The locale \<open>contracted\<close> is what makes
  such a model a decorated function: decorating it again changes nothing. In \<open>fulfilled\<close> the function keeps its
  promise as well: its postcondition never fails. Both are interpreted on the functions of the core whose
  contracts say more than a type.
\<close>


section \<open>The decorators\<close>

definition pre_failed :: "string \<Rightarrow> py_exc" where
  "pre_failed name = AssertionError (''Precondition failed for '' @ name)"

definition post_failed :: "string \<Rightarrow> py_exc" where
  "post_failed name = AssertionError (''Postcondition failed for '' @ name)"

definition pre :: "('a \<Rightarrow> bool) \<Rightarrow> string \<Rightarrow> ('a \<Rightarrow> py_exc + 'b) \<Rightarrow> 'a \<Rightarrow> py_exc + 'b" where
  "pre predicate name func = (\<lambda>x. if predicate x then func x else Inl (pre_failed name))"

definition post :: "('b \<Rightarrow> bool) \<Rightarrow> string \<Rightarrow> ('a \<Rightarrow> py_exc + 'b) \<Rightarrow> 'a \<Rightarrow> py_exc + 'b" where
  "post predicate name func = (\<lambda>x. case func x of
       Inl exc \<Rightarrow> Inl exc
     | Inr y \<Rightarrow> if predicate y then Inr y else Inl (post_failed name))"

lemma failed_distinct [simp]: "pre_failed name \<noteq> post_failed name'"
  by (simp add: pre_failed_def post_failed_def)

text \<open>The order of the decorators: the outer precondition is checked before everything else.\<close>

lemma pre_post_outcomes:
  "pre P name (post Q name f) x =
     (if \<not> P x then Inl (pre_failed name)
      else (case f x of Inl exc \<Rightarrow> Inl exc | Inr y \<Rightarrow> if Q y then Inr y else Inl (post_failed name)))"
  by (simp add: pre_def post_def)

locale contracted =
  fixes f :: "'a \<Rightarrow> py_exc + 'b" and name :: string and P :: "'a \<Rightarrow> bool" and Q :: "'b \<Rightarrow> bool"
  assumes refuses: "\<not> P x \<Longrightarrow> f x = Inl (pre_failed name)"
    and ensures: "f x = Inr y \<Longrightarrow> Q y"
begin

lemma decorated: "pre P name (post Q name f) = f"
proof
  fix x
  show "pre P name (post Q name f) x = f x"
    using refuses [of x] ensures [of x] by (simp add: pre_post_outcomes split: sum.split)
qed

lemma returns: "f x = Inr y \<Longrightarrow> P x \<and> Q y"
  using refuses [of x] ensures [of x y] by fastforce

end

locale fulfilled = contracted +
  assumes keeps: "P x \<Longrightarrow> f x \<noteq> Inl (post_failed name)"
begin

lemma never_fails_post: "f x \<noteq> Inl (post_failed name)"
  using keeps [of x] refuses [of x] by (cases "P x") simp_all

end


section \<open>Functions that fulfil their contracts\<close>

definition headers_promised :: "(string, string) dict \<Rightarrow> bool" where
  "headers_promised h \<longleftrightarrow>
     startswith (case dget h ''Authorization'' of Some v \<Rightarrow> v | None \<Rightarrow> []) ''Bearer ''
     \<and> dget h ''Content-Type'' = Some ''application/json''
     \<and> dget h ''Accept'' = Some ''application/json, text/event-stream''
     \<and> has_key h ''Content-Length'' \<and> \<not> has_key h ''X-Tela-Session-Id''"

interpretation headers: fulfilled "\<lambda>(token, n, s). bridge_http_headers token n s" "''bridge_http_headers''"
    "\<lambda>(token, n, s). token \<noteq> [] \<and> 0 \<le> n" headers_promised
  by unfold_locales
    (auto simp: bridge_http_headers_def pre_failed_def post_failed_def headers_promised_def has_key_def
      split: if_splits option.splits)

interpretation enforcement: fulfilled "\<lambda>(n, t, p, r, d). enforce n t p r d" "''enforce''"
    "\<lambda>(n, t, p, r, d). n \<noteq> [] \<and> er_verdict r = ALLOW" "\<lambda>_. True"
  by unfold_locales
    (auto simp: enforce_def check_family_admission_def check_tool_override_def pre_failed_def post_failed_def
      split: if_splits option.splits sum.splits verdict.splits)

definition explanation_promised :: "explanation \<Rightarrow> bool" where
  "explanation_promised ex \<longleftrightarrow> ex_hidden ex \<noteq> ex_visible ex"

lemma denied_promised:
  "\<not> ex_visible (authorization_explain_denied r stage) \<and> ex_hidden (authorization_explain_denied r stage)
   \<and> \<not> ex_allowed (authorization_explain_denied r stage) \<and> ex_denied (authorization_explain_denied r stage)"
  by (simp add: authorization_explain_denied_def Let_def)

interpretation explain: fulfilled "\<lambda>(n, t, p, r, d). explain_authorization n t p r d" "''explain_authorization''"
    "\<lambda>(n, t, p, r, d). n \<noteq> []" explanation_promised
  by unfold_locales
    (auto simp: explain_authorization_def check_family_admission_def check_tool_override_def pre_failed_def
      post_failed_def explanation_promised_def denied_promised explain_allowed_def Let_def
      split: if_splits option.splits sum.splits verdict.splits)

interpretation signing: fulfilled "\<lambda>(payload, secret). compute_signature payload secret" "''compute_signature''"
    "\<lambda>(payload, secret). secret \<noteq> []" "\<lambda>s. s \<noteq> []"
proof (unfold_locales, goal_cases)
  case (2 x y)
  then have "length y = 64" by (auto simp: compute_signature_def split: if_splits prod.splits)
  then show ?case by auto
qed (auto simp: compute_signature_def pre_failed_def post_failed_def split: if_splits)

interpretation recommendation: fulfilled "\<lambda>(s, r). make_status_recommendation s r" "''make_status_recommendation''"
    "\<lambda>(s, r). s \<in> runtime_states \<and> r \<in> recoverability_states" "\<lambda>text. text \<noteq> []"
  by unfold_locales (auto simp: make_status_recommendation_def pre_failed_def post_failed_def split: if_splits)

interpretation recovery_state: fulfilled "\<lambda>(s, e, b). classify_status_recoverability s e b"
    "''classify_status_recoverability''" "\<lambda>(s, e, b). s \<in> runtime_states" "\<lambda>r. r \<in> recoverability_states"
  by unfold_locales
    (auto simp: classify_status_recoverability_def recoverability_states_def pre_failed_def post_failed_def split: if_splits)

text \<open>Every message of the configuration check has a text.\<close>

lemma nonempty_server_errors: "[] \<notin> set (server_errors entry)"
  by (cases entry) (auto simp: server_errors_def transport_errors_def prefix_errors_def Let_def split: option.split)

lemma resolve_open_mode_raises:
  "resolve_open_mode_default_profile profiles cli = Inl (config_exc.Raised e) \<Longrightarrow>
     e \<in> {pre_failed ''resolve_open_mode_default_profile'', post_failed ''resolve_open_mode_default_profile''}"
  by (auto simp: resolve_open_mode_default_profile_def nonempty_name_def pre_failed_def post_failed_def
      split: if_splits option.splits list.splits)

lemma open_mode_errors_raises: "open_mode_errors config cli = Inl e \<Longrightarrow> e \<noteq> post_failed ''validate_config''"
  using resolve_open_mode_raises [of "tc_profiles config" cli]
  by (auto simp: open_mode_errors_def pre_failed_def post_failed_def split: if_splits sum.splits config_exc.splits)

lemma nonempty_open_mode_errors: "open_mode_errors config cli = Inr es \<Longrightarrow> [] \<notin> set es"
  by (auto simp: open_mode_errors_def split: if_splits sum.splits config_exc.splits)

interpretation configuration: fulfilled "\<lambda>(c, cli). validate_config c cli" "''validate_config''"
    "\<lambda>(c, cli). cli \<noteq> Some []" "\<lambda>errors. [] \<notin> set errors"
proof (unfold_locales, goal_cases)
  case (1 x)
  then show ?case by (cases x) (simp add: validate_config_def pre_failed_def)
next
  case (2 x y)
  then show ?case
    using nonempty_server_errors
    by (cases x) (auto simp: validate_config_def dest!: nonempty_open_mode_errors split: if_splits sum.splits)
next
  case (3 x)
  then show ?case
    by (cases x) (auto simp: validate_config_def dest!: open_mode_errors_raises split: sum.splits)
qed

interpretation datetime: fulfilled validate_token_datetime "''_validate_capability_token_datetime''"
    "\<lambda>v. v \<noteq> []" "\<lambda>v. v \<noteq> []"
  by unfold_locales (auto simp: validate_token_datetime_def pre_failed_def post_failed_def split: if_splits option.splits)


section \<open>Contracts that can fail\<close>

text \<open>These functions are decorated as well, but do not keep their promise for every argument.\<close>

interpretation family: contracted "\<lambda>(n, sc). resolve_family n sc" "''resolve_family''"
    "\<lambda>(n, sc). n \<noteq> []" "\<lambda>fam. fam \<noteq> []"
  by unfold_locales (auto simp: resolve_family_def pre_failed_def split: if_splits)

interpretation exclusion: contracted effective_exclude_tools "''effective_exclude_tools''" "\<lambda>_. True" "\<lambda>names. [] \<notin> names"
  by unfold_locales
    (auto simp: effective_exclude_tools_def excluded_names_def child_tela_builtins_def split: if_splits)

definition canonical_promised :: "jobject \<Rightarrow> bool" where
  "canonical_promised d \<longleftrightarrow> \<not> has_key d ''signature'' \<and> dget d ''token_version'' = Some (JStr ''0.1.0'')
     \<and> is_jstr (dget d ''persona_ref'') \<and> is_jstr (dget d ''instance_id'')"

interpretation canonical: contracted canonicalize_token_fields "''canonicalize_token_fields''" "\<lambda>_. True" canonical_promised
proof unfold_locales
  fix payload d
  assume "canonicalize_token_fields payload = Inr d"
  moreover have "\<not> has_key (filter (\<lambda>(k, v). k \<noteq> ''signature'' \<and> v \<noteq> JNull) payload) ''signature''"
    by (induction payload) (auto simp: has_key_def)
  ultimately show "canonical_promised d"
    by (auto simp: canonicalize_token_fields_def canonical_promised_def Let_def split: if_splits)
qed simp

text \<open>Calling a core function as decorated is calling its model, and what it returns keeps the promise.\<close>

lemmas decorated_models = headers.decorated enforcement.decorated explain.decorated signing.decorated
  configuration.decorated datetime.decorated recommendation.decorated recovery_state.decorated
  family.decorated exclusion.decorated canonical.decorated

text \<open>The functions of the core whose contracts can be broken by their arguments break them exactly as follows:
  a family that is configured as an empty text, and an empty name in the exclusion list. Every other
  postcondition of the core that says more than a type holds whatever the arguments are.\<close>

theorem core_postconditions:
  "bridge_http_headers token n s \<noteq> Inl (post_failed ''bridge_http_headers'')
   \<and> enforce name t p r d \<noteq> Inl (post_failed ''enforce'')
   \<and> explain_authorization name t p r d \<noteq> Inl (post_failed ''explain_authorization'')
   \<and> compute_signature payload secret \<noteq> Inl (post_failed ''compute_signature'')
   \<and> validate_config cfg cli \<noteq> Inl (post_failed ''validate_config'')
   \<and> make_status_recommendation rs rc \<noteq> Inl (post_failed ''make_status_recommendation'')
   \<and> classify_status_recoverability rs le b \<noteq> Inl (post_failed ''classify_status_recoverability'')
   \<and> (resolve_family name sc = Inl (post_failed ''resolve_family'') \<longleftrightarrow> name \<noteq> [] \<and> family_of name sc = [])
   \<and> (effective_exclude_tools sc = Inl (post_failed ''effective_exclude_tools'') \<longleftrightarrow> [] \<in> set (sc_exclude_tools sc))"
  using headers.never_fails_post [of "(token, n, s)"] enforcement.never_fails_post [of "(name, t, p, r, d)"]
    explain.never_fails_post [of "(name, t, p, r, d)"] signing.never_fails_post [of "(payload, secret)"]
    configuration.never_fails_post [of "(cfg, cli)"] recommendation.never_fails_post [of "(rs, rc)"]
    recovery_state.never_fails_post [of "(rs, le, b)"]
  by (auto simp: resolve_family_def effective_exclude_tools_def post_failed_def)

text \<open>Contracts of functions that cannot raise.\<close>

lemma builtin_profiles_contracts:
  "length list_builtin_profiles = 7" "length builtin_profiles \<le> length (merge_with_builtins user_profiles)"
proof -
  show "length list_builtin_profiles = 7" by code_simp
  have "length d \<le> length (dupdate d e)" for d e :: "(string, profile_config) dict"
  proof (induction e arbitrary: d)
    case (Cons x e)
    have "length d \<le> length (dset (fst x) (snd x) d)" by (induction d) auto
    also note Cons.IH [of "dset (fst x) (snd x) d"]
    finally show ?case by (simp add: dupdate_def split_beta)
  qed (simp add: dupdate_def)
  then show "length builtin_profiles \<le> length (merge_with_builtins user_profiles)"
    by (simp add: merge_with_builtins_def)
qed

lemma manifest_contract: "startswith (build_manifest_header servers names tools) ''Connected at startup:''"
  by (simp add: build_manifest_header_def Let_def)

lemma reason_contract: "startswith (failure_reason f) ''provider_'' \<and> contains '':'' (failure_reason f)"
  by (simp add: failure_reason_def contains_single)

lemma runtime_state_contract: "classify_shared_runtime_state a b p c \<in> runtime_states"
  by (simp add: classify_shared_runtime_state_def runtime_states_def)


end
