(* ===== verification/Provider_Events.thy ===== *)
theory Provider_Events
  imports Downstream_Startup Operator_Doctor
begin

text \<open>
  The diagnostic events of a server start: \<^verbatim>\<open>provider_event\<close> of \<^verbatim>\<open>shell/downstream_startup.py\<close> with the details
  that \<^verbatim>\<open>_connect_server\<close> of \<^verbatim>\<open>shell/downstream.py\<close> adds. The trace of Downstream_Startup says which events
  are emitted; here they get their details, are appended to the event log of Attachment_Store without caring
  whether that succeeds, and are read back by \<^verbatim>\<open>tela doctor\<close> (Operator_Doctor).
\<close>


section \<open>The events of a start\<close>

text \<open>The elapsed times that the clock gave, as the text of the number.\<close>

record start_clock =
  sk_initialize_ms :: string
  sk_tools_ms :: string

definition or_word :: "string \<Rightarrow> string \<Rightarrow> string" where
  "or_word t word = (if t = [] then word else t)"

definition phase_error :: "('a, string) result attempt \<Rightarrow> string" where
  "phase_error out = (case out of
     Cancelled _ t \<Rightarrow> or_word t ''cancelled''
   | Returned (Err e) \<Rightarrow> or_word e ''unknown''
   | _ \<Rightarrow> ''unknown'')"

text \<open>What an event of the start says beyond server and phase.\<close>

definition start_details ::
    "start_clock \<Rightarrow> (client_handle, string) result attempt \<Rightarrow> (client_handle \<Rightarrow> (raw_tool list, string) result attempt)
       \<Rightarrow> runtime_event_kind \<times> string \<Rightarrow> jobject" where
  "start_details clk opening listing ev =
     (let elapsed = (''elapsed_ms'', JFloat (if snd ev = ''initialize'' then sk_initialize_ms clk else sk_tools_ms clk)) in
      case fst ev of
        ProviderInitialized \<Rightarrow> [elapsed]
      | ProviderTimeout \<Rightarrow> [(''timeout_seconds'', JFloat ''30.0''), elapsed]
      | ProviderFailed \<Rightarrow>
          [(''error'', JStr (if snd ev = ''initialize'' then phase_error opening
              else (case opening of Returned (Ok h) \<Rightarrow> phase_error (listing h) | _ \<Rightarrow> ''unknown''))), elapsed]
      | ProviderToolsListCompleted \<Rightarrow>
          [(''tool_count'', JInt (case opening of
              Returned (Ok h) \<Rightarrow> (case listing h of Returned (Ok tools) \<Rightarrow> int (length tools) | _ \<Rightarrow> 0) | _ \<Rightarrow> 0)), elapsed]
      | _ \<Rightarrow> [])"

definition provider_event :: "runtime_event_kind \<Rightarrow> string \<Rightarrow> string \<Rightarrow> jobject \<Rightarrow> string \<Rightarrow> runtime_event" where
  "provider_event kind server phase details now =
     \<lparr>ev_kind = kind, ev_client_id = ''provider:'' @ server, ev_client_kind = ''downstream_provider'',
      ev_timestamp = now,
      ev_details = dupdate [(''provider_name'', JStr server), (''phase'', JStr phase)] details\<rparr>"

definition start_events ::
    "start_clock \<Rightarrow> (nat \<Rightarrow> string) \<Rightarrow> string \<Rightarrow> (client_handle, string) result attempt
       \<Rightarrow> (client_handle \<Rightarrow> (raw_tool list, string) result attempt) \<Rightarrow> runtime_event list" where
  "start_events clk now server opening listing =
     map (\<lambda>(i, ev). provider_event (fst ev) server (snd ev) (start_details clk opening listing ev) (now i))
       (enumerate 0 (ct_events (snd (connect_server server opening listing))))"

text \<open>Appending without looking at the result; each append meets its own faults.\<close>

definition append_runtime_event_best_effort ::
    "faults \<times> (nat \<times> string) option \<Rightarrow> runtime_event \<Rightarrow> store_files \<Rightarrow> store_files" where
  "append_runtime_event_best_effort env e st = snd (append_runtime_event (fst env) (snd env) e st)"

fun emit_events :: "(faults \<times> (nat \<times> string) option) list \<Rightarrow> runtime_event list \<Rightarrow> store_files \<Rightarrow> store_files" where
  "emit_events envs [] st = st"
| "emit_events [] (e # es) st = st"
| "emit_events (env # envs) (e # es) st = emit_events envs es (append_runtime_event_best_effort env e st)"


section \<open>What the doctor sees of it\<close>

lemma plain_start_details:
  "list_all printable (sk_initialize_ms clk) \<Longrightarrow> list_all printable (sk_tools_ms clk)
   \<Longrightarrow> list_all plain_floats (map snd (start_details clk opening listing ev))"
  by (simp add: start_details_def Let_def printable_def split: runtime_event_kind.split)

lemma plain_dset: "list_all plain_floats (map snd d) \<Longrightarrow> plain_floats v \<Longrightarrow> list_all plain_floats (map snd (dset k v d))"
  by (induction d) auto

lemma plain_dupdate:
  "list_all plain_floats (map snd d) \<Longrightarrow> list_all plain_floats (map snd e) \<Longrightarrow> list_all plain_floats (map snd (dupdate d e))"
proof (induction e arbitrary: d)
  case (Cons x e)
  then show ?case using plain_dset [of d "snd x" "fst x"] by (simp add: dupdate_def split_beta)
qed (simp add: dupdate_def)

lemma plain_provider_event:
  assumes "list_all plain_floats (map snd details)"
  shows "list_all plain_floats (map snd (ev_details (provider_event kind server phase details now)))"
  unfolding provider_event_def using plain_dupdate [OF _ assms] by simp

lemma plain_start_events:
  assumes "list_all printable (sk_initialize_ms clk)" "list_all printable (sk_tools_ms clk)"
    and "e \<in> set (start_events clk now server opening listing)"
  shows "list_all plain_floats (map snd (ev_details e))"
  using assms(3) plain_provider_event [OF plain_start_details [OF assms(1,2)]] by (auto simp: start_events_def)

text \<open>Events that fit are all found behind what the log held before.\<close>

lemma emitted_are_read:
  assumes "\<And>e. e \<in> set evs \<Longrightarrow> list_all plain_floats (map snd (ev_details e)) \<and> cd_event cd (event_text e) = Some e
      \<and> length (runtime_event_jsonl e) \<le> max_runtime_event_bytes"
    and "ascii_transparent cd" and "events_text cd st = Some t" and "ends_line t"
    and "read_runtime_events cd no_faults st = Inr (Ok (es, malformed))"
  shows "read_runtime_events cd no_faults (emit_events (replicate (length evs) (no_faults, None)) evs st)
    = Inr (Ok (es @ evs, malformed))"
  using assms
proof (induction evs arbitrary: st t es)
  case (Cons e evs)
  have e: "list_all plain_floats (map snd (ev_details e))" "cd_event cd (event_text e) = Some e"
    "length (runtime_event_jsonl e) \<le> max_runtime_event_bytes" using Cons.prems(1) [of e] by simp_all
  obtain st' where app: "append_runtime_event no_faults None e st = (Ok (), st')"
    using e(3) by (auto simp: append_runtime_event_def runtime_event_payload_def no_faults_def)
  from appended_events_are_read [OF app assms(2) e(1,2) Cons.prems(3,4,5)]
  obtain t' where "read_runtime_events cd no_faults st' = Inr (Ok (es @ [e], malformed))"
    "events_text cd st' = Some t'" "ends_line t'" by blast
  with Cons.IH [of st' t' "es @ [e]"] Cons.prems(1) assms(2) show ?case
    by (simp add: append_runtime_event_best_effort_def app)
qed simp

lemma fold_note_last_startup:
  "ev_kind e \<in> provider_startup_kinds \<Longrightarrow> es_last_startup (fold note_event (es @ [e]) s) = Some e"
  by (auto simp: note_event_def provider_startup_kinds_def)

text \<open>How the events of a start end.\<close>

lemma start_ends:
  assumes "connect_server server opening listing = (Inr r, trace)"
  shows "\<exists>k. ct_events trace \<noteq> [] \<and> fst (last (ct_events trace)) = k \<and> k \<in> provider_startup_kinds
    \<and> (k = ProviderToolsListCompleted \<longleftrightarrow> is_ok r)
    \<and> (k = ProviderTimeout \<longleftrightarrow> opening = TimedOut \<or> (\<exists>h. opening = Returned (Ok h) \<and> listing h = TimedOut))"
  using assms
  by (auto simp: connect_server_def list_tools_phase_def connect_failed_def provider_startup_kinds_def Let_def
      split: attempt.splits result.splits if_splits)

lemma start_events_last:
  assumes "connect_server server opening listing = (Inr r, trace)"
  shows "\<exists>es e. start_events clk now server opening listing = es @ [e] \<and> ev_kind e = fst (last (ct_events trace))
    \<and> ev_client_id e = ''provider:'' @ server"
proof -
  obtain evs ev where evs: "ct_events trace = evs @ [ev]" using start_ends [OF assms] by (metis append_butlast_last_id)
  then show ?thesis
    by (simp add: start_events_def assms enumerate_append_eq provider_event_def)
qed

text \<open>The doctor names as the last startup event the end of the last start: completed exactly when the server
  was connected, timed out exactly when one of its phases did. It needs that every event fitted into the log.\<close>

theorem doctor_reports_last_start:
  assumes "connect_server server opening listing = (Inr r, trace)"
    and "evs = start_events clk now server opening listing"
    and "list_all printable (sk_initialize_ms clk)" and "list_all printable (sk_tools_ms clk)"
    and "\<And>e. e \<in> set evs \<Longrightarrow> cd_event cd (event_text e) = Some e \<and> length (runtime_event_jsonl e) \<le> max_runtime_event_bytes"
    and "ascii_transparent cd" and "events_text cd st = Some t" and "ends_line t"
    and "read_runtime_events cd no_faults st = Inr (Ok (es, malformed))"
  shows "\<exists>e s. map_right summarize_events (read_runtime_events cd no_faults
        (emit_events (replicate (length evs) (no_faults, None)) evs st)) = Inr s
    \<and> es_last_startup s = Some e \<and> ev_client_id e = ''provider:'' @ server
    \<and> (ev_kind e = ProviderToolsListCompleted \<longleftrightarrow> is_ok r)
    \<and> (ev_kind e = ProviderTimeout \<longleftrightarrow> opening = TimedOut \<or> (\<exists>h. opening = Returned (Ok h) \<and> listing h = TimedOut))"
proof -
  have read: "read_runtime_events cd no_faults (emit_events (replicate (length evs) (no_faults, None)) evs st)
      = Inr (Ok (es @ evs, malformed))"
    by (rule emitted_are_read [OF _ assms(6-9)]) (use assms(2,5) plain_start_events [OF assms(3,4)] in auto)
  obtain es' e where evs: "evs = es' @ [e]" "ev_kind e = fst (last (ct_events trace))" "ev_client_id e = ''provider:'' @ server"
    using start_events_last [OF assms(1)] assms(2) by blast
  obtain k where k: "fst (last (ct_events trace)) = k" "k \<in> provider_startup_kinds"
    "k = ProviderToolsListCompleted \<longleftrightarrow> is_ok r"
    "k = ProviderTimeout \<longleftrightarrow> opening = TimedOut \<or> (\<exists>h. opening = Returned (Ok h) \<and> listing h = TimedOut)"
    using start_ends [OF assms(1)] by blast
  have "es_last_startup (fold note_event ((es @ es') @ [e]) (no_events malformed None)) = Some e"
    using evs(2) k(1,2) by (intro fold_note_last_startup) simp
  then show ?thesis using read evs k by (simp add: summarize_events_def)
qed

definition slow_start :: "runtime_event list" where
  "slow_start = start_events \<lparr>sk_initialize_ms = ''30000.1'', sk_tools_ms = ''0.0''\<rparr> (\<lambda>_. ''now'') ''git'' TimedOut (\<lambda>_. TimedOut)"

definition slow_codec :: store_codec where
  "slow_codec = (example_codec [] example_event)\<lparr>cd_event := (\<lambda>l. find (\<lambda>e. event_text e = l) slow_start)\<rparr>"

lemma doctor_reports_witness:
  "\<exists>e s. map_right summarize_events (read_runtime_events slow_codec no_faults
       (emit_events (replicate (length slow_start) (no_faults, None)) slow_start no_files)) = Inr s
     \<and> es_last_startup s = Some e \<and> ev_client_id e = ''provider:git'' \<and> ev_kind e = ProviderTimeout"
proof -
  let ?clk = "\<lparr>sk_initialize_ms = ''30000.1'', sk_tools_ms = ''0.0''\<rparr>"
  let ?run = "connect_server ''git'' TimedOut (\<lambda>_. TimedOut)"
  obtain r where run: "?run = (Inr r, snd ?run)" by (simp add: connect_server_def Let_def)
  have floats: "list_all printable ''30000.1''" "list_all printable ''0.0''" by code_simp+
  have fit: "list_all (\<lambda>e. cd_event slow_codec (event_text e) = Some e \<and> length (runtime_event_jsonl e) \<le> max_runtime_event_bytes)
      slow_start"
    by code_simp
  have ascii: "ascii_transparent slow_codec" by (auto simp: ascii_transparent_def slow_codec_def example_codec_def)
  have "events_text slow_codec no_files = Some []" "ends_line []"
    "read_runtime_events slow_codec no_faults no_files = Inr (Ok ([], 0))" by code_simp+
  from doctor_reports_last_start [OF run slow_start_def _ _ _ ascii this] floats fit
  show ?thesis by (auto simp: list_all_iff)
qed

text \<open>An event that does not fit is lost without a trace: nothing of it is appended and nobody is told.\<close>

lemma oversized_event_is_lost:
  "max_runtime_event_bytes < length (runtime_event_jsonl e) \<Longrightarrow> append_runtime_event_best_effort env e st = st"
  by (simp add: append_runtime_event_best_effort_def append_runtime_event_def runtime_event_payload_def)


end
