(* ===== verification/Downstream_Messages.thy ===== *)
theory Downstream_Messages
  imports Recovery
begin

text \<open>
  What a downstream client does with the messages of its server, and the accessors through which the rest of the
  gateway reads the state of \<^verbatim>\<open>shell/downstream.py\<close>. The handler of a client is a closure over the
  configuration that the server had when the client was opened; what it asks of the server in turn is an
  argument. The theorem compares the two things it can do under a configuration that has changed since.
\<close>


section \<open>Accessors\<close>

definition get_server_instructions :: "downstream \<Rightarrow> (string, string) dict" where
  "get_server_instructions st = ds_instructions st"

definition get_connected_server_names :: "downstream \<Rightarrow> string set" where
  "get_connected_server_names st = set (dkeys (ds_clients st))"

definition get_attempted_servers :: "downstream \<Rightarrow> string set" where
  "get_attempted_servers st = ds_attempted st"

definition get_successful_servers :: "downstream \<Rightarrow> string set" where
  "get_successful_servers st = ds_successful st"

definition begin_downstream_startup_tracking :: "string set \<Rightarrow> downstream \<Rightarrow> downstream" where
  "begin_downstream_startup_tracking names st = mark_startup_begin names st"

text \<open>The tools of one connected client; the error says that the server is not available.\<close>

definition enumerate_client_tools ::
    "(client_handle \<Rightarrow> (raw_tool list, string) result) \<Rightarrow> string \<Rightarrow> client_handle \<Rightarrow> (raw_tool list, string) result" where
  "enumerate_client_tools list_tools server h =
     (case list_tools h of
        Err e \<Rightarrow> unavailable (''re-enumeration failed for server '' @ squote server @ '': '' @ e)
      | Ok tools \<Rightarrow> Ok tools)"


section \<open>Messages\<close>

text \<open>What the SDK hands to the handler of a client: an exception of the transport, the notification that the list
  of tools has changed, or anything else.\<close>

datatype server_message = TransportException | ToolListChanged | OtherMessage

definition note_hint :: "string \<Rightarrow> server_config \<Rightarrow> gateway \<Rightarrow> gateway" where
  "note_hint server sc g = on_downstream (\<lambda>st. st\<lparr>ds_hints := dset server sc (ds_hints st)\<rparr>) g"

record message_env =
  me_recovery :: recovery_env
  me_disk_ok :: bool
  me_now :: string
  me_list_tools :: "client_handle \<Rightarrow> (raw_tool list, string) result"

definition downstream_message_handler ::
    "message_env \<Rightarrow> string \<Rightarrow> server_config \<Rightarrow> server_message \<Rightarrow> gateway \<Rightarrow> (py_exc + unit) \<times> gateway" where
  "downstream_message_handler env server sc msg g =
     (let g1 = note_hint server sc g in
      case msg of
        TransportException \<Rightarrow> handle_reconnect (me_recovery env) server g1
      | ToolListChanged \<Rightarrow>
          handle_tools_list_changed (me_disk_ok env) (me_now env) server sc
            (enumerate_client_tools (me_list_tools env) server) g1
      | OtherMessage \<Rightarrow> (Inr (), g1))"


section \<open>Which configuration counts\<close>

lemma note_hint_fields [simp]:
  "gs_runtime (note_hint server sc g) = gs_runtime g" "gs_idle (note_hint server sc g) = gs_idle g"
  "gw_registry (note_hint server sc g) = gw_registry g" "gw_calls (note_hint server sc g) = gw_calls g"
  "ds_clients (gw_downstream (note_hint server sc g)) = ds_clients (gw_downstream g)"
  by (simp_all add: note_hint_def on_downstream_def)

lemma enumerated_tools:
  "list_tools h = Ok tools \<Longrightarrow> enumerate_client_tools list_tools server h = Ok tools"
  by (simp add: enumerate_client_tools_def)

text \<open>A changed tool list is published under the configuration that the client was opened with. The configuration
  that the gateway runs with now is not consulted: what it excludes or renames since is not.\<close>

theorem tool_changes_use_opening_config:
  assumes "dget (ds_clients (gw_downstream g)) server = Some h" and "me_list_tools env h = Ok tools"
    and "resolve_tools server sc tools = Inr resolved"
    and "conflict_free (get_all_tools (register server resolved (gw_registry g)))"
    and "downstream_message_handler env server sc ToolListChanged g = (res, g')"
  shows "res = Inr () \<and> gw_registry g' = register server resolved (gw_registry g) \<and> gs_runtime g' = gs_runtime g"
proof -
  let ?g1 = "note_hint server sc g"
  obtain r where run: "on_tools_changed (me_disk_ok env) (me_now env) server sc tools ?g1 = (r, g')"
    and res: "res = map_right (\<lambda>_. ()) r"
    using assms(1,5) enumerated_tools [where list_tools = "me_list_tools env" and h = h and server = server, OF assms(2)]
    by (auto simp: downstream_message_handler_def handle_tools_list_changed_def Let_def split: prod.splits)
  have "\<exists>x. converge_single_server_update server sc tools ReloadTools ?g1
      = (Inr x, with_registry (register server resolved (gw_registry g)) ?g1) \<and> cr_disposition x = Applied"
    using assms(3,4) by (simp add: converge_single_server_update_def reregister_def detect_conflicts_Nil Let_def)
  then have "r = Inr (Ok ()) \<and> g' = notify_registry_tool_digest (with_registry (register server resolved (gw_registry g)) ?g1)"
    using run by (auto simp: on_tools_changed_def converge_and_notify_def)
  then show ?thesis using res by (simp add: notify_registry_tool_digest_def with_registry_def)
qed

text \<open>A tool that the running configuration excludes is published again.\<close>

definition excluding_config :: tela_config where
  "excluding_config = config_with [(''fs'', (server_named ''fs'')\<lparr>sc_exclude_tools := [''drop'']\<rparr>)]"

definition reloaded_gateway :: gateway where
  "reloaded_gateway = with_client\<lparr>gs_runtime := initial_runtime\<lparr>gr_config := Some excluding_config\<rparr>\<rparr>"

definition drop_env :: message_env where
  "drop_env = \<lparr>me_recovery = idle_env, me_disk_ok = True, me_now = ''now'', me_list_tools = (\<lambda>_. Ok [listed ''drop'' ''d''])\<rparr>"

lemma tool_changes_witness:
  "get_tool_server (gw_registry (snd (downstream_message_handler drop_env ''fs'' (server_named ''fs'') ToolListChanged
     reloaded_gateway))) ''drop'' = Some ''fs''"
proof -
  let ?run = "downstream_message_handler drop_env ''fs'' (server_named ''fs'') ToolListChanged reloaded_gateway"
  let ?drop = "\<lparr>rt_name = ''drop'', rt_raw_name = Some ''drop'', rt_server_name = ''fs'', rt_family = ''fs'', rt_posture = None,
    rt_schema = [], rt_description = ''d'', rt_annotations = None, rt_title = None, rt_output_schema = None\<rparr>"
  have res: "resolve_tools ''fs'' (server_named ''fs'') [listed ''drop'' ''d''] = Inr [?drop]" by code_simp
  obtain h where client: "dget (ds_clients (gw_downstream reloaded_gateway)) ''fs'' = Some h"
    by (simp add: reloaded_gateway_def with_client_def on_downstream_def)
  have tools: "me_list_tools drop_env h = Ok [listed ''drop'' ''d'']" by (simp add: drop_env_def)
  have empty: "gw_registry reloaded_gateway = empty_registry"
    by (simp add: reloaded_gateway_def with_client_def on_downstream_def initial_gateway_def initial_downstream_def)
  have free: "conflict_free (get_all_tools (register ''fs'' [?drop] (gw_registry reloaded_gateway)))"
    unfolding empty detect_conflicts_Nil [symmetric] by code_simp
  have "gw_registry (snd ?run) = register ''fs'' [?drop] empty_registry"
    using tool_changes_use_opening_config [OF client tools res free surjective_pairing] empty by simp
  moreover have "get_tool_server (register ''fs'' [?drop] empty_registry) ''drop'' = Some ''fs''" by code_simp
  ultimately show ?thesis by simp
qed

end
