(* ===== verification/Runtime_Access.thy ===== *)
theory Runtime_Access
  imports Idle_Shutdown Gateway_Runtime
begin

text \<open>
  The read accessors of \<^verbatim>\<open>shell/gateway_runtime.py\<close> and its hand-out of the FastMCP server (its two other accessors
  are in Serve_Runtime). Each accessor
  takes the lock and returns a copy; values of the model are copies. The FastMCP server is an object of its
  own type, of which the runtime state only records whether it is there.
\<close>

definition is_runtime_running :: "runtime \<Rightarrow> bool" where
  "is_runtime_running r = gr_running r"

definition get_runtime_connections_snapshot :: "runtime \<Rightarrow> connection_context list" where
  "get_runtime_connections_snapshot r = gr_connections r"

definition get_runtime_secrets :: "runtime \<Rightarrow> string list" where
  "get_runtime_secrets r = gr_secrets r"

definition get_expected_bearer_token :: "runtime \<Rightarrow> string option" where
  "get_expected_bearer_token r = gr_bearer_token r"

definition get_session_registry_snapshot :: "runtime \<Rightarrow> (string, session) dict" where
  "get_session_registry_snapshot r = gr_sessions r"

definition get_runtime_reaper :: "runtime \<Rightarrow> bool" where
  "get_runtime_reaper r = gr_reaper r"

definition get_runtime_converge_event :: "runtime \<Rightarrow> bool option" where
  "get_runtime_converge_event r = gr_converge r"


section \<open>The upstream server\<close>

definition upstream_missing :: string where
  "upstream_missing = ''UPSTREAM_NOT_INITIALIZED: upstream MCP server not initialized''"

text \<open>The function may raise; the lock is released, and the exception passes.\<close>

definition with_upstream_server :: "'srv option \<Rightarrow> ('srv \<Rightarrow> py_exc + 'a) \<Rightarrow> py_exc + ('a, string) result" where
  "with_upstream_server server fn =
     (case server of None \<Rightarrow> Inr (Err upstream_missing) | Some srv \<Rightarrow> map_right Ok (fn srv))"

text \<open>\<open>log_level\<close> reads the setting of a server, which may have none.\<close>

definition get_upstream_log_level :: "('srv \<Rightarrow> string option) \<Rightarrow> 'srv option \<Rightarrow> string" where
  "get_upstream_log_level log_level server =
     (case Option.bind server log_level of None \<Rightarrow> ''info'' | Some level \<Rightarrow> level)"

definition get_upstream_server :: "py_exc + unit" where
  "get_upstream_server = Inl (RuntimeError (''get_upstream_server removed in loop 4: use operation accessors ''
     @ ''(is_upstream_server_initialized, get_upstream_http_app, get_upstream_log_level)''))"


section \<open>What a reader sees\<close>

text \<open>A session that was captured is the one a snapshot holds until it is released, and no other entry changes.\<close>

lemma snapshot_after_capture:
  assumes "capture_session cid s r = (Ok (), r')"
  shows "dget (get_session_registry_snapshot r') d
    = (if d = cid then Some s else dget (get_session_registry_snapshot r) d)"
  using assms
  by (auto simp: capture_session_def get_session_registry_snapshot_def dict_simps split: if_splits option.splits)

end
