(* ===== verification/Operator_Output.thy ===== *)
theory Operator_Output
  imports Operator_Doctor
begin

text \<open>
  What \<^verbatim>\<open>tela status\<close> and \<^verbatim>\<open>tela doctor\<close> print of their reports: the human-readable lines and the JSON documents
  of \<^verbatim>\<open>commands/status_cmd.py\<close> and \<^verbatim>\<open>commands/doctor_cmd.py\<close>. How a floating-point number is written and what
  Pydantic makes of the answer of a remote gateway are arguments. The theorem is about what is not printed:
  the token in the lockfile, which the discovery of the doctor carries along.
\<close>


section \<open>Formatting\<close>

fun display_state_value :: "display_state \<Rightarrow> string" where
  "display_state_value DUnknown = ''unknown''"
| "display_state_value DStarted = ''started''"
| "display_state_value DHealthy = ''healthy''"
| "display_state_value DDegraded = ''degraded''"
| "display_state_value DStaleCandidate = ''stale_candidate''"
| "display_state_value DRecovering = ''recovering''"
| "display_state_value DExited = ''exited''"

fun runtime_state_value :: "runtime_state \<Rightarrow> string" where
  "runtime_state_value RUnknown = ''unknown''"
| "runtime_state_value RInitializing = ''initializing''"
| "runtime_state_value RActive = ''active''"
| "runtime_state_value RIdle = ''idle''"
| "runtime_state_value RRecovering = ''recovering''"
| "runtime_state_value RExited = ''exited''"

fun recoverability_value :: "recoverability \<Rightarrow> string" where
  "recoverability_value VUnknown = ''unknown''"
| "recoverability_value VRecoverable = ''recoverable''"
| "recoverability_value VNotRecoverable = ''not_recoverable''"
| "recoverability_value VStale = ''stale''"

text \<open>The format \<^verbatim>\<open>:<n\<close>, and \<^verbatim>\<open>json.dumps\<close> with an indentation of two.\<close>

definition left_aligned :: "nat \<Rightarrow> string \<Rightarrow> string" where
  "left_aligned n s = s @ replicate (n - length s) (CHR '' '')"

definition line_at :: "nat \<Rightarrow> string" where
  "line_at level = CHR 0x0A # replicate (2 * level) (CHR '' '')"

fun json_indented :: "nat \<Rightarrow> json \<Rightarrow> string" where
  "json_indented n (JList xs) =
     (if xs = [] then ''[]''
      else ''['' @ line_at (Suc n) @ join ('','' @ line_at (Suc n)) (map (json_indented (Suc n)) xs) @ line_at n @ '']'')"
| "json_indented n (JDict kvs) =
     (if kvs = [] then ''{}''
      else ''{'' @ line_at (Suc n)
        @ join ('','' @ line_at (Suc n)) (map (\<lambda>kv. quote (fst kv) @ '': '' @ json_indented (Suc n) (snd kv)) kvs)
        @ line_at n @ ''}'')"
| "json_indented n v = dumps_default v"

definition optional :: "('a \<Rightarrow> json) \<Rightarrow> 'a option \<Rightarrow> json" where
  "optional f v = (case v of None \<Rightarrow> JNull | Some x \<Rightarrow> f x)"

definition bool_text :: "bool \<Rightarrow> string" where
  "bool_text b = (if b then ''True'' else ''False'')"

text \<open>A line that is printed only if its value is there and not empty.\<close>

definition line_if :: "string \<Rightarrow> string option \<Rightarrow> string list" where
  "line_if label v = (if v = None \<or> v = Some [] then [] else [label @ the v])"


section \<open>The status report\<close>

definition row_object :: "attachment_row \<Rightarrow> json" where
  "row_object row =
     (let a = ar_attachment row in JDict
       [(''client_id'', JStr (ca_client_id a)), (''client_kind'', JStr (ca_client_kind a)),
        (''runtime_state'', JStr (runtime_state_value (ca_runtime_state a))),
        (''recoverability'', JStr (recoverability_value (ca_recoverability a))),
        (''display_state'', JStr (display_state_value (ar_display_state row))),
        (''connected_at'', JStr (ca_connected_at a)), (''last_heartbeat'', JStr (ca_last_heartbeat a)),
        (''stale_candidate'', JBool (ca_stale_candidate a)), (''unknown_state'', JBool (ca_unknown_state a))])"

definition status_object :: "(remote_state \<Rightarrow> jobject) \<Rightarrow> status_report \<Rightarrow> json" where
  "status_object remote_dump r = JDict (dupdate
     [(''schema_version'', JInt 1), (''probe_performed'', JBool (sr_probe_performed r)),
      (''client_attachments'', JList (map row_object (sr_client_attachments r))),
      (''registry_parse_error'', optional JStr (sr_registry_parse_error r)),
      (''shared_runtime'', JDict [(''state'', JStr (sr_state r)), (''pid'', optional JInt (sr_pid r)),
        (''endpoint'', optional JStr (sr_endpoint r)), (''lockfile'', JStr (sr_lockfile r)),
        (''degraded_reason'', sr_degraded_reason r)]),
      (''recoverability'', JDict [(''state'', JStr (sr_recoverability r)), (''last_event'', optional JStr (sr_last_event r)),
        (''last_error'', optional JStr (sr_last_error r)), (''recommendation'', JStr (sr_recommendation r))])]
     (case sr_remote r of None \<Rightarrow> [] | Some remote \<Rightarrow> remote_dump remote))"

definition print_status_json :: "(remote_state \<Rightarrow> jobject) \<Rightarrow> status_report \<Rightarrow> string" where
  "print_status_json remote_dump r = json_indented 0 (status_object remote_dump r)"

definition attachment_header :: string where
  "attachment_header = left_aligned 12 ''CLIENT_ID'' @ '' '' @ left_aligned 10 ''KIND'' @ '' '' @ left_aligned 15 ''RUNTIME''
     @ '' '' @ left_aligned 15 ''RECOVERABILITY'' @ '' '' @ left_aligned 15 ''DISPLAY'' @ '' '' @ ''LAST_HEARTBEAT''"

definition attachment_line :: "attachment_row \<Rightarrow> string" where
  "attachment_line row =
     (let a = ar_attachment row in ''  '' @ left_aligned 12 (ca_client_id a) @ '' '' @ left_aligned 10 (ca_client_kind a)
       @ '' '' @ left_aligned 15 (runtime_state_value (ca_runtime_state a))
       @ '' '' @ left_aligned 15 (recoverability_value (ca_recoverability a))
       @ '' '' @ left_aligned 15 (display_state_value (ar_display_state row)) @ '' '' @ ca_last_heartbeat a)"

definition passive_cue :: "string list" where
  "passive_cue = [''Status source: cached runtime state only.'', ''No active probe was performed.'',
     ''Run `tela status --probe` to verify reachability.'', ''Run `tela doctor --recover` to attempt recovery.'', []]"

definition print_status_human :: "(rat \<Rightarrow> string) \<Rightarrow> bool \<Rightarrow> bool \<Rightarrow> status_report \<Rightarrow> string list" where
  "print_status_human float_text probe clients r =
     (if \<not> probe \<and> \<not> clients then passive_cue else [])
     @ [''Shared Runtime:'', ''  state: '' @ sr_state r, ''  lockfile: '' @ sr_lockfile r]
     @ (if sr_pid r = None \<or> sr_pid r = Some 0 then [] else [''  pid: '' @ show_int (the (sr_pid r))])
     @ line_if ''  endpoint: '' (sr_endpoint r)
     @ (if truthy (Some (sr_degraded_reason r)) then [''  degraded_reason: '' @ py_str (sr_degraded_reason r)] else [])
     @ [[], ''Recoverability:'', ''  state: '' @ sr_recoverability r]
     @ line_if ''  last_error: '' (sr_last_error r)
     @ [''  recommendation: '' @ sr_recommendation r]
     @ (if \<not> clients then []
        else [[], ''Client Attachments:''] @ (if sr_client_attachments r = [] then [''  (none)'']
          else (''  '' @ attachment_header) # map attachment_line (sr_client_attachments r)))
     @ (case sr_remote r of None \<Rightarrow> []
        | Some remote \<Rightarrow> [[], ''uptime: '' @ float_text (sp_uptime (rs_status remote)) @ ''s'',
            ''servers: '' @ show_nat (sp_server_count (rs_status remote)),
            ''active connections: '' @ show_nat (sp_active_connections (rs_status remote)),
            ''profiles: '' @ show_nat (sp_profile_count (rs_status remote))])"


section \<open>The report of the doctor\<close>

definition discovered_endpoint :: "doctor_discovery \<Rightarrow> string option" where
  "discovered_endpoint d = map_option (\<lambda>l. ''http://'' @ lk_host l @ '':'' @ show_int (lk_port l)) (dd_data d)"

definition events_object :: "events_summary \<Rightarrow> json" where
  "events_object es = JDict
     [(''last_provider_exit'', optional event_object (es_last_exit es)),
      (''last_provider_startup_event'', optional event_object (es_last_startup es)),
      (''last_probe_event'', optional event_object (es_last_probe es)),
      (''last_recovery_event'', optional event_object (es_last_recovery es)),
      (''malformed_line_count'', JInt (int (es_malformed es))), (''read_error'', optional JStr (es_read_error es))]"

definition doctor_object :: "doctor_report \<Rightarrow> json" where
  "doctor_object r = JDict
     [(''schema_version'', JInt 1), (''recover_performed'', JBool (dr_recover r)), (''probe_performed'', JBool (dr_recover r)),
      (''shared_runtime'', JDict [(''state'', JStr (dr_state r)),
        (''pid'', optional (JInt \<circ> lk_pid) (dd_data (dr_discovery r))),
        (''endpoint'', optional JStr (discovered_endpoint (dr_discovery r))),
        (''lockfile'', JStr (dd_status (dr_discovery r))),
        (''degraded_reason'', optional JStr (ry_error (dr_recovery r)))]),
      (''recommendation'', JStr (dr_recommendation r)),
      (''runtime_events'', events_object (dr_events r)),
      (''client_attachments'', (let at' = dr_attachments r in JDict
        [(''client_attachments_alive'', JBool (at_alive at')), (''liveness_reason'', JStr (at_reason at')),
         (''count'', JInt (int (at_count at'))), (''alive_client_ids'', JList (map JStr (at_alive_ids at'))),
         (''registry_parse_error'', optional JStr (at_parse_error at'))])),
      (''recovery'', (let ry = dr_recovery r in JDict
        [(''attempted'', JBool (ry_attempted ry)), (''recovery_succeeded'', JBool (ry_succeeded ry)),
         (''already_ready'', JBool (ry_already_ready ry)), (''stale_cleanup'', optional JBool (ry_stale_cleanup ry)),
         (''cold_start_attempted'', JBool (ry_cold_start ry)), (''actions'', JList (map JStr (ry_actions ry))),
         (''events_appended'', JList (map JStr (ry_events ry))), (''error'', optional JStr (ry_error ry))]))]"

definition print_doctor_json :: "doctor_report \<Rightarrow> string" where
  "print_doctor_json r = json_indented 0 (doctor_object r)"

definition print_doctor_human :: "doctor_report \<Rightarrow> string list" where
  "print_doctor_human r =
     (if dr_recover r then []
      else [''Doctor source: cached runtime state only.'', ''No active probe was performed.'',
        ''Run `tela doctor --recover` to probe and attempt recovery.'', []])
     @ [''Shared Runtime:'', ''  state: '' @ dr_state r, ''  lockfile: '' @ dd_status (dr_discovery r)]
     @ line_if ''  endpoint: '' (discovered_endpoint (dr_discovery r))
     @ [[], ''Client Attachments:'', ''  alive: '' @ bool_text (at_alive (dr_attachments r)),
        ''  liveness_reason: '' @ at_reason (dr_attachments r), [], ''Recovery:'',
        ''  attempted: '' @ bool_text (ry_attempted (dr_recovery r)),
        ''  recovery_succeeded: '' @ bool_text (ry_succeeded (dr_recovery r))]
     @ line_if ''  error: '' (ry_error (dr_recovery r))
     @ [''  recommendation: '' @ dr_recommendation r]"


section \<open>What is not printed\<close>

text \<open>The discovery of a report with another token in its lockfile.\<close>

definition with_token :: "string \<Rightarrow> doctor_discovery \<Rightarrow> doctor_discovery" where
  "with_token t d = d\<lparr>dd_data := map_option (lk_token_update (\<lambda>_. t)) (dd_data d)\<rparr>"

lemma endpoint_with_token: "discovered_endpoint (with_token t d) = discovered_endpoint d"
  by (cases "dd_data d") (simp_all add: discovered_endpoint_def with_token_def)

lemma pid_with_token: "optional (JInt \<circ> lk_pid) (dd_data (with_token t d)) = optional (JInt \<circ> lk_pid) (dd_data d)"
  by (cases "dd_data d") (simp_all add: optional_def with_token_def)

lemma status_with_token: "dd_status (with_token t d) = dd_status d" "dd_stale (with_token t d) = dd_stale d"
  "dd_present (with_token t d) = dd_present d"
  by (simp_all add: with_token_def)

text \<open>Neither form of the doctor's report depends on the token of the discovered lockfile.\<close>

theorem doctor_prints_no_token:
  "print_doctor_json (doctor_report_of recover (with_token t d) es at' ry) = print_doctor_json (doctor_report_of recover d es at' ry)
   \<and> print_doctor_human (doctor_report_of recover (with_token t d) es at' ry)
       = print_doctor_human (doctor_report_of recover d es at' ry)"
proof -
  have state: "runtime_state_from_discovery (with_token t d) = runtime_state_from_discovery d"
    by (simp add: runtime_state_from_discovery_def status_with_token)
  have "doctor_object (doctor_report_of recover (with_token t d) es at' ry) = doctor_object (doctor_report_of recover d es at' ry)"
    by (simp add: doctor_object_def doctor_report_of_def state endpoint_with_token pid_with_token status_with_token Let_def)
  then show ?thesis
    by (simp add: print_doctor_json_def print_doctor_human_def doctor_report_of_def state endpoint_with_token
        status_with_token Let_def)
qed

text \<open>Every attachment of a report has its line, and the passive report says that nothing was probed.\<close>

lemma status_lines:
  "(\<forall>l \<in> set passive_cue. \<not> probe \<and> \<not> clients \<longrightarrow> l \<in> set (print_status_human f probe clients r))
   \<and> (clients \<longrightarrow> (\<forall>row \<in> set (sr_client_attachments r). attachment_line row \<in> set (print_status_human f probe clients r)))"
  by (auto simp: print_status_human_def)

end
