(* ===== verification/Status_Wire.thy ===== *)
theory Status_Wire
  imports Operator_Output Command_Line Http_Routes
begin

text \<open>
  The status of a gateway on its way to the operator: the JSON documents that the routes of \<^verbatim>\<open>shell/gateway.py\<close> and
  \<^verbatim>\<open>shell/http_routes.py\<close> answer with (the fields of the models of \<^verbatim>\<open>core/models.py\<close> in their order), and
  what the commands of the operator make of them. Pydantic reads back what it wrote, and \<^verbatim>\<open>json.loads\<close>
  the document that was sent; both are hypotheses on the arguments that stand for them.
\<close>


section \<open>Documents\<close>

definition connection_object :: "connection_context \<Rightarrow> json" where
  "connection_object c = JDict
     [(''connection_id'', JStr (cc_connection_id c)), (''profile_id'', JStr (cc_profile_id c)),
      (''connected_at'', JStr (cc_connected_at c)), (''tool_call_count'', JInt (int (cc_tool_call_count c))),
      (''last_activity'', JStr (cc_last_activity c)),
      (''init_mode'', optional (JStr \<circ> auth_mode_value) (cc_init_mode c)),
      (''client_info_snapshot'', optional (\<lambda>d. JDict (map (map_prod id JStr) d)) (cc_client_info c)),
      (''bridge_connection_id'', optional JStr (cc_bridge_connection_id c))]"

definition meta_object :: "meta_field \<Rightarrow> json" where
  "meta_object m = JDict
     [(''trace_id'', JStr (mf_trace_id m)), (''event_id'', optional JStr (mf_event_id m)),
      (''idempotency_key'', optional JStr (mf_idempotency_key m)), (''instance_id'', optional JStr (mf_instance_id m)),
      (''persona_id'', optional JStr (mf_persona_id m))]"

definition audit_entry_object :: "(rat \<Rightarrow> string) \<Rightarrow> audit_entry \<Rightarrow> json" where
  "audit_entry_object float_text e = JDict
     [(''timestamp'', JStr (ae_timestamp e)), (''level'', JStr (audit_level_value (ae_level e))),
      (''connection_id'', JStr (ae_connection_id e)), (''profile_id'', JStr (ae_profile_id e)),
      (''tool_name'', JStr (ae_tool_name e)), (''server_name'', JStr (ae_server_name e)),
      (''verdict'', JStr (verdict_value (ae_verdict e))), (''denied_by'', optional JStr (ae_denied_by e)),
      (''error_code'', optional JStr (ae_error_code e)), (''latency_ms'', optional (JFloat \<circ> float_text) (ae_latency_ms e)),
      (''param_hash'', optional JStr (ae_param_hash e)), (''request_content'', optional JDict (ae_request_content e)),
      (''response_content'', optional JDict (ae_response_content e)), (''meta'', optional meta_object (ae_meta e))]"

definition status_document :: "(rat \<Rightarrow> string) \<Rightarrow> status_response \<Rightarrow> jobject" where
  "status_document float_text s =
     [(''uptime_seconds'', JFloat (float_text (sp_uptime s))), (''server_count'', JInt (int (sp_server_count s))),
      (''connected_servers'', JList (map JStr (sp_connected_servers s))),
      (''active_connections'', JInt (int (sp_active_connections s))), (''profile_count'', JInt (int (sp_profile_count s))),
      (''total_tool_calls'', JInt (int (sp_total_tool_calls s))), (''state'', JStr (sp_state s)),
      (''discovery_source'', JNull), (''config_path'', JNull), (''requested_config_path'', JNull),
      (''config_mismatch'', JBool False), (''degraded_reason'', optional JStr (sp_degraded_reason s)),
      (''connections'', JList (map connection_object (sp_connections s))),
      (''audit_entries'', JList (map (audit_entry_object float_text) (sp_audit_entries s)))]"

definition operator_probe_payload :: "probe_snapshot \<Rightarrow> jobject" where
  "operator_probe_payload p =
     [(''running'', JBool (probe_snapshot.pr_running p)), (''state'', JStr (probe_snapshot.pr_state p)), (''degraded_reason'', JStr (probe_snapshot.pr_degraded_reason p)),
      (''active_connections'', JInt (int (probe_snapshot.pr_active_connections p))),
      (''connections'', JList (map connection_object (probe_snapshot.pr_connections p)))]"

definition client_attachment_payload :: "client_attachment \<Rightarrow> jobject" where
  "client_attachment_payload a =
     [(''client_id'', JStr (ca_client_id a)), (''client_kind'', JStr (ca_client_kind a)),
      (''display_state'', JStr (display_state_value (ca_display_state a))),
      (''runtime_state'', JStr (runtime_state_value (ca_runtime_state a))),
      (''recoverability'', JStr (recoverability_value (ca_recoverability a))),
      (''connected_at'', JStr (ca_connected_at a)), (''last_heartbeat'', JStr (ca_last_heartbeat a)),
      (''stale_candidate'', JBool (ca_stale_candidate a)), (''unknown_state'', JBool (ca_unknown_state a))]"

definition operator_audit_payload :: "(rat \<Rightarrow> string) \<Rightarrow> audit_page \<Rightarrow> jobject" where
  "operator_audit_payload float_text page =
     [(''entries'', JList (map (audit_entry_object float_text) (ap_entries page))),
      (''next_cursor'', optional JStr (ap_next_cursor page)), (''has_more'', JBool (ap_has_more page))]"

text \<open>Only a denied explanation has its code and origin.\<close>

definition tool_payload :: "tool_explanation \<Rightarrow> json" where
  "tool_payload t =
     (let ex = tx_explanation t in JDict (
       [(''name'', JStr (tx_name t)), (''server_name'', JStr (tx_server_name t)), (''family'', JStr (tx_family t)),
        (''posture'', optional (JStr \<circ> posture_value) (tx_posture t)),
        (''default_posture'', JStr (posture_value (tx_default_posture t))),
        (''visible'', JBool (ex_visible ex)), (''hidden'', JBool (ex_hidden ex)), (''allowed'', JBool (ex_allowed ex)),
        (''denied'', JBool (ex_denied ex)), (''stage'', JStr (ex_stage ex)), (''reason'', JStr (ex_reason ex))]
       @ (if ex_denied ex
          then [(''error_code'', optional JStr (ex_error_code ex)), (''denied_by'', optional JStr (ex_denied_by ex))]
          else [])))"

definition explain_payload :: "profile_explanation list \<Rightarrow> jobject" where
  "explain_payload ps =
     [(''profiles'', JList (map (\<lambda>p. JDict
        [(''profile_id'', JStr (px_profile_id p)),
         (''capabilities'', JDict (map (map_prod id (JStr \<circ> posture_value)) (px_capabilities p))),
         (''tools'', JList (map tool_payload (px_tools p)))]) ps))]"

definition confirmation_payload :: "confirmation \<Rightarrow> jobject" where
  "confirmation_payload c = [(''connection_id'', JStr (cf_connection_id c)), (''status'', JStr (cf_status c))]"

text \<open>\<^verbatim>\<open>JSONResponse\<close>: status and document of a reply.\<close>

definition reply_document :: "('b \<Rightarrow> json) \<Rightarrow> 'b http_reply \<Rightarrow> nat \<times> json" where
  "reply_document f reply =
     (case reply of Body b \<Rightarrow> (200, f b) | Failed status e \<Rightarrow> (status, JDict [(''error'', JStr e)]))"

definition status_reply_document :: "(rat \<Rightarrow> string) \<Rightarrow> status_response http_reply \<Rightarrow> nat \<times> json" where
  "status_reply_document float_text = reply_document (JDict \<circ> status_document float_text)"

definition clients_reply_document :: "client_attachment list http_reply \<Rightarrow> nat \<times> json" where
  "clients_reply_document = reply_document (JList \<circ> map (JDict \<circ> client_attachment_payload))"

definition audit_reply_document :: "(rat \<Rightarrow> string) \<Rightarrow> audit_page http_reply \<Rightarrow> nat \<times> json" where
  "audit_reply_document float_text = reply_document (JDict \<circ> operator_audit_payload float_text)"


text \<open>The profiles as \<^verbatim>\<open>shell/upstream.py\<close> lists them: a \<^verbatim>\<open>RuntimeError\<close> becomes the error of the result, any
  other exception passes.\<close>

definition upstream_profiles_list :: "gateway \<Rightarrow> py_exc + (jobject list, string) result" where
  "upstream_profiles_list g =
     (case handle_profiles_list g of
        Inl (RuntimeError e) \<Rightarrow> Inr (Err e)
      | Inl exc \<Rightarrow> Inl exc
      | Inr payload \<Rightarrow> Inr (Ok payload))"

lemma upstream_profiles_list_Ok:
  "upstream_profiles_list g = Inr (Ok payload) \<longleftrightarrow> handle_profiles_list g = Inr payload"
  by (auto simp: upstream_profiles_list_def split: sum.splits py_exc.splits)


section \<open>Read back\<close>

text \<open>Pydantic accepts what it has dumped, and finds the same values in it.\<close>

definition reads_back :: "(rat \<Rightarrow> string) \<Rightarrow> validators \<Rightarrow> status_response \<Rightarrow> bool" where
  "reads_back float_text v s \<longleftrightarrow>
     vd_status v (status_document float_text s) = Ok s
     \<and> (\<forall>c \<in> set (sp_connections s). vd_connection v (connection_object c) = Ok c)
     \<and> (\<forall>e \<in> set (sp_audit_entries s). vd_audit_entry v (audit_entry_object float_text e) = Ok e)"

lemma validate_dumped: "(\<And>x. x \<in> set xs \<Longrightarrow> f (g x) = Ok x) \<Longrightarrow> validate_items f (map g xs) = Ok xs"
  by (induction xs) simp_all

lemma parse_status_document:
  assumes "reads_back float_text v s"
  shows "parse_remote_state v (status_document float_text s)
    = Ok \<lparr>rs_status = s, rs_connections = sp_connections s, rs_audit_entries = sp_audit_entries s\<rparr>"
proof -
  have lists: "dget (status_document float_text s) ''connections'' = Some (JList (map connection_object (sp_connections s)))"
    "dget (status_document float_text s) ''audit_entries''
      = Some (JList (map (audit_entry_object float_text) (sp_audit_entries s)))"
    by (simp_all add: status_document_def)
  show ?thesis
    using assms by (simp add: parse_remote_state_def lists json_items_def reads_back_def validate_dumped)
qed

text \<open>What the client of \<^verbatim>\<open>/status\<close> receives when the gateway in state \<open>g\<close> answers it: a status of 400 or more
  is raised by \<^verbatim>\<open>urllib\<close>, and \<^verbatim>\<open>json.loads\<close> recovers the document that was sent.\<close>

definition gateway_answers ::
    "(rat \<Rightarrow> string) \<Rightarrow> rat \<Rightarrow> gateway \<Rightarrow> 'w operator_env \<Rightarrow> lockfile_data \<Rightarrow> 'w \<Rightarrow> 'w \<Rightarrow> bool" where
  "gateway_answers float_text clock g env l w w' \<longleftrightarrow>
     (let (attempt, w1) = oe_get env (endpoint_of l @ ''/status'') (lk_token l) status_timeout_seconds w
      in w1 = w' \<and>
        (case fst (status_route clock (Some (''Bearer '' @ lk_token l)) g) of
           Inr (Failed status e) \<Rightarrow> (\<exists>body. attempt = StatusError (int status) body)
         | Inr (Body s) \<Rightarrow> (case attempt of
             Response (BodyText text) \<Rightarrow> oe_loads env text = Ok (snd (status_reply_document float_text (Body s)))
           | _ \<Rightarrow> False)
         | Inl _ \<Rightarrow> (\<exists>body. attempt = StatusError 500 body)))"

lemma status_route_answers:
  assumes "authenticated header g" and "runtime_started (gs_runtime g)"
  shows "status_route clock header g = (Inr (Body (status_response_of clock g)), g)"
proof -
  obtain t where "is_ascii t" and auth: "auth_handoff header g = Inr (Ok (t, t))"
    using assms(1) by (rule auth_handoff_authenticated)
  then have "validate_bearer_token t t = Inr (Ok ())"
    using auth by (auto simp: auth_handoff_Ok validate_bearer_Ok)
  moreover have "status_post (Ok (status_response_of clock g))"
    by (simp add: status_post_def status_response_of_def get_lifecycle_status_facts_def Let_def split_beta)
  ultimately show ?thesis
    using assms(2) by (simp add: status_route_def with_auth_def auth handle_status_def ensure_post_def reply_of_def Let_def)
qed

lemma gateway_answers_authenticated:
  assumes "authenticated (Some (''Bearer '' @ lk_token l)) g" and "runtime_started (gs_runtime g)"
  shows "gateway_answers float_text clock g env l w w' \<longleftrightarrow>
    (\<exists>sent. oe_get env (endpoint_of l @ ''/status'') (lk_token l) status_timeout_seconds w = (Response (BodyText sent), w')
      \<and> oe_loads env sent = Ok (JDict (status_document float_text (status_response_of clock g))))"
  unfolding gateway_answers_def status_route_answers [OF assms] fst_conv
  by (auto simp: status_reply_document_def reply_document_def split: prod.splits http_attempt.splits body_read.splits)

lemma query_answered:
  assumes "read_lockfile (oe_lock env) w = (Ok l, w1)" and "gateway_answers float_text clock g env l w1 w2"
    and "authenticated (Some (''Bearer '' @ lk_token l)) g" and "runtime_started (gs_runtime g)"
    and "reads_back float_text (oe_validators env) (status_response_of clock g)"
  shows "query_remote_state env w
    = (Inr (Ok \<lparr>rs_status = status_response_of clock g, rs_connections = sp_connections (status_response_of clock g),
         rs_audit_entries = sp_audit_entries (status_response_of clock g)\<rparr>), w2)"
proof -
  let ?s = "status_response_of clock g"
  obtain sent where get: "oe_get env (endpoint_of l @ ''/status'') (lk_token l) status_timeout_seconds w1
      = (Response (BodyText sent), w2)" and loads: "oe_loads env sent = Ok (JDict (status_document float_text ?s))"
    using assms(2) unfolding gateway_answers_authenticated [OF assms(3,4)] by blast
  have "get_status env status_timeout_seconds l w1 = (Inr (Ok (BodyText sent)), w2)"
    using get by (simp add: get_status_def single_attempt_once)
  then show ?thesis
    using assms(1,5) loads by (simp add: query_remote_state_def fetch_status_payload_def parse_status_document)
qed

lemma status_response_lists [simp]:
  "sp_connections (status_response_of clock g) = ss_connections (get_runtime_status_snapshot (gs_runtime g))"
  "sp_audit_entries (status_response_of clock g) = get_recent_audit_entries None (gw_audit g)"
  by (simp_all add: status_response_of_def get_lifecycle_status_facts_def Let_def split_beta)

text \<open>C28: The operator whose lockfile holds the gateway's token is told what the gateway holds: its connections,
  one line each in their order, and the last entries of its audit log.\<close>

theorem operator_sees_the_gateway:
  assumes "read_lockfile (oe_lock env) w = (Ok l, w1)" and "gateway_answers float_text clock g env l w1 w2"
    and "authenticated (Some (''Bearer '' @ lk_token l)) g" and "runtime_started (gs_runtime g)"
    and "reads_back float_text (oe_validators env) (status_response_of clock g)"
  shows "run_connections_command env False w =
      (Inr (Ok (Lines (case map connection_line (ss_connections (get_runtime_status_snapshot (gs_runtime g))) of
          [] \<Rightarrow> [''No active connections.''] | ls \<Rightarrow> ls))), w2)
    \<and> run_audit_command env None limit True w =
      (Inr (Ok (Objects (tail_slice limit (get_recent_audit_entries None (gw_audit g))))), w2)"
  by (auto simp: run_connections_command_def run_audit_command_def query_answered [OF assms] Let_def filter_entries_def
      split: list.splits)

definition wire_gateway :: gateway where
  "wire_gateway = started_gateway\<lparr>gs_runtime := (gs_runtime started_gateway)\<lparr>gr_bearer_token := Some ''t'',
     gr_connections := [\<lparr>cc_connection_id = ''c1'', cc_profile_id = ''dev'', cc_connected_at = ''now'',
       cc_tool_call_count = 0, cc_last_activity = ''now'', cc_init_mode = None, cc_client_info = None,
       cc_bridge_connection_id = None\<rparr>]\<rparr>\<rparr>"

definition wire_env :: "unit operator_env" where
  "wire_env = (sample_operator_env Delivered)
     \<lparr>oe_loads := (\<lambda>_. Ok (JDict (status_document (\<lambda>_. ''0.0'') (status_response_of 0 wire_gateway)))),
      oe_validators := \<lparr>vd_status = (\<lambda>_. Ok (status_response_of 0 wire_gateway)),
        vd_connection = (\<lambda>_. case ss_connections (get_runtime_status_snapshot (gs_runtime wire_gateway)) of
          c # _ \<Rightarrow> Ok c | [] \<Rightarrow> Err ''none''),
        vd_audit_entry = (\<lambda>_. Err ''none'')\<rparr>\<rparr>"

lemma operator_sees_the_gateway_witness:
  "run_connections_command wire_env False () = (Inr (Ok (Lines [''  c1 profile=dev since=now''])), ())"
proof -
  have lock: "read_lockfile (oe_lock wire_env) () = (Ok sample_lockfile, ())"
    by (simp add: wire_env_def sample_operator_env_def read_lockfile_def lockfile_is_stale_def is_zombie_process_def
        is_stale_def py_strip_def lstrip_def is_space_def is_lower_def)
  have token: "extract_bearer_from_header_value ''Bearer t'' = Some ''t''" by code_simp
  have auth: "authenticated (Some (''Bearer '' @ lk_token sample_lockfile)) wire_gateway"
    by (simp add: authenticated_def wire_gateway_def sample_lockfile_def token is_ascii_def)
  have started: "runtime_started (gs_runtime wire_gateway)"
    by (simp add: runtime_started_def wire_gateway_def started_gateway_def)
  have conns: "ss_connections (get_runtime_status_snapshot (gs_runtime wire_gateway))
      = [\<lparr>cc_connection_id = ''c1'', cc_profile_id = ''dev'', cc_connected_at = ''now'',
       cc_tool_call_count = 0, cc_last_activity = ''now'', cc_init_mode = None, cc_client_info = None,
       cc_bridge_connection_id = None\<rparr>]"
    by (simp add: get_runtime_status_snapshot_def wire_gateway_def started_gateway_def)
  have audit: "get_recent_audit_entries None (gw_audit wire_gateway) = []"
    by (simp add: wire_gateway_def started_gateway_def get_recent_audit_entries_def initial_gateway_def
        initial_audit_def keep_last_def)
  have "gateway_answers (\<lambda>_. ''0.0'') 0 wire_gateway wire_env sample_lockfile () ()"
    unfolding gateway_answers_authenticated [OF auth started] by (simp add: wire_env_def sample_operator_env_def)
  moreover have "reads_back (\<lambda>_. ''0.0'') (oe_validators wire_env) (status_response_of 0 wire_gateway)"
    by (simp add: reads_back_def wire_env_def conns audit)
  ultimately show ?thesis
    using operator_sees_the_gateway [OF lock _ auth started] conns by (fastforce simp: connection_line_def)
qed

end
