(* ===== verification/Signal_Handlers.thy ===== *)
theory Signal_Handlers
  imports Bridge_Runtime
begin

text \<open>
  Signals at the bridge (\<^verbatim>\<open>run_bridge\<close> and \<^verbatim>\<open>_teardown_bridge_connection\<close> of \<^verbatim>\<open>commands/connect_bridge.py\<close>)
  and at the serving process (\<^verbatim>\<open>shell/serve_runtime.py\<close>). Bridge_Runtime lets an interrupt arrive at
  the lifecycle requests; here a signal arrives between any two steps of the code around them, and the
  disposition of both signals decides what it does. A step is either the progress of the code or one
  delivery. The dispositions before the bridge started belong to the host of the process: the argument
  \<open>prev\<close> tells which of them raise \<^verbatim>\<open>KeyboardInterrupt\<close>, as Python's own handler of SIGINT does; one that
  ends the process is no step.
\<close>


section \<open>The state\<close>

datatype signum = SigInt | SigTerm

datatype signal_disposition = BeforeBridge | HandleStop | Ignored

text \<open>Where the code is: \<open>Admitted\<close> lies between the answer of the registration and the \<^verbatim>\<open>try\<close> of the attach
  loop, \<open>LeavingLoop\<close> between the end of that loop and the \<^verbatim>\<open>try\<close> of the teardown, and \<open>Restoring\<close> before the
  first of the two restored dispositions. \<open>Escaped\<close> is a \<^verbatim>\<open>KeyboardInterrupt\<close> that no handler of the
  bridge catches; what follows a \<open>Finished\<close> bridge is the report of its end.\<close>

datatype bridge_point = Starting | HalfInstalled | Registering | Admitted | Attaching | LeavingLoop | Disconnecting
  | Masking | Resuming | Restoring | HalfRestored | Finished | Escaped

record signal_state =
  sg_table :: "signum \<Rightarrow> signal_disposition"
  sg_saved :: "signum \<Rightarrow> signal_disposition"
  sg_handling :: bool
  sg_stop :: bool
  sg_point :: bridge_point
  sg_interrupts :: nat
  sg_registered :: bool
  sg_disconnects :: nat

definition bridge_starts :: signal_state where
  "bridge_starts = \<lparr>sg_table = (\<lambda>_. BeforeBridge), sg_saved = (\<lambda>_. BeforeBridge), sg_handling = False, sg_stop = False,
     sg_point = Starting, sg_interrupts = 0, sg_registered = False, sg_disconnects = 0\<rparr>"


section \<open>Deliveries\<close>

text \<open>Where a \<^verbatim>\<open>KeyboardInterrupt\<close> is caught.\<close>

fun caught_at :: "bridge_point \<Rightarrow> bridge_point" where
  "caught_at Registering = Restoring"
| "caught_at Attaching = LeavingLoop"
| "caught_at Disconnecting = Masking"
| "caught_at _ = Escaped"

definition keyboard_interrupt :: "signal_state \<Rightarrow> signal_state" where
  "keyboard_interrupt s = s\<lparr>sg_point := caught_at (sg_point s)\<rparr>"

text \<open>\<^verbatim>\<open>_handle_stop\<close>: the flag is claimed before the event is set, and stays set.\<close>

definition handle_stop :: "signal_state \<Rightarrow> signal_state" where
  "handle_stop s =
     (if sg_handling s then s
      else keyboard_interrupt (s\<lparr>sg_handling := True, sg_stop := True, sg_interrupts := Suc (sg_interrupts s)\<rparr>))"

definition deliver_signal :: "(signum \<Rightarrow> bool) \<Rightarrow> signum \<Rightarrow> signal_state \<Rightarrow> signal_state" where
  "deliver_signal prev sig s =
     (case sg_table s sig of
        HandleStop \<Rightarrow> handle_stop s
      | Ignored \<Rightarrow> s
      | BeforeBridge \<Rightarrow> if prev sig then keyboard_interrupt s else s)"


section \<open>Progress\<close>

text \<open>\<open>accepted\<close> says whether the gateway accepted the registration.\<close>

definition signal_progress :: "bool \<Rightarrow> signal_state \<Rightarrow> signal_state" where
  "signal_progress accepted s =
     (case sg_point s of
        Starting \<Rightarrow> s\<lparr>sg_table := (sg_table s)(SigInt := HandleStop), sg_point := HalfInstalled\<rparr>
      | HalfInstalled \<Rightarrow> s\<lparr>sg_table := (sg_table s)(SigTerm := HandleStop), sg_point := Registering\<rparr>
      | Registering \<Rightarrow> if accepted then s\<lparr>sg_registered := True, sg_point := Admitted\<rparr> else s\<lparr>sg_point := Restoring\<rparr>
      | Admitted \<Rightarrow> s\<lparr>sg_point := Attaching\<rparr>
      | Attaching \<Rightarrow> s\<lparr>sg_point := LeavingLoop\<rparr>
      | LeavingLoop \<Rightarrow> s\<lparr>sg_disconnects := Suc (sg_disconnects s), sg_point := Disconnecting\<rparr>
      | Disconnecting \<Rightarrow> s\<lparr>sg_point := Restoring\<rparr>
      | Masking \<Rightarrow> s\<lparr>sg_saved := sg_table s, sg_table := (\<lambda>_. Ignored),
          sg_disconnects := Suc (sg_disconnects s), sg_point := Resuming\<rparr>
      | Resuming \<Rightarrow> s\<lparr>sg_table := sg_saved s, sg_point := Restoring\<rparr>
      | Restoring \<Rightarrow> s\<lparr>sg_table := (sg_table s)(SigInt := BeforeBridge), sg_point := HalfRestored\<rparr>
      | HalfRestored \<Rightarrow> s\<lparr>sg_table := (sg_table s)(SigTerm := BeforeBridge), sg_point := Finished\<rparr>
      | Finished \<Rightarrow> s
      | Escaped \<Rightarrow> s)"

inductive signal_step :: "(signum \<Rightarrow> bool) \<Rightarrow> signal_state \<Rightarrow> signal_state \<Rightarrow> bool" for prev where
  progress: "signal_step prev s (signal_progress accepted s)"
| delivery: "sg_point s \<notin> {Finished, Escaped} \<Longrightarrow> signal_step prev s (deliver_signal prev sig s)"

abbreviation signal_reachable :: "(signum \<Rightarrow> bool) \<Rightarrow> signal_state \<Rightarrow> bool" where
  "signal_reachable prev \<equiv> (signal_step prev)\<^sup>*\<^sup>* bridge_starts"


section \<open>The invariant\<close>

text \<open>The dispositions at each point of the code, and what has been done when it is reached.\<close>

fun installed_at :: "bridge_point \<Rightarrow> signum \<Rightarrow> signal_disposition" where
  "installed_at Starting sig = BeforeBridge"
| "installed_at HalfInstalled sig = (if sig = SigInt then HandleStop else BeforeBridge)"
| "installed_at Resuming sig = Ignored"
| "installed_at HalfRestored sig = (if sig = SigInt then BeforeBridge else HandleStop)"
| "installed_at Finished sig = BeforeBridge"
| "installed_at _ sig = HandleStop"

definition counted_at :: "bridge_point \<Rightarrow> bool \<Rightarrow> nat \<Rightarrow> bool" where
  "counted_at p registered n \<longleftrightarrow>
     (case p of
        Starting \<Rightarrow> \<not> registered \<and> n = 0 | HalfInstalled \<Rightarrow> \<not> registered \<and> n = 0 | Registering \<Rightarrow> \<not> registered \<and> n = 0
      | Admitted \<Rightarrow> registered \<and> n = 0 | Attaching \<Rightarrow> registered \<and> n = 0 | LeavingLoop \<Rightarrow> registered \<and> n = 0
      | Disconnecting \<Rightarrow> registered \<and> n = 1 | Masking \<Rightarrow> registered \<and> n = 1 | Resuming \<Rightarrow> registered \<and> n = 2
      | Escaped \<Rightarrow> n \<le> 2 \<and> (0 < n \<longrightarrow> registered)
      | _ \<Rightarrow> n \<le> 2 \<and> (registered \<longleftrightarrow> 0 < n))"

definition signal_inv :: "signal_state \<Rightarrow> bool" where
  "signal_inv s \<longleftrightarrow>
     sg_interrupts s = of_bool (sg_handling s) \<and> sg_stop s = sg_handling s
     \<and> (sg_point s \<in> {Masking, Resuming} \<longrightarrow> sg_handling s)
     \<and> (sg_point s = Resuming \<longrightarrow> sg_saved s = (\<lambda>_. HandleStop))
     \<and> (sg_point s \<noteq> Escaped \<longrightarrow> sg_table s = installed_at (sg_point s))
     \<and> counted_at (sg_point s) (sg_registered s) (sg_disconnects s)"

lemmas signal_defs = signal_inv_def counted_at_def fun_eq_iff

lemma not_SigInt [simp]: "sig \<noteq> SigInt \<longleftrightarrow> sig = SigTerm"
  by (cases sig) simp_all

lemma inv_starts: "signal_inv bridge_starts"
  by (simp add: bridge_starts_def signal_defs)

lemma inv_progress: "signal_inv s \<Longrightarrow> signal_inv (signal_progress accepted s)"
  by (cases "sg_point s") (auto simp: signal_progress_def signal_defs)

lemma inv_handle_stop: "signal_inv s \<Longrightarrow> signal_inv (handle_stop s)"
  by (cases "sg_point s") (auto simp: handle_stop_def keyboard_interrupt_def signal_defs)

lemma inv_prev_interrupt:
  "signal_inv s \<Longrightarrow> sg_point s \<noteq> Escaped \<Longrightarrow> sg_table s sig = BeforeBridge \<Longrightarrow> signal_inv (keyboard_interrupt s)"
  by (cases "sg_point s") (auto simp: keyboard_interrupt_def signal_defs)

lemma inv_step: "signal_step prev s t \<Longrightarrow> signal_inv s \<Longrightarrow> signal_inv t"
  by (induction rule: signal_step.induct)
    (auto simp: inv_progress inv_handle_stop deliver_signal_def intro: inv_prev_interrupt split: signal_disposition.split)

lemma inv_reachable: "signal_reachable prev s \<Longrightarrow> signal_inv s"
  by (induction rule: rtranclp_induct) (auto simp: inv_starts inv_step)

lemma progress_escaped [simp]: "sg_point s = Escaped \<Longrightarrow> signal_progress accepted s = s"
  by (simp add: signal_progress_def)

lemma progress_finishes:
  "sg_point s \<noteq> Escaped \<Longrightarrow> sg_point ((signal_progress accepted ^^ 9) s) = Finished"
  by (cases "sg_point s"; cases accepted) (simp_all add: signal_progress_def eval_nat_numeral)


section \<open>What a signal does to a bridge\<close>


text \<open>A run in which a second signal arrives during the teardown.\<close>

definition interrupted_twice :: signal_state where
  "interrupted_twice = (signal_progress True ^^ 3) (deliver_signal (\<lambda>_. True) SigInt
     (deliver_signal (\<lambda>_. True) SigTerm ((signal_progress True ^^ 6) bridge_starts)))"

lemma reachable_progress: "signal_reachable prev s \<Longrightarrow> signal_reachable prev ((signal_progress accepted ^^ n) s)"
  by (induction n) (auto intro: signal_step.progress rtranclp.rtrancl_into_rtrancl)

lemma reachable_delivery:
  "signal_reachable prev s \<Longrightarrow> sg_point s \<notin> {Finished, Escaped} \<Longrightarrow> signal_reachable prev (deliver_signal prev sig s)"
  by (blast intro: signal_step.delivery rtranclp.rtrancl_into_rtrancl)


text \<open>A signal between the answer of the registration and the attach loop is caught nowhere: the gateway keeps the
  connection, no request to disconnect is sent, and the handlers of the bridge stay installed.\<close>

theorem interrupt_before_the_loop_leaks:
  "\<exists>s. signal_reachable prev s \<and> sg_point s = Escaped \<and> sg_registered s \<and> sg_disconnects s = 0
     \<and> sg_table s = (\<lambda>_. HandleStop)"
proof (intro exI conjI)
  let ?s = "deliver_signal prev SigTerm ((signal_progress True ^^ 3) bridge_starts)"
  show "signal_reachable prev ?s"
    by (intro reachable_delivery reachable_progress) (simp_all add: bridge_starts_def signal_progress_def eval_nat_numeral)
qed (simp_all add: bridge_starts_def signal_progress_def deliver_signal_def handle_stop_def keyboard_interrupt_def
    eval_nat_numeral fun_eq_iff)


section \<open>The handlers of the serving process\<close>

text \<open>The handlers of an event loop, which may not support them; \<open>stops\<close> holds the signals that set the stop event.\<close>

definition add_signal_handler :: "(signum \<Rightarrow> bool) \<Rightarrow> signum \<Rightarrow> signum set \<Rightarrow> signum set option" where
  "add_signal_handler supported sig stops = (if supported sig then Some (insert sig stops) else None)"

definition remove_signal_handler :: "(signum \<Rightarrow> bool) \<Rightarrow> signum \<Rightarrow> signum set \<Rightarrow> signum set option" where
  "remove_signal_handler supported sig stops = (if supported sig then Some (stops - {sig}) else None)"

definition for_both :: "(signum \<Rightarrow> signum set \<Rightarrow> signum set option) \<Rightarrow> signum set \<Rightarrow> signum set" where
  "for_both f stops = foldl (\<lambda>st sig. case f sig st of None \<Rightarrow> st | Some st' \<Rightarrow> st') stops [SigInt, SigTerm]"

definition install_signal_handlers :: "(signum \<Rightarrow> bool) \<Rightarrow> signum set \<Rightarrow> signum set" where
  "install_signal_handlers supported = for_both (add_signal_handler supported)"

definition remove_signal_handlers :: "(signum \<Rightarrow> bool) \<Rightarrow> signum set \<Rightarrow> signum set" where
  "remove_signal_handlers supported = for_both (remove_signal_handler supported)"

lemma installed_signals: "sig \<in> install_signal_handlers supported stops \<longleftrightarrow> supported sig \<or> sig \<in> stops"
  by (cases sig) (auto simp: install_signal_handlers_def for_both_def add_signal_handler_def)

lemma removed_signals: "sig \<in> remove_signal_handlers supported stops \<longleftrightarrow> \<not> supported sig \<and> sig \<in> stops"
  by (cases sig) (auto simp: remove_signal_handlers_def for_both_def remove_signal_handler_def)

lemma handlers_are_removed:
  "remove_signal_handlers supported (install_signal_handlers supported stops) = {sig \<in> stops. \<not> supported sig}"
  by (auto simp: installed_signals removed_signals)

end
