(* ===== verification/Bridge_Seam.thy ===== *)
theory Bridge_Seam
  imports Bridge_Forwarding
begin

text \<open>
  The seam of \<^verbatim>\<open>connect_bridge.py\<close> by which \<^verbatim>\<open>post_mcp_message\<close> can be replaced: when another function stands
  in its place, the forwarding loop is served by it, and its string errors are turned back into the facts
  on which the loop decides. The other theories of the bridge model the loop with nothing replaced.
\<close>

type_synonym 'w message_post =
  "string \<Rightarrow> string \<Rightarrow> string \<Rightarrow> string option \<Rightarrow> 'w \<Rightarrow> (py_exc + (string \<times> string \<times> string option, string) result) \<times> 'w"

definition presend_markers :: "string list" where
  "presend_markers = [''mcp_connect_failed'', ''connection refused'', ''failed before body send'']"

definition legacy_bridge_http_error :: "string \<Rightarrow> bridge_http_error" where
  "legacy_bridge_http_error error_text =
     (if startswith error_text ''MCP_REQUEST_TIMEOUT'' then failed_at AtHeaders error_text (Some True)
      else if startswith error_text ''MCP_RESPONSE_INTERRUPTED'' then failed_at AtBody error_text (Some True)
      else let definitely_presend = list_ex (\<lambda>marker. contains marker (py_lower error_text)) presend_markers
        in failed_at (if definitely_presend then AtConnect else AtBody) error_text (Some (\<not> definitely_presend)))"

definition post_through_seam ::
    "'w message_post option \<Rightarrow> 'w bridge_env \<Rightarrow> string \<Rightarrow> string \<Rightarrow> string \<Rightarrow> string option
       \<Rightarrow> 'w \<Rightarrow> (py_exc + (bridge_http_response, bridge_http_error) result) \<times> 'w" where
  "post_through_seam replaced env mcp_url bearer_token payload session_id w =
     (case replaced of
        None \<Rightarrow> post_mcp_for_forwarding env mcp_url bearer_token payload session_id w
      | Some post \<Rightarrow>
          (let (res, w1) = post mcp_url bearer_token payload session_id w
           in (map_right (\<lambda>r. case r of
                   Err e \<Rightarrow> Err (legacy_bridge_http_error e)
                 | Ok (content_type, body, session) \<Rightarrow>
                     Ok \<lparr>hr_content_type = content_type, hr_body = body, hr_session_id = session\<rparr>) res, w1)))"

text \<open>What the loop does with an adapted error: it never takes a text for a refusal by the gateway, and sends an
  unsafe request again exactly when a marker of the text says that it was not sent.\<close>

lemma adapted_error_is_replayed:
  "on_http_error Unsafe is_notification (legacy_bridge_http_error text) = RecoverAndReplay \<longleftrightarrow>
     \<not> startswith text ''MCP_REQUEST_TIMEOUT'' \<and> \<not> startswith text ''MCP_RESPONSE_INTERRUPTED''
     \<and> list_ex (\<lambda>marker. contains marker (py_lower text)) presend_markers"
proof -
  have "or_text t d = (if t = [] then d else t)" for t d by (simp add: or_text_def)
  then show ?thesis
    by (auto simp: on_http_error_def legacy_bridge_http_error_def failed_at_def Let_def startswith_def presend_markers_def
        py_lower_def)
qed

end
